(* ===== verification/Prelude.thy ===== *)
theory Prelude
  imports Main "HOL-Library.AList" "HOL-Library.Sublist" "HOL-Library.List_Lexorder"
    "HOL-Library.Char_ord" "HOL-Library.Word" "HOL-Library.Multiset" "HOL-Library.Signed_Division"
begin

text \<open>
  What every theory of the development shares.

  \<^item> Go maps. A \<open>map[K]V\<close> is an association list with distinct keys (\<open>gmap_ok\<close>): the list
    is one content of the map together with one iteration order, and as Go leaves the order of
    \<open>range\<close> open, a theorem about all such lists is a theorem about all orders. Lookup is
    \<open>map_of\<close>; \<open>mput\<close> and \<open>mdel\<close> are \<open>m[k] = v\<close> and \<open>delete(m, k)\<close>.
  \<^item> Go strings: byte lists, with the functions of the packages strings and sort the code uses
    (case conversion is the ASCII one).
  \<^item> Machine integers: \<open>int\<close> and \<open>time.Duration\<close> are integers with the wrap-around to 64
    bits written out and Go's division, which truncates towards zero.
\<close>

named_theorems gomap \<open>lookup, update and deletion in Go maps\<close>
named_theorems gostr \<open>functions on Go strings\<close>

section \<open>Go maps\<close>

type_synonym 'v gmap = "(string \<times> 'v) list"

abbreviation mput :: "'k \<Rightarrow> 'v \<Rightarrow> ('k \<times> 'v) list \<Rightarrow> ('k \<times> 'v) list" where
  "mput \<equiv> AList.update"

abbreviation mdel :: "'k \<Rightarrow> ('k \<times> 'v) list \<Rightarrow> ('k \<times> 'v) list" where
  "mdel \<equiv> AList.delete"

definition gmap_ok :: "('k \<times> 'v) list \<Rightarrow> bool" where
  "gmap_ok m \<longleftrightarrow> distinct (map fst m)"

text \<open>\<open>for k, v := range src { dst[k] = v }\<close>\<close>

fun mput_all :: "('k \<times> 'v) list \<Rightarrow> ('k \<times> 'v) list \<Rightarrow> ('k \<times> 'v) list" where
  "mput_all [] dst = dst"
| "mput_all ((k, v) # src) dst = mput_all src (mput k v dst)"

lemma map_of_mput [gomap, simp]: "map_of (mput k v m) = (map_of m)(k \<mapsto> v)"
  by (rule AList.update_conv')

lemma map_of_mdel [gomap, simp]: "map_of (mdel k m) = (map_of m)(k := None)"
  by (rule AList.delete_conv')

lemma gmap_ok_Nil [gomap, simp]: "gmap_ok []"
  by (simp add: gmap_ok_def)

lemma gmap_ok_Cons [gomap]: "gmap_ok ((k, v) # m) \<longleftrightarrow> map_of m k = None \<and> gmap_ok m"
  by (simp add: gmap_ok_def map_of_eq_None_iff)

lemma gmap_ok_mput [gomap, simp, intro]: "gmap_ok m \<Longrightarrow> gmap_ok (mput k v m)"
  by (simp add: gmap_ok_def AList.distinct_update)

lemma gmap_ok_mdel [gomap, simp, intro]: "gmap_ok m \<Longrightarrow> gmap_ok (mdel k m)"
  by (simp add: gmap_ok_def AList.distinct_delete)

lemma gmap_ok_mput_all [gomap, simp, intro]: "gmap_ok dst \<Longrightarrow> gmap_ok (mput_all src dst)"
  by (induction src dst rule: mput_all.induct) auto

lemma map_of_mput_all [gomap]:
  "gmap_ok src \<Longrightarrow> map_of (mput_all src dst) = map_of dst ++ map_of src"
proof (induction src dst rule: mput_all.induct)
  case (1 dst)
  show ?case by simp
next
  case (2 k v src dst)
  then have "map_of src k = None" "gmap_ok src" by (simp_all add: gmap_ok_Cons)
  with "2.IH" show ?case
    by (auto simp: fun_eq_iff map_add_def split: option.splits)
qed

lemma mput_neq_Nil [gomap]: "mput k v m \<noteq> []"
  by simp

lemma map_of_eq_Nil_iff: "map_of m = Map.empty \<longleftrightarrow> m = []"
  by (cases m) (auto simp: fun_eq_iff)

lemma gmap_mem_iff: "gmap_ok m \<Longrightarrow> (k, v) \<in> set m \<longleftrightarrow> map_of m k = Some v"
  by (simp add: gmap_ok_def)

text \<open>Two iteration orders of one map have the same length and the same entries.\<close>

lemma gmap_same_entries:
  assumes "gmap_ok m" "gmap_ok m'" "map_of m = map_of m'"
  shows "set m = set m' \<and> length m = length m'"
proof -
  have s: "set m = set m'"
    using assms by (metis gmap_mem_iff subrelI subset_antisym)
  have "length m = card (set m)" "length m' = card (set m')"
    using assms(1,2) by (simp_all add: gmap_ok_def distinct_card distinct_map)
  with s show ?thesis by simp
qed

lemma option_eqI: "(\<And>v. a = Some v \<longleftrightarrow> b = Some v) \<Longrightarrow> a = b"
  by (cases a; cases b) auto

section \<open>Go strings\<close>

text \<open>\<open>strings.Split(s, sep)\<close> for the one-character separators the code uses.\<close>

fun split_on :: "char \<Rightarrow> string \<Rightarrow> string list" where
  "split_on c [] = [[]]"
| "split_on c (x # xs) =
     (if x = c then [] # split_on c xs
      else (case split_on c xs of [] \<Rightarrow> [[x]] | y # ys \<Rightarrow> (x # y) # ys))"

text \<open>\<open>strings.Join(xs, sep)\<close>\<close>

fun join_with :: "string \<Rightarrow> string list \<Rightarrow> string" where
  "join_with sep [] = []"
| "join_with sep [x] = x"
| "join_with sep (x # xs) = x @ sep @ join_with sep xs"

text \<open>\<open>strings.TrimPrefix(s, p)\<close>\<close>

definition trim_prefix :: "string \<Rightarrow> string \<Rightarrow> string" where
  "trim_prefix s p = (if prefix p s then drop (length p) s else s)"

text \<open>
  \<open>strings.ReplaceAll(s, old, new)\<close>, byte by byte. For an empty \<open>old\<close> Go inserts \<open>new\<close>
  around every character.
\<close>

function replace_all :: "string \<Rightarrow> string \<Rightarrow> string \<Rightarrow> string" where
  "replace_all s old new =
     (if old = [] then new @ concat (map (\<lambda>c. c # new) s)
      else case s of
        [] \<Rightarrow> []
      | c # cs \<Rightarrow> if prefix old s then new @ replace_all (drop (length old) s) old new
                  else c # replace_all cs old new)"
  by pat_completeness auto
termination
  by (relation "measure (\<lambda>(s, old, new). length s)") auto

declare replace_all.simps [simp del]

text \<open>\<open>strings.Contains(s, sub)\<close> and the ASCII case conversions.\<close>

definition str_contains :: "string \<Rightarrow> string \<Rightarrow> bool" where
  "str_contains s sub \<longleftrightarrow> sublist sub s"

definition ascii_upper :: "char \<Rightarrow> char" where
  "ascii_upper c = (let n = (of_char c :: nat) in if 97 \<le> n \<and> n \<le> 122 then char_of (n - 32) else c)"

definition ascii_lower :: "char \<Rightarrow> char" where
  "ascii_lower c = (let n = (of_char c :: nat) in if 65 \<le> n \<and> n \<le> 90 then char_of (n + 32) else c)"

definition to_upper :: "string \<Rightarrow> string" where
  "to_upper s = map ascii_upper s"

definition to_lower :: "string \<Rightarrow> string" where
  "to_lower s = map ascii_lower s"

lemma split_on_neq_Nil [gostr, simp]: "split_on c s \<noteq> []"
  by (induction s) (auto split: list.splits)

lemma length_split_on [gostr]: "0 < length (split_on c s)"
  by simp

lemma join_split_on [gostr]: "join_with [c] (split_on c s) = s"
proof (induction s)
  case (Cons x s)
  obtain y ys where sp: "split_on c s = y # ys"
    by (cases "split_on c s") auto
  with Cons show ?case by (cases ys) auto
qed simp

lemma split_on_no_sep [gostr]: "c \<notin> set s \<Longrightarrow> split_on c s = [s]"
  by (induction s) auto

lemma split_on_parts [gostr]: "p \<in> set (split_on c s) \<Longrightarrow> c \<notin> set p"
  by (induction s arbitrary: p) (auto split: list.splits if_splits)

section \<open>Machine integers\<close>

type_synonym uint16 = "16 word"
type_synonym uint64 = "64 word"

text \<open>
  \<open>int\<close>, \<open>int64\<close> and \<open>time.Duration\<close> (nanoseconds) are integers brought back into 64 bits
  after each operation that can leave them; their quotient is \<open>sdiv\<close>, which truncates
  towards zero as Go's does.
\<close>

definition wrap64 :: "int \<Rightarrow> int" where
  "wrap64 i = (i + 2 ^ 63) mod 2 ^ 64 - 2 ^ 63"

definition in64 :: "int \<Rightarrow> bool" where
  "in64 i \<longleftrightarrow> - (2 ^ 63) \<le> i \<and> i < 2 ^ 63"

definition time_Second :: int where
  "time_Second = 1000000000"

definition time_Millisecond :: int where
  "time_Millisecond = 1000000"

text \<open>\<open>1 << uint(i)\<close> on 64 bits.\<close>

definition shl1 :: "int \<Rightarrow> int" where
  "shl1 i = (if 0 \<le> i \<and> i < 64 then wrap64 (2 ^ nat i) else 0)"

lemma wrap64_id: "in64 i \<Longrightarrow> wrap64 i = i"
  by (simp add: wrap64_def in64_def)

lemma wrap64_in64: "in64 (wrap64 i)"
  using pos_mod_sign [of "2 ^ 64" "i + 2 ^ 63"] pos_mod_bound [of "2 ^ 64" "i + 2 ^ 63"]
  by (simp add: wrap64_def in64_def)

lemma sdiv_nonneg: "0 \<le> a \<Longrightarrow> 0 < b \<Longrightarrow> a sdiv b = a div (b::int)"
  by (simp add: signed_divide_int_def sgn_if)

text \<open>\<open>strconv.Itoa\<close> and \<open>strconv.Atoi\<close>: decimal text of an integer.\<close>

fun digits_of_nat :: "nat \<Rightarrow> string" where
  "digits_of_nat n =
     (if n < 10 then [char_of (48 + n)] else digits_of_nat (n div 10) @ [char_of (48 + n mod 10)])"

declare digits_of_nat.simps [simp del]

definition itoa :: "int \<Rightarrow> string" where
  "itoa i = (if i < 0 then CHR ''-'' # digits_of_nat (nat (- i)) else digits_of_nat (nat i))"

definition is_digit :: "char \<Rightarrow> bool" where
  "is_digit c \<longleftrightarrow> 48 \<le> (of_char c :: nat) \<and> (of_char c :: nat) \<le> 57"

definition digits_value :: "string \<Rightarrow> nat" where
  "digits_value s = foldl (\<lambda>acc c. 10 * acc + (of_char c - 48)) 0 s"

text \<open>\<open>Atoi\<close> fails on an empty text, on a non-digit and on a value outside 64 bits.\<close>

definition atoi :: "string \<Rightarrow> int option" where
  "atoi s =
     (let neg = (s \<noteq> [] \<and> hd s = CHR ''-'');
          ds = (if s \<noteq> [] \<and> (hd s = CHR ''-'' \<or> hd s = CHR ''+'') then tl s else s);
          v = (if neg then - int (digits_value ds) else int (digits_value ds))
      in if ds = [] \<or> \<not> list_all is_digit ds then None
         else if v < - (2 ^ 63) \<or> 2 ^ 63 \<le> v then None else Some v)"

end
