(* ===== verification/Values.thy ===== *)
theory Values
  imports Prelude
begin

text \<open>
  The dynamic values (\<open>interface{}\<close>) that configuration sections and decoded responses hold,
  the type assertions the code makes on them, the \<open>%v\<close> text of a value, and the errors the
  packages return.
\<close>

section \<open>interface{}\<close>

text \<open>
  \<open>VNilObj\<close> is a nil \<open>map[string]interface{}\<close> stored in an interface (a grouped response
  with nil data holds one), \<open>VAnyMap\<close> a \<open>map[interface{}]interface{}\<close> (YAML sections).
  Floats are their 64 bits, \<open>VNumber\<close> is a \<open>json.Number\<close>, \<open>VHTTPError\<close> the response error
  (code, body, encoding, name) that the http proxy puts in the data.
\<close>

datatype gval =
    VNull
  | VBool bool
  | VInt int
  | VFloat "64 word"
  | VNumber string
  | VStr string
  | VArr "gval list"
  | VObj "(string \<times> gval) list"
  | VNilObj
  | VAnyMap "(gval \<times> gval) list"
  | VHTTPError int string string string

type_synonym jmap = "(string \<times> gval) list"

text \<open>
  A variable of type \<open>map[string]interface{}\<close> may be nil: \<open>jmap option\<close>. \<open>as_map\<close> is the
  assertion \<open>v.(map[string]interface{})\<close>; reading a nil map finds nothing.
\<close>

fun as_map :: "gval \<Rightarrow> jmap option option" where
  "as_map (VObj m) = Some (Some m)"
| "as_map VNilObj = Some None"
| "as_map _ = None"

definition nmap_get :: "('k \<times> 'v) list option \<Rightarrow> 'k \<Rightarrow> 'v option" where
  "nmap_get m k = (case m of None \<Rightarrow> None | Some m \<Rightarrow> map_of m k)"

definition nmap_len :: "('k \<times> 'v) list option \<Rightarrow> nat" where
  "nmap_len m = (case m of None \<Rightarrow> 0 | Some m \<Rightarrow> length m)"

fun of_map :: "jmap option \<Rightarrow> gval" where
  "of_map None = VNilObj"
| "of_map (Some m) = VObj m"

fun as_str :: "gval \<Rightarrow> string option" where
  "as_str (VStr s) = Some s"
| "as_str _ = None"

fun as_bool :: "gval \<Rightarrow> bool option" where
  "as_bool (VBool b) = Some b"
| "as_bool _ = None"

fun as_list :: "gval \<Rightarrow> gval list option" where
  "as_list (VArr xs) = Some xs"
| "as_list _ = None"

lemma as_map_of_map [simp]: "as_map (of_map m) = Some m"
  by (cases m) auto

lemma as_map_Some [simp]: "as_map v = Some (Some m) \<longleftrightarrow> v = VObj m"
  by (cases v) auto

lemma nmap_get_simps [gomap, simp]:
  "nmap_get None k = None" "nmap_get (Some m) k = map_of m k"
  by (simp_all add: nmap_get_def)

lemma nmap_len_simps [gomap, simp]: "nmap_len None = 0" "nmap_len (Some m) = length m"
  by (simp_all add: nmap_len_def)

text \<open>
  Well-formed values: the keys of every map are distinct. Everything Go builds is well formed;
  the invariant lemmas of the components show that the model keeps it.
\<close>

fun gval_ok :: "gval \<Rightarrow> bool" where
  "gval_ok (VArr xs) = list_all gval_ok xs"
| "gval_ok (VObj m) = (gmap_ok m \<and> list_all (\<lambda>p. gval_ok (snd p)) m)"
| "gval_ok (VAnyMap m) = (gmap_ok m \<and> list_all (\<lambda>p. gval_ok (snd p)) m)"
| "gval_ok _ = True"

definition jmap_ok :: "jmap \<Rightarrow> bool" where
  "jmap_ok m \<longleftrightarrow> gmap_ok m \<and> list_all (\<lambda>p. gval_ok (snd p)) m"

lemma gval_ok_VObj [simp]: "gval_ok (VObj m) \<longleftrightarrow> jmap_ok m"
  by (simp add: jmap_ok_def)

declare gval_ok.simps(2) [simp del]

lemma jmap_ok_Nil [gomap, simp]: "jmap_ok []"
  by (simp add: jmap_ok_def)

lemma jmap_ok_Cons [gomap]:
  "jmap_ok ((k, v) # m) \<longleftrightarrow> map_of m k = None \<and> gval_ok v \<and> jmap_ok m"
  by (auto simp: jmap_ok_def gmap_ok_Cons)

lemma jmap_ok_lookup: "jmap_ok m \<Longrightarrow> map_of m k = Some v \<Longrightarrow> gval_ok v"
  by (induction m) (auto simp: jmap_ok_Cons split: if_splits)

lemma jmap_ok_gmap_ok [simp]: "jmap_ok m \<Longrightarrow> gmap_ok m"
  by (simp add: jmap_ok_def)

lemma set_mput_subset: "set (mput k v m) \<subseteq> insert (k, v) (set m)"
  by (induction m) auto

lemma jmap_ok_mput [gomap, simp]: "jmap_ok m \<Longrightarrow> gval_ok v \<Longrightarrow> jmap_ok (mput k v m)"
  using set_mput_subset [of k v m] by (force simp: jmap_ok_def list_all_iff)

lemma jmap_ok_mdel [gomap, simp]: "jmap_ok m \<Longrightarrow> jmap_ok (mdel k m)"
proof -
  have "set (mdel k m) \<subseteq> set m" by (auto simp: AList.delete_eq)
  then show "jmap_ok m \<Longrightarrow> jmap_ok (mdel k m)"
    by (auto simp: jmap_ok_def list_all_iff)
qed

lemma jmap_ok_mput_all [gomap, simp]: "jmap_ok src \<Longrightarrow> jmap_ok dst \<Longrightarrow> jmap_ok (mput_all src dst)"
  by (induction src dst rule: mput_all.induct) (auto simp: jmap_ok_Cons)

section \<open>Text of a value\<close>

text \<open>
  \<open>fmt.Sprintf("%v", v)\<close>. The text of a float is strconv's shortest decimal, a parameter
  \<open>ff\<close>. Maps print sorted by key; the (unused) maps with interface keys in list order.
\<close>

definition by_key :: "(string \<times> string) list \<Rightarrow> (string \<times> string) list" where
  "by_key m = sort_key fst m"

definition pair_text :: "string \<times> string \<Rightarrow> string" where
  "pair_text p = fst p @ '':'' @ snd p"

fun sprint_v :: "(64 word \<Rightarrow> string) \<Rightarrow> gval \<Rightarrow> string" where
  "sprint_v ff VNull = ''<nil>''"
| "sprint_v ff (VBool b) = (if b then ''true'' else ''false'')"
| "sprint_v ff (VInt i) = itoa i"
| "sprint_v ff (VFloat w) = ff w"
| "sprint_v ff (VNumber s) = s"
| "sprint_v ff (VStr s) = s"
| "sprint_v ff (VArr xs) = ''['' @ join_with '' '' (map (sprint_v ff) xs) @ '']''"
| "sprint_v ff (VObj m) =
     ''map['' @ join_with '' '' (map pair_text (by_key (map (\<lambda>(k, v). (k, sprint_v ff v)) m))) @ '']''"
| "sprint_v ff VNilObj = ''map[]''"
| "sprint_v ff (VAnyMap m) =
     ''map['' @ join_with '' '' (map pair_text (map (\<lambda>(k, v). (sprint_v ff k, sprint_v ff v)) m)) @ '']''"
| "sprint_v ff (VHTTPError code msg enc name) = msg"

section \<open>Errors\<close>

text \<open>
  An \<open>error\<close> is the text of an \<open>errors.New\<close> value, a merge of errors
  (\<open>mergeError\<close>), or one of the typed errors of the http client.
\<close>

datatype goerror =
    ErrText string
  | ErrMerge "goerror list"
  | ErrInvalidStatus int string string
  | ErrHTTPResponse int string string
  | ErrNamedHTTPResponse int string string string

text \<open>
  The methods of the typed errors: \<open>Error\<close>, and what an \<open>HTTPResponseError\<close> says of its
  status, its encoding and, when it is named, its backend. The errors of a merge are joined by
  line breaks.
\<close>

definition ErrInvalidStatus_Error :: "int \<Rightarrow> string \<Rightarrow> string \<Rightarrow> string" where
  "ErrInvalidStatus_Error statusCode errPrefix path =
     ''invalid status code '' @ itoa statusCode @ '' '' @ errPrefix @ '' '' @ path"

definition HTTPResponseError_Error :: "int \<Rightarrow> string \<Rightarrow> string \<Rightarrow> string" where
  "HTTPResponseError_Error Code Msg Enc = Msg"

definition HTTPResponseError_StatusCode :: "int \<Rightarrow> string \<Rightarrow> string \<Rightarrow> int" where
  "HTTPResponseError_StatusCode Code Msg Enc = Code"

definition HTTPResponseError_Encoding :: "int \<Rightarrow> string \<Rightarrow> string \<Rightarrow> string" where
  "HTTPResponseError_Encoding Code Msg Enc = Enc"

definition mergeError_Error :: "string list \<Rightarrow> string" where
  "mergeError_Error msg = join_with [CHR 0x0A] msg"

lemmas error_methods [simp] =
  ErrInvalidStatus_Error_def HTTPResponseError_Error_def HTTPResponseError_StatusCode_def
  HTTPResponseError_Encoding_def mergeError_Error_def

text \<open>The method \<open>Error() string\<close> of any error.\<close>

fun error_text :: "goerror \<Rightarrow> string" where
  "error_text (ErrText s) = s"
| "error_text (ErrMerge es) = mergeError_Error (map error_text es)"
| "error_text (ErrInvalidStatus code pre path) = ErrInvalidStatus_Error code pre path"
| "error_text (ErrHTTPResponse code msg enc) = HTTPResponseError_Error code msg enc"
| "error_text (ErrNamedHTTPResponse code msg enc name) = HTTPResponseError_Error code msg enc"

text \<open>
  The method \<open>Name() string\<close> of a named response error, and \<open>Errors() []error\<close> of a merge;
  the other errors have no such method.
\<close>

fun NamedHTTPResponseError_Name :: "goerror \<Rightarrow> string option" where
  "NamedHTTPResponseError_Name (ErrNamedHTTPResponse code msg enc name) = Some name"
| "NamedHTTPResponseError_Name _ = None"

fun mergeError_Errors :: "goerror \<Rightarrow> goerror list option" where
  "mergeError_Errors (ErrMerge es) = Some es"
| "mergeError_Errors _ = None"

text \<open>
  A reader: the bytes it delivers and the error that ends it (\<open>None\<close> is \<open>io.EOF\<close>).
  \<open>io.ReadAll\<close> returns the bytes unless the reader fails.
\<close>

type_synonym io_reader = "string \<times> goerror option"

definition read_all :: "io_reader \<Rightarrow> goerror + string" where
  "read_all r = (case snd r of None \<Rightarrow> Inr (fst r) | Some e \<Rightarrow> Inl e)"

end
