(* ===== verification/Register.thy ===== *)
theory Register
  imports Values
begin

text \<open>
  The package register: a mutex-protected name table (\<open>Untyped\<close>), the two-level table
  built from it (\<open>Namespaced\<close>), and the interface the other packages rely on (a locale with
  the lookup law). The mutex makes each operation one atomic step, so an operation is a
  function on the table.
\<close>

record 'v untyped =
  u_data :: "(string \<times> 'v) list"

record 'v namespaced =
  n_data :: "'v untyped untyped"

definition NewUntyped :: "'v untyped" where
  "NewUntyped = \<lparr>u_data = []\<rparr>"

definition Untyped_Register :: "string \<Rightarrow> 'v \<Rightarrow> 'v untyped \<Rightarrow> 'v untyped" where
  "Untyped_Register name v u = u\<lparr>u_data := mput name v (u_data u)\<rparr>"

definition Untyped_Get :: "string \<Rightarrow> 'v untyped \<Rightarrow> 'v option" where
  "Untyped_Get name u = map_of (u_data u) name"

definition Untyped_Clone :: "'v untyped \<Rightarrow> (string \<times> 'v) list" where
  "Untyped_Clone u = mput_all (u_data u) []"

definition Namespaced_New :: "'v namespaced" where
  "Namespaced_New = \<lparr>n_data = NewUntyped\<rparr>"

definition Namespaced_Get :: "string \<Rightarrow> 'v namespaced \<Rightarrow> 'v untyped option" where
  "Namespaced_Get namespace n = Untyped_Get namespace (n_data n)"

text \<open>
  \<open>Get\<close> returns a pointer to the inner register; registering through it changes the table
  entry in place.
\<close>

definition Namespaced_Register :: "string \<Rightarrow> string \<Rightarrow> 'v \<Rightarrow> 'v namespaced \<Rightarrow> 'v namespaced" where
  "Namespaced_Register namespace name v n =
     (case Namespaced_Get namespace n of
        Some register \<Rightarrow>
          n\<lparr>n_data := Untyped_Register namespace (Untyped_Register name v register) (n_data n)\<rparr>
      | None \<Rightarrow>
          n\<lparr>n_data := Untyped_Register namespace (Untyped_Register name v NewUntyped) (n_data n)\<rparr>)"

definition AddNamespace :: "string \<Rightarrow> 'v namespaced \<Rightarrow> 'v namespaced" where
  "AddNamespace namespace n =
     (case Namespaced_Get namespace n of
        Some _ \<Rightarrow> n
      | None \<Rightarrow> n\<lparr>n_data := Untyped_Register namespace NewUntyped (n_data n)\<rparr>)"

text \<open>A lookup in both levels, the way \<open>getModifier\<close> of the plugin package does it.\<close>

definition Namespaced_Find :: "string \<Rightarrow> string \<Rightarrow> 'v namespaced \<Rightarrow> 'v option" where
  "Namespaced_Find namespace name n =
     (case Namespaced_Get namespace n of None \<Rightarrow> None | Some r \<Rightarrow> Untyped_Get name r)"

lemmas register_defs =
  NewUntyped_def Untyped_Register_def Untyped_Get_def Namespaced_New_def Namespaced_Get_def
  Namespaced_Register_def AddNamespace_def Namespaced_Find_def

section \<open>The interface\<close>

locale name_register =
  fixes new :: 'r
    and reg :: "string \<Rightarrow> 'v \<Rightarrow> 'r \<Rightarrow> 'r"
    and get :: "string \<Rightarrow> 'r \<Rightarrow> 'v option"
  assumes get_new: "get k new = None"
    and get_reg: "get k (reg name v r) = (if k = name then Some v else get k r)"
begin

lemma get_reg_same [simp]: "get name (reg name v r) = Some v"
  by (simp add: get_reg)

lemma get_reg_other: "k \<noteq> name \<Longrightarrow> get k (reg name v r) = get k r"
  by (simp add: get_reg)

text \<open>A sequence of registrations: the last one under a name wins.\<close>

lemma get_reg_list:
  "get k (fold (\<lambda>(name, v). reg name v) ps r) =
     (case map_of (rev ps) k of None \<Rightarrow> get k r | Some v \<Rightarrow> Some v)"
proof (induction ps arbitrary: r)
  case (Cons p ps)
  obtain name v where p: "p = (name, v)" by (cases p)
  show ?case
    by (auto simp: Cons.IH p get_reg map_add_def split: option.splits)
qed simp

lemma get_reg_list_new:
  "get k (fold (\<lambda>(name, v). reg name v) ps new) = map_of (rev ps) k"
  by (simp add: get_reg_list get_new split: option.splits)

text \<open>Registrations under different names commute, as far as a lookup can tell.\<close>

lemma get_reg_commute:
  "a \<noteq> b \<Longrightarrow> get k (reg a v (reg b w r)) = get k (reg b w (reg a v r))"
  by (simp add: get_reg)

end

text \<open>A register read with a fallback: the contract of the factories' \<open>Get\<close>.\<close>

locale fallback_register = name_register new reg get
  for new :: 'r and reg :: "string \<Rightarrow> 'v \<Rightarrow> 'r \<Rightarrow> 'r" and get :: "string \<Rightarrow> 'r \<Rightarrow> 'v option" +
  fixes find :: "string \<Rightarrow> 'r \<Rightarrow> 'v" and fallback :: 'v
  assumes find_get: "get name r = Some v \<Longrightarrow> find name r = v"
    and find_new: "find name new = fallback"
begin

lemma find_reg_same: "find name (reg name v r) = v"
  by (rule find_get) simp

lemma find_last_registered:
  "map_of (rev ps) name = Some v \<Longrightarrow> find name (fold (\<lambda>(n, w). reg n w) ps r) = v"
  by (rule find_get) (simp add: get_reg_list)

end

interpretation untyped_reg: name_register NewUntyped Untyped_Register Untyped_Get
  by unfold_locales (simp_all add: register_defs)

interpretation namespaced_reg:
  name_register Namespaced_New "Namespaced_Register ns" "Namespaced_Find ns" for ns
  by unfold_locales (auto simp: register_defs split: option.splits)

section \<open>Further laws of the registers\<close>

lemma Namespaced_Find_other:
  "ns \<noteq> ns' \<Longrightarrow> Namespaced_Find ns k (Namespaced_Register ns' name v n) = Namespaced_Find ns k n"
  by (auto simp: register_defs split: option.splits)

lemma AddNamespace_Find: "Namespaced_Find ns k (AddNamespace ns' n) = Namespaced_Find ns k n"
  by (auto simp: register_defs split: option.splits)

lemma AddNamespace_Get: "Namespaced_Get ns (AddNamespace ns n) \<noteq> None"
  by (auto simp: register_defs split: option.splits)

lemma Untyped_Clone_lookup: "gmap_ok (u_data u) \<Longrightarrow> map_of (Untyped_Clone u) k = Untyped_Get k u"
  by (simp add: Untyped_Clone_def Untyped_Get_def map_of_mput_all)

lemma Untyped_ok_Register: "gmap_ok (u_data u) \<Longrightarrow> gmap_ok (u_data (Untyped_Register name v u))"
  by (simp add: Untyped_Register_def)

section \<open>Properties\<close>

text \<open>
  After any sequence of registrations in a namespace of the two-level register, a lookup
  finds the value registered last under the name, or what was there before, and the other
  namespaces are as they were.
\<close>

theorem register_last_wins:
  "Namespaced_Find ns k (fold (\<lambda>(name, v). Namespaced_Register ns name v) ps n) =
     (case map_of (rev ps) k of None \<Rightarrow> Namespaced_Find ns k n | Some v \<Rightarrow> Some v) \<and>
   (ns' \<noteq> ns \<longrightarrow>
     Namespaced_Find ns' k (fold (\<lambda>(name, v). Namespaced_Register ns name v) ps n) = Namespaced_Find ns' k n)"
proof -
  have "ns' \<noteq> ns \<Longrightarrow>
      Namespaced_Find ns' k (fold (\<lambda>(name, v). Namespaced_Register ns name v) ps n) = Namespaced_Find ns' k n"
    by (induction ps arbitrary: n) (auto simp: Namespaced_Find_other)
  then show ?thesis using namespaced_reg.get_reg_list [of ns k ps n] by blast
qed

theorem register_last_wins_witness:
  "Namespaced_Find ''b'' ''x'' (fold (\<lambda>(name, v). Namespaced_Register ''a'' name v) [(''x'', 1::int), (''x'', 2)] Namespaced_New)
     = None"
  using register_last_wins [of "''a''" "''x''" "[(''x'', 1::int), (''x'', 2)]" Namespaced_New "''b''"]
  by (simp add: namespaced_reg.get_new)

end
