(* ===== verification/Backoff.thy ===== *)
theory Backoff
  imports Values
begin

text \<open>
  The package backoff: the strategies that say how long to wait before a retry, with their
  64-bit arithmetic. A strategy takes the random source and the retry count; \<open>None\<close> is the
  panic of \<open>random.Intn\<close> on a bound that is not positive. \<open>rnd n\<close> is the value \<open>Intn(n)\<close>
  draws.
\<close>

type_synonym backoff_strategy = "(int \<Rightarrow> int) \<Rightarrow> int \<Rightarrow> int option"

definition rand_Intn_ok :: "(int \<Rightarrow> int) \<Rightarrow> bool" where
  "rand_Intn_ok rnd \<longleftrightarrow> (\<forall>n. 0 < n \<longrightarrow> 0 \<le> rnd n \<and> rnd n < n)"

definition DefaultBackoffDuration :: int where
  "DefaultBackoffDuration = time_Second"

definition DefaultBackoff :: backoff_strategy where
  "DefaultBackoff rnd i = Some DefaultBackoffDuration"

definition ExponentialBackoff :: backoff_strategy where
  "ExponentialBackoff rnd i = Some (wrap64 (shl1 i * time_Second))"

definition jitter :: backoff_strategy where
  "jitter rnd i =
     (let ms = wrap64 (i * 1000);
          maxJitter = wrap64 (ms sdiv 3 + 1);
          n = wrap64 (2 * maxJitter)
      in if n \<le> 0 then None
         else let ms = wrap64 (ms + (rnd n - maxJitter));
                  ms = (if ms \<le> 0 then 1 else ms)
              in Some (wrap64 (ms * time_Millisecond)))"

definition ExponentialJitterBackoff :: backoff_strategy where
  "ExponentialJitterBackoff rnd i = jitter rnd (shl1 i)"

definition LinearBackoff :: backoff_strategy where
  "LinearBackoff rnd i = Some (wrap64 (i * time_Second))"

definition LinearJitterBackoff :: backoff_strategy where
  "LinearJitterBackoff rnd i = jitter rnd i"

definition GetByName :: "string \<Rightarrow> backoff_strategy" where
  "GetByName strategy =
     (let s = to_lower strategy in
      if s = ''linear'' then LinearBackoff
      else if s = ''linear-jitter'' then LinearJitterBackoff
      else if s = ''exponential'' then ExponentialBackoff
      else if s = ''exponential-jitter'' then ExponentialJitterBackoff
      else DefaultBackoff)"

lemma pow2_in64: "n \<le> k \<Longrightarrow> 0 \<le> c \<Longrightarrow> in64 (2 ^ k * c) \<Longrightarrow> in64 (2 ^ n * c)"
proof -
  assume "n \<le> k" and c: "0 \<le> c" and k: "in64 (2 ^ k * c)"
  then have "(2::int) ^ n * c \<le> 2 ^ k * c" by (intro mult_right_mono power_increasing) auto
  moreover have "0 \<le> (2::int) ^ n * c" using c by simp
  ultimately show "in64 (2 ^ n * c)" using k unfolding in64_def by linarith
qed

lemma shl1_small: "0 \<le> i \<Longrightarrow> i \<le> 62 \<Longrightarrow> shl1 i = 2 ^ nat i"
  using pow2_in64 [of "nat i" 62 1] by (simp add: shl1_def wrap64_id in64_def)

lemma ExponentialBackoff_exact:
  "0 \<le> i \<Longrightarrow> i \<le> 33 \<Longrightarrow> ExponentialBackoff rnd i = Some (2 ^ nat i * time_Second)"
  using pow2_in64 [of "nat i" 33 time_Second]
  by (simp add: ExponentialBackoff_def shl1_small wrap64_id in64_def time_Second_def)

lemma jitter_eq:
  assumes "0 \<le> i" "i \<le> 6000000000" "rand_Intn_ok rnd"
  defines "m \<equiv> i * 1000 div 3 + 1"
  defines "d \<equiv> i * 1000 + rnd (2 * m) - m"
  shows "jitter rnd i = Some ((if d \<le> 0 then 1 else d) * time_Millisecond)
    \<and> - m \<le> d - i * 1000 \<and> d - i * 1000 < m"
proof -
  have m: "0 < m" "3 * m \<le> i * 1000 + 3"
    using assms(1) by (auto simp: m_def)
  have r: "0 \<le> rnd (2 * m)" "rnd (2 * m) < 2 * m"
    using assms(3) m(1) by (auto simp: rand_Intn_ok_def)
  have q: "i * 1000 sdiv 3 = i * 1000 div 3"
    using assms(1) by (intro sdiv_nonneg) auto
  have w: "wrap64 (i * 1000) = i * 1000" "wrap64 m = m" "wrap64 (2 * m) = 2 * m"
    using assms(1,2) m r by (auto intro!: wrap64_id simp: in64_def)
  have wd: "wrap64 (i * 1000 + (rnd (2 * m) - m)) = d"
    using assms(1,2) m r wrap64_id [of d] by (simp add: in64_def d_def algebra_simps)
  have w2: "wrap64 ((if d \<le> 0 then 1 else d) * time_Millisecond) = (if d \<le> 0 then 1 else d) * time_Millisecond"
    using assms(1,2) m r by (intro wrap64_id) (auto simp: in64_def d_def time_Millisecond_def)
  have "jitter rnd i = Some ((if d \<le> 0 then 1 else d) * time_Millisecond)"
    unfolding jitter_def Let_def w(1) q m_def [symmetric] w(2,3) wd w2 using m by simp
  then show ?thesis using m r by (simp add: d_def)
qed

section \<open>Properties\<close>

text \<open>
  The exponential strategy waits exactly \<open>2 ^ i\<close> seconds up to the 33rd retry, so each
  wait up to there is longer than the one before; the product of the 34th leaves the 64 bits
  and the wait is negative.
\<close>

theorem exponential_backoff_exact:
  assumes "0 \<le> i" "i \<le> 33"
  shows "GetByName ''Exponential'' rnd i = Some (2 ^ nat i * time_Second) \<and>
    (i < 33 \<longrightarrow> the (GetByName ''Exponential'' rnd i) < the (GetByName ''Exponential'' rnd (i + 1))) \<and>
    GetByName ''Exponential'' rnd 34 = Some (- 1266874889709551616)"
proof -
  have "to_lower ''Exponential'' = ''exponential''" by code_simp
  then have g: "GetByName ''Exponential'' = ExponentialBackoff"
    by (simp add: GetByName_def Let_def)
  have "ExponentialBackoff rnd 34 = Some (- 1266874889709551616)"
    by (simp add: ExponentialBackoff_def shl1_def wrap64_def time_Second_def)
  moreover have "i < 33 \<Longrightarrow> (2::int) ^ nat i * time_Second < 2 ^ nat (i + 1) * time_Second"
    using assms(1) by (simp add: time_Second_def nat_add_distrib)
  ultimately show ?thesis
    using assms ExponentialBackoff_exact [of i rnd] ExponentialBackoff_exact [of "i + 1" rnd] by (auto simp: g)
qed

theorem exponential_backoff_exact_witness:
  "GetByName ''Exponential'' (\<lambda>n. 0) 3 = Some (8 * time_Second)"
  using exponential_backoff_exact [of 3 "\<lambda>n. 0"] by simp

text \<open>
  The jitter strategies do not panic on a retry count up to \<open>6 * 10 ^ 9\<close> and wait at least
  a millisecond, and otherwise less than a third of the count's seconds, and a millisecond,
  away from it.
\<close>

theorem linear_jitter_bounds:
  assumes "0 \<le> i" "i \<le> 6000000000" "rand_Intn_ok rnd"
  shows "\<exists>ms. GetByName ''linear-jitter'' rnd i = Some (ms * time_Millisecond) \<and> 1 \<le> ms \<and>
    (ms = 1 \<or> \<bar>ms - i * 1000\<bar> \<le> i * 1000 div 3 + 1)"
proof -
  have "to_lower ''linear-jitter'' = ''linear-jitter''" by code_simp
  then have g: "GetByName ''linear-jitter'' = LinearJitterBackoff"
    by (simp add: GetByName_def Let_def)
  let ?m = "i * 1000 div 3 + 1"
  define d where "d = i * 1000 + rnd (2 * ?m) - ?m"
  have "jitter rnd i = Some ((if d \<le> 0 then 1 else d) * time_Millisecond)"
    "- ?m \<le> d - i * 1000" "d - i * 1000 < ?m"
    using jitter_eq [OF assms] by (simp_all add: d_def)
  then show ?thesis
    by (intro exI [of _ "if d \<le> 0 then 1 else d"]) (auto simp: g LinearJitterBackoff_def)
qed

theorem linear_jitter_bounds_witness:
  "\<exists>ms. GetByName ''linear-jitter'' (\<lambda>n. 0) 3 = Some (ms * time_Millisecond) \<and> 1 \<le> ms"
  using linear_jitter_bounds [of 3 "\<lambda>n. 0"] by (auto simp: rand_Intn_ok_def)

end
