(* ===== verification/Encoding.thy ===== *)
theory Encoding
  imports Register
begin

text \<open>
  The package encoding: the decoders that turn a backend body into a map and the register
  that finds a decoder by name. The JSON parser is the one of encoding/json, taken as a
  parameter (\<open>json_lib\<close>): its three uses are decoding one value (numbers kept as
  \<open>json.Number\<close>) into a map, into a slice and into an interface.
\<close>

record json_lib =
  decode_map :: "io_reader \<Rightarrow> jmap option \<Rightarrow> goerror option \<times> jmap option"
  decode_list :: "io_reader \<Rightarrow> goerror + gval list"
  decode_any :: "io_reader \<Rightarrow> goerror + gval"

text \<open>
  A decoder gets the reader and the variable behind the pointer \<open>v\<close>, and returns the error and
  the new content of the variable.
\<close>

type_synonym decoder = "io_reader \<Rightarrow> jmap option \<Rightarrow> goerror option \<times> jmap option"
type_synonym decoder_factory = "bool \<Rightarrow> decoder"

abbreviation enc_NOOP :: string where "enc_NOOP \<equiv> ''no-op''"
abbreviation enc_JSON :: string where "enc_JSON \<equiv> ''json''"
abbreviation enc_SAFE_JSON :: string where "enc_SAFE_JSON \<equiv> ''safejson''"
abbreviation enc_STRING :: string where "enc_STRING \<equiv> ''string''"

definition NoOpDecoder :: decoder where
  "NoOpDecoder r v = (None, v)"

definition noOpDecoderFactory :: decoder_factory where
  "noOpDecoderFactory isCollection = NoOpDecoder"

definition JSONDecoder :: "json_lib \<Rightarrow> decoder" where
  "JSONDecoder jl r v = decode_map jl r v"

definition JSONCollectionDecoder :: "json_lib \<Rightarrow> decoder" where
  "JSONCollectionDecoder jl r v =
     (case decode_list jl r of
        Inl e \<Rightarrow> (Some e, v)
      | Inr collection \<Rightarrow> (None, Some [(''collection'', VArr collection)]))"

definition NewJSONDecoder :: "json_lib \<Rightarrow> decoder_factory" where
  "NewJSONDecoder jl isCollection = (if isCollection then JSONCollectionDecoder jl else JSONDecoder jl)"

definition SafeJSONDecoder :: "json_lib \<Rightarrow> decoder" where
  "SafeJSONDecoder jl r v =
     (case decode_any jl r of
        Inl e \<Rightarrow> (Some e, v)
      | Inr (VObj tt) \<Rightarrow> (None, Some tt)
      | Inr (VArr tt) \<Rightarrow> (None, Some [(''collection'', VArr tt)])
      | Inr tt \<Rightarrow> (None, Some [(''content'', tt)]))"

definition NewSafeJSONDecoder :: "json_lib \<Rightarrow> decoder_factory" where
  "NewSafeJSONDecoder jl isCollection = SafeJSONDecoder jl"

definition StringDecoder :: decoder where
  "StringDecoder r v =
     (case read_all r of
        Inl e \<Rightarrow> (Some e, v)
      | Inr data \<Rightarrow> (None, Some [(''content'', VStr data)]))"

definition NewStringDecoder :: decoder_factory where
  "NewStringDecoder isCollection = StringDecoder"

section \<open>The register of decoders\<close>

type_synonym decoder_register = "decoder_factory untyped"

definition DecoderRegister_Register :: "string \<Rightarrow> decoder_factory \<Rightarrow> decoder_register \<Rightarrow> decoder_register" where
  "DecoderRegister_Register name dec r = Untyped_Register name dec r"

definition DecoderRegister_Get :: "json_lib \<Rightarrow> string \<Rightarrow> decoder_register \<Rightarrow> decoder_factory" where
  "DecoderRegister_Get jl name r =
     (case Untyped_Get name r of
        Some dec \<Rightarrow> dec
      | None \<Rightarrow> (case Untyped_Get enc_JSON r of Some dec \<Rightarrow> dec | None \<Rightarrow> NewJSONDecoder jl))"

definition defaultDecoders :: "json_lib \<Rightarrow> (string \<times> decoder_factory) list" where
  "defaultDecoders jl =
     [(enc_JSON, NewJSONDecoder jl), (enc_SAFE_JSON, NewSafeJSONDecoder jl),
      (enc_STRING, NewStringDecoder), (enc_NOOP, noOpDecoderFactory)]"

definition initDecoderRegister :: "json_lib \<Rightarrow> decoder_register" where
  "initDecoderRegister jl =
     fold (\<lambda>(k, v). DecoderRegister_Register k v) (defaultDecoders jl) NewUntyped"

interpretation decoders:
  fallback_register NewUntyped DecoderRegister_Register Untyped_Get "DecoderRegister_Get jl" "NewJSONDecoder jl"
  for jl
  by unfold_locales
    (auto simp: DecoderRegister_Register_def DecoderRegister_Get_def register_defs)

lemma initDecoderRegister_get:
  "Untyped_Get name (initDecoderRegister jl) = map_of (rev (defaultDecoders jl)) name"
  unfolding initDecoderRegister_def by (rule decoders.get_reg_list_new)

text \<open>What encoding/json promises about the three ways to decode the same bytes.\<close>

definition json_lib_ok :: "json_lib \<Rightarrow> bool" where
  "json_lib_ok jl \<longleftrightarrow>
     (\<forall>r. case decode_any jl r of
        Inl e \<Rightarrow> True
      | Inr (VObj m) \<Rightarrow> decode_map jl r None = (None, Some m)
      | Inr (VArr xs) \<Rightarrow> decode_list jl r = Inr xs
      | Inr _ \<Rightarrow> True)"

section \<open>Properties\<close>

text \<open>
  In the initial register, the four names find their decoders and every other name the
  JSON decoder; after any later registrations, a name finds what was registered last under it.
\<close>

theorem decoder_lookup:
  "DecoderRegister_Get jl name (fold (\<lambda>(n, d). DecoderRegister_Register n d) ps (initDecoderRegister jl)) =
     (case map_of (rev ps) name of
        Some d \<Rightarrow> d
      | None \<Rightarrow>
          (if name = enc_SAFE_JSON then NewSafeJSONDecoder jl
           else if name = enc_STRING then NewStringDecoder
           else if name = enc_NOOP then noOpDecoderFactory
           else if name = enc_JSON then NewJSONDecoder jl
           else (case map_of (rev ps) enc_JSON of Some d \<Rightarrow> d | None \<Rightarrow> NewJSONDecoder jl)))"
  by (auto simp: DecoderRegister_Get_def decoders.get_reg_list initDecoderRegister_get defaultDecoders_def
      split: option.splits)

text \<open>
  Where encoding/json decodes one body to the same value in its three uses, the safe JSON
  decoder agrees with the plain one on objects and with the collection decoder on arrays: it
  replaces both without being told which to expect.
\<close>

theorem safejson_agrees:
  assumes "json_lib_ok jl"
  shows "(\<forall>m. decode_any jl r = Inr (VObj m) \<longrightarrow>
      NewSafeJSONDecoder jl c r None = NewJSONDecoder jl False r None) \<and>
    (\<forall>xs. decode_any jl r = Inr (VArr xs) \<longrightarrow>
      NewSafeJSONDecoder jl c r None = NewJSONDecoder jl True r None)"
proof -
  from assms have "case decode_any jl r of Inl e \<Rightarrow> True
      | Inr (VObj m) \<Rightarrow> decode_map jl r None = (None, Some m)
      | Inr (VArr xs) \<Rightarrow> decode_list jl r = Inr xs
      | Inr _ \<Rightarrow> True" unfolding json_lib_ok_def by (rule spec)
  then show ?thesis
    by (auto simp: NewSafeJSONDecoder_def SafeJSONDecoder_def NewJSONDecoder_def JSONDecoder_def
        JSONCollectionDecoder_def)
qed

theorem safejson_agrees_witness:
  "NewSafeJSONDecoder \<lparr>decode_map = (\<lambda>r v. (None, Some [(''a'', VInt 1)])), decode_list = (\<lambda>r. Inl (ErrText ''e'')),
      decode_any = (\<lambda>r. Inr (VObj [(''a'', VInt 1)]))\<rparr> False (''{}'', None) None = (None, Some [(''a'', VInt 1)])"
  using safejson_agrees [of "\<lparr>decode_map = (\<lambda>r v. (None, Some [(''a'', VInt 1)])), decode_list = (\<lambda>r. Inl (ErrText ''e'')),
      decode_any = (\<lambda>r. Inr (VObj [(''a'', VInt 1)]))\<rparr>" "(''{}'', None)" False]
  by (simp add: json_lib_ok_def NewJSONDecoder_def JSONDecoder_def)

end
