(* ===== verification/Sd.thy ===== *)
theory Sd
  imports Register
begin

text \<open>
  The package sd: subscribers, the register of subscriber factories and the balancers. A
  subscriber is the fixed list of hosts or a driver of another package (its state is the type
  parameter \<open>'s\<close>, its \<open>Hosts()\<close> the argument \<open>impl\<close>). A balancer is a value, and
  \<open>Host\<close> returns the host, or the error, and the balancer after the call; the outer
  \<open>None\<close> is an index out of range, a panic. \<open>rnd n\<close> is the number \<open>fastrand.Uint32n(n)\<close>
  draws.
\<close>

section \<open>Subscribers\<close>

datatype 's subscriber = FixedSubscriber "string list" | DriverSubscriber 's

definition Hosts :: "('s \<Rightarrow> string list \<times> goerror option) \<Rightarrow> 's subscriber \<Rightarrow> string list \<times> goerror option" where
  "Hosts impl s = (case s of FixedSubscriber hs \<Rightarrow> (hs, None) | DriverSubscriber d \<Rightarrow> impl d)"

definition FixedSubscriberFactory :: "string list \<Rightarrow> 's subscriber" where
  "FixedSubscriberFactory cfg_Host = FixedSubscriber cfg_Host"

text \<open>\<open>perm n\<close> is the permutation of \<open>0..n-1\<close> that \<open>rand.Perm(n)\<close> returns.\<close>

definition NewRandomFixedSubscriber :: "(nat \<Rightarrow> nat list) \<Rightarrow> string list \<Rightarrow> string list" where
  "NewRandomFixedSubscriber perm hosts = map (\<lambda>i. hosts ! i) (perm (length hosts))"

definition rand_Perm_ok :: "(nat \<Rightarrow> nat list) \<Rightarrow> bool" where
  "rand_Perm_ok perm \<longleftrightarrow> (\<forall>n. distinct (perm n) \<and> set (perm n) = {0..<n})"

lemma mset_NewRandomFixedSubscriber:
  assumes "rand_Perm_ok perm"
  shows "mset (NewRandomFixedSubscriber perm hosts) = mset hosts"
proof -
  let ?n = "length hosts"
  have "mset (perm ?n) = mset [0..<?n]"
    using assms set_eq_iff_mset_eq_distinct [of "perm ?n" "[0..<?n]"]
    by (simp add: rand_Perm_ok_def)
  then have "mset (map (\<lambda>i. hosts ! i) (perm ?n)) = mset (map (\<lambda>i. hosts ! i) [0..<?n])"
    by simp
  then show ?thesis by (simp add: NewRandomFixedSubscriber_def map_nth)
qed

section \<open>The register of subscriber factories\<close>

text \<open>
  The factories take the backend configuration (\<open>'c\<close>), of which the fixed one reads the hosts
  (\<open>hosts_of\<close>). A registered factory is code of another package and may panic (\<open>None\<close>).
\<close>

type_synonym ('c, 's) subscriber_factory = "'c \<Rightarrow> 's subscriber option"

definition Sd_initRegister :: "('c, 's) subscriber_factory untyped" where
  "Sd_initRegister = NewUntyped"

definition Sd_Register :: "string \<Rightarrow> ('c, 's) subscriber_factory \<Rightarrow>
    ('c, 's) subscriber_factory untyped \<Rightarrow> ('c, 's) subscriber_factory untyped" where
  "Sd_Register name sf r = Untyped_Register name sf r"

definition Sd_Get :: "('c \<Rightarrow> string list) \<Rightarrow> string \<Rightarrow> ('c, 's) subscriber_factory untyped \<Rightarrow> ('c, 's) subscriber_factory" where
  "Sd_Get hosts_of name r =
     (case Untyped_Get name r of
        None \<Rightarrow> (\<lambda>cfg. Some (FixedSubscriberFactory (hosts_of cfg)))
      | Some sf \<Rightarrow> sf)"

interpretation sd_reg:
  fallback_register Sd_initRegister Sd_Register Untyped_Get "Sd_Get hosts_of"
    "\<lambda>cfg. Some (FixedSubscriberFactory (hosts_of cfg))" for hosts_of
  by unfold_locales (auto simp: Sd_initRegister_def Sd_Register_def Sd_Get_def register_defs)

section \<open>Balancers\<close>

abbreviation ErrNoHosts :: goerror where
  "ErrNoHosts \<equiv> ErrText ''no hosts available''"

record 's roundRobinLB =
  rr_subscriber :: "'s subscriber"
  rr_counter :: uint64

datatype 's balancer =
    RoundRobinLB "'s roundRobinLB"
  | RandomLB "'s subscriber"
  | NopBalancer string

definition balancer_hosts :: "('s \<Rightarrow> string list \<times> goerror option) \<Rightarrow> 's subscriber \<Rightarrow> goerror + string list" where
  "balancer_hosts impl s =
     (case Hosts impl s of
        (hs, Some err) \<Rightarrow> Inl err
      | (hs, None) \<Rightarrow> if length hs \<le> 0 then Inl ErrNoHosts else Inr hs)"

text \<open>\<open>hosts[i]\<close>, which panics out of range.\<close>

definition host_at :: "string list \<Rightarrow> nat \<Rightarrow> string option" where
  "host_at hosts i = (if i < length hosts then Some (hosts ! i) else None)"

definition roundRobin_Host ::
  "('s \<Rightarrow> string list \<times> goerror option) \<Rightarrow> 's roundRobinLB \<Rightarrow> ((goerror + string) \<times> 's roundRobinLB) option" where
  "roundRobin_Host impl r =
     (case balancer_hosts impl (rr_subscriber r) of
        Inl err \<Rightarrow> Some (Inl err, r)
      | Inr hosts \<Rightarrow>
          let counter = rr_counter r + 1;
              offset = unat (counter - 1) mod length hosts
          in map_option (\<lambda>h. (Inr h, r\<lparr>rr_counter := counter\<rparr>)) (host_at hosts offset))"

definition random_Host ::
  "('s \<Rightarrow> string list \<times> goerror option) \<Rightarrow> (nat \<Rightarrow> nat) \<Rightarrow> 's subscriber \<Rightarrow> (goerror + string) option" where
  "random_Host impl rnd s =
     (case balancer_hosts impl s of
        Inl err \<Rightarrow> Some (Inl err)
      | Inr hosts \<Rightarrow> map_option Inr (host_at hosts (rnd (length hosts mod 2 ^ 32))))"

definition Host ::
  "('s \<Rightarrow> string list \<times> goerror option) \<Rightarrow> (nat \<Rightarrow> nat) \<Rightarrow> 's balancer \<Rightarrow> ((goerror + string) \<times> 's balancer) option" where
  "Host impl rnd b =
     (case b of
        RoundRobinLB r \<Rightarrow> map_option (\<lambda>(res, r'). (res, RoundRobinLB r')) (roundRobin_Host impl r)
      | RandomLB s \<Rightarrow> map_option (\<lambda>res. (res, RandomLB s)) (random_Host impl rnd s)
      | NopBalancer h \<Rightarrow> Some (Inr h, NopBalancer h))"

definition NewRoundRobinLB :: "(nat \<Rightarrow> nat) \<Rightarrow> 's subscriber \<Rightarrow> 's balancer" where
  "NewRoundRobinLB rnd subscriber =
     (case subscriber of
        FixedSubscriber s \<Rightarrow>
          if length s = 1 then NopBalancer (s ! 0)
          else if 1 < length s
          then RoundRobinLB \<lparr>rr_subscriber = subscriber, rr_counter = of_nat (rnd (length s mod 2 ^ 32))\<rparr>
          else RoundRobinLB \<lparr>rr_subscriber = subscriber, rr_counter = 0\<rparr>
      | DriverSubscriber _ \<Rightarrow> RoundRobinLB \<lparr>rr_subscriber = subscriber, rr_counter = 0\<rparr>)"

definition NewRandomLB :: "'s subscriber \<Rightarrow> 's balancer" where
  "NewRandomLB subscriber =
     (case subscriber of
        FixedSubscriber s \<Rightarrow> if length s = 1 then NopBalancer (s ! 0) else RandomLB subscriber
      | DriverSubscriber _ \<Rightarrow> RandomLB subscriber)"

definition NewBalancer :: "nat \<Rightarrow> (nat \<Rightarrow> nat) \<Rightarrow> 's subscriber \<Rightarrow> 's balancer" where
  "NewBalancer gomaxprocs rnd subscriber =
     (if gomaxprocs = 1 then NewRoundRobinLB rnd subscriber else NewRandomLB subscriber)"

text \<open>What fastrand documents of \<open>Uint32n\<close>: the draw is below a positive bound.\<close>

definition rand_Uint32n_ok :: "(nat \<Rightarrow> nat) \<Rightarrow> bool" where
  "rand_Uint32n_ok rnd \<longleftrightarrow> (\<forall>n. 0 < n \<longrightarrow> rnd n < n)"

section \<open>The contract of a balancer\<close>

text \<open>
  \<open>avail b\<close> are the hosts the balancer may return. The contract: no panic, only available
  hosts, and a call changes neither.
\<close>

locale host_balancer =
  fixes host :: "'b \<Rightarrow> ((goerror + string) \<times> 'b) option"
    and avail :: "'b \<Rightarrow> string list"
    and ready :: "'b \<Rightarrow> bool"
  assumes host_returns: "ready b \<Longrightarrow> host b \<noteq> None"
    and host_avail: "ready b \<Longrightarrow> host b = Some (Inr h, b') \<Longrightarrow> h \<in> set (avail b)"
    and host_keeps: "ready b \<Longrightarrow> host b = Some (r, b') \<Longrightarrow> ready b' \<and> avail b' = avail b"
begin

text \<open>The results of \<open>n\<close> calls in a row.\<close>

fun host_calls :: "nat \<Rightarrow> 'b \<Rightarrow> (goerror + string) list option" where
  "host_calls 0 b = Some []"
| "host_calls (Suc n) b =
     (case host b of None \<Rightarrow> None | Some (r, b') \<Rightarrow> map_option ((#) r) (host_calls n b'))"

lemma host_calls_return:
  "ready b \<Longrightarrow> \<exists>rs. host_calls n b = Some rs \<and> length rs = n \<and> (\<forall>h. Inr h \<in> set rs \<longrightarrow> h \<in> set (avail b))"
proof (induction n arbitrary: b)
  case (Suc n)
  obtain r b' where h: "host b = Some (r, b')"
    using host_returns [OF Suc.prems] by (metis not_None_eq surj_pair)
  with Suc.prems have k: "ready b'" "avail b' = avail b" using host_keeps by blast+
  have a: "\<And>x. r = Inr x \<Longrightarrow> x \<in> set (avail b)" using host_avail h Suc.prems by blast
  from Suc.IH [OF k(1)] obtain rs where
    "host_calls n b' = Some rs" "length rs = n" "\<forall>h. Inr h \<in> set rs \<longrightarrow> h \<in> set (avail b')" by blast
  then show ?case using h k(2) a by auto
qed simp

end

definition balancer_avail :: "('s \<Rightarrow> string list \<times> goerror option) \<Rightarrow> 's balancer \<Rightarrow> string list" where
  "balancer_avail impl b =
     (case b of
        RoundRobinLB r \<Rightarrow> fst (Hosts impl (rr_subscriber r))
      | RandomLB s \<Rightarrow> fst (Hosts impl s)
      | NopBalancer h \<Rightarrow> [h])"

text \<open>
  A random balancer indexes with the length cut to 32 bits, so it is ready where the list is
  shorter than that.
\<close>

definition balancer_ready :: "('s \<Rightarrow> string list \<times> goerror option) \<Rightarrow> (nat \<Rightarrow> nat) \<Rightarrow> 's balancer \<Rightarrow> bool" where
  "balancer_ready impl rnd b \<longleftrightarrow>
     rand_Uint32n_ok rnd \<and>
     (case b of RandomLB s \<Rightarrow> length (fst (Hosts impl s)) < 2 ^ 32 | _ \<Rightarrow> True)"

lemma balancer_hosts_Inr:
  "balancer_hosts impl s = Inr hs \<Longrightarrow> hs = fst (Hosts impl s) \<and> hs \<noteq> []"
  by (auto simp: balancer_hosts_def split: prod.splits option.splits if_splits)

lemma host_at_Some [simp]: "i < length hs \<Longrightarrow> host_at hs i = Some (hs ! i)"
  by (simp add: host_at_def)

lemma roundRobin_Host_cases:
  "roundRobin_Host impl r =
     (case balancer_hosts impl (rr_subscriber r) of
        Inl err \<Rightarrow> Some (Inl err, r)
      | Inr hs \<Rightarrow> Some (Inr (hs ! (unat (rr_counter r) mod length hs)), r\<lparr>rr_counter := rr_counter r + 1\<rparr>))"
  by (auto simp: roundRobin_Host_def Let_def dest: balancer_hosts_Inr split: sum.splits)

lemma random_Host_cases:
  assumes "rand_Uint32n_ok rnd" "length (fst (Hosts impl s)) < 2 ^ 32"
  shows "random_Host impl rnd s =
     (case balancer_hosts impl s of
        Inl err \<Rightarrow> Some (Inl err)
      | Inr hs \<Rightarrow> Some (Inr (hs ! rnd (length hs))))
     \<and> (\<forall>hs. balancer_hosts impl s = Inr hs \<longrightarrow> rnd (length hs) < length hs)"
  using assms
  by (auto simp: random_Host_def rand_Uint32n_ok_def dest!: balancer_hosts_Inr split: sum.splits)

interpretation lb: host_balancer "Host impl rnd" "balancer_avail impl" "balancer_ready impl rnd"
  for impl rnd
proof unfold_locales
  fix b assume r: "balancer_ready impl rnd b"
  show "Host impl rnd b \<noteq> None"
  proof (cases b)
    case (RandomLB s)
    with r have "rand_Uint32n_ok rnd" "length (fst (Hosts impl s)) < 2 ^ 32"
      by (auto simp: balancer_ready_def)
    from random_Host_cases [OF this] RandomLB show ?thesis
      by (auto simp: Host_def split: sum.splits)
  qed (auto simp: Host_def roundRobin_Host_cases split: sum.splits)
next
  fix b h b' assume r: "balancer_ready impl rnd b" and h: "Host impl rnd b = Some (Inr h, b')"
  show "h \<in> set (balancer_avail impl b)"
  proof (cases b)
    case (RoundRobinLB x)
    with h obtain hs where "balancer_hosts impl (rr_subscriber x) = Inr hs"
        "h = hs ! (unat (rr_counter x) mod length hs)"
      by (auto simp: Host_def roundRobin_Host_cases split: sum.splits)
    with RoundRobinLB show ?thesis
      by (auto dest!: balancer_hosts_Inr simp: balancer_avail_def)
  next
    case (RandomLB s)
    with r have ok: "rand_Uint32n_ok rnd" "length (fst (Hosts impl s)) < 2 ^ 32"
      by (auto simp: balancer_ready_def)
    from RandomLB h random_Host_cases [OF ok] obtain hs where
        "balancer_hosts impl s = Inr hs" "h = hs ! rnd (length hs)" "rnd (length hs) < length hs"
      by (auto simp: Host_def split: sum.splits)
    with RandomLB show ?thesis by (auto dest!: balancer_hosts_Inr simp: balancer_avail_def)
  next
    case NopBalancer
    with h show ?thesis by (simp add: Host_def balancer_avail_def)
  qed
next
  fix b res b' assume "balancer_ready impl rnd b" "Host impl rnd b = Some (res, b')"
  then show "balancer_ready impl rnd b' \<and> balancer_avail impl b' = balancer_avail impl b"
    by (auto simp: Host_def roundRobin_Host_cases balancer_ready_def balancer_avail_def
        split: balancer.splits sum.splits)
qed

lemma NewBalancer_avail:
  "balancer_avail impl (NewBalancer p rnd s) = fst (Hosts impl s)"
  by (auto simp: NewBalancer_def NewRoundRobinLB_def NewRandomLB_def balancer_avail_def Hosts_def
      length_Suc_conv split: subscriber.splits)

lemma NewBalancer_ready:
  "rand_Uint32n_ok rnd \<Longrightarrow> length (fst (Hosts impl s)) < 2 ^ 32 \<Longrightarrow> balancer_ready impl rnd (NewBalancer p rnd s)"
  by (auto simp: NewBalancer_def NewRoundRobinLB_def NewRandomLB_def balancer_ready_def Hosts_def
      split: subscriber.splits)

section \<open>The balancer over its calls\<close>

text \<open>
  The balancer after a sequence of earlier calls, each given by what the subscriber's driver
  and the random source answered to it. A call that panics leaves it as it was.
\<close>

type_synonym 's balancer_history = "(('s \<Rightarrow> string list \<times> goerror option) \<times> (nat \<Rightarrow> nat)) list"

fun balancer_after :: "'s balancer_history \<Rightarrow> 's balancer \<Rightarrow> 's balancer" where
  "balancer_after [] b = b"
| "balancer_after ((impl, rnd) # calls) b =
     (case Host impl rnd b of None \<Rightarrow> balancer_after calls b | Some (_, b') \<Rightarrow> balancer_after calls b')"

lemma Host_keeps:
  "Host impl' rnd' b = Some (res, b') \<Longrightarrow>
   balancer_ready impl rnd b' = balancer_ready impl rnd b \<and> balancer_avail impl b' = balancer_avail impl b"
  by (auto simp: Host_def roundRobin_Host_cases balancer_ready_def balancer_avail_def
      split: balancer.splits sum.splits option.splits)

lemma balancer_after_keeps:
  "balancer_ready impl rnd (balancer_after calls b) = balancer_ready impl rnd b \<and>
   balancer_avail impl (balancer_after calls b) = balancer_avail impl b"
  by (induction calls b rule: balancer_after.induct) (auto split: option.splits dest: Host_keeps)

lemmas balancer_after_simps [simp] =
  balancer_after_keeps [THEN conjunct1] balancer_after_keeps [THEN conjunct2]

text \<open>The subscriber behind a balancer, whatever it has served, and what a call then answers.\<close>

definition balancer_for :: "'s subscriber \<Rightarrow> 's balancer \<Rightarrow> bool" where
  "balancer_for s b \<longleftrightarrow>
     (case b of
        RoundRobinLB r \<Rightarrow> rr_subscriber r = s
      | RandomLB s' \<Rightarrow> s' = s
      | NopBalancer h \<Rightarrow> s = FixedSubscriber [h])"

lemma balancer_for_New: "balancer_for s (NewBalancer p rnd s)"
  by (auto simp: balancer_for_def NewBalancer_def NewRoundRobinLB_def NewRandomLB_def length_Suc_conv
      split: subscriber.splits)

lemma balancer_for_Host: "Host impl rnd b = Some (res, b') \<Longrightarrow> balancer_for s b' = balancer_for s b"
  by (auto simp: Host_def roundRobin_Host_cases balancer_for_def split: balancer.splits sum.splits option.splits)

lemma balancer_for_after [simp]: "balancer_for s (balancer_after calls b) = balancer_for s b"
  by (induction calls b rule: balancer_after.induct) (auto split: option.splits dest: balancer_for_Host)

lemma Host_answers:
  assumes "Host impl rnd b = Some (res, b')" "balancer_for s b" "balancer_ready impl rnd b"
  shows "case res of
     Inl err \<Rightarrow> balancer_hosts impl s = Inl err
   | Inr h \<Rightarrow> \<exists>hs. balancer_hosts impl s = Inr hs \<and> h \<in> set hs"
proof (cases b)
  case (RoundRobinLB r)
  with assms(1,2) show ?thesis
    by (auto simp: Host_def roundRobin_Host_cases balancer_for_def dest!: balancer_hosts_Inr split: sum.splits)
next
  case (RandomLB s')
  with assms(3) have ok: "rand_Uint32n_ok rnd" "length (fst (Hosts impl s')) < 2 ^ 32"
    by (auto simp: balancer_ready_def)
  from random_Host_cases [OF ok] RandomLB assms(1,2) show ?thesis
    by (auto simp: Host_def balancer_for_def split: sum.splits)
next
  case (NopBalancer h)
  with assms(1,2) show ?thesis
    by (auto simp: Host_def balancer_for_def balancer_hosts_def Hosts_def)
qed

section \<open>Round robin over a run\<close>

text \<open>The hosts of \<open>n\<close> successive calls, stopping at an error or a panic.\<close>

fun roundRobin_run :: "('s \<Rightarrow> string list \<times> goerror option) \<Rightarrow> nat \<Rightarrow> 's roundRobinLB \<Rightarrow> string list option" where
  "roundRobin_run impl 0 r = Some []"
| "roundRobin_run impl (Suc n) r =
     (case roundRobin_Host impl r of
        Some (Inr h, r') \<Rightarrow> map_option ((#) h) (roundRobin_run impl n r')
      | _ \<Rightarrow> None)"

lemma unat_plus1: "unat c + 1 < 2 ^ 64 \<Longrightarrow> unat (c + 1) = unat c + 1" for c :: uint64
  by (simp add: unat_word_ariths)

lemma roundRobin_run_eq:
  assumes "balancer_hosts impl (rr_subscriber r) = Inr hs"
    and "unat (rr_counter r) + n \<le> 2 ^ 64"
  shows "roundRobin_run impl n r =
    Some (map (\<lambda>k. hs ! ((unat (rr_counter r) + k) mod length hs)) [0..<n])"
  using assms
proof (induction n arbitrary: r)
  case (Suc n)
  let ?c = "unat (rr_counter r)"
  let ?r' = "r\<lparr>rr_counter := rr_counter r + 1\<rparr>"
  have H: "roundRobin_Host impl r = Some (Inr (hs ! (?c mod length hs)), ?r')"
    using Suc.prems(1) by (simp add: roundRobin_Host_cases)
  show ?case
  proof (cases n)
    case 0
    with H show ?thesis by simp
  next
    case (Suc m)
    with Suc.prems have c: "unat (rr_counter ?r') = ?c + 1" by (simp add: unat_plus1)
    have "roundRobin_run impl n ?r' =
        Some (map (\<lambda>k. hs ! ((unat (rr_counter ?r') + k) mod length hs)) [0..<n])"
      using Suc.prems c by (intro Suc.IH) simp_all
    moreover have "[0..<Suc n] = 0 # map Suc [0..<n]"
      by (simp add: map_Suc_upt upt_conv_Cons del: upt_Suc)
    ultimately show ?thesis using H c by (simp add: comp_def)
  qed
qed simp

lemma rotate_inj:
  fixes a b c L :: nat
  assumes "a \<le> b" "b < L" "(c + a) mod L = (c + b) mod L"
  shows "a = b"
proof -
  have "L dvd (c + b) - (c + a)"
    using assms mod_eq_dvd_iff_nat [of "c + a" "c + b" L] by simp
  moreover have "b - a < L" using assms by simp
  ultimately have "b - a = 0" using dvd_imp_le [of L "b - a"] by (cases "b - a = 0") auto
  with assms(1) show ?thesis by simp
qed

text \<open>A block of consecutive offsets of the length of the list hits every index once.\<close>

lemma mset_rotate_block:
  assumes "0 < L"
  shows "mset (map (\<lambda>k. f ((c + k) mod L)) [0..<L]) = mset (map f [0..<L])"
proof -
  have inj: "inj_on (\<lambda>k. (c + k) mod L) {0..<L}"
    using rotate_inj by (intro inj_onI) (metis atLeastLessThan_iff linorder_linear)
  have "(\<lambda>k. (c + k) mod L) ` {0..<L} \<subseteq> {0..<L}" using assms by auto
  then have im: "(\<lambda>k. (c + k) mod L) ` {0..<L} = {0..<L}"
    using inj by (intro endo_inj_surj) auto
  have "distinct (map (\<lambda>k. (c + k) mod L) [0..<L])"
    using inj by (simp add: distinct_map)
  moreover have "set (map (\<lambda>k. (c + k) mod L) [0..<L]) = set [0..<L]" using im by simp
  ultimately have "mset (map (\<lambda>k. (c + k) mod L) [0..<L]) = mset [0..<L]"
    by (subst set_eq_iff_mset_eq_distinct [symmetric]) auto
  then have "image_mset f (mset (map (\<lambda>k. (c + k) mod L) [0..<L])) = image_mset f (mset [0..<L])"
    by simp
  then show ?thesis by (simp add: image_mset.compositionality comp_def)
qed

lemma mset_rounds:
  assumes "0 < length hs"
  shows "mset (map (\<lambda>k. hs ! ((c + k) mod length hs)) [0..<m * length hs]) = repeat_mset m (mset hs)"
proof (induction m)
  case (Suc m)
  let ?L = "length hs"
  have "[0..<Suc m * ?L] = [0..<m * ?L] @ map (\<lambda>k. m * ?L + k) [0..<?L]"
    using upt_add_eq_append [of 0 "m * ?L" ?L] map_add_upt [of "m * ?L" ?L]
    by (simp add: add.commute)
  moreover have "\<And>k. (c + (m * ?L + k)) mod ?L = (c + k) mod ?L"
    by (metis add.left_commute mod_mult_self3)
  moreover have "mset (map (\<lambda>k. hs ! ((c + k) mod ?L)) [0..<?L]) = mset hs"
    using mset_rotate_block [OF assms, of "(!) hs" c] by (simp add: map_nth)
  ultimately show ?case using Suc by (simp add: comp_def)
qed simp

section \<open>Properties\<close>

text \<open>
  C20: A round-robin balancer over a fixed list of hosts is fair: in any run of \<open>m\<close> times the
  number of hosts calls (as long as the 64-bit counter does not wrap) each host is returned
  exactly \<open>m\<close> times its number of occurrences in the list.
\<close>

theorem roundRobin_fair:
  assumes "rr_subscriber r = FixedSubscriber hosts" "hosts \<noteq> []"
    and "unat (rr_counter r) + m * length hosts \<le> 2 ^ 64"
  shows "\<exists>hs. roundRobin_run impl (m * length hosts) r = Some hs \<and> mset hs = repeat_mset m (mset hosts)"
proof -
  have "balancer_hosts impl (rr_subscriber r) = Inr hosts"
    using assms(1,2) by (simp add: balancer_hosts_def Hosts_def)
  from roundRobin_run_eq [OF this assms(3)] show ?thesis
    using mset_rounds [of hosts "unat (rr_counter r)" m] assms(2) by simp
qed

theorem roundRobin_fair_witness:
  "\<exists>hs. roundRobin_run (\<lambda>_. ([], None)) (2 * length [''a'', ''b''])
      \<lparr>rr_subscriber = FixedSubscriber [''a'', ''b''] :: unit subscriber, rr_counter = 7\<rparr>
     = Some hs \<and> mset hs = repeat_mset 2 (mset [''a'', ''b''])"
  by (rule roundRobin_fair) simp_all

text \<open>
  Any number of calls of the balancer that \<open>NewBalancer\<close> makes return, without a panic,
  and every host returned is one of the subscriber's hosts.
\<close>

theorem balancer_calls_sound:
  assumes "rand_Uint32n_ok rnd" "length (fst (Hosts impl s)) < 2 ^ 32"
  shows "\<exists>rs. lb.host_calls impl rnd n (NewBalancer p rnd s) = Some rs \<and> length rs = n \<and>
    (\<forall>h. Inr h \<in> set rs \<longrightarrow> h \<in> set (fst (Hosts impl s)))"
  using lb.host_calls_return [OF NewBalancer_ready [OF assms, of p], of n] by (simp add: NewBalancer_avail)

theorem balancer_calls_sound_witness:
  "\<exists>rs. lb.host_calls (\<lambda>_. ([], None)) (\<lambda>_. 0) 3
     (NewBalancer 2 (\<lambda>_. 0) (FixedSubscriber [''a'', ''b''] :: unit subscriber)) = Some rs \<and> length rs = 3"
  using balancer_calls_sound [of "\<lambda>_. 0" "\<lambda>_. ([], None)" "FixedSubscriber [''a'', ''b''] :: unit subscriber" 3 2]
  by (auto simp: rand_Uint32n_ok_def Hosts_def)

end
