(* ===== verification/ConfigTypes.thy ===== *)
theory ConfigTypes
  imports Encoding
begin

text \<open>
  The configuration structs of config/config.go, field by field. A nil slice reads like an
  empty one, and so does a nil \<open>ExtraConfig\<close>; optional sub-structs are pointers, hence
  \<open>option\<close>. Durations are 64-bit nanosecond counts. \<open>TLS\<close> curve and cipher numbers are
  16-bit words.
\<close>

type_synonym ExtraConfig = jmap

record Backend =
  be_Group :: string
  be_Method :: string
  be_Host :: "string list"
  be_HostSanitizationDisabled :: bool
  be_URLPattern :: string
  be_AllowList :: "string list"
  be_DenyList :: "string list"
  be_Mapping :: "string gmap"
  be_Encoding :: string
  be_IsCollection :: bool
  be_Target :: string
  be_SD :: string
  be_SDScheme :: string
  be_URLKeys :: "string list"
  be_ConcurrentCalls :: int
  be_Timeout :: int
  be_Decoder :: "decoder option"
  be_ExtraConfig :: ExtraConfig
  be_HeadersToPass :: "string list"
  be_QueryStringsToPass :: "string list"
  be_ParentEndpoint :: string
  be_ParentEndpointMethod :: string

record EndpointConfig =
  ep_Endpoint :: string
  ep_Method :: string
  ep_Backend :: "Backend list"
  ep_ConcurrentCalls :: int
  ep_Timeout :: int
  ep_CacheTTL :: int
  ep_QueryString :: "string list"
  ep_ExtraConfig :: ExtraConfig
  ep_HeadersToPass :: "string list"
  ep_OutputEncoding :: string

record Consumer =
  cs_Timeout :: int
  cs_Workers :: int
  cs_Topic :: string
  cs_MaxRate :: "64 word"

record Connection =
  cn_MaxRetries :: int
  cn_BackoffStrategy :: string
  cn_HealthInterval :: int

record AsyncAgent =
  aa_Name :: string
  aa_Connection :: Connection
  aa_Consumer :: Consumer
  aa_Encoding :: string
  aa_Backend :: "Backend list"
  aa_ExtraConfig :: ExtraConfig

record Plugin =
  pl_Folder :: string
  pl_Pattern :: string

record TLSKeyPair =
  kp_PublicKey :: string
  kp_PrivateKey :: string

record TLS =
  tls_IsDisabled :: bool
  tls_PublicKey :: string
  tls_PrivateKey :: string
  tls_CaCerts :: "string list"
  tls_MinVersion :: string
  tls_MaxVersion :: string
  tls_CurvePreferences :: "uint16 list"
  tls_PreferServerCipherSuites :: bool
  tls_CipherSuites :: "uint16 list"
  tls_EnableMTLS :: bool
  tls_DisableSystemCaPool :: bool
  tls_Keys :: "TLSKeyPair list"

record ClientTLSCert =
  cc_Certificate :: string
  cc_PrivateKey :: string

record ClientTLS =
  ct_AllowInsecureConnections :: bool
  ct_CaCerts :: "string list"
  ct_DisableSystemCaPool :: bool
  ct_MinVersion :: string
  ct_MaxVersion :: string
  ct_CurvePreferences :: "uint16 list"
  ct_CipherSuites :: "uint16 list"
  ct_ClientCerts :: "ClientTLSCert list"

text \<open>
  \<open>sc_uriParser\<close> is the unexported parser \<open>Init\<close> installs: the routing pattern it was
  built with.
\<close>

datatype RouterPattern = BracketsRouterPatternBuilder | ColonRouterPatternBuilder

record ServiceConfig =
  sc_Name :: string
  sc_Endpoints :: "EndpointConfig list"
  sc_AsyncAgents :: "AsyncAgent list"
  sc_Timeout :: int
  sc_CacheTTL :: int
  sc_Host :: "string list"
  sc_Port :: int
  sc_Address :: string
  sc_Version :: int
  sc_OutputEncoding :: string
  sc_ExtraConfig :: ExtraConfig
  sc_ReadTimeout :: int
  sc_WriteTimeout :: int
  sc_IdleTimeout :: int
  sc_ReadHeaderTimeout :: int
  sc_MaxHeaderBytes :: int
  sc_DisableKeepAlives :: bool
  sc_DisableCompression :: bool
  sc_MaxIdleConns :: int
  sc_MaxIdleConnsPerHost :: int
  sc_IdleConnTimeout :: int
  sc_ResponseHeaderTimeout :: int
  sc_ExpectContinueTimeout :: int
  sc_DialerTimeout :: int
  sc_DialerFallbackDelay :: int
  sc_DialerKeepAlive :: int
  sc_DisableStrictREST :: bool
  sc_Plugin :: "Plugin option"
  sc_TLS :: "TLS option"
  sc_UseH2C :: bool
  sc_Debug :: bool
  sc_Echo :: bool
  sc_uriParser :: "RouterPattern option"
  sc_SequentialStart :: bool
  sc_AllowInsecureConnections :: bool
  sc_ClientTLS :: "ClientTLS option"
  sc_DNSCacheTTL :: int
  sc_MaxShutdownDuration :: int

text \<open>Constants of the package.\<close>

definition ConfigVersion :: int where
  "ConfigVersion = 3"

definition DefaultMaxIdleConnsPerHost :: int where
  "DefaultMaxIdleConnsPerHost = 250"

definition DefaultTimeout :: int where
  "DefaultTimeout = 2 * time_Second"

definition defaultPort :: int where
  "defaultPort = 8080"

text \<open>
  A section of an extra configuration: \<open>cfg[ns].(map[string]interface{})\<close>, the first step
  of every reader of an \<open>ExtraConfig\<close>.
\<close>

definition ec_section :: "ExtraConfig \<Rightarrow> string \<Rightarrow> jmap option option" where
  "ec_section cfg ns = (case map_of cfg ns of None \<Rightarrow> None | Some v \<Rightarrow> as_map v)"

definition ec_get :: "ExtraConfig \<Rightarrow> string \<Rightarrow> string \<Rightarrow> gval option" where
  "ec_get cfg ns key = (case ec_section cfg ns of None \<Rightarrow> None | Some e \<Rightarrow> nmap_get e key)"

definition empty_Backend :: Backend where
  "empty_Backend =
     \<lparr>be_Group = [], be_Method = [], be_Host = [], be_HostSanitizationDisabled = False,
      be_URLPattern = [], be_AllowList = [], be_DenyList = [], be_Mapping = [],
      be_Encoding = [], be_IsCollection = False, be_Target = [], be_SD = [], be_SDScheme = [],
      be_URLKeys = [], be_ConcurrentCalls = 0, be_Timeout = 0, be_Decoder = None,
      be_ExtraConfig = [], be_HeadersToPass = [], be_QueryStringsToPass = [],
      be_ParentEndpoint = [], be_ParentEndpointMethod = []\<rparr>"

definition empty_EndpointConfig :: EndpointConfig where
  "empty_EndpointConfig =
     \<lparr>ep_Endpoint = [], ep_Method = [], ep_Backend = [], ep_ConcurrentCalls = 0, ep_Timeout = 0,
      ep_CacheTTL = 0, ep_QueryString = [], ep_ExtraConfig = [], ep_HeadersToPass = [],
      ep_OutputEncoding = []\<rparr>"

text \<open>
  The hash of a configuration, for which the name is taken out while it is written as JSON.
  \<open>Marshal\<close> is \<open>json.Marshal\<close>, which may fail, and \<open>Digest\<close> the digest in base 64.
\<close>

definition ServiceConfig_Hash ::
  "(ServiceConfig \<Rightarrow> goerror + string) \<Rightarrow> (string \<Rightarrow> string) \<Rightarrow> ServiceConfig \<Rightarrow> goerror + string" where
  "ServiceConfig_Hash Marshal Digest s =
     (case Marshal (s\<lparr>sc_Name := []\<rparr>) of Inl err \<Rightarrow> Inl err | Inr b \<Rightarrow> Inr (Digest b))"

end
