(* ===== verification/Dnssrv.thy ===== *)
theory Dnssrv
  imports Sd ConfigTypes "HOL-Library.Product_Lexorder"
begin

text \<open>
  The package sd/dnssrv: the subscriber that resolves DNS SRV records. The lookup
  (\<open>net.LookupSRV\<close> or an injected function) is the environment: each update is given its
  result. The resolver sorts the records, keeps those of the best priority and repeats each
  host by its compacted weight.
\<close>

record SRV =
  srv_Target :: string
  srv_Port :: uint16
  srv_Priority :: uint16
  srv_Weight :: uint16

section \<open>Weights\<close>

text \<open>\<open>for b > 0 { a, b = b, a%b }\<close>\<close>

function localGCD :: "uint16 \<Rightarrow> uint16 \<Rightarrow> uint16" where
  "localGCD a b = (if 0 < b then localGCD b (a mod b) else a)"
  by pat_completeness auto
termination
proof (relation "measure (\<lambda>(a, b). unat b)")
  fix a b :: uint16
  assume "0 < b"
  then have "unat (a mod b) < unat b"
    by (simp add: unat_mod word_greater_zero_iff unat_gt_0)
  then show "((b, a mod b), (a, b)) \<in> measure (\<lambda>(a, b). unat b)" by simp
qed simp

declare localGCD.simps [simp del]

definition gcd_weights :: "uint16 list \<Rightarrow> uint16" where
  "gcd_weights ws = (case ws of [] \<Rightarrow> 0 | w # rest \<Rightarrow> foldl localGCD w rest)"

text \<open>
  \<open>int64(w) * int64(scale) / sum\<close> stays in 64 bits (\<open>w\<close> is below \<open>2 ^ 16\<close> and \<open>scale\<close>
  is a slice length), so the quotient is the one of the naturals.
\<close>

definition normalize :: "uint16 list \<Rightarrow> uint16 list" where
  "normalize ws =
     (let scale = (if length ws > 100 then length ws else 100);
          total = sum_list (map unat ws)
      in if total \<le> scale then ws
         else map (\<lambda>w. of_nat (unat w * scale div total)) ws)"

definition compact :: "uint16 list \<Rightarrow> uint16 list" where
  "compact ws =
     (let tmp = normalize ws; d = gcd_weights tmp
      in if d < 2 then tmp else map (\<lambda>w. w div d) tmp)"

lemma unat_localGCD: "unat (localGCD a b) = gcd (unat a) (unat b)"
proof (induction a b rule: localGCD.induct)
  case (1 a b)
  show ?case
  proof (cases "0 < b")
    case True
    with 1 have "unat (localGCD a b) = gcd (unat b) (unat (a mod b))"
      by (simp add: localGCD.simps [of a b])
    also have "\<dots> = gcd (unat a) (unat b)"
      by (simp add: unat_mod gcd.commute gcd_red_nat [symmetric])
    finally show ?thesis .
  next
    case False
    then show ?thesis by (simp add: localGCD.simps [of a 0] word_greater_zero_iff)
  qed
qed

lemma unat_foldl_localGCD:
  "unat (foldl localGCD w ws) = Gcd (insert (unat w) (unat ` set ws))"
  by (induction ws arbitrary: w) (simp_all add: unat_localGCD gcd.assoc)

lemma unat_gcd_weights: "ws \<noteq> [] \<Longrightarrow> unat (gcd_weights ws) = Gcd (unat ` set ws)"
  by (cases ws) (simp_all add: gcd_weights_def unat_foldl_localGCD)

lemma member_le_sum: "w \<in> set ws \<Longrightarrow> unat w \<le> sum_list (map unat ws)" for w :: uint16
  by (simp add: member_le_sum_list)

lemma length_normalize [simp]: "length (normalize ws) = length ws"
  by (simp add: normalize_def Let_def)

lemma length_compact [simp]: "length (compact ws) = length ws"
  by (simp add: compact_def Let_def)

definition weight_scale :: "uint16 list \<Rightarrow> nat" where
  "weight_scale ws = (if length ws > 100 then length ws else 100)"

text \<open>The conversion back to \<open>uint16\<close> never truncates.\<close>

lemma normalize_scaled:
  assumes "weight_scale ws < sum_list (map unat ws)" "w \<in> set ws"
  shows "unat (of_nat (unat w * weight_scale ws div sum_list (map unat ws)) :: uint16)
    = unat w * weight_scale ws div sum_list (map unat ws)"
proof -
  let ?t = "sum_list (map unat ws)"
  have "unat w * weight_scale ws \<le> unat w * ?t" using assms(1) by simp
  then have "unat w * weight_scale ws div ?t \<le> unat w * ?t div ?t" by (rule div_le_mono)
  also have "\<dots> = unat w" using assms(1) by simp
  also have "\<dots> < 2 ^ 16" using unsigned_less [of w, where ?'a = nat] by simp
  finally show ?thesis by (simp add: unat_of_nat take_bit_nat_eq_self)
qed

lemma normalize_nth:
  assumes "i < length ws"
  shows "unat (normalize ws ! i) =
    (if sum_list (map unat ws) \<le> weight_scale ws then unat (ws ! i)
     else unat (ws ! i) * weight_scale ws div sum_list (map unat ws))"
  using assms normalize_scaled [of ws "ws ! i"]
  by (auto simp: normalize_def Let_def weight_scale_def)

lemma sum_scaled_le:
  fixes s t :: nat and f :: "'a \<Rightarrow> nat"
  assumes "0 < t"
  shows "sum_list (map (\<lambda>w. f w * s div t) ws) \<le> sum_list (map f ws) * s div t"
proof (induction ws)
  case (Cons w ws)
  have "f w * s div t + sum_list (map f ws) * s div t \<le> (f w * s + sum_list (map f ws) * s) div t"
    using assms by (simp add: less_eq_div_iff_mult_less_eq add_mult_distrib add_mono)
  with Cons show ?case by (simp add: add_mult_distrib)
qed simp

lemma sum_normalize_le: "sum_list (map unat (normalize ws)) \<le> weight_scale ws"
proof (cases "sum_list (map unat ws) \<le> weight_scale ws")
  case True
  then show ?thesis by (auto simp: normalize_def Let_def weight_scale_def split: if_splits)
next
  case False
  let ?t = "sum_list (map unat ws)"
  have "map unat (normalize ws) = map (\<lambda>w. unat w * weight_scale ws div ?t) ws"
    using False normalize_scaled [of ws]
    by (auto simp: normalize_def Let_def weight_scale_def comp_def split: if_splits)
  then show ?thesis
    using sum_scaled_le [of ?t unat "weight_scale ws" ws] False by simp
qed

text \<open>What \<open>compact\<close> divides by.\<close>

definition weight_divisor :: "uint16 list \<Rightarrow> nat" where
  "weight_divisor ws = max 1 (unat (gcd_weights (normalize ws)))"

lemma word_less_2_iff: "(d :: uint16) < 2 \<longleftrightarrow> unat d < 2"
  by (simp add: word_less_nat_alt)

lemma unat_compact_nth:
  assumes "i < length ws"
  shows "unat (compact ws ! i) * weight_divisor ws = unat (normalize ws ! i)"
proof -
  let ?n = "normalize ws"
  have mem: "?n ! i \<in> set ?n" using assms by simp
  then have ne: "?n \<noteq> []" by auto
  have "unat (gcd_weights ?n) dvd unat (?n ! i)"
    using mem by (simp add: unat_gcd_weights [OF ne])
  moreover have "unat (gcd_weights ?n) = 0 \<Longrightarrow> unat (?n ! i) = 0"
    using calculation by simp
  ultimately show ?thesis
    using assms by (auto simp: compact_def Let_def weight_divisor_def word_less_2_iff unat_div max_def)
qed

lemma sum_compact_le: "sum_list (map unat (compact ws)) \<le> weight_scale ws"
proof -
  have "unat (compact ws ! i) \<le> unat (normalize ws ! i)" if "i < length ws" for i
    using unat_compact_nth [OF that]
    by (metis le_add1 max.cobounded1 mult.commute mult_le_mono1 nat_mult_1 weight_divisor_def)
  then have "sum_list (map unat (compact ws)) \<le> sum_list (map unat (normalize ws))"
    by (auto simp: sum_list_sum_nth intro!: sum_mono)
  then show ?thesis using sum_normalize_le [of ws] by simp
qed

lemma compact_weights_eq:
  assumes "sum_list (map unat ws) \<le> weight_scale ws" "i < length ws"
  shows "unat (compact ws ! i) * weight_divisor ws = unat (ws ! i)"
  using unat_compact_nth [OF assms(2)] normalize_nth [OF assms(2)] assms(1) by simp

section \<open>Sorting the records\<close>

text \<open>
  The comparison passed to \<open>sort.Slice\<close>. The sort is not stable, but the comparison
  orders every field, so only one sorted arrangement exists (\<open>sort_slice_unique\<close>) and
  insertion stands for the library's algorithm.
\<close>

definition srv_less :: "SRV \<Rightarrow> SRV \<Rightarrow> bool" where
  "srv_less a b =
     (if srv_Priority a = srv_Priority b then
        if srv_Weight a = srv_Weight b then
          if srv_Target a = srv_Target b then srv_Port a < srv_Port b
          else srv_Target a < srv_Target b
        else srv_Weight a > srv_Weight b
      else srv_Priority a < srv_Priority b)"

fun insert_by :: "('a \<Rightarrow> 'a \<Rightarrow> bool) \<Rightarrow> 'a \<Rightarrow> 'a list \<Rightarrow> 'a list" where
  "insert_by cmp x [] = [x]"
| "insert_by cmp x (y # ys) = (if cmp x y then x # y # ys else y # insert_by cmp x ys)"

definition sort_slice :: "('a \<Rightarrow> 'a \<Rightarrow> bool) \<Rightarrow> 'a list \<Rightarrow> 'a list" where
  "sort_slice cmp xs = foldr (insert_by cmp) xs []"

definition srv_key :: "SRV \<Rightarrow> int \<times> int \<times> string \<times> int" where
  "srv_key a = (uint (srv_Priority a), - uint (srv_Weight a), srv_Target a, uint (srv_Port a))"

lemma srv_less_key: "srv_less a b \<longleftrightarrow> srv_key a < srv_key b"
  by (auto simp: srv_less_def srv_key_def word_uint_eq_iff word_less_def)

lemma inj_srv_key: "inj srv_key"
  by (rule injI) (auto simp: srv_key_def word_uint_eq_iff intro!: SRV.equality)

lemma mset_insert_by [simp]: "mset (insert_by cmp x xs) = add_mset x (mset xs)"
  by (induction xs) auto

lemma mset_sort_slice [simp]: "mset (sort_slice cmp xs) = mset xs"
  by (induction xs) (simp_all add: sort_slice_def)

lemma set_sort_slice [simp]: "set (sort_slice cmp xs) = set xs"
  by (metis mset_sort_slice set_mset_mset)

lemma sorted_insert_by:
  "sorted (map srv_key xs) \<Longrightarrow> sorted (map srv_key (insert_by srv_less x xs))"
proof (induction xs)
  case (Cons y ys)
  have "set (insert_by srv_less x ys) = insert x (set ys)"
    by (metis mset_insert_by set_mset_add_mset_insert set_mset_mset)
  with Cons show ?case
    by (auto simp: srv_less_key [symmetric] not_less [symmetric] less_imp_le)
      (auto simp: srv_less_key)
qed simp

lemma sorted_sort_slice: "sorted (map srv_key (sort_slice srv_less xs))"
  by (induction xs) (simp_all add: sort_slice_def sorted_insert_by)

lemma sort_slice_unique:
  assumes "mset ys = mset xs" "sorted_wrt (\<lambda>a b. \<not> srv_less b a) ys"
  shows "ys = sort_slice srv_less xs"
proof -
  have "sorted (map srv_key ys)"
    using assms(2) by (simp add: srv_less_key sorted_wrt_map not_less)
  moreover have "mset (map srv_key ys) = mset (map srv_key (sort_slice srv_less xs))"
    using assms(1) by simp
  ultimately have "map srv_key ys = map srv_key (sort_slice srv_less xs)"
    using sorted_sort_slice by (metis properties_for_sort sorted_sort_id)
  then show ?thesis using inj_srv_key by (simp add: inj_map_eq_map)
qed

section \<open>Resolving\<close>

text \<open>\<open>net.JoinHostPort\<close>: brackets around a host with a colon.\<close>

definition JoinHostPort :: "string \<Rightarrow> string \<Rightarrow> string" where
  "JoinHostPort host port =
     (if CHR '':'' \<in> set host then ''['' @ host @ '']:'' @ port else host @ '':'' @ port)"

definition srv_host :: "string \<Rightarrow> SRV \<Rightarrow> string" where
  "srv_host scheme a = scheme @ ''://'' @ JoinHostPort (srv_Target a) (itoa (int (unat (srv_Port a))))"

definition best_records :: "SRV list \<Rightarrow> SRV list" where
  "best_records srvs =
     (case srvs of [] \<Rightarrow> [] | s0 # _ \<Rightarrow> takeWhile (\<lambda>a. \<not> srv_Priority a > srv_Priority s0) srvs)"

definition repeat_hosts :: "string list \<Rightarrow> uint16 list \<Rightarrow> string list" where
  "repeat_hosts host ws = concat (map (\<lambda>(h, times). replicate (unat times) h) (zip host ws))"

definition resolve :: "string \<Rightarrow> goerror + SRV list \<Rightarrow> goerror + string list" where
  "resolve scheme answer =
     (case answer of
        Inl err \<Rightarrow> Inl err
      | Inr srvs \<Rightarrow>
          let srvs = sort_slice srv_less srvs;
              chosen = best_records srvs;
              ws = map srv_Weight chosen;
              host = map (srv_host scheme) chosen
          in Inr (repeat_hosts host (compact ws)))"

section \<open>The subscriber\<close>

record dns_subscriber =
  dns_name :: string
  dns_cache :: "string list"
  dns_ttl :: int
  dns_scheme :: string

definition dns_Hosts :: "dns_subscriber \<Rightarrow> string list \<times> goerror option" where
  "dns_Hosts s =
     (case Hosts (\<lambda>_. ([], None)) (FixedSubscriber (dns_cache s) :: unit subscriber) of
        (hs, Some err) \<Rightarrow> ([], Some err)
      | (hs, None) \<Rightarrow> (hs, None))"

definition dns_update :: "(nat \<Rightarrow> nat list) \<Rightarrow> goerror + SRV list \<Rightarrow> dns_subscriber \<Rightarrow> dns_subscriber" where
  "dns_update perm answer s =
     (case resolve (dns_scheme s) answer of
        Inl err \<Rightarrow> s
      | Inr instances \<Rightarrow>
          if length instances > 100
          then s\<lparr>dns_cache := NewRandomFixedSubscriber perm instances\<rparr>
          else s\<lparr>dns_cache := instances\<rparr>)"

text \<open>
  The constructor runs one update; the goroutine it starts runs one more every \<open>ttl\<close>
  (\<open>dns_updates\<close>, with the answer of each lookup).
\<close>

definition NewDetailedWithScheme ::
  "(nat \<Rightarrow> nat list) \<Rightarrow> string \<Rightarrow> goerror + SRV list \<Rightarrow> int \<Rightarrow> string \<Rightarrow> dns_subscriber" where
  "NewDetailedWithScheme perm name answer ttl scheme =
     (let scheme = (if scheme = [] then ''http'' else scheme)
      in dns_update perm answer \<lparr>dns_name = name, dns_cache = [], dns_ttl = ttl, dns_scheme = scheme\<rparr>)"

definition NewDetailed ::
  "(nat \<Rightarrow> nat list) \<Rightarrow> string \<Rightarrow> goerror + SRV list \<Rightarrow> int \<Rightarrow> dns_subscriber" where
  "NewDetailed perm name answer ttl = NewDetailedWithScheme perm name answer ttl ''http''"

text \<open>
  The factory that \<open>Register\<close> puts under the name \<open>dns\<close>. It resolves the first of the
  backend's hosts and panics (\<open>None\<close>) when there is none. \<open>lookup\<close> is \<open>DefaultLookup\<close>
  at the time of the construction.
\<close>

definition dns_New :: "(nat \<Rightarrow> nat list) \<Rightarrow> (string \<Rightarrow> goerror + SRV list) \<Rightarrow> int \<Rightarrow> string \<Rightarrow> dns_subscriber" where
  "dns_New perm lookup TTL name = NewDetailed perm name (lookup name) TTL"

definition dns_SubscriberFactory ::
  "(nat \<Rightarrow> nat list) \<Rightarrow> (string \<Rightarrow> goerror + SRV list) \<Rightarrow> int \<Rightarrow> Backend \<Rightarrow> dns_subscriber subscriber option" where
  "dns_SubscriberFactory perm lookup TTL cfg =
     (case be_Host cfg of
        [] \<Rightarrow> None
      | name # _ \<Rightarrow> Some (DriverSubscriber (NewDetailedWithScheme perm name (lookup name) TTL (be_SDScheme cfg))))"

abbreviation dns_Namespace :: string where
  "dns_Namespace \<equiv> ''dns''"

definition dns_Register ::
  "(nat \<Rightarrow> nat list) \<Rightarrow> (string \<Rightarrow> goerror + SRV list) \<Rightarrow> int
   \<Rightarrow> (Backend, dns_subscriber) subscriber_factory untyped \<Rightarrow> (Backend, dns_subscriber) subscriber_factory untyped" where
  "dns_Register perm lookup TTL r = Sd_Register dns_Namespace (dns_SubscriberFactory perm lookup TTL) r"

fun dns_updates :: "(nat \<Rightarrow> nat list) \<Rightarrow> (goerror + SRV list) list \<Rightarrow> dns_subscriber \<Rightarrow> dns_subscriber" where
  "dns_updates perm [] s = s"
| "dns_updates perm (a # as) s = dns_updates perm as (dns_update perm a s)"

definition MinTTL :: int where "MinTTL = time_Second"
definition DefaultTTL :: int where "DefaultTTL = 30 * time_Second"

text \<open>\<open>SetTTL\<close> on the package variable \<open>TTL\<close>.\<close>

definition SetTTL :: "int \<Rightarrow> int \<Rightarrow> int" where
  "SetTTL d TTL = (if d < MinTTL then TTL else d)"

section \<open>Lemmas about a resolution\<close>

lemma takeWhile_sorted: "sorted (map f xs) \<Longrightarrow> takeWhile (\<lambda>x. f x \<le> c) xs = filter (\<lambda>x. f x \<le> c) xs"
  for f :: "'a \<Rightarrow> 'b::linorder"
  by (induction xs) (auto simp: filter_empty_conv eq_commute [of "[]"] dest: order_trans)

lemma sorted_priorities: "sorted (map srv_key xs) \<Longrightarrow> sorted (map srv_Priority xs)"
  by (auto simp: sorted_iff_nth_mono_less srv_key_def less_eq_prod_def word_le_def word_less_def less_le)

lemma set_best_records:
  "set (best_records (sort_slice srv_less srvs)) =
     {a \<in> set srvs. \<forall>b \<in> set srvs. srv_Priority a \<le> srv_Priority b}"
proof (cases "sort_slice srv_less srvs")
  case Nil
  then have "srvs = []" by (metis mset_sort_slice mset_zero_iff)
  with Nil show ?thesis by (simp add: best_records_def)
next
  case (Cons s0 rest)
  have srt: "sorted (map srv_Priority (s0 # rest))"
    using sorted_priorities [OF sorted_sort_slice [of srvs]] Cons by simp
  have mem: "set srvs = set (s0 # rest)" using set_sort_slice [of srv_less srvs] Cons by simp
  have min: "\<forall>b \<in> set (s0 # rest). srv_Priority s0 \<le> srv_Priority b" using srt by auto
  have "best_records (s0 # rest) = filter (\<lambda>a. srv_Priority a \<le> srv_Priority s0) (s0 # rest)"
    using takeWhile_sorted [OF srt, of "srv_Priority s0"] by (simp add: best_records_def not_less)
  with min show ?thesis unfolding Cons mem by (auto intro: order_trans)
qed

lemma count_repeat_hosts:
  "length ws = length xs \<Longrightarrow>
   count_list (repeat_hosts (map f xs) ws) h = (\<Sum>i<length xs. if f (xs ! i) = h then unat (ws ! i) else 0)"
proof (induction xs arbitrary: ws)
  case (Cons x xs)
  then obtain w ws' where ws: "ws = w # ws'" "length ws' = length xs" by (cases ws) auto
  have rep: "count_list (replicate n (f x)) h = (if f x = h then n else 0)" for n
    by (induction n) auto
  have "count_list (repeat_hosts (map f (x # xs)) ws) h =
      (if f x = h then unat w else 0) + count_list (repeat_hosts (map f xs) ws') h"
    by (simp add: repeat_hosts_def ws(1) rep)
  with Cons.IH [OF ws(2)] show ?case unfolding ws(1)
    by (simp add: sum.lessThan_Suc_shift del: sum.lessThan_Suc cong: if_cong)
qed (simp add: repeat_hosts_def)

lemma length_repeat_hosts:
  "length ws = length hs \<Longrightarrow> length (repeat_hosts hs ws) = sum_list (map unat ws)"
  by (induction hs ws rule: list_induct2') (auto simp: repeat_hosts_def)

lemma set_repeat_hosts:
  "length ws = length hs \<Longrightarrow> set (repeat_hosts hs ws) = {hs ! i | i. i < length hs \<and> 0 < unat (ws ! i)}"
  by (force simp: repeat_hosts_def in_set_zip)

lemma resolve_Inr: "resolve scheme (Inr srvs) =
    Inr (repeat_hosts (map (srv_host scheme) (best_records (sort_slice srv_less srvs)))
      (compact (map srv_Weight (best_records (sort_slice srv_less srvs)))))"
  by (simp add: resolve_def Let_def)

lemma compact_pos_imp: "i < length ws \<Longrightarrow> 0 < unat (compact ws ! i) \<Longrightarrow> 0 < unat (ws ! i)"
  using unat_compact_nth [of i ws] normalize_nth [of i ws]
  by (cases "unat (ws ! i) = 0") (auto simp: weight_divisor_def split: if_splits)

lemma resolve_member:
  assumes "resolve scheme (Inr srvs) = Inr hs" "h \<in> set hs"
  shows "\<exists>a \<in> set srvs. h = srv_host scheme a \<and> 0 < srv_Weight a \<and> (\<forall>b \<in> set srvs. srv_Priority a \<le> srv_Priority b)"
proof -
  let ?best = "best_records (sort_slice srv_less srvs)"
  let ?ws = "map srv_Weight ?best"
  have "h \<in> set (repeat_hosts (map (srv_host scheme) ?best) (compact ?ws))"
    using assms by (simp add: resolve_Inr)
  then obtain i where i: "i < length ?best" "h = srv_host scheme (?best ! i)" "0 < unat (compact ?ws ! i)"
    by (auto simp: set_repeat_hosts)
  have "0 < unat (?ws ! i)" using i compact_pos_imp [of i ?ws] by simp
  then have "0 < srv_Weight (?best ! i)" using i(1) by (simp add: word_greater_zero_iff unat_gt_0)
  moreover have "?best ! i \<in> set ?best" using i(1) by simp
  ultimately show ?thesis using i(2) unfolding set_best_records by blast
qed

lemma resolve_length: "resolve scheme (Inr srvs) = Inr hs \<Longrightarrow> length hs \<le> max 100 (length srvs)"
proof -
  assume r: "resolve scheme (Inr srvs) = Inr hs"
  let ?best = "best_records (sort_slice srv_less srvs)"
  have "length ?best \<le> length (sort_slice srv_less srvs)"
    by (auto simp: best_records_def length_takeWhile_le split: list.splits)
  then have "length ?best \<le> length srvs" by (metis mset_sort_slice size_mset)
  then have "weight_scale (map srv_Weight ?best) \<le> max 100 (length srvs)" by (simp add: weight_scale_def)
  then show ?thesis
    using r sum_compact_le [of "map srv_Weight ?best"] by (auto simp: resolve_Inr length_repeat_hosts)
qed

lemma mset_dns_update:
  "rand_Perm_ok perm \<Longrightarrow> resolve (dns_scheme s) a = Inr hs \<Longrightarrow> mset (dns_cache (dns_update perm a s)) = mset hs"
  by (simp add: dns_update_def mset_NewRandomFixedSubscriber)

lemma dns_update_error [simp]: "dns_update perm (Inl e) s = s"
  by (simp add: dns_update_def resolve_def)

lemma dns_update_scheme [simp]: "dns_scheme (dns_update perm a s) = dns_scheme s"
  by (simp add: dns_update_def split: sum.splits)

lemma dns_updates_scheme [simp]: "dns_scheme (dns_updates perm as s) = dns_scheme s"
  by (induction as arbitrary: s) simp_all

lemma dns_updates_append: "dns_updates perm (as @ bs) s = dns_updates perm bs (dns_updates perm as s)"
  by (induction as arbitrary: s) simp_all

lemma dns_updates_errors: "\<forall>b \<in> set bs. isl b \<Longrightarrow> dns_updates perm bs s = s"
proof (induction bs arbitrary: s)
  case (Cons b bs)
  then show ?case by (cases b) auto
qed simp

lemma dns_updates_last:
  assumes "rand_Perm_ok perm" "\<forall>b \<in> set bs. isl b" "resolve (dns_scheme s) (Inr srvs) = Inr hs"
  shows "mset (dns_cache (dns_updates perm (as @ Inr srvs # bs) s)) = mset hs"
  using assms(3) by (simp add: dns_updates_append dns_updates_errors [OF assms(2)] mset_dns_update [OF assms(1)])

lemma dns_Hosts_cache: "dns_Hosts s = (dns_cache s, None)"
  by (simp add: dns_Hosts_def Hosts_def)

section \<open>Properties\<close>

text \<open>
  C38: The weights that \<open>compact\<close> returns are the given ones, scaled down to a total of 100 (or
  of their number, if larger) when they exceed it, and then divided, exactly, by a common
  divisor; no conversion to 16 bits loses a bit and the total never exceeds the scale.
\<close>

theorem compact_proportional:
  assumes "i < length ws"
  shows "unat (compact ws ! i) * weight_divisor ws =
      (if sum_list (map unat ws) \<le> weight_scale ws then unat (ws ! i)
       else unat (ws ! i) * weight_scale ws div sum_list (map unat ws)) \<and>
    length (compact ws) = length ws \<and> sum_list (map unat (compact ws)) \<le> weight_scale ws"
  using unat_compact_nth [OF assms] normalize_nth [OF assms] sum_compact_le [of ws] by simp

theorem compact_proportional_witness:
  "unat (compact [20, 10] ! 0) * weight_divisor [20, 10] = 20"
  using compact_proportional [of 0 "[20, 10]"] by (simp add: weight_scale_def)

text \<open>
  C21: A resolution returns only hosts of the records with the best priority and a positive
  weight, at most 100 entries (or one per record, if there are more), in an order that does not
  depend on the order of the answer.
\<close>

theorem resolve_sound:
  assumes "resolve scheme (Inr srvs) = Inr hs"
  shows "(\<forall>h \<in> set hs. \<exists>a \<in> set srvs. h = srv_host scheme a \<and> 0 < srv_Weight a \<and>
      (\<forall>b \<in> set srvs. srv_Priority a \<le> srv_Priority b)) \<and>
    length hs \<le> max 100 (length srvs) \<and>
    (\<forall>srvs'. mset srvs' = mset srvs \<longrightarrow> resolve scheme (Inr srvs') = Inr hs)"
proof -
  have sorted: "sorted_wrt (\<lambda>a b. \<not> srv_less b a) (sort_slice srv_less xs)" for xs
    using sorted_sort_slice [of xs] by (simp add: sorted_wrt_map srv_less_key not_less)
  have eq: "sort_slice srv_less srvs' = sort_slice srv_less srvs" if "mset srvs' = mset srvs" for srvs'
    using sort_slice_unique [of "sort_slice srv_less srvs'" srvs] sorted that by simp
  have "resolve scheme (Inr srvs') = Inr hs" if "mset srvs' = mset srvs" for srvs'
    using assms unfolding resolve_Inr eq [OF that] .
  with resolve_member [OF assms] resolve_length [OF assms] show ?thesis by blast
qed

theorem resolve_sound_witness:
  "\<exists>hs. resolve ''http'' (Inr [\<lparr>srv_Target = ''a'', srv_Port = 80, srv_Priority = 1, srv_Weight = 5\<rparr>,
       \<lparr>srv_Target = ''b'', srv_Port = 80, srv_Priority = 2, srv_Weight = 5\<rparr>]) = Inr hs \<and>
     ''http://b:80'' \<notin> set hs"
proof -
  let ?a = "\<lparr>srv_Target = ''a'', srv_Port = 80, srv_Priority = 1, srv_Weight = 5\<rparr>"
    and ?b = "\<lparr>srv_Target = ''b'', srv_Port = 80, srv_Priority = 2, srv_Weight = 5\<rparr>"
  obtain hs where hs: "resolve ''http'' (Inr [?a, ?b]) = Inr hs" by (simp add: resolve_Inr)
  have ab: "srv_host ''http'' ?a = ''http://a:80''" "srv_host ''http'' ?b = ''http://b:80''" by code_simp+
  have "''http://b:80'' \<notin> set hs"
  proof
    assume "''http://b:80'' \<in> set hs"
    with resolve_sound [OF hs] obtain x where x: "x \<in> set [?a, ?b]" "''http://b:80'' = srv_host ''http'' x"
      "\<forall>b \<in> set [?a, ?b]. srv_Priority x \<le> srv_Priority b" by blast
    from x(1) consider "x = ?a" | "x = ?b" by (simp only: list.set insert_iff empty_iff) blast
    then show False
    proof cases
      case 1
      with x(2) ab(1) show False by simp
    next
      case 2
      with x(3) show False by (simp add: word_le_nat_alt)
    qed
  qed
  with hs show ?thesis by blast
qed

text \<open>
  C37: The subscriber answers with the last resolution that succeeded: lookups that fail after it
  change nothing, and \<open>Hosts\<close> itself never fails.
\<close>

theorem dns_keeps_last_resolution:
  assumes "rand_Perm_ok perm" "\<forall>b \<in> set bs. isl b" "resolve (dns_scheme s) (Inr srvs) = Inr hs"
  shows "\<exists>hosts. dns_Hosts (dns_updates perm (as @ Inr srvs # bs) s) = (hosts, None) \<and> mset hosts = mset hs"
  using dns_updates_last [OF assms] by (simp add: dns_Hosts_cache)

theorem dns_keeps_last_resolution_witness:
  "\<exists>hosts. dns_Hosts (dns_updates (\<lambda>n. [0..<n]) [Inr [], Inl (ErrText ''down'')]
     \<lparr>dns_name = ''n'', dns_cache = [''old''], dns_ttl = 0, dns_scheme = ''http''\<rparr>) = (hosts, None) \<and> mset hosts = {#}"
proof -
  have "resolve ''http'' (Inr []) = Inr []"
    by (simp add: resolve_Inr sort_slice_def best_records_def repeat_hosts_def)
  then show ?thesis
    using dns_keeps_last_resolution [of "\<lambda>n. [0..<n]" "[Inl (ErrText ''down'')]"
        "\<lparr>dns_name = ''n'', dns_cache = [''old''], dns_ttl = 0, dns_scheme = ''http''\<rparr>" "[]" "[]" "[]"]
    by (simp add: rand_Perm_ok_def)
qed

end
