(* ===== verification/ProxyTypes.thy ===== *)
theory ProxyTypes
  imports ConfigTypes
begin

text \<open>
  The types of the package proxy: requests, responses, proxies and middlewares
  (proxy/proxy.go, proxy/request.go), with the two ways to clone a request.

  A proxy maps a request to the pair of pointers the code returns, either of which may be nil,
  or panics. The context is not a field: the places where the code looks at it take its state
  as an argument. URLs are opaque but for the raw query, with the functions of net/url as
  parameters.
\<close>

abbreviation proxy_Namespace :: string where
  "proxy_Namespace \<equiv> ''github.com/devopsfaith/krakend/proxy''"

record Metadata =
  md_Headers :: "(string \<times> string list) list option"
  md_StatusCode :: int

record Response =
  rs_Data :: "jmap option"
  rs_IsComplete :: bool
  rs_Metadata :: Metadata
  rs_Io :: "io_reader option"

record URL =
  url_rest :: string
  url_RawQuery :: string

record Request =
  rq_Method :: string
  rq_URL :: "URL option"
  rq_Query :: "(string \<times> string list) list option"
  rq_Path :: string
  rq_Body :: "io_reader option"
  rq_Params :: "(string \<times> string) list option"
  rq_Headers :: "(string \<times> string list) list option"

definition empty_Request :: Request where
  "empty_Request = \<lparr>rq_Method = [], rq_URL = None, rq_Query = None, rq_Path = [], rq_Body = None,
     rq_Params = None, rq_Headers = None\<rparr>"

definition empty_Metadata :: Metadata where
  "empty_Metadata = \<lparr>md_Headers = None, md_StatusCode = 0\<rparr>"

text \<open>A response literal that sets only the data and the completeness.\<close>

definition mk_Response :: "jmap option \<Rightarrow> bool \<Rightarrow> Response" where
  "mk_Response d c = \<lparr>rs_Data = d, rs_IsComplete = c, rs_Metadata = empty_Metadata, rs_Io = None\<rparr>"

datatype presult = Ret "Response option" "goerror option" | GoPanic

type_synonym Proxy = "Request \<Rightarrow> presult"

text \<open>
  A middleware is built from the proxies it wraps. \<open>Inl\<close> is a build that ends the process:
  \<open>logger.Fatal\<close>, the panic of \<open>next[0]\<close> on no proxy, or that of a failing type assertion.
\<close>

datatype build_error = FatalExit | IndexPanic | TypePanic

type_synonym Middleware = "Proxy list \<Rightarrow> build_error + Proxy"

definition EmptyMiddlewareWithLogger :: Middleware where
  "EmptyMiddlewareWithLogger nxt =
     (if length nxt > 1 then Inl FatalExit
      else case nxt of [] \<Rightarrow> Inl IndexPanic | p # _ \<Rightarrow> Inr p)"

definition EmptyMiddleware :: Middleware where
  "EmptyMiddleware nxt = EmptyMiddlewareWithLogger nxt"

definition emptyMiddlewareFallback :: Middleware where
  "emptyMiddlewareFallback nxt = EmptyMiddlewareWithLogger nxt"

definition NoopProxy :: Proxy where
  "NoopProxy r = Ret None None"

text \<open>
  The middlewares that wrap one proxy in a closure: more than one proxy is fatal, and the
  closure calls \<open>next[0]\<close>, which panics when there is none.
\<close>

definition wrap_one :: "(Proxy \<Rightarrow> Proxy) \<Rightarrow> Middleware" where
  "wrap_one f nxt =
     (if length nxt > 1 then Inl FatalExit
      else Inr (f (case nxt of [] \<Rightarrow> (\<lambda>r. GoPanic) | p # _ \<Rightarrow> p)))"

abbreviation ErrNoBackends :: goerror where
  "ErrNoBackends \<equiv> ErrText ''all endpoints must have at least one backend''"
abbreviation errNullResult :: goerror where
  "errNullResult \<equiv> ErrText ''invalid response''"

section \<open>Requests\<close>

text \<open>
  \<open>GeneratePath\<close> replaces \<open>{{.key}}\<close> for each parameter, in the order the map is
  iterated in.
\<close>

definition param_key :: "string \<Rightarrow> string" where
  "param_key k = ''{{.'' @ k @ ''}}''"

fun replace_params :: "(string \<times> string) list \<Rightarrow> string \<Rightarrow> string" where
  "replace_params [] buff = buff"
| "replace_params ((k, v) # ps) buff = replace_params ps (replace_all buff (param_key k) v)"

definition GeneratePath :: "string \<Rightarrow> Request \<Rightarrow> Request" where
  "GeneratePath URLPattern r =
     (if nmap_len (rq_Params r) = 0 then r\<lparr>rq_Path := URLPattern\<rparr>
      else r\<lparr>rq_Path := replace_params (case rq_Params r of None \<Rightarrow> [] | Some ps \<Rightarrow> ps) URLPattern\<rparr>)"

text \<open>
  \<open>Clone\<close> copies the struct: the maps and the body stay shared, which a value does not show.
  The URL is parsed again from its text, and the parse error is dropped (a nil URL).
\<close>

definition Clone :: "(string \<Rightarrow> goerror + URL) \<Rightarrow> (URL \<Rightarrow> string) \<Rightarrow> Request \<Rightarrow> Request" where
  "Clone url_Parse url_String r =
     r\<lparr>rq_URL := (case rq_URL r of
          None \<Rightarrow> None
        | Some u \<Rightarrow> (case url_Parse (url_String u) of Inl _ \<Rightarrow> None | Inr u' \<Rightarrow> Some u'))\<rparr>"

text \<open>The copies of the header and parameter maps; a nil map becomes an empty one.\<close>

definition CloneRequestHeaders :: "(string \<times> string list) list option \<Rightarrow> (string \<times> string list) list option" where
  "CloneRequestHeaders headers = Some (mput_all (case headers of None \<Rightarrow> [] | Some h \<Rightarrow> h) [])"

definition CloneRequestParams :: "(string \<times> string) list option \<Rightarrow> (string \<times> string) list option" where
  "CloneRequestParams params = Some (mput_all (case params of None \<Rightarrow> [] | Some p \<Rightarrow> p) [])"

text \<open>
  \<open>CloneRequest\<close> reads the body to its end (\<open>buf.ReadFrom\<close>, whose error is ignored) and
  gives both requests a fresh reader over the bytes: it returns the request as changed and its
  clone.
\<close>

definition CloneRequest :: "(string \<Rightarrow> goerror + URL) \<Rightarrow> (URL \<Rightarrow> string) \<Rightarrow> Request \<Rightarrow> Request \<times> Request" where
  "CloneRequest url_Parse url_String r =
     (let clone = (Clone url_Parse url_String r)
            \<lparr>rq_Headers := CloneRequestHeaders (rq_Headers r),
             rq_Params := CloneRequestParams (rq_Params r)\<rparr>
      in case rq_Body r of
           None \<Rightarrow> (r, clone)
         | Some body \<Rightarrow> (r\<lparr>rq_Body := Some (fst body, None)\<rparr>, clone\<lparr>rq_Body := Some (fst body, None)\<rparr>))"

lemma mput_all_Nil_lookup:
  "gmap_ok m \<Longrightarrow> map_of (mput_all m []) = map_of m"
  by (simp add: map_of_mput_all)

text \<open>
  A parameter whose value looks like another parameter's key: the path depends on the order in
  which the code ranges over the map, which Go leaves open.
\<close>

theorem path_depends_on_map_order:
  "rq_Path (GeneratePath ''/{{.A}}'' (empty_Request\<lparr>rq_Params := Some [(''A'', ''{{.B}}''), (''B'', ''x'')]\<rparr>)) = ''/x''"
  "rq_Path (GeneratePath ''/{{.A}}'' (empty_Request\<lparr>rq_Params := Some [(''B'', ''x''), (''A'', ''{{.B}}'')]\<rparr>)) = ''/{{.B}}''"
  by code_simp+

end
