(* ===== verification/Formatter.thy ===== *)
theory Formatter
  imports ProxyTypes
begin

text \<open>
  proxy/formatter.go: the response formatter of a backend. The allow and deny filters, which
  the code runs on nested maps by mutation, are functions on values here, and their trees are
  built by the same walk. Specification: a position in a nested map is a path of keys
  (\<open>vget\<close>), a deny list removes exactly the positions at or below a listed path, an allow list
  keeps exactly the leaves at or below a listed path.
\<close>

section \<open>Positions in nested maps\<close>

fun vget :: "gval \<Rightarrow> string list \<Rightarrow> gval option" where
  "vget v [] = Some v"
| "vget (VObj m) (k # ks) = (case map_of m k of None \<Rightarrow> None | Some v \<Rightarrow> vget v ks)"
| "vget _ (k # ks) = None"

section \<open>Target extraction\<close>

fun extract_parts :: "string list \<Rightarrow> jmap option \<Rightarrow> jmap option" where
  "extract_parts [] d = d"
| "extract_parts (part # parts) d =
     (case nmap_get d part of
        Some tmp \<Rightarrow> (case as_map tmp of
            Some d' \<Rightarrow> extract_parts parts d'
          | None \<Rightarrow> Some [])
      | None \<Rightarrow> Some [])"

definition extractTarget :: "string \<Rightarrow> Response \<Rightarrow> Response" where
  "extractTarget target entity =
     entity\<lparr>rs_Data := extract_parts (split_on CHR ''.'' target) (rs_Data entity)\<rparr>"

section \<open>Allow lists\<close>

text \<open>Returns whether the whole map can be deleted, and the map after the deletions.\<close>

fun AllowlistPrune :: "jmap \<Rightarrow> jmap \<Rightarrow> bool \<times> jmap" where
  "AllowlistPrune wlDict [] = (True, [])"
| "AllowlistPrune wlDict ((k, v) # inDict) =
     (let (canDelete, rest) = AllowlistPrune wlDict inDict;
          (deleteSibling, v') =
            (case map_of wlDict k of
               None \<Rightarrow> (True, v)
             | Some (VObj subWlDict) \<Rightarrow>
                 (case v of
                    VObj subInDict \<Rightarrow>
                      (let (b, sub) = AllowlistPrune subWlDict subInDict in (b, VObj sub))
                  | _ \<Rightarrow> (True, v))
             | Some _ \<Rightarrow> (False, v))
      in if deleteSibling then (canDelete, rest) else (False, (k, v') # rest))"

text \<open>
  \<open>buildDictPath\<close> returns a pointer into the tree, through which the caller writes; here it
  takes that write as the function \<open>upd\<close>.
\<close>

fun buildDictPath :: "jmap \<Rightarrow> string list \<Rightarrow> (jmap \<Rightarrow> jmap) \<Rightarrow> jmap" where
  "buildDictPath p [] upd = upd p"
| "buildDictPath p (f # fs) upd =
     (let c = (case map_of p f of Some (VObj c) \<Rightarrow> c | _ \<Rightarrow> [])
      in mput f (VObj (buildDictPath c fs upd)) p)"

definition allow_dict :: "string list \<Rightarrow> jmap" where
  "allow_dict Allowlist =
     fold (\<lambda>k wlDict.
       let wlFields = split_on CHR ''.'' k
       in buildDictPath wlDict (butlast wlFields) (mput (last wlFields) (VBool True)))
     Allowlist []"

definition newAllowlistingFilter :: "string list \<Rightarrow> Response \<Rightarrow> Response" where
  "newAllowlistingFilter Allowlist entity =
     (let wlDict = allow_dict Allowlist
      in case rs_Data entity of
           None \<Rightarrow> entity
         | Some d \<Rightarrow>
             let (canDelete, d') = AllowlistPrune wlDict d
             in entity\<lparr>rs_Data := Some (if canDelete then [] else d')\<rparr>)"

section \<open>Deny lists\<close>

fun buildDenyTree :: "string list \<Rightarrow> jmap \<Rightarrow> jmap" where
  "buildDenyTree [] tree = tree"
| "buildDenyTree [n] tree = mput n VNull tree"
| "buildDenyTree (n # n' # path) tree =
     (case map_of tree n of
        Some k \<Rightarrow>
          (case k of
             VNull \<Rightarrow> tree
           | VObj childTree \<Rightarrow> mput n (VObj (buildDenyTree (n' # path) childTree)) tree
           | _ \<Rightarrow> mput n VNull tree)
      | None \<Rightarrow> mput n (VObj (buildDenyTree (n' # path) [])) tree)"

text \<open>
  An entry of the tree is nil or a map (\<open>deny_tree_ok\<close>), so the assertion
  \<open>rv.(map[string]interface{})\<close> does not panic; the last case of the inner match is that
  panic's place.
\<close>

fun recDelete :: "jmap \<Rightarrow> gval \<Rightarrow> gval" where
  "recDelete [] v = v"
| "recDelete ((rk, rv) # ref) v =
     recDelete ref
       (case v of
          VObj m \<Rightarrow>
            (case map_of m rk of
               None \<Rightarrow> v
             | Some dv \<Rightarrow>
                 (case rv of
                    VNull \<Rightarrow> VObj (mdel rk m)
                  | VObj sub \<Rightarrow> VObj (mput rk (recDelete sub dv) m)
                  | _ \<Rightarrow> v))
        | _ \<Rightarrow> v)"

definition deny_dict :: "string list \<Rightarrow> jmap" where
  "deny_dict blacklist = fold (\<lambda>key bl. buildDenyTree (split_on CHR ''.'' key) bl) blacklist []"

definition newDenylistingFilter :: "string list \<Rightarrow> Response \<Rightarrow> Response" where
  "newDenylistingFilter blacklist entity =
     entity\<lparr>rs_Data := (case rs_Data entity of
         None \<Rightarrow> None
       | Some d \<Rightarrow> (case recDelete (deny_dict blacklist) (VObj d) of VObj d' \<Rightarrow> Some d' | _ \<Rightarrow> Some d))\<rparr>"

section \<open>The entity formatter\<close>

record entityFormatter =
  ef_Target :: string
  ef_Prefix :: string
  ef_PropertyFilter :: "Response \<Rightarrow> Response"
  ef_Mapping :: "string gmap"

text \<open>
  The renaming loop, in the iteration order of the mapping: the list's order.
\<close>

fun apply_mapping :: "(string \<times> string) list \<Rightarrow> jmap \<Rightarrow> jmap" where
  "apply_mapping [] d = d"
| "apply_mapping ((formerKey, newKey) # ms) d =
     apply_mapping ms
       (case map_of d formerKey of
          Some v \<Rightarrow> mdel formerKey (mput newKey v d)
        | None \<Rightarrow> d)"

definition entity_Format :: "entityFormatter \<Rightarrow> Response \<Rightarrow> Response" where
  "entity_Format e entity =
     (let entity = (if ef_Target e \<noteq> [] then extractTarget (ef_Target e) entity else entity);
          entity = (if nmap_len (rs_Data entity) > 0 then ef_PropertyFilter e entity else entity);
          entity = (if nmap_len (rs_Data entity) > 0
                    then entity\<lparr>rs_Data := map_option (apply_mapping (ef_Mapping e)) (rs_Data entity)\<rparr>
                    else entity)
      in if ef_Prefix e \<noteq> []
         then entity\<lparr>rs_Data := Some [(ef_Prefix e, of_map (rs_Data entity))]\<rparr>
         else entity)"

definition sanitizedMappings :: "string gmap \<Rightarrow> string gmap" where
  "sanitizedMappings mapping = map (\<lambda>(i, m). (i, hd (split_on CHR ''.'' m))) mapping"

definition new_entityFormatter :: "Backend \<Rightarrow> entityFormatter" where
  "new_entityFormatter remote =
     \<lparr>ef_Target = be_Target remote,
      ef_Prefix = be_Group remote,
      ef_PropertyFilter =
        (if length (be_AllowList remote) > 0 then newAllowlistingFilter (be_AllowList remote)
         else newDenylistingFilter (be_DenyList remote)),
      ef_Mapping = sanitizedMappings (be_Mapping remote)\<rparr>"

section \<open>The flatmap formatter\<close>

text \<open>
  The flatmap tree (github.com/krakend/flatmap) is outside the repository: a parameter with
  its constructor and the operations the code calls.
\<close>

record 't tree_lib =
  tree_New :: "jmap option \<Rightarrow> goerror + 't"
  tree_Move :: "string list \<Rightarrow> string list \<Rightarrow> 't \<Rightarrow> 't"
  tree_Append :: "string list \<Rightarrow> string list \<Rightarrow> 't \<Rightarrow> 't"
  tree_Del :: "string list \<Rightarrow> 't \<Rightarrow> 't"
  tree_Get :: "string list \<Rightarrow> 't \<Rightarrow> gval"

record flatmapOp =
  fo_Type :: string
  fo_Args :: "string list list"

record flatmapFormatter =
  ff_Target :: string
  ff_Prefix :: string
  ff_Ops :: "flatmapOp list"

text \<open>\<open>None\<close> is the index panic of \<open>op.Args[0]\<close> or \<open>op.Args[1]\<close>.\<close>

definition flatmap_step :: "'t tree_lib \<Rightarrow> flatmapOp \<Rightarrow> 't \<Rightarrow> 't option" where
  "flatmap_step fl op t =
     (if fo_Type op = ''move'' then
        (case fo_Args op of a # b # _ \<Rightarrow> Some (tree_Move fl a b t) | _ \<Rightarrow> None)
      else if fo_Type op = ''append'' then
        (case fo_Args op of a # b # _ \<Rightarrow> Some (tree_Append fl a b t) | _ \<Rightarrow> None)
      else if fo_Type op = ''del'' then Some (fold (tree_Del fl) (fo_Args op) t)
      else Some t)"

fun flatmap_steps :: "'t tree_lib \<Rightarrow> flatmapOp list \<Rightarrow> 't \<Rightarrow> 't option" where
  "flatmap_steps fl [] t = Some t"
| "flatmap_steps fl (op # ops) t =
     (case flatmap_step fl op t of None \<Rightarrow> None | Some t' \<Rightarrow> flatmap_steps fl ops t')"

definition processOps :: "'t tree_lib \<Rightarrow> flatmapFormatter \<Rightarrow> Response \<Rightarrow> Response option" where
  "processOps fl e entity =
     (case tree_New fl (rs_Data entity) of
        Inl _ \<Rightarrow> Some entity
      | Inr flatten \<Rightarrow>
          (case flatmap_steps fl (ff_Ops e) flatten of
             None \<Rightarrow> None
           | Some flatten' \<Rightarrow>
               Some (entity\<lparr>rs_Data := (case as_map (tree_Get fl [] flatten') of
                                         None \<Rightarrow> None | Some d \<Rightarrow> d)\<rparr>)))"

definition flatmap_Format :: "'t tree_lib \<Rightarrow> flatmapFormatter \<Rightarrow> Response \<Rightarrow> Response option" where
  "flatmap_Format fl e entity =
     (let entity = (if ff_Target e \<noteq> [] then extractTarget (ff_Target e) entity else entity)
      in case processOps fl e entity of
           None \<Rightarrow> None
         | Some entity \<Rightarrow>
             Some (if ff_Prefix e \<noteq> []
                   then entity\<lparr>rs_Data := Some [(ff_Prefix e, of_map (rs_Data entity))]\<rparr>
                   else entity))"

text \<open>
  An argument that is not a string leaves its place in \<open>op.Args\<close> nil, an entry that is not an
  object or has no type is skipped.
\<close>

definition flatmap_op :: "gval \<Rightarrow> flatmapOp option" where
  "flatmap_op v =
     (case as_map v of
        None \<Rightarrow> None
      | Some m \<Rightarrow>
          (case Option.bind (nmap_get m ''type'') as_str of
             None \<Rightarrow> None
           | Some t \<Rightarrow>
               Some \<lparr>fo_Type = t,
                     fo_Args = (case Option.bind (nmap_get m ''args'') as_list of
                        None \<Rightarrow> []
                      | Some args \<Rightarrow> map (\<lambda>arg. case as_str arg of
                            None \<Rightarrow> [] | Some t \<Rightarrow> split_on CHR ''.'' t) args)\<rparr>))"

definition newFlatmapFormatter :: "ExtraConfig \<Rightarrow> string \<Rightarrow> string \<Rightarrow> flatmapFormatter option" where
  "newFlatmapFormatter cfg target grp =
     (case Option.bind (map_of cfg proxy_Namespace) as_map of
        None \<Rightarrow> None
      | Some e \<Rightarrow>
          (case Option.bind (nmap_get e ''flatmap_filter'') as_list of
             None \<Rightarrow> None
           | Some vs \<Rightarrow>
               (if length vs = 0 then None
                else let ops = List.map_filter flatmap_op vs
                     in if length ops = 0 then None
                        else Some \<lparr>ff_Target = target, ff_Prefix = grp, ff_Ops = ops\<rparr>)))"

definition NewEntityFormatter :: "'t tree_lib \<Rightarrow> Backend \<Rightarrow> Response \<Rightarrow> Response option" where
  "NewEntityFormatter fl remote =
     (case newFlatmapFormatter (be_ExtraConfig remote) (be_Target remote) (be_Group remote) of
        Some ef \<Rightarrow> flatmap_Format fl ef
      | None \<Rightarrow> (\<lambda>r. Some (entity_Format (new_entityFormatter remote) r)))"

text \<open>The formatter dereferences the response: a nil response without an error panics.\<close>

definition NewFlatmapMiddleware :: "'t tree_lib \<Rightarrow> EndpointConfig \<Rightarrow> Middleware" where
  "NewFlatmapMiddleware fl cfg nxt =
     (if length nxt > 1 then Inl FatalExit
      else case newFlatmapFormatter (ep_ExtraConfig cfg) [] [] of
        None \<Rightarrow> (case nxt of [] \<Rightarrow> Inl IndexPanic | p # _ \<Rightarrow> Inr p)
      | Some formatter \<Rightarrow>
          Inr (\<lambda>request.
            case (case nxt of [] \<Rightarrow> GoPanic | p # _ \<Rightarrow> p request) of
              GoPanic \<Rightarrow> GoPanic
            | Ret resp (Some err) \<Rightarrow> Ret resp (Some err)
            | Ret None None \<Rightarrow> GoPanic
            | Ret (Some resp) None \<Rightarrow>
                (case flatmap_Format fl formatter resp of
                   None \<Rightarrow> GoPanic
                 | Some r \<Rightarrow> Ret (Some r) None)))"

section \<open>The deny tree\<close>

text \<open>
  A tree covers a path when the path passes a nil entry of the tree. Every tree that
  \<open>buildDenyTree\<close> makes is a map of nil entries and of such trees (\<open>deny_ok\<close>).
\<close>

fun covers :: "jmap \<Rightarrow> string list \<Rightarrow> bool" where
  "covers t [] = False"
| "covers t (k # ks) =
     (case map_of t k of Some VNull \<Rightarrow> True | Some (VObj s) \<Rightarrow> covers s ks | _ \<Rightarrow> False)"

lemma covers_Nil [simp]: "\<not> covers [] p"
  by (cases p) auto

fun deny_ok :: "gval \<Rightarrow> bool" where
  "deny_ok VNull = True"
| "deny_ok (VObj t) = (gmap_ok t \<and> list_all (\<lambda>p. deny_ok (snd p)) t)"
| "deny_ok _ = False"

lemma deny_ok_cases: "deny_ok v \<Longrightarrow> (v = VNull \<Longrightarrow> P) \<Longrightarrow> (\<And>t. v = VObj t \<Longrightarrow> P) \<Longrightarrow> P"
  by (cases v) auto

lemma deny_ok_lookup: "deny_ok (VObj t) \<Longrightarrow> map_of t k = Some v \<Longrightarrow> deny_ok v"
  by (auto dest!: map_of_SomeD simp: list_all_iff)

lemma deny_ok_mput: "deny_ok (VObj t) \<Longrightarrow> deny_ok v \<Longrightarrow> deny_ok (VObj (mput k v t))"
  using set_mput_subset [of k v t] by (force simp: list_all_iff)

lemma deny_ok_Nil: "deny_ok (VObj [])"
  by simp

lemma buildDenyTree_ok: "deny_ok (VObj t) \<Longrightarrow> deny_ok (VObj (buildDenyTree path t))"
proof (induction path t rule: buildDenyTree.induct)
  case (3 n n' path tree)
  show ?case
  proof (cases "map_of tree n")
    case None
    with 3 show ?thesis by (simp only: buildDenyTree.simps option.case deny_ok_mput deny_ok_Nil)
  next
    case (Some k)
    with 3 have "deny_ok k" using deny_ok_lookup by blast
    then show ?thesis
    proof (rule deny_ok_cases)
      assume "k = VNull"
      with Some 3 show ?thesis by simp
    next
      fix s assume "k = VObj s"
      with Some 3 \<open>deny_ok k\<close> show ?thesis by (simp del: deny_ok.simps(2) add: deny_ok_mput)
    qed
  qed
qed (simp_all del: deny_ok.simps(2) add: deny_ok_mput)

lemma covers_buildDenyTree:
  "path \<noteq> [] \<Longrightarrow> deny_ok (VObj t) \<Longrightarrow> covers (buildDenyTree path t) p \<longleftrightarrow> prefix path p \<or> covers t p"
proof (induction path t arbitrary: p rule: buildDenyTree.induct)
  case (2 n tree)
  then show ?case by (cases p) auto
next
  case (3 n n' path tree)
  show ?case
  proof (cases p)
    case (Cons x xs)
    show ?thesis
    proof (cases "map_of tree n")
      case None
      with 3 Cons show ?thesis by (auto simp del: deny_ok.simps(2) simp: deny_ok_Nil)
    next
      case (Some k)
      with 3 have k: "deny_ok k" using deny_ok_lookup by blast
      then show ?thesis
      proof (rule deny_ok_cases)
        assume "k = VNull"
        with Some Cons show ?thesis by auto
      next
        fix s assume "k = VObj s"
        with 3 Some Cons k show ?thesis by (auto simp del: deny_ok.simps(2))
      qed
    qed
  qed simp
qed simp

lemma deny_dict_covers:
  "deny_ok (VObj (deny_dict ks)) \<and> (covers (deny_dict ks) p \<longleftrightarrow> (\<exists>key \<in> set ks. prefix (split_on CHR ''.'' key) p))"
proof -
  have "deny_ok (VObj t) \<Longrightarrow>
      deny_ok (VObj (fold (\<lambda>key bl. buildDenyTree (split_on CHR ''.'' key) bl) ks t)) \<and>
      (covers (fold (\<lambda>key bl. buildDenyTree (split_on CHR ''.'' key) bl) ks t) p \<longleftrightarrow>
        covers t p \<or> (\<exists>key \<in> set ks. prefix (split_on CHR ''.'' key) p))" for t
    by (induction ks arbitrary: t)
      (auto simp del: deny_ok.simps(2) simp: buildDenyTree_ok covers_buildDenyTree)
  then show ?thesis unfolding deny_dict_def using deny_ok_Nil covers_Nil by blast
qed

section \<open>What the deletion leaves\<close>

fun subtree :: "jmap \<Rightarrow> string list \<Rightarrow> jmap" where
  "subtree t [] = t"
| "subtree t (k # ks) = (case map_of t k of Some (VObj s) \<Rightarrow> subtree s ks | _ \<Rightarrow> [])"

lemma subtree_Nil [simp]: "subtree [] ks = []"
  by (cases ks) auto

lemma recDelete_leaf: "(\<And>m. v \<noteq> VObj m) \<Longrightarrow> recDelete ref v = v"
  by (induction ref arbitrary: v) (auto split: gval.splits)

lemma recDelete_VObj:
  "deny_ok (VObj ref) \<Longrightarrow>
   \<exists>m'. recDelete ref (VObj m) = VObj m' \<and>
     (\<forall>k. map_of m' k =
        (case map_of ref k of
           None \<Rightarrow> map_of m k
         | Some rv \<Rightarrow> (case rv of VObj s \<Rightarrow> map_option (recDelete s) (map_of m k) | _ \<Rightarrow> None)))"
proof (induction ref arbitrary: m)
  case (Cons p ref)
  obtain rk rv where p: "p = (rk, rv)" by (cases p)
  have ok: "deny_ok (VObj ref)" "map_of ref rk = None" "deny_ok rv"
    using Cons.prems by (auto simp: p gmap_ok_Cons)
  define m1 where "m1 = (case map_of m rk of None \<Rightarrow> m | Some dv \<Rightarrow>
      (case rv of VNull \<Rightarrow> mdel rk m | VObj s \<Rightarrow> mput rk (recDelete s dv) m | _ \<Rightarrow> m))"
  have step: "recDelete (p # ref) (VObj m) = recDelete ref (VObj m1)"
    using ok(3) by (auto simp: p m1_def split: option.splits elim!: deny_ok_cases)
  from Cons.IH [OF ok(1), of m1] obtain m' where m':
    "recDelete ref (VObj m1) = VObj m'"
    "\<And>k. map_of m' k = (case map_of ref k of None \<Rightarrow> map_of m1 k
       | Some rv \<Rightarrow> (case rv of VObj s \<Rightarrow> map_option (recDelete s) (map_of m1 k) | _ \<Rightarrow> None))" by blast
  have "map_of m' k = (case map_of (p # ref) k of None \<Rightarrow> map_of m k
      | Some rv \<Rightarrow> (case rv of VObj s \<Rightarrow> map_option (recDelete s) (map_of m k) | _ \<Rightarrow> None))" for k
  proof (cases "k = rk")
    case True
    with ok(3) show ?thesis
      by (auto simp: m'(2) p ok(2) m1_def split: option.splits elim!: deny_ok_cases)
  next
    case False
    then have "map_of m1 k = map_of m k" by (auto simp: m1_def split: option.splits gval.splits)
    with False show ?thesis by (simp add: m'(2) p split: option.splits gval.splits)
  qed
  with m'(1) step show ?case by auto
qed simp

theorem vget_recDelete:
  "deny_ok (VObj ref) \<Longrightarrow>
   vget (recDelete ref v) p = (if covers ref p then None else map_option (recDelete (subtree ref p)) (vget v p))"
proof (induction p arbitrary: ref v)
  case (Cons k ks)
  show ?case
  proof (cases "\<exists>m. v = VObj m")
    case False
    then show ?thesis by (cases v) (auto simp: recDelete_leaf)
  next
    case True
    then obtain m where v: "v = VObj m" by blast
    from recDelete_VObj [OF Cons.prems, of m] obtain m' where m':
      "recDelete ref (VObj m) = VObj m'"
      "\<And>k. map_of m' k = (case map_of ref k of None \<Rightarrow> map_of m k
         | Some rv \<Rightarrow> (case rv of VObj s \<Rightarrow> map_option (recDelete s) (map_of m k) | _ \<Rightarrow> None))" by blast
    show ?thesis
    proof (cases "map_of ref k")
      case None
      have "recDelete [] = (\<lambda>v. v)" by auto
      with None v m' show ?thesis by (auto simp: option.map_ident split: option.splits)
    next
      case (Some rv)
      have ok: "deny_ok rv" using Cons.prems Some deny_ok_lookup by blast
      show ?thesis
      proof (rule deny_ok_cases [OF ok])
        assume "rv = VNull"
        with Some v m' show ?thesis by simp
      next
        fix s assume s: "rv = VObj s"
        with ok have "deny_ok (VObj s)" by simp
        with Some v m' s show ?thesis by (auto simp: Cons.IH split: option.splits)
      qed
    qed
  qed
qed simp


section \<open>What the allow list leaves\<close>

text \<open>
  An allow tree lets a path through when the path passes an entry that is not a map; \<open>leaf_at\<close>
  are the paths of those entries.
\<close>

fun allows :: "jmap \<Rightarrow> string list \<Rightarrow> bool" where
  "allows w [] = False"
| "allows w (k # ks) =
     (case map_of w k of None \<Rightarrow> False | Some (VObj s) \<Rightarrow> allows s ks | Some _ \<Rightarrow> True)"

fun leaf_at :: "jmap \<Rightarrow> string list \<Rightarrow> bool" where
  "leaf_at w [] = False"
| "leaf_at w (k # ks) =
     (case map_of w k of None \<Rightarrow> False | Some (VObj s) \<Rightarrow> leaf_at s ks | Some _ \<Rightarrow> ks = [])"

definition allow_insert :: "string list \<Rightarrow> jmap \<Rightarrow> jmap" where
  "allow_insert path w = buildDictPath w (butlast path) (mput (last path) (VBool True))"

lemma leaf_at_Nil [simp]: "\<not> leaf_at [] q"
  by (cases q) auto

lemma allows_leaf_at: "allows w p \<longleftrightarrow> (\<exists>q. prefix q p \<and> leaf_at w q)"
proof (induction p arbitrary: w)
  case (Cons k ks)
  have "(\<exists>q. prefix q (k # ks) \<and> leaf_at w q) \<longleftrightarrow> (\<exists>q. prefix q ks \<and> leaf_at w (k # q))"
    by (metis Cons_prefix_Cons leaf_at.simps(1) list.exhaust prefix_Cons)
  with Cons show ?case by (auto split: option.splits gval.splits)
qed simp

lemma allow_insert_Cons:
  "path \<noteq> [] \<Longrightarrow> allow_insert (n # path) w =
     mput n (VObj (allow_insert path (case map_of w n of Some (VObj c) \<Rightarrow> c | _ \<Rightarrow> []))) w"
  by (simp add: allow_insert_def Let_def)

lemma leaf_at_allow_insert:
  "path \<noteq> [] \<Longrightarrow> leaf_at (allow_insert path w) q \<longleftrightarrow>
     q = path \<or> leaf_at w q \<and> \<not> strict_prefix q path \<and> \<not> strict_prefix path q"
proof (induction path arbitrary: w q)
  case (Cons n path)
  show ?case
  proof (cases q)
    case (Cons k ks)
    show ?thesis
    proof (cases "path = []")
      case True
      with Cons show ?thesis by (cases ks) (auto simp: allow_insert_def)
    next
      case False
      with Cons Cons.IH [OF False] show ?thesis
        by (auto simp: allow_insert_Cons strict_prefix_def split: option.splits gval.splits)
    qed
  qed simp
qed simp

definition antichain :: "string list set \<Rightarrow> bool" where
  "antichain S \<longleftrightarrow> (\<forall>p \<in> S. \<forall>q \<in> S. \<not> strict_prefix p q)"

lemma allow_dict_eq: "allow_dict ks = fold (\<lambda>k w. allow_insert (split_on CHR ''.'' k) w) ks []"
  by (simp add: allow_dict_def allow_insert_def Let_def)

lemma leaf_at_allow_dict:
  "leaf_at (allow_dict ks) q \<Longrightarrow> q \<in> split_on CHR ''.'' ` set ks"
proof -
  have "leaf_at (fold (\<lambda>k w. allow_insert (split_on CHR ''.'' k) w) ks w) q \<Longrightarrow>
      leaf_at w q \<or> q \<in> split_on CHR ''.'' ` set ks" for w
  proof (induction ks arbitrary: w)
    case (Cons k ks)
    from Cons.prems have "leaf_at (allow_insert (split_on CHR ''.'' k) w) q \<or> q \<in> split_on CHR ''.'' ` set ks"
      using Cons.IH [of "allow_insert (split_on CHR ''.'' k) w"] by simp
    then show ?case by (auto simp: leaf_at_allow_insert)
  qed simp
  from this [of "[]"] show "leaf_at (allow_dict ks) q \<Longrightarrow> q \<in> split_on CHR ''.'' ` set ks"
    by (simp add: allow_dict_eq)
qed

lemma leaf_at_allow_dict_antichain:
  assumes "antichain (split_on CHR ''.'' ` set ks)"
  shows "leaf_at (allow_dict ks) q \<longleftrightarrow> q \<in> split_on CHR ''.'' ` set ks"
proof -
  have "antichain ({q. leaf_at w q} \<union> split_on CHR ''.'' ` set ks) \<Longrightarrow>
      leaf_at (fold (\<lambda>k w. allow_insert (split_on CHR ''.'' k) w) ks w) q \<longleftrightarrow>
      leaf_at w q \<or> q \<in> split_on CHR ''.'' ` set ks" for w
  proof (induction ks arbitrary: w)
    case (Cons k ks)
    have l: "leaf_at (allow_insert (split_on CHR ''.'' k) w) r \<longleftrightarrow> r = split_on CHR ''.'' k \<or> leaf_at w r" for r
      using Cons.prems by (auto simp: leaf_at_allow_insert antichain_def)
    then have "{r. leaf_at (allow_insert (split_on CHR ''.'' k) w) r} = insert (split_on CHR ''.'' k) {r. leaf_at w r}"
      by auto
    with Cons show ?case by (auto simp: l)
  qed simp
  from this [of "[]"] assms show ?thesis by (simp add: allow_dict_eq)
qed

lemma allow_dict_sound:
  "allows (allow_dict ks) p \<Longrightarrow> \<exists>key \<in> set ks. prefix (split_on CHR ''.'' key) p"
  by (auto simp: allows_leaf_at dest: leaf_at_allow_dict)

lemma allow_dict_complete:
  "antichain (split_on CHR ''.'' ` set ks) \<Longrightarrow>
   allows (allow_dict ks) p \<longleftrightarrow> (\<exists>key \<in> set ks. prefix (split_on CHR ''.'' key) p)"
  by (auto simp: allows_leaf_at leaf_at_allow_dict_antichain)

text \<open>The entry that the pruning leaves at a key.\<close>

definition allow_keep :: "jmap \<Rightarrow> string \<Rightarrow> gval \<Rightarrow> gval option" where
  "allow_keep w k v =
     (case map_of w k of
        None \<Rightarrow> None
      | Some (VObj sub) \<Rightarrow>
          (case v of
             VObj m \<Rightarrow> (let (b, m') = AllowlistPrune sub m in if b then None else Some (VObj m'))
           | _ \<Rightarrow> None)
      | Some _ \<Rightarrow> Some v)"

lemma AllowlistPrune_Cons:
  "AllowlistPrune w ((k, v) # d) =
     (case allow_keep w k v of
        None \<Rightarrow> AllowlistPrune w d
      | Some v' \<Rightarrow> (False, (k, v') # snd (AllowlistPrune w d)))"
  by (auto simp: allow_keep_def Let_def split: option.splits gval.splits prod.splits)

declare AllowlistPrune.simps(2) [simp del]

lemma AllowlistPrune_canDelete: "fst (AllowlistPrune w d) \<longleftrightarrow> snd (AllowlistPrune w d) = []"
  by (induction d) (auto simp: AllowlistPrune_Cons split: option.splits)

lemma map_of_AllowlistPrune:
  "gmap_ok d \<Longrightarrow> map_of (snd (AllowlistPrune w d)) k =
     (case map_of d k of None \<Rightarrow> None | Some v \<Rightarrow> allow_keep w k v)"
  by (induction d) (auto simp: gmap_ok_Cons AllowlistPrune_Cons split: option.splits)

lemma AllowlistPrune_empty_list: "AllowlistPrune [] d = (True, [])"
  by (induction d) (auto simp: AllowlistPrune_Cons allow_keep_def)

text \<open>What an allow list leaves at a position.\<close>

definition allowed_part :: "jmap \<Rightarrow> gval \<Rightarrow> string list \<Rightarrow> gval option" where
  "allowed_part w v p =
     (if allows w p then vget v p
      else case vget v p of
             Some (VObj m) \<Rightarrow>
               (let m' = snd (AllowlistPrune (subtree w p) m) in if m' = [] then None else Some (VObj m'))
           | _ \<Rightarrow> None)"

lemma vget_allow_keep:
  assumes "allow_keep w k v = r" "\<not> (\<exists>s m. map_of w k = Some (VObj s) \<and> v = VObj m)" "map_of d k = Some v"
  shows "(case r of None \<Rightarrow> None | Some v' \<Rightarrow> vget v' ks) = allowed_part w (VObj d) (k # ks)"
proof (cases "map_of w k")
  case None
  with assms show ?thesis
    by (auto simp: allowed_part_def allow_keep_def AllowlistPrune_empty_list split: option.splits gval.splits)
next
  case (Some u)
  show ?thesis
  proof (cases "\<exists>s. u = VObj s")
    case True
    with assms Some show ?thesis by (cases v; cases ks) (auto simp: allowed_part_def allow_keep_def)
  next
    case False
    with assms Some show ?thesis by (cases u) (auto simp: allowed_part_def allow_keep_def)
  qed
qed

lemma vget_allow_keep_obj:
  assumes "map_of w k = Some (VObj s)" "map_of d k = Some (VObj m)"
    "ks \<noteq> [] \<Longrightarrow> vget (VObj (snd (AllowlistPrune s m))) ks = allowed_part s (VObj m) ks"
  shows "(case allow_keep w k (VObj m) of None \<Rightarrow> None | Some v' \<Rightarrow> vget v' ks) = allowed_part w (VObj d) (k # ks)"
proof -
  have keep: "allow_keep w k (VObj m) =
      (if snd (AllowlistPrune s m) = [] then None else Some (VObj (snd (AllowlistPrune s m))))"
    by (simp add: allow_keep_def assms(1) split_beta AllowlistPrune_canDelete)
  show ?thesis
  proof (cases ks)
    case Nil
    with assms keep show ?thesis by (simp add: allowed_part_def Let_def)
  next
    case (Cons k' ks')
    have "subtree w (k # ks) = subtree s ks" by (simp add: assms(1))
    then have "allowed_part w (VObj d) (k # ks) = allowed_part s (VObj m) ks"
      using assms(1,2) unfolding allowed_part_def by (simp only: allows.simps vget.simps option.case gval.case)
    with keep Cons assms(3) show ?thesis by auto
  qed
qed

theorem vget_AllowlistPrune:
  "jmap_ok d \<Longrightarrow> p \<noteq> [] \<Longrightarrow> vget (VObj (snd (AllowlistPrune w d))) p = allowed_part w (VObj d) p"
proof (induction p arbitrary: w d)
  case (Cons k ks)
  show ?case
  proof (cases "map_of d k")
    case None
    with Cons.prems show ?thesis by (simp add: map_of_AllowlistPrune allowed_part_def)
  next
    case (Some v)
    have ok: "gval_ok v" using Cons.prems(1) Some by (rule jmap_ok_lookup)
    have "vget (VObj (snd (AllowlistPrune w d))) (k # ks) =
        (case allow_keep w k v of None \<Rightarrow> None | Some v' \<Rightarrow> vget v' ks)"
      using Cons.prems Some by (simp add: map_of_AllowlistPrune)
    also have "\<dots> = allowed_part w (VObj d) (k # ks)"
    proof (cases "\<exists>s m. map_of w k = Some (VObj s) \<and> v = VObj m")
      case False
      with Some show ?thesis by (blast intro: vget_allow_keep)
    next
      case True
      then obtain s m where sm: "map_of w k = Some (VObj s)" "v = VObj m" by blast
      with ok have "jmap_ok m" by (simp add: jmap_ok_def)
      then show ?thesis using vget_allow_keep_obj [OF sm(1), of d m ks] Cons.IH [of m s] Some sm(2) by simp
    qed
    finally show ?thesis .
  qed
qed simp

section \<open>The mapping\<close>

text \<open>The entries that a mapping with no interference between its keys moves.\<close>

fun renamed :: "(string \<times> string) list \<Rightarrow> jmap \<Rightarrow> jmap" where
  "renamed [] d = []"
| "renamed ((f, n) # ms) d =
     (case map_of d f of None \<Rightarrow> renamed ms d | Some v \<Rightarrow> (n, v) # renamed ms d)"

lemma renamed_cong:
  "(\<And>f. f \<in> fst ` set ms \<Longrightarrow> map_of d f = map_of d' f) \<Longrightarrow> renamed ms d = renamed ms d'"
  by (induction ms d rule: renamed.induct) (auto split: option.splits)

lemma renamed_notin: "n \<notin> snd ` set ms \<Longrightarrow> map_of (renamed ms d) n = None"
  by (induction ms d rule: renamed.induct) (auto split: option.splits)

lemma apply_mapping_lookup:
  "gmap_ok ms \<Longrightarrow> distinct (map snd ms) \<Longrightarrow> fst ` set ms \<inter> snd ` set ms = {} \<Longrightarrow>
   map_of (apply_mapping ms d) k =
     (case map_of (renamed ms d) k of
        Some v \<Rightarrow> Some v
      | None \<Rightarrow> if k \<in> fst ` set ms then None else map_of d k)"
proof (induction ms d rule: apply_mapping.induct)
  case (2 f n ms d)
  define d1 where "d1 = (case map_of d f of Some v \<Rightarrow> mdel f (mput n v d) | None \<Rightarrow> d)"
  have fn: "f \<noteq> n" "f \<notin> fst ` set ms" "n \<notin> fst ` set ms" "n \<notin> snd ` set ms" "f \<notin> snd ` set ms"
    using 2 by (auto simp: gmap_ok_def)
  have r: "renamed ms d1 = renamed ms d"
    using fn by (intro renamed_cong) (auto simp: d1_def split: option.splits)
  have d1: "map_of d1 j = (if j = f then None else if j = n then
      (case map_of d f of Some v \<Rightarrow> Some v | None \<Rightarrow> map_of d n) else map_of d j)" for j
    using fn by (auto simp: d1_def split: option.splits)
  have "map_of (apply_mapping ms d1) k =
      (case map_of (renamed ms d) k of Some v \<Rightarrow> Some v | None \<Rightarrow> if k \<in> fst ` set ms then None else map_of d1 k)"
    unfolding r [symmetric] d1_def
    by (rule "2.IH") (use 2 in \<open>auto simp: gmap_ok_def split: option.splits\<close>)
  with fn show ?case
    by (auto simp: d1 d1_def [symmetric] renamed_notin split: option.splits)
qed simp

lemma renamed_mem:
  "distinct (map snd ms) \<Longrightarrow>
   map_of (renamed ms d) n = Some v \<longleftrightarrow> (\<exists>f. (f, n) \<in> set ms \<and> map_of d f = Some v)"
proof (induction ms d rule: renamed.induct)
  case (2 f m ms d)
  then show ?case
    by (cases "map_of d f") (auto simp: image_iff Ball_def)
qed simp

lemma apply_mapping_perm:
  assumes "gmap_ok ms" "distinct (map snd ms)" "fst ` set ms \<inter> snd ` set ms = {}"
    and "set ms' = set ms \<and> gmap_ok ms'"
  shows "map_of (apply_mapping ms' d) = map_of (apply_mapping ms d)"
proof
  fix k
  have "distinct ms" "distinct ms'" using assms by (auto simp: gmap_ok_def distinct_map)
  with assms(4) have "mset ms' = mset ms" by (simp add: set_eq_iff_mset_eq_distinct)
  then have "mset (map snd ms') = mset (map snd ms)" by simp
  with assms(2) have d': "distinct (map snd ms')" using mset_eq_imp_distinct_iff by blast
  have "map_of (renamed ms' d) k = map_of (renamed ms d) k"
    using renamed_mem [OF assms(2), of d k] renamed_mem [OF d', of d k] assms(4)
    by (cases "map_of (renamed ms' d) k"; cases "map_of (renamed ms d) k") auto
  then show "map_of (apply_mapping ms' d) k = map_of (apply_mapping ms d) k"
    using assms d' by (simp add: apply_mapping_lookup)
qed

section \<open>Formatting keeps maps well formed\<close>

lemma recDelete_ok: "gval_ok v \<Longrightarrow> gval_ok (recDelete ref v)"
proof (induction ref v rule: recDelete.induct)
  case (2 rk rv ref v)
  show ?case
    using 2 by (auto simp del: gval_ok.simps(2) split: gval.splits option.splits)
      (metis jmap_ok_lookup jmap_ok_mput)
qed simp

lemma AllowlistPrune_dom: "map_of d k = None \<Longrightarrow> map_of (snd (AllowlistPrune w d)) k = None"
  by (induction d) (auto simp: AllowlistPrune_Cons split: option.splits if_splits)

lemma AllowlistPrune_ok: "jmap_ok d \<Longrightarrow> jmap_ok (snd (AllowlistPrune w d))"
proof (induction w d rule: AllowlistPrune.induct)
  case (2 w k v d)
  then have rest: "map_of d k = None" "gval_ok v" "jmap_ok d" "jmap_ok (snd (AllowlistPrune w d))"
    by (auto simp: jmap_ok_Cons)
  have "gval_ok v'" if "allow_keep w k v = Some v'" for v'
    using that rest 2
    by (auto simp del: gval_ok.simps(2) simp: allow_keep_def split_beta split: option.splits gval.splits if_splits)
      (metis prod.collapse)
  with rest show ?case
    by (auto simp: AllowlistPrune_Cons jmap_ok_Cons AllowlistPrune_dom split: option.splits)
qed simp


lemma apply_mapping_ok: "jmap_ok d \<Longrightarrow> jmap_ok (apply_mapping ms d)"
  by (induction ms d rule: apply_mapping.induct)
    (auto split: option.splits, metis jmap_ok_lookup jmap_ok_mput jmap_ok_mdel)

lemma recDelete_is_VObj: "\<exists>m'. recDelete ref (VObj m) = VObj m'"
  by (induction ref arbitrary: m) (auto split: option.splits gval.splits)

definition data_ok :: "Response \<Rightarrow> bool" where
  "data_ok r \<longleftrightarrow> (case rs_Data r of None \<Rightarrow> True | Some d \<Rightarrow> jmap_ok d)"

lemma extract_parts_ok:
  "(\<forall>m. d = Some m \<longrightarrow> jmap_ok m) \<Longrightarrow> extract_parts ps d = Some m' \<Longrightarrow> jmap_ok m'"
proof (induction ps d rule: extract_parts.induct)
  case (2 part parts d)
  have "jmap_ok m" if "nmap_get d part = Some v" "as_map v = Some (Some m)" for v m
    using that 2(2) by (cases d) (auto dest: jmap_ok_lookup)
  with 2 show ?case by (auto split: option.splits)
qed auto

lemma extractTarget_ok: "data_ok r \<Longrightarrow> data_ok (extractTarget t r)"
  by (auto simp: data_ok_def extractTarget_def split: option.splits intro: extract_parts_ok)

lemma newAllowlistingFilter_ok: "data_ok r \<Longrightarrow> data_ok (newAllowlistingFilter ks r)"
  using AllowlistPrune_ok
  by (auto simp: data_ok_def newAllowlistingFilter_def Let_def split_beta split: option.splits)

lemma newDenylistingFilter_ok: "data_ok r \<Longrightarrow> data_ok (newDenylistingFilter ks r)"
proof (cases "rs_Data r")
  case (Some d)
  assume "data_ok r"
  with Some have "gval_ok (recDelete (deny_dict ks) (VObj d))"
    by (intro recDelete_ok) (simp add: data_ok_def jmap_ok_def)
  with Some show ?thesis
    using recDelete_is_VObj [of "deny_dict ks" d]
    by (auto simp: data_ok_def newDenylistingFilter_def simp del: gval_ok.simps(2))
qed (simp add: data_ok_def newDenylistingFilter_def)

lemma denylist_exactly:
  assumes "rs_Data r = Some d"
  shows "(vget (of_map (rs_Data (newDenylistingFilter ks r))) p = None \<longleftrightarrow>
      (\<exists>key \<in> set ks. prefix (split_on CHR ''.'' key) p) \<or> vget (VObj d) p = None) \<and>
    ((\<nexists>m. v = VObj m) \<longrightarrow>
      (vget (of_map (rs_Data (newDenylistingFilter ks r))) p = Some v \<longleftrightarrow>
        \<not> (\<exists>key \<in> set ks. prefix (split_on CHR ''.'' key) p) \<and> vget (VObj d) p = Some v))"
proof -
  obtain d' where d': "recDelete (deny_dict ks) (VObj d) = VObj d'"
    using recDelete_is_VObj by blast
  then have "of_map (rs_Data (newDenylistingFilter ks r)) = recDelete (deny_dict ks) (VObj d)"
    by (simp add: newDenylistingFilter_def assms)
  then have g: "vget (of_map (rs_Data (newDenylistingFilter ks r))) p =
      (if \<exists>key \<in> set ks. prefix (split_on CHR ''.'' key) p then None
       else map_option (recDelete (subtree (deny_dict ks) p)) (vget (VObj d) p))"
    using vget_recDelete [of "deny_dict ks" "VObj d" p] deny_dict_covers by simp
  have "(\<nexists>m. v = VObj m) \<Longrightarrow> recDelete t w = v \<longleftrightarrow> w = v" for t w
    using recDelete_is_VObj [of t] recDelete_leaf [of w t] by metis
  with g show ?thesis by auto
qed

section \<open>Properties\<close>

text \<open>
  C12: The deny list of a backend removes from the response exactly the positions at or below
  a listed path: a position of the result is missing when a listed path, split at its dots, is
  a prefix of it (or it was missing before), every other position is still there, and the
  values that are not objects are unchanged.
\<close>

theorem denylist_removes_exactly:
  assumes "rs_Data r = Some d"
  shows "(vget (of_map (rs_Data (newDenylistingFilter ks r))) p = None \<longleftrightarrow>
      (\<exists>key \<in> set ks. prefix (split_on CHR ''.'' key) p) \<or> vget (VObj d) p = None) \<and>
    ((\<nexists>m. v = VObj m) \<longrightarrow>
      (vget (of_map (rs_Data (newDenylistingFilter ks r))) p = Some v \<longleftrightarrow>
        \<not> (\<exists>key \<in> set ks. prefix (split_on CHR ''.'' key) p) \<and> vget (VObj d) p = Some v))"
  by (rule denylist_exactly [OF assms])

theorem denylist_removes_exactly_witness:
  "vget (of_map (rs_Data (newDenylistingFilter [''a.b'']
     (mk_Response (Some [(''a'', VObj [(''b'', VInt 1), (''c'', VInt 2)])]) True)))) [''a'', ''c'']
   = Some (VInt 2)"
  using denylist_removes_exactly
    [of "mk_Response (Some [(''a'', VObj [(''b'', VInt 1), (''c'', VInt 2)])]) True"
        "[(''a'', VObj [(''b'', VInt 1), (''c'', VInt 2)])]" "[''a.b'']" "[''a'', ''c'']" "VInt 2"]
  by (simp add: mk_Response_def)

text \<open>
  C13: The allow list of a backend keeps exactly what is at or below a listed path: such a
  position of the result has its former value, objects included, and at every other position
  the result has nothing, or an object that still holds something allowed. The listed paths
  must not be prefixes of each other.
\<close>

theorem allowlist_keeps_exactly:
  assumes "rs_Data r = Some d" "jmap_ok d" "p \<noteq> []"
    and "antichain (split_on CHR ''.'' ` set ks)"
  shows "((\<exists>key \<in> set ks. prefix (split_on CHR ''.'' key) p) \<longrightarrow>
      vget (of_map (rs_Data (newAllowlistingFilter ks r))) p = vget (VObj d) p) \<and>
    (\<not> (\<exists>key \<in> set ks. prefix (split_on CHR ''.'' key) p) \<longrightarrow>
      vget (of_map (rs_Data (newAllowlistingFilter ks r))) p = None \<or>
      (\<exists>m. m \<noteq> [] \<and> vget (of_map (rs_Data (newAllowlistingFilter ks r))) p = Some (VObj m)))"
proof -
  have "of_map (rs_Data (newAllowlistingFilter ks r)) = VObj (snd (AllowlistPrune (allow_dict ks) d))"
    using AllowlistPrune_canDelete [of "allow_dict ks" d]
    by (simp add: newAllowlistingFilter_def assms(1) split_beta)
  then show ?thesis
    using vget_AllowlistPrune [OF assms(2,3), of "allow_dict ks"] allow_dict_complete [OF assms(4), of p]
    by (auto simp: allowed_part_def Let_def split: option.splits gval.splits)
qed

theorem allowlist_keeps_exactly_witness:
  "vget (of_map (rs_Data (newAllowlistingFilter [''a.b'']
     (mk_Response (Some [(''a'', VObj [(''b'', VInt 1), (''c'', VInt 2)])]) True)))) [''a'', ''b'']
   = Some (VInt 1)"
  using allowlist_keeps_exactly
    [of "mk_Response (Some [(''a'', VObj [(''b'', VInt 1), (''c'', VInt 2)])]) True"
        "[(''a'', VObj [(''b'', VInt 1), (''c'', VInt 2)])]" "[''a'', ''b'']" "[''a.b'']"]
  by (simp add: mk_Response_def antichain_def jmap_ok_def gmap_ok_def)

text \<open>
  Whatever the list, an allow list lets nothing else through: a value of the result that is
  not an object lies at or below a listed path.
\<close>

theorem allowlist_sound:
  assumes "rs_Data r = Some d" "jmap_ok d" "p \<noteq> []" "\<nexists>m. v = VObj m"
    and "vget (of_map (rs_Data (newAllowlistingFilter ks r))) p = Some v"
  shows "vget (VObj d) p = Some v \<and> (\<exists>key \<in> set ks. prefix (split_on CHR ''.'' key) p)"
proof -
  have "of_map (rs_Data (newAllowlistingFilter ks r)) = VObj (snd (AllowlistPrune (allow_dict ks) d))"
    using AllowlistPrune_canDelete [of "allow_dict ks" d]
    by (simp add: newAllowlistingFilter_def assms(1) split_beta)
  then have "allows (allow_dict ks) p \<and> vget (VObj d) p = Some v"
    using vget_AllowlistPrune [OF assms(2,3), of "allow_dict ks"] assms(4,5)
    by (auto simp: allowed_part_def Let_def split: if_splits option.splits gval.splits)
  then show ?thesis using allow_dict_sound by blast
qed

theorem allowlist_sound_witness:
  "vget (VObj [(''a'', VInt 1), (''b'', VInt 2)]) [''a''] = Some (VInt 1) \<and>
   (\<exists>key \<in> set [''a.b'', ''a'']. prefix (split_on CHR ''.'' key) [''a''])"
proof (rule allowlist_sound)
  show "vget (of_map (rs_Data (newAllowlistingFilter [''a.b'', ''a'']
      (mk_Response (Some [(''a'', VInt 1), (''b'', VInt 2)]) True)))) [''a''] = Some (VInt 1)"
    by code_simp
qed (simp_all add: mk_Response_def jmap_ok_def gmap_ok_def)

text \<open>
  The order of overlapping entries of an allow list matters: after the whole of \<open>a\<close>, the
  entry \<open>a.b\<close> narrows the list to \<open>a.b\<close>, while in the other order the list allows all of \<open>a\<close>.
\<close>

theorem allowlist_order_matters:
  "rs_Data (newAllowlistingFilter [''a'', ''a.b'']
     (mk_Response (Some [(''a'', VObj [(''b'', VInt 1), (''c'', VInt 2)])]) True))
     = Some [(''a'', VObj [(''b'', VInt 1)])] \<and>
   rs_Data (newAllowlistingFilter [''a.b'', ''a'']
     (mk_Response (Some [(''a'', VObj [(''b'', VInt 1), (''c'', VInt 2)])]) True))
     = Some [(''a'', VObj [(''b'', VInt 1), (''c'', VInt 2)])]"
  by code_simp

text \<open>
  When the new names of a mapping are distinct and none of them is a former name, the
  renaming loop gives the same result in every iteration order of the mapping: a present
  field moves to its new name, the former names are gone, every other field is untouched.
\<close>

theorem mapping_moves_fields:
  assumes "gmap_ok ms" "distinct (map snd ms)" "fst ` set ms \<inter> snd ` set ms = {}"
  shows "((f, n) \<in> set ms \<longrightarrow> map_of d f = Some v \<longrightarrow> map_of (apply_mapping ms d) n = Some v) \<and>
    (f \<in> fst ` set ms \<longrightarrow> map_of (apply_mapping ms d) f = None) \<and>
    (k \<notin> fst ` set ms \<union> snd ` set ms \<longrightarrow> map_of (apply_mapping ms d) k = map_of d k) \<and>
    (set ms' = set ms \<and> gmap_ok ms' \<longrightarrow> map_of (apply_mapping ms' d) = map_of (apply_mapping ms d))"
proof (intro conjI impI)
  assume "(f, n) \<in> set ms" "map_of d f = Some v"
  with renamed_mem [OF assms(2)] have "map_of (renamed ms d) n = Some v" by blast
  then show "map_of (apply_mapping ms d) n = Some v" by (simp add: apply_mapping_lookup [OF assms])
next
  assume f: "f \<in> fst ` set ms"
  with assms(3) have "map_of (renamed ms d) f = None" by (intro renamed_notin) blast
  with f show "map_of (apply_mapping ms d) f = None" by (simp add: apply_mapping_lookup [OF assms])
next
  assume "k \<notin> fst ` set ms \<union> snd ` set ms"
  then show "map_of (apply_mapping ms d) k = map_of d k"
    by (simp add: apply_mapping_lookup [OF assms] renamed_notin)
qed (rule apply_mapping_perm [OF assms])

theorem mapping_moves_fields_witness:
  "map_of (apply_mapping [(''a'', ''x''), (''b'', ''y'')] [(''a'', VInt 1), (''c'', VInt 2)]) ''x'' = Some (VInt 1)"
  using mapping_moves_fields
    [of "[(''a'', ''x''), (''b'', ''y'')]" "''a''" "''x''" "[(''a'', VInt 1), (''c'', VInt 2)]" "VInt 1"]
  by (simp add: gmap_ok_def)

text \<open>
  A mapping of a field to itself, and a mapping of \<open>a\<close> to \<open>a.b\<close> (whose new name is cut at
  the dot), deletes the field.
\<close>

theorem mapping_to_itself_deletes:
  "map_of (apply_mapping (sanitizedMappings [(k, k)]) d) k = None \<and>
   map_of (apply_mapping (sanitizedMappings [(''a'', ''a.b'')]) d) ''a'' = None"
  by (auto simp: sanitizedMappings_def split: option.splits)

lemma entity_Format_ok: "data_ok r \<Longrightarrow> data_ok (entity_Format (new_entityFormatter remote) r)"
proof -
  assume ok: "data_ok r"
  define e where "e = new_entityFormatter remote"
  have filter_ok: "data_ok x \<Longrightarrow> data_ok (ef_PropertyFilter e x)" for x
    by (simp add: e_def new_entityFormatter_def newAllowlistingFilter_ok newDenylistingFilter_ok)
  have map_ok: "data_ok x \<Longrightarrow> data_ok (x\<lparr>rs_Data := map_option (apply_mapping ms) (rs_Data x)\<rparr>)" for x ms
    by (auto simp: data_ok_def apply_mapping_ok split: option.splits)
  have prefix_ok: "data_ok x \<Longrightarrow> data_ok (x\<lparr>rs_Data := Some [(p, of_map (rs_Data x))]\<rparr>)" for x p
    by (cases "rs_Data x") (auto simp: data_ok_def jmap_ok_Cons)
  have both_ok: "data_ok x \<Longrightarrow>
      data_ok (x\<lparr>rs_Data := Some [(p, of_map (map_option (apply_mapping ms) (rs_Data x)))]\<rparr>)" for x p ms
    using prefix_ok [OF map_ok] by simp
  show ?thesis
    unfolding e_def [symmetric] entity_Format_def Let_def
    by (auto intro!: both_ok prefix_ok map_ok filter_ok extractTarget_ok ok)
qed

end
