(* ===== verification/Regexp.thy ===== *)
theory Regexp
  imports Prelude
begin

text \<open>
  The part of the package regexp that the configuration and the merger use: patterns of
  character classes, greedy repetitions of a class, options, alternatives, groups and the two
  anchors, matched leftmost-first. \<open>rmatch\<close> lists the ways to match in order of preference;
  \<open>rmatch_iff\<close> shows that they are exactly the matches of the pattern's meaning.
\<close>

datatype regex =
    REmpty
  | RCls "char \<Rightarrow> bool"
  | RStar "char \<Rightarrow> bool"
  | RSeq regex regex
  | RAlt regex regex
  | ROpt regex
  | RGrp nat regex
  | RBol
  | REol

type_synonym captures = "(nat \<times> string) list"

fun star_splits :: "(char \<Rightarrow> bool) \<Rightarrow> string \<Rightarrow> (string \<times> string) list" where
  "star_splits p [] = [([], [])]"
| "star_splits p (x # xs) =
     (if p x then map (\<lambda>(a, b). (x # a, b)) (star_splits p xs) else []) @ [([], x # xs)]"

text \<open>
  \<open>rmatch r i s c\<close>: the matches of \<open>r\<close> at position \<open>i\<close> of the subject, whose rest is \<open>s\<close>:
  position, rest and captures after the match, the preferred one first.
\<close>

fun rmatch :: "regex \<Rightarrow> nat \<Rightarrow> string \<Rightarrow> captures \<Rightarrow> (nat \<times> string \<times> captures) list" where
  "rmatch REmpty i s c = [(i, s, c)]"
| "rmatch (RCls p) i s c = (case s of [] \<Rightarrow> [] | x # xs \<Rightarrow> if p x then [(Suc i, xs, c)] else [])"
| "rmatch (RStar p) i s c = map (\<lambda>(a, b). (i + length a, b, c)) (star_splits p s)"
| "rmatch (RSeq r1 r2) i s c =
     concat (map (\<lambda>(i', s', c'). rmatch r2 i' s' c') (rmatch r1 i s c))"
| "rmatch (RAlt r1 r2) i s c = rmatch r1 i s c @ rmatch r2 i s c"
| "rmatch (ROpt r) i s c = rmatch r i s c @ [(i, s, c)]"
| "rmatch (RGrp n r) i s c =
     map (\<lambda>(i', s', c'). (i', s', mput n (take (i' - i) s) c')) (rmatch r i s c)"
| "rmatch RBol i s c = (if i = 0 then [(i, s, c)] else [])"
| "rmatch REol i s c = (if s = [] then [(i, s, c)] else [])"

text \<open>
  The leftmost match from position \<open>i\<close> on: start, end, matched text, captures, rest.
\<close>

fun find_first :: "regex \<Rightarrow> nat \<Rightarrow> string \<Rightarrow> (nat \<times> nat \<times> string \<times> captures \<times> string) option" where
  "find_first r i [] =
     (case rmatch r i [] [] of (e, s', c) # _ \<Rightarrow> Some (i, e, [], c, s') | [] \<Rightarrow> None)"
| "find_first r i (x # xs) =
     (case rmatch r i (x # xs) [] of
        (e, s', c) # _ \<Rightarrow> Some (i, e, take (e - i) (x # xs), c, s')
      | [] \<Rightarrow> find_first r (Suc i) xs)"

definition MatchString :: "regex \<Rightarrow> string \<Rightarrow> bool" where
  "MatchString r s \<longleftrightarrow> find_first r 0 s \<noteq> None"

text \<open>
  \<open>FindAllStringSubmatch(s, -1)\<close>, the loop \<open>allMatches\<close>: an empty match that abuts the
  previous match is dropped, and after an empty match at the search position the search moves
  by one character. The test on the length always holds (\<open>find_first_length\<close>).
\<close>

function find_all :: "regex \<Rightarrow> nat \<Rightarrow> nat option \<Rightarrow> string \<Rightarrow> (string \<times> captures) list" where
  "find_all r i prevMatchEnd s =
     (case find_first r i s of
        None \<Rightarrow> []
      | Some (b, e, m, c, s') \<Rightarrow>
          let accept = (e \<noteq> i \<or> prevMatchEnd \<noteq> Some b);
              rest = (if e = i
                      then (case s of [] \<Rightarrow> [] | _ # xs \<Rightarrow> find_all r (Suc i) (Some e) xs)
                      else if length s' < length s then find_all r e (Some e) s' else [])
          in if accept then (m, c) # rest else rest)"
  by pat_completeness auto
termination
  by (relation "measure (\<lambda>(r, i, q, s). length s)") auto

declare find_all.simps [simp del]

definition FindAllStringSubmatch :: "regex \<Rightarrow> string \<Rightarrow> (string \<times> captures) list" where
  "FindAllStringSubmatch r s = find_all r 0 None s"

text \<open>\<open>match[n]\<close>: the text of a group, empty when the group took no part.\<close>

definition submatch :: "string \<times> captures \<Rightarrow> nat \<Rightarrow> string" where
  "submatch m n = (if n = 0 then fst m else case map_of (snd m) n of None \<Rightarrow> [] | Some t \<Rightarrow> t)"

section \<open>Building patterns\<close>

definition is_letter :: "char \<Rightarrow> bool" where
  "is_letter c =
     (let n = (of_char c :: nat) in (65 \<le> n \<and> n \<le> 90) \<or> (97 \<le> n \<and> n \<le> 122))"

definition is_word :: "char \<Rightarrow> bool" where
  "is_word c \<longleftrightarrow> is_letter c \<or> is_digit c \<or> c = CHR ''_''"

definition RLit :: "string \<Rightarrow> regex" where
  "RLit s = foldr (\<lambda>x r. RSeq (RCls (\<lambda>c. c = x)) r) s REmpty"

definition RPlus :: "(char \<Rightarrow> bool) \<Rightarrow> regex" where
  "RPlus p = RSeq (RCls p) (RStar p)"

fun RBetween :: "nat \<Rightarrow> nat \<Rightarrow> (char \<Rightarrow> bool) \<Rightarrow> regex" where
  "RBetween m 0 p = REmpty"
| "RBetween m (Suc n) p =
     (if m = 0 then ROpt (RSeq (RCls p) (RBetween 0 n p)) else RSeq (RCls p) (RBetween (m - 1) n p))"

definition not_newline :: "char \<Rightarrow> bool" where
  "not_newline c \<longleftrightarrow> c \<noteq> CHR 0x0A"

section \<open>Meaning\<close>

text \<open>\<open>means r i u s\<close>: at position \<open>i\<close> the pattern can consume \<open>u\<close> when \<open>s\<close> follows.\<close>

fun means :: "regex \<Rightarrow> nat \<Rightarrow> string \<Rightarrow> string \<Rightarrow> bool" where
  "means REmpty i u s \<longleftrightarrow> u = []"
| "means (RCls p) i u s \<longleftrightarrow> (\<exists>x. u = [x] \<and> p x)"
| "means (RStar p) i u s \<longleftrightarrow> list_all p u"
| "means (RSeq r1 r2) i u s \<longleftrightarrow>
     (\<exists>u1 u2. u = u1 @ u2 \<and> means r1 i u1 (u2 @ s) \<and> means r2 (i + length u1) u2 s)"
| "means (RAlt r1 r2) i u s \<longleftrightarrow> means r1 i u s \<or> means r2 i u s"
| "means (ROpt r) i u s \<longleftrightarrow> u = [] \<or> means r i u s"
| "means (RGrp n r) i u s \<longleftrightarrow> means r i u s"
| "means RBol i u s \<longleftrightarrow> u = [] \<and> i = 0"
| "means REol i u s \<longleftrightarrow> u = [] \<and> s = []"

lemma rmatch_RSeq_mem:
  "z \<in> set (rmatch (RSeq r1 r2) i s c) \<longleftrightarrow>
   (\<exists>i1 s1 c1. (i1, s1, c1) \<in> set (rmatch r1 i s c) \<and> z \<in> set (rmatch r2 i1 s1 c1))"
proof
  assume "z \<in> set (rmatch (RSeq r1 r2) i s c)"
  then show "\<exists>i1 s1 c1. (i1, s1, c1) \<in> set (rmatch r1 i s c) \<and> z \<in> set (rmatch r2 i1 s1 c1)" by auto
next
  assume "\<exists>i1 s1 c1. (i1, s1, c1) \<in> set (rmatch r1 i s c) \<and> z \<in> set (rmatch r2 i1 s1 c1)"
  then obtain i1 s1 c1 where m: "(i1, s1, c1) \<in> set (rmatch r1 i s c)" "z \<in> set (rmatch r2 i1 s1 c1)"
    by blast
  have "z \<in> set (case (i1, s1, c1) of (i', s', c') \<Rightarrow> rmatch r2 i' s' c')" using m(2) by simp
  with m(1) show "z \<in> set (rmatch (RSeq r1 r2) i s c)" unfolding rmatch.simps set_concat set_map by blast
qed

lemma star_splits_iff: "(a, b) \<in> set (star_splits p s) \<longleftrightarrow> s = a @ b \<and> list_all p a"
proof (induction p s arbitrary: a rule: star_splits.induct)
  case (2 p x xs)
  then show ?case by (cases a) auto
qed auto

lemma rmatch_iff:
  "(\<exists>c'. (i', s', c') \<in> set (rmatch r i s c)) \<longleftrightarrow>
   (\<exists>u. s = u @ s' \<and> i' = i + length u \<and> means r i u s')"
proof (induction r arbitrary: i s c i' s')
  case (RCls p)
  show ?case by (auto split: list.splits)
next
  case (RStar p)
  have "set (rmatch (RStar p) i s c) = (\<lambda>(a, b). (i + length a, b, c)) ` {(a, b). s = a @ b \<and> list_all p a}"
    using star_splits_iff [of _ _ p s] by auto
  then show ?case by auto
next
  case (RSeq r1 r2)
  have "(\<exists>c'. (i', s', c') \<in> set (rmatch (RSeq r1 r2) i s c)) \<longleftrightarrow>
      (\<exists>i1 s1 c1. (i1, s1, c1) \<in> set (rmatch r1 i s c) \<and> (\<exists>c'. (i', s', c') \<in> set (rmatch r2 i1 s1 c1)))"
    unfolding rmatch_RSeq_mem by blast
  also have "\<dots> \<longleftrightarrow> (\<exists>i1 s1. (\<exists>c1. (i1, s1, c1) \<in> set (rmatch r1 i s c)) \<and>
      (\<exists>u. s1 = u @ s' \<and> i' = i1 + length u \<and> means r2 i1 u s'))"
    unfolding RSeq.IH(2) by blast
  also have "\<dots> \<longleftrightarrow> (\<exists>u. s = u @ s' \<and> i' = i + length u \<and> means (RSeq r1 r2) i u s')"
    unfolding RSeq.IH(1)
  proof (intro iffI; elim exE conjE)
    fix i1 s1 u v
    assume "s = u @ s1" "i1 = i + length u" "means r1 i u s1" "s1 = v @ s'" "i' = i1 + length v" "means r2 i1 v s'"
    then have "s = (u @ v) @ s'" "i' = i + length (u @ v)" "means (RSeq r1 r2) i (u @ v) s'" by auto
    then show "\<exists>u. s = u @ s' \<and> i' = i + length u \<and> means (RSeq r1 r2) i u s'" by blast
  next
    fix u
    assume u: "s = u @ s'" "i' = i + length u" "means (RSeq r1 r2) i u s'"
    then obtain u1 u2 where "u = u1 @ u2" "means r1 i u1 (u2 @ s')" "means r2 (i + length u1) u2 s'" by auto
    with u have "s = u1 @ (u2 @ s')" "i' = i + length u1 + length u2" by auto
    then show "\<exists>i1 s1. (\<exists>u. s = u @ s1 \<and> i1 = i + length u \<and> means r1 i u s1) \<and>
        (\<exists>u. s1 = u @ s' \<and> i' = i1 + length u \<and> means r2 i1 u s')"
      using \<open>means r1 i u1 (u2 @ s')\<close> \<open>means r2 (i + length u1) u2 s'\<close> by blast
  qed
  finally show ?case .
next
  case (RAlt r1 r2)
  show ?case using RAlt.IH(1) [of i' s' i s c] RAlt.IH(2) [of i' s' i s c] by auto
next
  case (ROpt r)
  show ?case using ROpt.IH [of i' s' i s c] by auto
next
  case (RGrp n r)
  show ?case using RGrp.IH [of i' s' i s c] by (force simp: image_iff)
qed auto

lemma rmatch_progress:
  "(i', s', c') \<in> set (rmatch r i s c) \<Longrightarrow> \<exists>u. s = u @ s' \<and> i' = i + length u \<and> means r i u s'"
  using rmatch_iff by blast

lemma rmatch_Nil_iff: "rmatch r i s c = [] \<longleftrightarrow> (\<nexists>u v. s = u @ v \<and> means r i u v)"
  using rmatch_iff [of _ _ r i s c]
  by (metis list.set_intros(1) neq_Nil_conv prod_cases3 equals0D set_empty)

lemma find_first_length:
  "find_first r i s = Some (b, e, m, c, s') \<Longrightarrow> i \<le> b \<and> b \<le> e \<and> e + length s' = i + length s"
proof (induction r i s rule: find_first.induct)
  case (1 r i)
  show ?case
  proof (cases "rmatch r i [] []")
    case Nil
    with 1 show ?thesis by auto
  next
    case (Cons a l)
    obtain e' s'' c'' where a: "a = (e', s'', c'')" by (cases a)
    with Cons have "(e', s'', c'') \<in> set (rmatch r i [] [])" by simp
    then have "s'' = [] \<and> e' = i" using rmatch_progress by fastforce
    then show ?thesis using 1 Cons a by auto
  qed
next
  case (2 r i x xs)
  show ?case
  proof (cases "rmatch r i (x # xs) []")
    case Nil
    with 2 show ?thesis by auto
  next
    case (Cons a l)
    obtain e' s'' c'' where a: "a = (e', s'', c'')" by (cases a)
    with Cons have "(e', s'', c'') \<in> set (rmatch r i (x # xs) [])" by simp
    then have "\<exists>u. x # xs = u @ s'' \<and> e' = i + length u" using rmatch_progress by blast
    moreover have "(\<exists>u. x # xs = u @ s'' \<and> e' = i + length u) \<Longrightarrow> e' + length s'' = i + length (x # xs)"
      by (metis add.assoc length_append)
    ultimately show ?thesis using 2 Cons a by auto
  qed
qed

text \<open>\<open>MatchString\<close> answers whether the pattern matches somewhere in the text.\<close>

lemma find_first_iff:
  "find_first r i s \<noteq> None \<longleftrightarrow> (\<exists>a u v. s = a @ u @ v \<and> means r (i + length a) u v)"
proof (induction s arbitrary: i)
  case Nil
  show ?case using rmatch_Nil_iff [of r i "[]" "[]"] by (auto split: list.splits)
next
  case (Cons x xs)
  have "(\<exists>a u v. x # xs = a @ u @ v \<and> means r (i + length a) u v) \<longleftrightarrow>
      (\<exists>u v. x # xs = u @ v \<and> means r i u v) \<or> (\<exists>a u v. xs = a @ u @ v \<and> means r (Suc i + length a) u v)"
    (is "?L \<longleftrightarrow> ?R1 \<or> ?R2")
  proof
    assume ?L
    then obtain a u v where e: "x # xs = a @ u @ v" "means r (i + length a) u v" by blast
    show "?R1 \<or> ?R2"
    proof (cases a)
      case Nil
      with e show ?thesis by auto
    next
      case (Cons y ys)
      with e have "xs = ys @ u @ v" "means r (Suc i + length ys) u v" by auto
      then show ?thesis by blast
    qed
  next
    assume "?R1 \<or> ?R2"
    then show ?L
    proof
      assume ?R1
      then show ?L by (metis add_0_right append_Nil list.size(3))
    next
      assume ?R2
      then obtain a u v where "xs = a @ u @ v" "means r (Suc i + length a) u v" by blast
      then have "x # xs = (x # a) @ u @ v" "means r (i + length (x # a)) u v" by auto
      then show ?L by blast
    qed
  qed
  then show ?case
    using rmatch_Nil_iff [of r i "x # xs" "[]"] Cons.IH [of "Suc i"] by (auto split: list.splits)
qed

theorem MatchString_iff: "MatchString r s \<longleftrightarrow> (\<exists>a u v. s = a @ u @ v \<and> means r (length a) u v)"
  using find_first_iff [of r 0 s] by (simp add: MatchString_def)

end
