(* ===== verification/Merging.thy ===== *)
theory Merging
  imports ProxyTypes Regexp Register
begin

text \<open>
  proxy/merging.go and proxy/register.go: the middleware that merges the responses of the
  backends of an endpoint, in parallel or one after the other.

  The accumulator mutates the response it keeps and the data map inside it, and the sequential
  merger keeps pointers to the same objects, so responses and data maps live in a store here
  (\<open>heap\<close>), a response holding the address of its map. The refinement lemmas relate the
  store operations to functions on response values.
\<close>

section \<open>The store\<close>

record hresp =
  hr_Data :: "nat option"
  hr_IsComplete :: bool
  hr_Metadata :: Metadata
  hr_Io :: "io_reader option"

record heap =
  h_resp :: "hresp list"
  h_map :: "jmap list"

definition empty_heap :: heap where
  "empty_heap = \<lparr>h_resp = [], h_map = []\<rparr>"

text \<open>A response value placed in the store, with a map of its own; its address.\<close>

definition alloc :: "Response \<Rightarrow> heap \<Rightarrow> nat \<times> heap" where
  "alloc r h =
     (length (h_resp h),
      (case rs_Data r of
         None \<Rightarrow> h\<lparr>h_resp := h_resp h @ [\<lparr>hr_Data = None, hr_IsComplete = rs_IsComplete r,
                                          hr_Metadata = rs_Metadata r, hr_Io = rs_Io r\<rparr>]\<rparr>
       | Some d \<Rightarrow> h\<lparr>h_resp := h_resp h @ [\<lparr>hr_Data = Some (length (h_map h)), hr_IsComplete = rs_IsComplete r,
                                            hr_Metadata = rs_Metadata r, hr_Io = rs_Io r\<rparr>],
                     h_map := h_map h @ [d]\<rparr>))"

definition deref :: "heap \<Rightarrow> nat \<Rightarrow> Response" where
  "deref h a =
     (let r = h_resp h ! a
      in \<lparr>rs_Data = map_option (\<lambda>d. h_map h ! d) (hr_Data r), rs_IsComplete = hr_IsComplete r,
          rs_Metadata = hr_Metadata r, rs_Io = hr_Io r\<rparr>)"

definition set_complete :: "nat \<Rightarrow> bool \<Rightarrow> heap \<Rightarrow> heap" where
  "set_complete a b h = h\<lparr>h_resp := (h_resp h)[a := (h_resp h ! a)\<lparr>hr_IsComplete := b\<rparr>]\<rparr>"

section \<open>Response combiners\<close>

type_synonym ResponseCombiner = "nat \<Rightarrow> nat option list \<Rightarrow> heap \<Rightarrow> nat option \<times> heap"

text \<open>
  The loop of \<open>combineData\<close> over the parts, from \<open>isComplete\<close>, \<open>retResponse\<close> and the
  store. The map of \<open>retResponse\<close> is the map of the first part that has one: the later parts
  are written into it.
\<close>

fun combine_loop :: "nat option list \<Rightarrow> bool \<Rightarrow> nat option \<Rightarrow> heap \<Rightarrow> bool \<times> nat option \<times> heap" where
  "combine_loop [] isComplete ret h = (isComplete, ret, h)"
| "combine_loop (part # parts) isComplete ret h =
     (case part of
        None \<Rightarrow> combine_loop parts False ret h
      | Some p \<Rightarrow>
          (case hr_Data (h_resp h ! p) of
             None \<Rightarrow> combine_loop parts False ret h
           | Some d \<Rightarrow>
               (let isComplete = (isComplete \<and> hr_IsComplete (h_resp h ! p))
                in case ret of
                     None \<Rightarrow>
                       combine_loop parts isComplete (Some (length (h_resp h)))
                         (h\<lparr>h_resp := h_resp h @ [\<lparr>hr_Data = Some d, hr_IsComplete = isComplete,
                                                  hr_Metadata = empty_Metadata, hr_Io = None\<rparr>]\<rparr>)
                   | Some r \<Rightarrow>
                       (case hr_Data (h_resp h ! r) of
                          None \<Rightarrow> combine_loop parts isComplete ret h
                        | Some rd \<Rightarrow>
                            combine_loop parts isComplete ret
                              (h\<lparr>h_map := (h_map h)[rd := mput_all (h_map h ! d) (h_map h ! rd)]\<rparr>)))))"

definition combineData :: ResponseCombiner where
  "combineData tot parts h =
     (case combine_loop parts (length parts = tot) None h of
        (isComplete, None, h) \<Rightarrow>
          (case alloc (mk_Response (Some []) isComplete) h of (a, h) \<Rightarrow> (Some a, h))
      | (isComplete, Some r, h) \<Rightarrow> (Some r, set_complete r isComplete h))"

text \<open>
  The register of combiners (proxy/register.go). A combiner is stored with its own type, so
  the type assertion of \<open>GetResponseCombiner\<close> holds.
\<close>

record 'c combinerRegister =
  cr_data :: "'c untyped"
  cr_fallback :: 'c

definition newCombinerRegister :: "(string \<times> 'c) list \<Rightarrow> 'c \<Rightarrow> 'c combinerRegister" where
  "newCombinerRegister data fallback =
     \<lparr>cr_data = fold (\<lambda>(k, v) r. Untyped_Register k v r) data NewUntyped, cr_fallback = fallback\<rparr>"

definition GetResponseCombiner :: "string \<Rightarrow> 'c combinerRegister \<Rightarrow> 'c \<times> bool" where
  "GetResponseCombiner name r =
     (case Untyped_Get name (cr_data r) of
        None \<Rightarrow> (cr_fallback r, False)
      | Some rc \<Rightarrow> (rc, True))"

definition SetResponseCombiner :: "string \<Rightarrow> 'c \<Rightarrow> 'c combinerRegister \<Rightarrow> 'c combinerRegister" where
  "SetResponseCombiner name rc r = r\<lparr>cr_data := Untyped_Register name rc (cr_data r)\<rparr>"

definition initResponseCombiners :: "ResponseCombiner combinerRegister" where
  "initResponseCombiners = newCombinerRegister [(''default'', combineData)] combineData"

text \<open>
  The name of the combiner of an endpoint. The assertion \<open>v.(string)\<close> is unchecked: \<open>None\<close>
  is its panic.
\<close>

definition getResponseCombinerName :: "'c combinerRegister \<Rightarrow> ExtraConfig \<Rightarrow> string option" where
  "getResponseCombinerName reg extra =
     (case ec_get extra proxy_Namespace ''combiner'' of
        None \<Rightarrow> Some ''default''
      | Some v \<Rightarrow>
          (case as_str v of
             None \<Rightarrow> None
           | Some s \<Rightarrow> Some (if snd (GetResponseCombiner s reg) then s else ''default'')))"

definition getResponseCombiner :: "'c combinerRegister \<Rightarrow> ExtraConfig \<Rightarrow> 'c option" where
  "getResponseCombiner reg extra =
     map_option (\<lambda>combiner. fst (GetResponseCombiner combiner reg)) (getResponseCombinerName reg extra)"

text \<open>
  \<open>RegisterResponseCombiner\<close> writes into the register of the package; \<open>NewRegister\<close> hands
  that same register out, so what is set through one is found through the other.
\<close>

definition RegisterResponseCombiner :: "string \<Rightarrow> 'c \<Rightarrow> 'c combinerRegister \<Rightarrow> 'c combinerRegister" where
  "RegisterResponseCombiner name f responseCombiners = SetResponseCombiner name f responseCombiners"

definition proxy_NewRegister :: "'c combinerRegister \<Rightarrow> 'c combinerRegister" where
  "proxy_NewRegister responseCombiners = responseCombiners"

section \<open>The accumulator\<close>

record incrementalMergeAccumulator =
  ac_pending :: int
  ac_data :: "nat option"
  ac_errs :: "goerror list"

definition newIncrementalMergeAccumulator :: "int \<Rightarrow> incrementalMergeAccumulator" where
  "newIncrementalMergeAccumulator tot = \<lparr>ac_pending = tot, ac_data = None, ac_errs = []\<rparr>"

definition acc_Merge ::
  "ResponseCombiner \<Rightarrow> nat option \<Rightarrow> goerror option \<Rightarrow> incrementalMergeAccumulator \<times> heap
   \<Rightarrow> incrementalMergeAccumulator \<times> heap" where
  "acc_Merge rc res err = (\<lambda>(i, h).
     let i = i\<lparr>ac_pending := ac_pending i - 1\<rparr>
     in case err of
          Some e \<Rightarrow>
            (i\<lparr>ac_errs := ac_errs i @ [e]\<rparr>,
             (case ac_data i of None \<Rightarrow> h | Some a \<Rightarrow> set_complete a False h))
        | None \<Rightarrow>
            (case res of
               None \<Rightarrow> (i\<lparr>ac_errs := ac_errs i @ [errNullResult]\<rparr>, h)
             | Some r \<Rightarrow>
                 (case ac_data i of
                    None \<Rightarrow> (i\<lparr>ac_data := Some r\<rparr>, h)
                  | Some a \<Rightarrow>
                      (case rc 2 [Some a, Some r] h of (d, h) \<Rightarrow> (i\<lparr>ac_data := d\<rparr>, h)))))"

definition newMergeError :: "goerror list \<Rightarrow> goerror option" where
  "newMergeError errs = (if length errs = 0 then None else Some (ErrMerge errs))"

definition acc_Result ::
  "incrementalMergeAccumulator \<times> heap \<Rightarrow> nat option \<times> goerror option \<times> heap" where
  "acc_Result = (\<lambda>(i, h).
     case ac_data i of
       None \<Rightarrow> (None, newMergeError (ac_errs i), h)
     | Some a \<Rightarrow>
         (Some a, newMergeError (ac_errs i),
          (if ac_pending i > 0 \<or> length (ac_errs i) > 0 then set_complete a False h else h)))"

definition result_value :: "nat option \<times> goerror option \<times> heap \<Rightarrow> presult" where
  "result_value = (\<lambda>(d, e, h). Ret (map_option (deref h) d) e)"

section \<open>What a backend call sends\<close>

text \<open>
  \<open>requestPart\<close> and \<open>sequentialRequestPart\<close> send one message on one of their two channels.
  When the response is there and the context is done, Go's select takes either branch:
  \<open>done\<close> is the context's error when it takes that one. \<open>None\<close>: the proxy panicked.
\<close>

datatype msg = MsgErr goerror | MsgResp Response

definition requestPart :: "goerror option \<Rightarrow> presult \<Rightarrow> msg option" where
  "requestPart ctx_err res =
     (case res of
        GoPanic \<Rightarrow> None
      | Ret _ (Some err) \<Rightarrow> Some (MsgErr err)
      | Ret None None \<Rightarrow> Some (MsgErr errNullResult)
      | Ret (Some resp) None \<Rightarrow>
          (case ctx_err of None \<Rightarrow> Some (MsgResp resp) | Some e \<Rightarrow> Some (MsgErr e)))"

definition sequentialRequestPart :: "goerror option \<Rightarrow> presult \<Rightarrow> msg option" where
  "sequentialRequestPart ctx_err res =
     (case res of
        GoPanic \<Rightarrow> None
      | Ret inp err \<Rightarrow>
          (case err of
             Some e \<Rightarrow> Some (MsgErr e)
           | None \<Rightarrow>
               (case inp of
                  None \<Rightarrow> Some (MsgErr errNullResult)
                | Some resp \<Rightarrow>
                    (case ctx_err of None \<Rightarrow> Some (MsgResp resp) | Some e \<Rightarrow> Some (MsgErr e)))))"

text \<open>
  The two differ only in the cancellation of the call's own context, which nothing of the
  message depends on.
\<close>

lemma sequentialRequestPart_eq [simp]: "sequentialRequestPart = requestPart"
  by (intro ext) (auto simp: sequentialRequestPart_def requestPart_def split: presult.splits option.splits)

text \<open>The merge of a received message.\<close>

definition acc_receive ::
  "ResponseCombiner \<Rightarrow> msg \<Rightarrow> incrementalMergeAccumulator \<times> heap \<Rightarrow> incrementalMergeAccumulator \<times> heap" where
  "acc_receive rc m s =
     (case m of
        MsgErr e \<Rightarrow> acc_Merge rc None (Some e) s
      | MsgResp r \<Rightarrow>
          (case alloc r (snd s) of (a, h) \<Rightarrow> acc_Merge rc (Some a) None (fst s, h)))"


section \<open>Selecting the merger\<close>

definition hasUnsafeBackends :: "EndpointConfig \<Rightarrow> bool" where
  "hasUnsafeBackends cfg =
     (if length (ep_Backend cfg) = 1 then False
      else list_ex (\<lambda>b. let m = to_upper (be_Method b) in m \<noteq> ''GET'' \<and> m \<noteq> ''HEAD'') (ep_Backend cfg))"

definition forceDeepClone :: "EndpointConfig \<Rightarrow> bool" where
  "forceDeepClone cfg =
     (case ec_get (ep_ExtraConfig cfg) proxy_Namespace ''force_sandboxed_request'' of
        None \<Rightarrow> False
      | Some v \<Rightarrow> as_bool v = Some True)"

text \<open>
  \<open>getMergerFactory\<close>: the factory and its name, from the table \<open>mergers\<close>.
\<close>

definition getMergerFactory :: "(string \<times> 'f) list \<Rightarrow> ExtraConfig \<Rightarrow> 'f option \<times> string" where
  "getMergerFactory mergers cfg =
     (let parallel = (map_of mergers ''parallel'', ''parallel'')
      in case ec_section cfg proxy_Namespace of
           None \<Rightarrow> parallel
         | Some m \<Rightarrow>
             (case nmap_get m ''strategy'' of
                None \<Rightarrow>
                  (case nmap_get m ''sequential'' of
                     None \<Rightarrow> parallel
                   | Some v \<Rightarrow>
                       (if as_bool v = Some True then (map_of mergers ''sequential'', ''sequential'')
                        else parallel))
              | Some v \<Rightarrow>
                  (case as_str v of
                     None \<Rightarrow> parallel
                   | Some t \<Rightarrow>
                       (case map_of mergers t of
                          Some mf \<Rightarrow> (Some mf, t)
                        | None \<Rightarrow> parallel))))"

definition RegisterMergerFactory :: "string \<Rightarrow> 'f \<Rightarrow> (string \<times> 'f) list \<Rightarrow> (string \<times> 'f) list" where
  "RegisterMergerFactory name m mergers = mput name m mergers"

text \<open>A backend filter decides on the request; \<open>None\<close> is a nil entry (no filter).\<close>

type_synonym BackendFilterer = "(Request \<Rightarrow> bool) option"

definition skipped :: "BackendFilterer list \<Rightarrow> nat \<Rightarrow> Request \<Rightarrow> bool" where
  "skipped filters i request \<longleftrightarrow>
     i < length filters \<and> (case filters ! i of None \<Rightarrow> False | Some f \<Rightarrow> \<not> f request)"

definition merge_timeout :: "int \<Rightarrow> int" where
  "merge_timeout timeout = wrap64 (85 * timeout) sdiv 100"

section \<open>The parallel merger\<close>

text \<open>
  The goroutines that \<open>parallelMerge\<close> starts: the proxies that are not skipped, each with its
  clone of the request. A cloner returns the request as it leaves it and the clone.
\<close>

fun parallel_calls ::
  "(Request \<Rightarrow> Request \<times> Request) \<Rightarrow> BackendFilterer list \<Rightarrow> nat \<Rightarrow> Proxy list \<Rightarrow> Request
   \<Rightarrow> (Proxy \<times> Request) list" where
  "parallel_calls reqCloner filters i [] request = []"
| "parallel_calls reqCloner filters i (n # nxt) request =
     (if skipped filters i request then parallel_calls reqCloner filters (Suc i) nxt request
      else case reqCloner request of
        (request, r) \<Rightarrow> (n, r) # parallel_calls reqCloner filters (Suc i) nxt request)"

text \<open>
  The channels and the receiving loop. A goroutine that is still running will send its message
  on \<open>parts\<close> or on \<open>failed\<close>, whose capacity is the number of proxies; the loop receives
  from whichever channel is ready until it has \<open>pm_want\<close> messages, and merges each.
\<close>

record pmerge =
  pm_running :: "msg list"
  pm_parts :: "Response list"
  pm_failed :: "goerror list"
  pm_log :: "msg list"
  pm_want :: nat

text \<open>
  \<open>outs\<close> are the messages the goroutines end up sending, in any order; \<open>cap\<close> is
  \<open>len(next)\<close>, the capacity of both channels.
\<close>

definition pm_init :: "msg list \<Rightarrow> pmerge" where
  "pm_init outs =
     \<lparr>pm_running = outs, pm_parts = [], pm_failed = [], pm_log = [], pm_want = length outs\<rparr>"

inductive pm_step :: "nat \<Rightarrow> pmerge \<Rightarrow> pmerge \<Rightarrow> bool" for cap where
  send_part: "pm_running s = xs @ MsgResp r # ys \<Longrightarrow> length (pm_parts s) < cap \<Longrightarrow>
     pm_step cap s (s\<lparr>pm_running := xs @ ys, pm_parts := pm_parts s @ [r]\<rparr>)"
| send_failed: "pm_running s = xs @ MsgErr e # ys \<Longrightarrow> length (pm_failed s) < cap \<Longrightarrow>
     pm_step cap s (s\<lparr>pm_running := xs @ ys, pm_failed := pm_failed s @ [e]\<rparr>)"
| recv_failed: "pm_failed s = e # es \<Longrightarrow> length (pm_log s) < pm_want s \<Longrightarrow>
     pm_step cap s (s\<lparr>pm_failed := es, pm_log := pm_log s @ [MsgErr e]\<rparr>)"
| recv_part: "pm_parts s = r # rs \<Longrightarrow> length (pm_log s) < pm_want s \<Longrightarrow>
     pm_step cap s (s\<lparr>pm_parts := rs, pm_log := pm_log s @ [MsgResp r]\<rparr>)"

text \<open>The loop has ended: its result is the merge of the messages in the order of receipt.\<close>

definition pm_done :: "pmerge \<Rightarrow> bool" where
  "pm_done s \<longleftrightarrow> length (pm_log s) = pm_want s"

definition merge_log :: "ResponseCombiner \<Rightarrow> msg list \<Rightarrow> presult" where
  "merge_log rc ms =
     result_value (acc_Result (fold (acc_receive rc) ms
       (newIncrementalMergeAccumulator (int (length ms)), empty_heap)))"

section \<open>The sequential merger: its configuration\<close>

record sequentialBackendReplacement =
  sr_backendIndex :: int
  sr_destination :: string
  sr_source :: "string list"
  sr_fullResponse :: bool

definition word_dash_dot :: "char \<Rightarrow> bool" where
  "word_dash_dot c \<longleftrightarrow> is_word c \<or> c = CHR ''-'' \<or> c = CHR ''.''"

text \<open>\<open>[Rr]esp(\d+)_?([\w-.]+)?\<close> and \<open>\{\{\.Resp(\d+)_([\w-.]+)\}\}\<close>\<close>

definition rePropagatedParams :: regex where
  "rePropagatedParams =
     RSeq (RCls (\<lambda>c. c = CHR ''R'' \<or> c = CHR ''r'')) (RSeq (RLit ''esp'')
       (RSeq (RGrp 1 (RPlus is_digit)) (RSeq (ROpt (RLit ''_'')) (ROpt (RGrp 2 (RPlus word_dash_dot))))))"

definition reUrlPatterns :: regex where
  "reUrlPatterns =
     RSeq (RLit ''{{.Resp'') (RSeq (RGrp 1 (RPlus is_digit)) (RSeq (RLit ''_'')
       (RSeq (RGrp 2 (RPlus word_dash_dot)) (RLit ''}}''))))"

definition destKeyGenerator :: "string \<Rightarrow> string \<Rightarrow> string" where
  "destKeyGenerator i t = ''Resp'' @ i @ (if t \<noteq> [] then ''_'' @ t else [])"

text \<open>
  One match of a pattern: \<open>limit\<close> is the bound on the index that the propagated parameters
  have and the URL patterns have not.
\<close>

definition replacement_of :: "int option \<Rightarrow> string \<times> captures \<Rightarrow> sequentialBackendReplacement option" where
  "replacement_of limit m =
     (case atoi (submatch m 1) of
        None \<Rightarrow> None
      | Some backendIndex \<Rightarrow>
          (if (case limit of None \<Rightarrow> False | Some l \<Rightarrow> backendIndex \<ge> l) then None
           else Some \<lparr>sr_backendIndex = backendIndex,
                      sr_destination = destKeyGenerator (submatch m 1) (submatch m 2),
                      sr_source = split_on CHR ''.'' (submatch m 2),
                      sr_fullResponse = (submatch m 2 = [])\<rparr>))"

text \<open>The list of propagated parameters; \<open>None\<close> is the panic of \<open>p.(string)\<close>.\<close>

fun strings_of :: "gval list \<Rightarrow> string list option" where
  "strings_of [] = Some []"
| "strings_of (p # ps) =
     (case as_str p of None \<Rightarrow> None | Some s \<Rightarrow> map_option (\<lambda>r. s # r) (strings_of ps))"

definition propagated_params :: "EndpointConfig \<Rightarrow> string list option" where
  "propagated_params cfg =
     (case Option.bind (ec_get (ep_ExtraConfig cfg) proxy_Namespace ''sequential_propagated_params'') as_list of
        None \<Rightarrow> Some []
      | Some a \<Rightarrow> strings_of a)"

definition backend_replacements ::
  "nat \<Rightarrow> string list \<Rightarrow> nat \<Rightarrow> Backend \<Rightarrow> sequentialBackendReplacement list" where
  "backend_replacements tot propagated i b =
     List.map_filter (replacement_of None) (FindAllStringSubmatch reUrlPatterns (be_URLPattern b)) @
     (if i > 0
      then concat (map (\<lambda>p. List.map_filter (replacement_of (Some (int tot)))
                              (FindAllStringSubmatch rePropagatedParams p)) propagated)
      else [])"

definition sequentialMergerConfig :: "EndpointConfig \<Rightarrow> sequentialBackendReplacement list list option" where
  "sequentialMergerConfig cfg =
     (let totalBackends = length (ep_Backend cfg)
      in map_option (\<lambda>propagated.
           map (\<lambda>(i, b). backend_replacements totalBackends propagated i b)
             (zip [0..<totalBackends] (ep_Backend cfg)))
           (propagated_params cfg))"


section \<open>The sequential merger\<close>

text \<open>
  The locals of \<open>sequentialMerge\<close>: the store, the parts (addresses of the responses of the
  backends already called), the registry of parameters, the request and the accumulator.
\<close>

record sequential =
  sq_heap :: heap
  sq_parts :: "nat option list"
  sq_registry :: "string gmap"
  sq_request :: Request
  sq_acc :: incrementalMergeAccumulator

text \<open>The descent through the keys of the source; it stops at the first key it cannot follow.\<close>

fun walk_source :: "string list \<Rightarrow> jmap option \<Rightarrow> jmap option" where
  "walk_source [] data = data"
| "walk_source (k # ks) data =
     (case nmap_get data k of
        None \<Rightarrow> data
      | Some v \<Rightarrow> (case as_map v of None \<Rightarrow> data | Some clean \<Rightarrow> walk_source ks clean))"

text \<open>
  The text of a value as a parameter. \<open>ff\<close> is the text of a float under \<open>%v\<close> and \<open>fe\<close>
  under \<open>FormatFloat(_, 'E', -1, 32)\<close>.
\<close>

definition param_text :: "(64 word \<Rightarrow> string) \<Rightarrow> (64 word \<Rightarrow> string) \<Rightarrow> gval \<Rightarrow> string" where
  "param_text ff fe v =
     (case v of
        VArr clean \<Rightarrow> join_with '','' (map (sprint_v ff) clean)
      | VStr clean \<Rightarrow> clean
      | VInt clean \<Rightarrow> itoa clean
      | VFloat clean \<Rightarrow> fe clean
      | VBool clean \<Rightarrow> (if clean then ''true'' else ''false'')
      | _ \<Rightarrow> sprint_v ff v)"

text \<open>\<open>request.Params[k] = v\<close> panics (\<open>None\<close>) on nil parameters.\<close>

definition set_param :: "string \<Rightarrow> string \<Rightarrow> sequential \<Rightarrow> sequential option" where
  "set_param k v s =
     (case rq_Params (sq_request s) of
        None \<Rightarrow> None
      | Some ps \<Rightarrow> Some (s\<lparr>sq_request := (sq_request s)\<lparr>rq_Params := Some (mput k v ps)\<rparr>\<rparr>))"

definition register_param :: "string \<Rightarrow> string \<Rightarrow> sequential \<Rightarrow> sequential" where
  "register_param k v s = s\<lparr>sq_registry := mput k v (sq_registry s)\<rparr>"

text \<open>Reading the body of a part to its end leaves an exhausted reader in the response.\<close>

definition drain :: "nat \<Rightarrow> heap \<Rightarrow> heap" where
  "drain a h = h\<lparr>h_resp := (h_resp h)[a := (h_resp h ! a)
      \<lparr>hr_Io := map_option (\<lambda>r. ([], snd r)) (hr_Io (h_resp h ! a))\<rparr>]\<rparr>"

definition apply_replacement ::
  "(64 word \<Rightarrow> string) \<Rightarrow> (64 word \<Rightarrow> string) \<Rightarrow> nat \<Rightarrow> sequentialBackendReplacement \<Rightarrow> sequential
   \<Rightarrow> sequential option" where
  "apply_replacement ff fe i r s =
     (if sr_backendIndex r \<ge> int i then Some s
      else case sq_parts s ! nat (sr_backendIndex r) of
        None \<Rightarrow> Some s
      | Some part \<Rightarrow>
          (let data0 = rs_Data (deref (sq_heap s) part);
               data = (if length (sr_source r) > 1 then walk_source (butlast (sr_source r)) data0 else data0);
               found = (case map_of (sq_registry s) (sr_destination r) of None \<Rightarrow> [] | Some v \<Rightarrow> v)
           in if found \<noteq> [] then set_param (sr_destination r) found s
              else if sr_fullResponse r then
                (case hr_Io (h_resp (sq_heap s) ! part) of
                   None \<Rightarrow> Some s
                 | Some io \<Rightarrow>
                     (let s = s\<lparr>sq_heap := drain part (sq_heap s)\<rparr>
                      in case read_all io of
                           Inl _ \<Rightarrow> Some s
                         | Inr buf \<Rightarrow>
                             map_option (register_param (sr_destination r) buf)
                               (set_param (sr_destination r) buf s)))
              else
                (case nmap_get data (last (sr_source r)) of
                   None \<Rightarrow> Some s
                 | Some v \<Rightarrow>
                     (let param = param_text ff fe v
                      in map_option (register_param (sr_destination r) param)
                           (set_param (sr_destination r) param s)))))"

fun apply_replacements ::
  "(64 word \<Rightarrow> string) \<Rightarrow> (64 word \<Rightarrow> string) \<Rightarrow> nat \<Rightarrow> sequentialBackendReplacement list \<Rightarrow> sequential
   \<Rightarrow> sequential option" where
  "apply_replacements ff fe i [] s = Some s"
| "apply_replacements ff fe i (r # rs) s =
     (case apply_replacement ff fe i r s of
        None \<Rightarrow> None
      | Some s \<Rightarrow> apply_replacements ff fe i rs s)"

datatype seq_outcome = SeqPanic | SeqFirstError goerror | SeqDone sequential

text \<open>
  The loop over the backends. \<open>ctx_err i\<close> is the context's error when the select of the i-th
  call takes the branch of the done context.
\<close>

fun seq_loop ::
  "(64 word \<Rightarrow> string) \<Rightarrow> (64 word \<Rightarrow> string) \<Rightarrow> (Request \<Rightarrow> Request \<times> Request) \<Rightarrow> ResponseCombiner
   \<Rightarrow> sequentialBackendReplacement list list \<Rightarrow> BackendFilterer list \<Rightarrow> (nat \<Rightarrow> goerror option)
   \<Rightarrow> nat \<Rightarrow> Proxy list \<Rightarrow> sequential \<Rightarrow> seq_outcome" where
  "seq_loop ff fe reqCloner rc reps filters ctx_err i [] s = SeqDone s"
| "seq_loop ff fe reqCloner rc reps filters ctx_err i (n # nxt) s =
     (case (if i > 0 then (if i < length reps then apply_replacements ff fe i (reps ! i) s else None)
            else Some s) of
        None \<Rightarrow> SeqPanic
      | Some s \<Rightarrow>
          (if skipped filters i (sq_request s) then
             (case alloc (mk_Response (Some []) True) (sq_heap s) of
                (a, h) \<Rightarrow>
                  seq_loop ff fe reqCloner rc reps filters ctx_err (Suc i) nxt
                    (s\<lparr>sq_heap := h, sq_parts := (sq_parts s)[i := Some a],
                       sq_acc := (sq_acc s)\<lparr>ac_pending := ac_pending (sq_acc s) - 1\<rparr>\<rparr>))
           else
             (case reqCloner (sq_request s) of
                (request, clone) \<Rightarrow>
                  (let s = s\<lparr>sq_request := request\<rparr>
                   in case sequentialRequestPart (ctx_err i) (n clone) of
                        None \<Rightarrow> SeqPanic
                      | Some (MsgErr err) \<Rightarrow>
                          (if i = 0 then SeqFirstError err
                           else case acc_Merge rc None (Some err) (sq_acc s, sq_heap s) of
                             (acc, h) \<Rightarrow> SeqDone (s\<lparr>sq_acc := acc, sq_heap := h\<rparr>))
                      | Some (MsgResp response) \<Rightarrow>
                          (case alloc response (sq_heap s) of
                             (a, h) \<Rightarrow>
                               (case acc_Merge rc (Some a) None (sq_acc s, h) of
                                  (acc, h) \<Rightarrow>
                                    (let s = s\<lparr>sq_acc := acc, sq_heap := h\<rparr>
                                     in if \<not> hr_IsComplete (h_resp h ! a) then SeqDone s
                                        else seq_loop ff fe reqCloner rc reps filters ctx_err (Suc i) nxt
                                               (s\<lparr>sq_parts := (sq_parts s)[i := Some a]\<rparr>))))))))"

definition seq_init :: "nat \<Rightarrow> Request \<Rightarrow> sequential" where
  "seq_init n request =
     \<lparr>sq_heap = empty_heap, sq_parts = replicate n None, sq_registry = [], sq_request = request,
      sq_acc = newIncrementalMergeAccumulator (int n)\<rparr>"

definition sequentialMerge ::
  "(64 word \<Rightarrow> string) \<Rightarrow> (64 word \<Rightarrow> string) \<Rightarrow> (Request \<Rightarrow> Request \<times> Request) \<Rightarrow> ResponseCombiner
   \<Rightarrow> sequentialBackendReplacement list list \<Rightarrow> BackendFilterer list \<Rightarrow> (nat \<Rightarrow> goerror option)
   \<Rightarrow> Proxy list \<Rightarrow> Proxy" where
  "sequentialMerge ff fe reqCloner rc reps filters ctx_err nxt request =
     (case seq_loop ff fe reqCloner rc reps filters ctx_err 0 nxt (seq_init (length nxt) request) of
        SeqPanic \<Rightarrow> GoPanic
      | SeqFirstError err \<Rightarrow> Ret None (Some err)
      | SeqDone s \<Rightarrow> result_value (acc_Result (sq_acc s, sq_heap s)))"

section \<open>The middleware\<close>

text \<open>
  The parallel merger as a proxy. \<open>sched\<close> is the order in which the loop receives the
  messages: \<open>pm_step\<close> shows that it can be any permutation and nothing else. A proxy that
  panics in its goroutine ends the process.
\<close>

fun all_messages :: "msg option list \<Rightarrow> msg list option" where
  "all_messages [] = Some []"
| "all_messages (m # ms) =
     (case m of None \<Rightarrow> None | Some x \<Rightarrow> map_option (\<lambda>xs. x # xs) (all_messages ms))"

definition parallelMerge ::
  "(msg list \<Rightarrow> msg list) \<Rightarrow> (nat \<Rightarrow> goerror option) \<Rightarrow> (Request \<Rightarrow> Request \<times> Request)
   \<Rightarrow> ResponseCombiner \<Rightarrow> BackendFilterer list \<Rightarrow> Proxy list \<Rightarrow> Proxy" where
  "parallelMerge sched ctx_err reqCloner rc filters nxt request =
     (let calls = parallel_calls reqCloner filters 0 nxt request
      in case all_messages (map (\<lambda>(i, n, r). requestPart (ctx_err i) (n r)) (zip [0..<length calls] calls)) of
           None \<Rightarrow> GoPanic
         | Some outs \<Rightarrow> merge_log rc (sched outs))"

type_synonym Merger =
  "(Request \<Rightarrow> Request \<times> Request) \<Rightarrow> int \<Rightarrow> ResponseCombiner \<Rightarrow> BackendFilterer list \<Rightarrow> Proxy list \<Rightarrow> Proxy"

text \<open>
  The table \<open>mergers\<close>; a factory may panic on the configuration (\<open>None\<close>). The timeout is the
  deadline of the context the calls get, whose effect is \<open>ctx_err\<close>.
\<close>

definition mergers ::
  "(64 word \<Rightarrow> string) \<Rightarrow> (64 word \<Rightarrow> string) \<Rightarrow> (msg list \<Rightarrow> msg list) \<Rightarrow> (nat \<Rightarrow> goerror option)
   \<Rightarrow> (string \<times> (EndpointConfig \<Rightarrow> Merger option)) list" where
  "mergers ff fe sched ctx_err =
     [(''sequential'', \<lambda>ec. map_option
         (\<lambda>reps reqClone timeout rc filters nxt. sequentialMerge ff fe reqClone rc reps filters ctx_err nxt)
         (sequentialMergerConfig ec)),
      (''parallel'', \<lambda>ec. Some
         (\<lambda>reqClone timeout rc filters nxt. parallelMerge sched ctx_err reqClone rc filters nxt))]"

definition NewMergeDataMiddleware ::
  "(string \<Rightarrow> goerror + URL) \<Rightarrow> (URL \<Rightarrow> string) \<Rightarrow> ResponseCombiner combinerRegister
   \<Rightarrow> (string \<times> (EndpointConfig \<Rightarrow> Merger option)) list
   \<Rightarrow> (EndpointConfig \<Rightarrow> goerror + BackendFilterer list) \<Rightarrow> EndpointConfig \<Rightarrow> Middleware" where
  "NewMergeDataMiddleware url_Parse url_String reg mrgs bfFactory endpointConfig nxt =
     (let totalBackends = length (ep_Backend endpointConfig)
      in if totalBackends = 0 then Inl FatalExit
         else if totalBackends = 1 then emptyMiddlewareFallback nxt
         else case getResponseCombiner reg (ep_ExtraConfig endpointConfig) of
           None \<Rightarrow> Inl TypePanic
         | Some combiner \<Rightarrow>
             (case fst (getMergerFactory mrgs (ep_ExtraConfig endpointConfig)) of
                None \<Rightarrow> Inl TypePanic
              | Some mf \<Rightarrow>
                  (case mf endpointConfig of
                     None \<Rightarrow> Inl TypePanic
                   | Some m \<Rightarrow>
                       (if length nxt \<noteq> totalBackends then Inl FatalExit
                        else case bfFactory endpointConfig of
                          Inl err \<Rightarrow> Inr (\<lambda>r. Ret None (Some err))
                        | Inr filters \<Rightarrow>
                            (let reqClone =
                               (if hasUnsafeBackends endpointConfig \<or> forceDeepClone endpointConfig
                                then CloneRequest url_Parse url_String
                                else (\<lambda>r. (r, Clone url_Parse url_String r)))
                             in Inr (m reqClone (merge_timeout (ep_Timeout endpointConfig)) combiner filters nxt))))))"

type_synonym BackendFiltererFactory = "EndpointConfig \<Rightarrow> goerror + BackendFilterer list"

definition defaultBackendFiltererFactory :: BackendFiltererFactory where
  "defaultBackendFiltererFactory ec = Inr []"

text \<open>
  The package's registry of the factory of filters, of which the middleware takes the factory
  when it is built.
\<close>

record backendFiltererRegistry =
  br_logPrefix :: string
  br_filtererFactory :: BackendFiltererFactory

definition backendFiltererFactory :: backendFiltererRegistry where
  "backendFiltererFactory = \<lparr>br_logPrefix = [], br_filtererFactory = defaultBackendFiltererFactory\<rparr>"

definition RegisterBackendFiltererFactory ::
  "string \<Rightarrow> BackendFiltererFactory \<Rightarrow> backendFiltererRegistry \<Rightarrow> backendFiltererRegistry" where
  "RegisterBackendFiltererFactory logPrefix f r = r\<lparr>br_logPrefix := logPrefix, br_filtererFactory := f\<rparr>"

definition ResetBackendFiltererFactory :: "backendFiltererRegistry \<Rightarrow> backendFiltererRegistry" where
  "ResetBackendFiltererFactory r = r\<lparr>br_logPrefix := [], br_filtererFactory := defaultBackendFiltererFactory\<rparr>"

lemma Reset_Register_filterers:
  "ResetBackendFiltererFactory (RegisterBackendFiltererFactory p f r) = backendFiltererFactory"
  by (simp add: ResetBackendFiltererFactory_def RegisterBackendFiltererFactory_def backendFiltererFactory_def)

interpretation combiners: fallback_register
  "newCombinerRegister [] fb" SetResponseCombiner "\<lambda>k r. Untyped_Get k (cr_data r)"
  "\<lambda>k r. fst (GetResponseCombiner k r)" fb for fb
  by unfold_locales
    (simp_all add: newCombinerRegister_def SetResponseCombiner_def GetResponseCombiner_def
      untyped_reg.get_new untyped_reg.get_reg)

section \<open>The store and the values\<close>

definition heap_ok :: "heap \<Rightarrow> bool" where
  "heap_ok h \<longleftrightarrow> (\<forall>r \<in> set (h_resp h). \<forall>d. hr_Data r = Some d \<longrightarrow> d < length (h_map h))"

definition valid :: "heap \<Rightarrow> nat \<Rightarrow> bool" where
  "valid h a \<longleftrightarrow> a < length (h_resp h) \<and> (\<forall>d. hr_Data (h_resp h ! a) = Some d \<longrightarrow> d < length (h_map h))"

lemma alloc_deref: "alloc r h = (a, h') \<Longrightarrow> deref h' a = r \<and> valid h' a"
  by (cases r) (auto simp: alloc_def deref_def valid_def nth_append split: option.splits)

lemma alloc_frame: "alloc r h = (a, h') \<Longrightarrow> valid h b \<Longrightarrow>
    deref h' b = deref h b \<and> valid h' b \<and> b \<noteq> a \<and> hr_Data (h_resp h' ! b) = hr_Data (h_resp h ! b) \<and>
    (hr_Data (h_resp h' ! b) = None \<or> hr_Data (h_resp h' ! b) \<noteq> hr_Data (h_resp h' ! a))"
  by (cases "hr_Data (h_resp h ! b)")
    (auto simp: alloc_def deref_def valid_def nth_append Let_def split: option.splits)

lemma deref_set_complete: "valid h a \<Longrightarrow>
    deref (set_complete a b h) a = (deref h a)\<lparr>rs_IsComplete := b\<rparr> \<and> valid (set_complete a b h) a \<and>
    hr_Data (h_resp (set_complete a b h) ! a) = hr_Data (h_resp h ! a)"
  by (auto simp: set_complete_def deref_def valid_def Let_def)

section \<open>Combination of responses as values\<close>

text \<open>What \<open>combineData\<close> promises of the values of the parts.\<close>

definition part_data :: "Response option \<Rightarrow> jmap option" where
  "part_data p = (case p of None \<Rightarrow> None | Some r \<Rightarrow> rs_Data r)"

definition combine_values :: "nat \<Rightarrow> Response option list \<Rightarrow> Response" where
  "combine_values tot parts =
     mk_Response
       (Some (case List.map_filter part_data parts of [] \<Rightarrow> [] | d # ds \<Rightarrow> fold mput_all ds d))
       (length parts = tot \<and> list_all (\<lambda>p. case p of None \<Rightarrow> False | Some r \<Rightarrow> rs_Data r \<noteq> None \<and> rs_IsComplete r) parts)"

text \<open>Parts that are in the store and do not share their maps.\<close>

definition map_addr :: "heap \<Rightarrow> nat option \<Rightarrow> nat option" where
  "map_addr h p = (case p of None \<Rightarrow> None | Some a \<Rightarrow> hr_Data (h_resp h ! a))"

definition addrs :: "heap \<Rightarrow> nat option list \<Rightarrow> nat list" where
  "addrs h parts = List.map_filter (map_addr h) parts"

definition parts_ok :: "heap \<Rightarrow> nat option list \<Rightarrow> bool" where
  "parts_ok h parts \<longleftrightarrow> (\<forall>a. Some a \<in> set parts \<longrightarrow> valid h a) \<and> distinct (addrs h parts)"

definition good_part :: "heap \<Rightarrow> nat option \<Rightarrow> bool" where
  "good_part h p \<longleftrightarrow> map_addr h p \<noteq> None \<and> hr_IsComplete (h_resp h ! the p)"

lemma addrs_simps [simp]:
  "addrs h [] = []"
  "addrs h (p # ps) = (case map_addr h p of None \<Rightarrow> addrs h ps | Some d \<Rightarrow> d # addrs h ps)"
  by (simp_all add: addrs_def List.map_filter_simps split: option.splits)

lemma map_addr_cong:
  assumes "h_resp h' = h_resp h"
  shows "map_addr h' = map_addr h" "good_part h' = good_part h" "addrs h' = addrs h"
proof -
  show m: "map_addr h' = map_addr h"
    by (rule ext) (simp add: map_addr_def assms split: option.splits)
  show "good_part h' = good_part h" by (rule ext) (simp add: good_part_def m assms)
  show "addrs h' = addrs h" by (rule ext) (simp add: addrs_def m)
qed

lemma combine_loop_Some:
  assumes "hr_Data (h_resp h ! r) = Some rd" "rd < length (h_map h)" "rd \<notin> set (addrs h parts)"
  shows "\<exists>h'. combine_loop parts c (Some r) h = (c \<and> list_all (good_part h) parts, Some r, h') \<and>
    h_resp h' = h_resp h \<and> length (h_map h') = length (h_map h) \<and>
    h_map h' ! rd = fold mput_all (map (\<lambda>d. h_map h ! d) (addrs h parts)) (h_map h ! rd)"
  using assms
proof (induction parts arbitrary: c h)
  case (Cons p ps)
  show ?case
  proof (cases "map_addr h p")
    case None
    then have "combine_loop (p # ps) c (Some r) h = combine_loop ps False (Some r) h"
      by (auto simp: map_addr_def split: option.splits)
    with None Cons.IH [of h False] Cons.prems show ?thesis by (auto simp: good_part_def)
  next
    case (Some d)
    then obtain a where a: "p = Some a" "hr_Data (h_resp h ! a) = Some d"
      by (auto simp: map_addr_def split: option.splits)
    define h1 where "h1 = h\<lparr>h_map := (h_map h)[rd := mput_all (h_map h ! d) (h_map h ! rd)]\<rparr>"
    have same: "h_resp h1 = h_resp h" by (simp add: h1_def)
    note cong = map_addr_cong [OF same]
    have step: "combine_loop (p # ps) c (Some r) h =
        combine_loop ps (c \<and> hr_IsComplete (h_resp h ! a)) (Some r) h1"
      using Cons.prems by (simp add: a h1_def Let_def)
    have g: "good_part h p \<longleftrightarrow> hr_IsComplete (h_resp h ! a)" using a Some by (simp add: good_part_def)
    have "hr_Data (h_resp h1 ! r) = Some rd" "rd < length (h_map h1)" "rd \<notin> set (addrs h1 ps)"
      using Cons.prems Some by (simp_all add: same cong, simp_all add: h1_def)
    from Cons.IH [OF this, of "c \<and> hr_IsComplete (h_resp h ! a)"]
    obtain h' where h': "combine_loop ps (c \<and> hr_IsComplete (h_resp h ! a)) (Some r) h1 =
        ((c \<and> hr_IsComplete (h_resp h ! a)) \<and> list_all (good_part h) ps, Some r, h')"
      "h_resp h' = h_resp h" "length (h_map h') = length (h_map h1)"
      "h_map h' ! rd = fold mput_all (map (\<lambda>d. h_map h1 ! d) (addrs h ps)) (h_map h1 ! rd)"
      unfolding cong same by blast
    have m: "map (\<lambda>d. h_map h1 ! d) (addrs h ps) = map (\<lambda>d. h_map h ! d) (addrs h ps)"
      using Cons.prems Some by (auto simp: h1_def nth_list_update)
    have rd: "h_map h1 ! rd = mput_all (h_map h ! d) (h_map h ! rd)" "length (h_map h1) = length (h_map h)"
      using Cons.prems by (simp_all add: h1_def)
    show ?thesis unfolding step h'(1) using h'(2-4) Some g by (auto simp: m rd)
  qed
qed auto

lemma valid_append: "valid h a \<Longrightarrow> valid (h\<lparr>h_resp := h_resp h @ rs\<rparr>) a"
  by (auto simp: valid_def nth_append)

lemma map_addr_append:
  "(\<And>a. p = Some a \<Longrightarrow> valid h a) \<Longrightarrow>
   map_addr (h\<lparr>h_resp := h_resp h @ rs\<rparr>) p = map_addr h p \<and>
   good_part (h\<lparr>h_resp := h_resp h @ rs\<rparr>) p = good_part h p"
  by (cases p) (auto simp: map_addr_def good_part_def valid_def nth_append)

lemma addrs_append:
  "(\<And>a. Some a \<in> set ps \<Longrightarrow> valid h a) \<Longrightarrow>
   addrs (h\<lparr>h_resp := h_resp h @ rs\<rparr>) ps = addrs h ps \<and>
   list_all (good_part (h\<lparr>h_resp := h_resp h @ rs\<rparr>)) ps = list_all (good_part h) ps"
  by (induction ps) (auto simp: map_addr_append split: option.splits)

text \<open>The first part with data gives the response that is returned, over its map.\<close>

lemma combine_loop_first:
  assumes "parts_ok h (p # ps)" "map_addr h p = Some d"
  shows "\<exists>h'. combine_loop (p # ps) c None h = (c \<and> list_all (good_part h) (p # ps), Some (length (h_resp h)), h') \<and>
      valid h' (length (h_resp h)) \<and>
      deref h' (length (h_resp h)) =
        (mk_Response (Some (fold mput_all (map (\<lambda>d. h_map h ! d) (addrs h ps)) (h_map h ! d)))
          (rs_IsComplete (deref h' (length (h_resp h)))))"
proof -
  have val: "\<And>a. Some a \<in> set (p # ps) \<Longrightarrow> valid h a" and nd: "d \<notin> set (addrs h ps)"
    using assms by (auto simp: parts_ok_def)
  obtain a where a: "p = Some a" "hr_Data (h_resp h ! a) = Some d"
    using assms(2) by (auto simp: map_addr_def split: option.splits)
  define n where "n = length (h_resp h)"
  define c' where "c' = (c \<and> hr_IsComplete (h_resp h ! a))"
  define h1 where "h1 = h\<lparr>h_resp := h_resp h @ [\<lparr>hr_Data = Some d, hr_IsComplete = c',
      hr_Metadata = empty_Metadata, hr_Io = None\<rparr>]\<rparr>"
  have step: "combine_loop (p # ps) c None h = combine_loop ps c' (Some n) h1"
    by (simp add: a h1_def c'_def n_def Let_def)
  have g: "good_part h p \<longleftrightarrow> hr_IsComplete (h_resp h ! a)" using a assms(2) by (simp add: good_part_def)
  have dd: "d < length (h_map h)" using val [of a] a by (auto simp: valid_def)
  have ad: "addrs h1 ps = addrs h ps" "list_all (good_part h1) ps = list_all (good_part h) ps"
    using addrs_append [of ps h] val by (auto simp: h1_def)
  have n1: "h_resp h1 ! n = \<lparr>hr_Data = Some d, hr_IsComplete = c', hr_Metadata = empty_Metadata, hr_Io = None\<rparr>"
    "h_map h1 = h_map h" by (simp_all add: h1_def n_def)
  from combine_loop_Some [of h1 n d ps c'] dd nd n1 ad obtain h' where h':
    "combine_loop ps c' (Some n) h1 = (c' \<and> list_all (good_part h) ps, Some n, h')"
    "h_resp h' = h_resp h1" "length (h_map h') = length (h_map h)"
    "h_map h' ! d = fold mput_all (map (\<lambda>d. h_map h ! d) (addrs h ps)) (h_map h ! d)"
    by auto
  have "valid h' n" using h' n1 dd by (auto simp: valid_def h1_def n_def)
  moreover have "deref h' n = mk_Response (Some (fold mput_all (map (\<lambda>d. h_map h ! d) (addrs h ps)) (h_map h ! d)))
      (rs_IsComplete (deref h' n))"
    using h' n1 by (simp add: deref_def mk_Response_def Let_def)
  ultimately show ?thesis using step h' g unfolding n_def by (auto simp: c'_def)
qed

lemma combine_loop_None:
  assumes "parts_ok h parts"
  shows "(addrs h parts = [] \<and> combine_loop parts c None h = (c \<and> parts = [], None, h)) \<or>
    (\<exists>d ds h'. addrs h parts = d # ds \<and>
      combine_loop parts c None h = (c \<and> list_all (good_part h) parts, Some (length (h_resp h)), h') \<and>
      valid h' (length (h_resp h)) \<and>
      deref h' (length (h_resp h)) =
        (mk_Response (Some (fold mput_all (map (\<lambda>d. h_map h ! d) ds) (h_map h ! d)))
          (rs_IsComplete (deref h' (length (h_resp h))))))"
  using assms
proof (induction parts arbitrary: c)
  case (Cons p ps)
  then have ok: "parts_ok h ps" by (auto simp: parts_ok_def split: option.splits)
  show ?case
  proof (cases "map_addr h p")
    case None
    then have "combine_loop (p # ps) c None h = combine_loop ps False None h"
      by (auto simp: map_addr_def split: option.splits)
    moreover have "\<not> good_part h p" using None by (simp add: good_part_def)
    ultimately show ?thesis using Cons.IH [OF ok, of False] None by auto
  next
    case (Some d)
    then have "addrs h (p # ps) = d # addrs h ps" by simp
    with combine_loop_first [OF Cons.prems Some, of c] show ?thesis by blast
  qed
qed auto

lemma part_data_deref: "part_data (map_option (deref h) p) = map_option (\<lambda>d. h_map h ! d) (map_addr h p)"
  by (cases p) (simp_all add: part_data_def map_addr_def deref_def Let_def)

lemma map_filter_part_data:
  "List.map_filter part_data (map (map_option (deref h)) parts) = map (\<lambda>d. h_map h ! d) (addrs h parts)"
  by (induction parts) (auto simp: List.map_filter_simps part_data_deref split: option.splits)

lemma good_part_deref:
  "good_part h p \<longleftrightarrow>
   (case map_option (deref h) p of None \<Rightarrow> False | Some r \<Rightarrow> rs_Data r \<noteq> None \<and> rs_IsComplete r)"
  by (cases p) (auto simp: good_part_def map_addr_def deref_def Let_def)

theorem combineData_values:
  assumes "parts_ok h parts"
  shows "\<exists>a h'. combineData tot parts h = (Some a, h') \<and> valid h' a \<and>
    deref h' a = combine_values tot (map (map_option (deref h)) parts)"
proof -
  let ?ps = "map (map_option (deref h)) parts"
  have comp: "list_all (\<lambda>p. case p of None \<Rightarrow> False | Some r \<Rightarrow> rs_Data r \<noteq> None \<and> rs_IsComplete r) ?ps
      = list_all (good_part h) parts"
    by (induction parts) (simp_all add: good_part_deref)
  have val: "combine_values tot ?ps = mk_Response
      (Some (case map (\<lambda>d. h_map h ! d) (addrs h parts) of [] \<Rightarrow> [] | d # ds \<Rightarrow> fold mput_all ds d))
      (length parts = tot \<and> list_all (good_part h) parts)"
    by (simp add: combine_values_def map_filter_part_data comp)
  from combine_loop_None [OF assms, of "length parts = tot"] show ?thesis
  proof (elim disjE exE conjE)
    assume a: "addrs h parts = []"
      and l: "combine_loop parts (length parts = tot) None h = (length parts = tot \<and> parts = [], None, h)"
    have "list_all (good_part h) parts \<longleftrightarrow> parts = []"
      using a by (cases parts) (auto simp: good_part_def split: option.splits)
    moreover obtain b h' where b: "alloc (mk_Response (Some []) (length parts = tot \<and> parts = [])) h = (b, h')"
      by fastforce
    ultimately show ?thesis
      using alloc_deref [OF b] by (simp add: combineData_def l val a)
  next
    fix d ds h'
    assume a: "addrs h parts = d # ds"
      and l: "combine_loop parts (length parts = tot) None h =
        (length parts = tot \<and> list_all (good_part h) parts, Some (length (h_resp h)), h')"
      and v: "valid h' (length (h_resp h))"
      and d: "deref h' (length (h_resp h)) =
        mk_Response (Some (fold mput_all (map (\<lambda>d. h_map h ! d) ds) (h_map h ! d)))
          (rs_IsComplete (deref h' (length (h_resp h))))"
    have "deref (set_complete (length (h_resp h)) b h') (length (h_resp h)) =
        mk_Response (Some (fold mput_all (map (\<lambda>d. h_map h ! d) ds) (h_map h ! d))) b" for b
      unfolding deref_set_complete [OF v, THEN conjunct1] by (subst d) (simp add: mk_Response_def)
    then show ?thesis
      using deref_set_complete [OF v] by (simp add: combineData_def l val a)
  qed
qed

section \<open>The accumulator on values\<close>

text \<open>
  What the accumulator keeps, as values: the response and the errors. \<open>merge_values\<close> is the
  result of a merge, on values.
\<close>

definition v_receive :: "msg \<Rightarrow> Response option \<times> goerror list \<Rightarrow> Response option \<times> goerror list" where
  "v_receive m = (\<lambda>(d, errs).
     case m of
       MsgErr e \<Rightarrow> (map_option (\<lambda>r. r\<lparr>rs_IsComplete := False\<rparr>) d, errs @ [e])
     | MsgResp r \<Rightarrow> (Some (case d of None \<Rightarrow> r | Some a \<Rightarrow> combine_values 2 [Some a, Some r]), errs))"

definition merge_values :: "msg list \<Rightarrow> presult" where
  "merge_values ms =
     (let (d, errs) = fold v_receive ms (None, [])
      in Ret (map_option (\<lambda>r. if errs \<noteq> [] then r\<lparr>rs_IsComplete := False\<rparr> else r) d) (newMergeError errs))"

definition acc_rel :: "incrementalMergeAccumulator \<times> heap \<Rightarrow> Response option \<times> goerror list \<Rightarrow> bool" where
  "acc_rel s v \<longleftrightarrow> ac_errs (fst s) = snd v \<and> fst v = map_option (deref (snd s)) (ac_data (fst s)) \<and>
     (\<forall>a. ac_data (fst s) = Some a \<longrightarrow> valid (snd s) a)"

lemma acc_receive_rel:
  assumes "acc_rel s v"
  shows "acc_rel (acc_receive combineData m s) (v_receive m v) \<and>
    ac_pending (fst (acc_receive combineData m s)) = ac_pending (fst s) - 1"
proof -
  obtain i h where s: "s = (i, h)" by (cases s)
  obtain d errs where v: "v = (d, errs)" by (cases v)
  show ?thesis
  proof (cases m)
    case (MsgErr e)
    with assms show ?thesis
      by (auto simp: s v acc_rel_def acc_receive_def acc_Merge_def v_receive_def Let_def
          deref_set_complete split: option.splits)
  next
    case (MsgResp r)
    obtain b h' where b: "alloc r h = (b, h')" by fastforce
    note fresh = alloc_deref [OF b]
    show ?thesis
    proof (cases "ac_data i")
      case None
      with assms MsgResp b fresh show ?thesis
        by (simp add: s v acc_rel_def acc_receive_def acc_Merge_def v_receive_def Let_def)
    next
      case (Some a)
      with assms have va: "valid h a" "d = Some (deref h a)" by (simp_all add: acc_rel_def s v)
      note old = alloc_frame [OF b va(1)]
      have "parts_ok h' [Some a, Some b]"
        using old fresh by (auto simp: parts_ok_def map_addr_def split: option.splits)
      from combineData_values [OF this, of 2] obtain c h'' where
        "combineData 2 [Some a, Some b] h' = (Some c, h'')" "valid h'' c"
        "deref h'' c = combine_values 2 [Some (deref h' a), Some (deref h' b)]" by auto
      with assms MsgResp Some b fresh old va show ?thesis
        by (simp add: s v acc_rel_def acc_receive_def acc_Merge_def v_receive_def Let_def)
    qed
  qed
qed

lemma acc_receive_all_rel:
  "acc_rel s v \<Longrightarrow> acc_rel (fold (acc_receive combineData) ms s) (fold v_receive ms v) \<and>
    ac_pending (fst (fold (acc_receive combineData) ms s)) = ac_pending (fst s) - int (length ms)"
proof (induction ms arbitrary: s v)
  case (Cons m ms)
  show ?case
    using Cons.IH [of "acc_receive combineData m s" "v_receive m v"] acc_receive_rel [OF Cons.prems, of m]
    by simp
qed simp

lemma acc_Result_rel:
  assumes "acc_rel s v"
  shows "result_value (acc_Result s) =
    Ret (map_option (\<lambda>r. if ac_pending (fst s) > 0 \<or> snd v \<noteq> [] then r\<lparr>rs_IsComplete := False\<rparr> else r) (fst v))
      (newMergeError (snd v))"
proof -
  obtain i h where s: "s = (i, h)" by (cases s)
  show ?thesis
    using assms by (cases "ac_data i")
      (auto simp: s acc_rel_def acc_Result_def result_value_def deref_set_complete)
qed

theorem merge_log_values: "merge_log combineData ms = merge_values ms"
proof -
  let ?s = "(newIncrementalMergeAccumulator (int (length ms)), empty_heap)"
  have r: "acc_rel ?s (None, [])" by (simp add: acc_rel_def newIncrementalMergeAccumulator_def)
  from acc_receive_all_rel [OF r, of ms] have
    f: "acc_rel (fold (acc_receive combineData) ms ?s) (fold v_receive ms (None, []))"
      "ac_pending (fst (fold (acc_receive combineData) ms ?s)) = 0"
    by (simp_all add: newIncrementalMergeAccumulator_def)
  show ?thesis unfolding merge_log_def acc_Result_rel [OF f(1)] merge_values_def f(2)
    by (simp add: split_beta)
qed

end
