(* ===== verification/MergeSpec.thy ===== *)
theory MergeSpec
  imports Merging
begin

text \<open>
  What the mergers guarantee: the content, the completeness and the errors of a merge in terms
  of the messages received, the channels of the parallel merger (every send fits, the loop
  never waits for ever, each message is received once), and the sequential merger.
\<close>

section \<open>The messages of a merge\<close>

definition responses_of :: "msg list \<Rightarrow> Response list" where
  "responses_of ms = List.map_filter (\<lambda>m. case m of MsgResp r \<Rightarrow> Some r | MsgErr _ \<Rightarrow> None) ms"

definition errors_of :: "msg list \<Rightarrow> goerror list" where
  "errors_of ms = List.map_filter (\<lambda>m. case m of MsgErr e \<Rightarrow> Some e | MsgResp _ \<Rightarrow> None) ms"

definition resp_ok :: "Response \<Rightarrow> bool" where
  "resp_ok r \<longleftrightarrow> (case rs_Data r of None \<Rightarrow> True | Some d \<Rightarrow> gmap_ok d)"

text \<open>The fields of the responses, the later ones over the earlier ones.\<close>

definition merged_fields :: "Response list \<Rightarrow> string \<Rightarrow> gval option" where
  "merged_fields rs = foldl (\<lambda>m q. m ++ nmap_get (rs_Data q)) Map.empty rs"

definition all_complete :: "Response list \<Rightarrow> bool" where
  "all_complete rs \<longleftrightarrow> list_all rs_IsComplete rs \<and> (length rs \<ge> 2 \<longrightarrow> list_all (\<lambda>q. rs_Data q \<noteq> None) rs)"

lemma responses_of_simps [simp]:
  "responses_of [] = []" "responses_of (MsgResp r # ms) = r # responses_of ms"
  "responses_of (MsgErr e # ms) = responses_of ms" "responses_of (ms @ ns) = responses_of ms @ responses_of ns"
  by (simp_all add: responses_of_def List.map_filter_def)

lemma errors_of_simps [simp]:
  "errors_of [] = []" "errors_of (MsgResp r # ms) = errors_of ms"
  "errors_of (MsgErr e # ms) = e # errors_of ms" "errors_of (ms @ ns) = errors_of ms @ errors_of ns"
  by (simp_all add: errors_of_def List.map_filter_def)

lemma set_responses_of: "r \<in> set (responses_of ms) \<longleftrightarrow> MsgResp r \<in> set ms"
  by (induction ms) (auto simp: responses_of_def List.map_filter_simps split: msg.splits)

lemma combine2_fields:
  "resp_ok b \<Longrightarrow> nmap_get (rs_Data (combine_values 2 [Some a, Some b])) =
     nmap_get (rs_Data a) ++ nmap_get (rs_Data b)"
  by (auto simp: combine_values_def part_data_def List.map_filter_simps mk_Response_def resp_ok_def
      map_of_mput_all fun_eq_iff map_add_def split: option.splits)

lemma combine2_complete:
  "rs_IsComplete (combine_values 2 [Some a, Some b]) \<longleftrightarrow>
     rs_Data a \<noteq> None \<and> rs_Data b \<noteq> None \<and> rs_IsComplete a \<and> rs_IsComplete b"
  by (auto simp: combine_values_def mk_Response_def)

lemma combine2_data: "rs_Data (combine_values tot ps) \<noteq> None"
  by (simp add: combine_values_def mk_Response_def)

definition fold_ok :: "msg list \<Rightarrow> Response option \<times> goerror list \<Rightarrow> bool" where
  "fold_ok ms v \<longleftrightarrow> (let rs = responses_of ms in
     snd v = errors_of ms \<and> (fst v = None \<longleftrightarrow> rs = []) \<and>
     (\<forall>r. fst v = Some r \<longrightarrow>
        nmap_get (rs_Data r) = merged_fields rs \<and>
        (length rs = 1 \<longrightarrow> rs_Data r = rs_Data (hd rs)) \<and>
        (length rs \<ge> 2 \<longrightarrow> rs_Data r \<noteq> None) \<and>
        (snd v = [] \<longrightarrow> (rs_IsComplete r \<longleftrightarrow> all_complete rs))))"

lemma v_receive_simps:
  "v_receive (MsgErr e) (d, errs) = (map_option (\<lambda>r. r\<lparr>rs_IsComplete := False\<rparr>) d, errs @ [e])"
  "v_receive (MsgResp r) (d, errs) =
     (Some (case d of None \<Rightarrow> r | Some a \<Rightarrow> combine_values 2 [Some a, Some r]), errs)"
  by (simp_all add: v_receive_def)

lemma fold_v_receive:
  "list_all resp_ok (responses_of ms) \<Longrightarrow> fold_ok ms (fold v_receive ms (None, []))"
proof (induction ms rule: rev_induct)
  case Nil
  show ?case by (simp add: fold_ok_def)
next
  case (snoc m ms)
  obtain d errs where v: "fold v_receive ms (None, []) = (d, errs)" by fastforce
  with snoc have IH: "fold_ok ms (d, errs)" by simp
  show ?case
  proof (cases m)
    case (MsgErr e)
    with IH show ?thesis by (auto simp: v fold_ok_def v_receive_simps Let_def)
  next
    case (MsgResp r)
    with snoc.prems have ok: "resp_ok r" by simp
    show ?thesis
    proof (cases d)
      case None
      with IH MsgResp show ?thesis
        by (auto simp: v fold_ok_def v_receive_simps Let_def merged_fields_def all_complete_def)
    next
      case (Some a)
      with IH have ne: "responses_of ms \<noteq> []" by (auto simp: fold_ok_def Let_def)
      define b where "b = combine_values 2 [Some a, Some r]"
      have eq: "fold v_receive (ms @ [m]) (None, []) = (Some b, errs)"
        by (simp add: v v_receive_simps MsgResp Some b_def)
      have f: "nmap_get (rs_Data b) = merged_fields (responses_of ms @ [r])"
        using IH Some by (simp add: b_def combine2_fields ok merged_fields_def fold_ok_def Let_def)
      have c: "rs_IsComplete b \<longleftrightarrow> all_complete (responses_of ms @ [r])" if "errs = []"
      proof (cases "length (responses_of ms) = 1")
        case True
        then obtain q where q: "responses_of ms = [q]" by (auto simp: length_Suc_conv)
        with IH Some that show ?thesis
          by (auto simp: b_def combine2_complete fold_ok_def all_complete_def)
      next
        case False
        with ne have l: "length (responses_of ms) \<ge> 2" by (cases "responses_of ms") (auto simp: Suc_le_eq)
        with IH Some that show ?thesis
          by (auto simp: b_def combine2_complete fold_ok_def all_complete_def Let_def)
      qed
      have e: "errs = errors_of ms" using IH by (simp add: fold_ok_def Let_def)
      have "rs_Data b \<noteq> None" unfolding b_def by (rule combine2_data)
      then show ?thesis
        unfolding fold_ok_def Let_def eq using ne e f c by (simp add: MsgResp)
    qed
  qed
qed

theorem merge_values_ok:
  assumes "list_all resp_ok (responses_of ms)"
  shows "\<exists>res. merge_values ms = Ret res (newMergeError (errors_of ms)) \<and>
    (res = None \<longleftrightarrow> responses_of ms = []) \<and>
    (\<forall>r. res = Some r \<longrightarrow> nmap_get (rs_Data r) = merged_fields (responses_of ms) \<and>
      (rs_IsComplete r \<longleftrightarrow> errors_of ms = [] \<and> all_complete (responses_of ms)))"
proof -
  obtain d errs where v: "fold v_receive ms (None, []) = (d, errs)" by fastforce
  with fold_v_receive [OF assms] have ok: "fold_ok ms (d, errs)" by simp
  define res where "res = map_option (\<lambda>r. if errs \<noteq> [] then r\<lparr>rs_IsComplete := False\<rparr> else r) d"
  have "merge_values ms = Ret res (newMergeError (errors_of ms))"
    using ok by (simp add: merge_values_def v res_def fold_ok_def Let_def)
  moreover have "res = None \<longleftrightarrow> responses_of ms = []"
    using ok by (simp add: res_def fold_ok_def Let_def)
  moreover have "nmap_get (rs_Data r) = merged_fields (responses_of ms) \<and>
      (rs_IsComplete r \<longleftrightarrow> errors_of ms = [] \<and> all_complete (responses_of ms))" if "res = Some r" for r
    using ok that by (cases "errs = []") (auto simp: res_def fold_ok_def Let_def)
  ultimately show ?thesis by blast
qed

section \<open>Agreeing responses\<close>

text \<open>
  Responses that give a field the same value wherever they share it (in particular responses
  with no common field): their merge does not depend on the order.
\<close>

definition agree :: "Response list \<Rightarrow> bool" where
  "agree rs \<longleftrightarrow> (\<forall>r \<in> set rs. \<forall>q \<in> set rs. \<forall>k v w.
     nmap_get (rs_Data r) k = Some v \<longrightarrow> nmap_get (rs_Data q) k = Some w \<longrightarrow> v = w)"

lemma merged_fields_snoc: "merged_fields (rs @ [r]) = merged_fields rs ++ nmap_get (rs_Data r)"
  by (simp add: merged_fields_def)

lemma merged_fields_dest: "merged_fields rs k = Some v \<Longrightarrow> \<exists>r \<in> set rs. nmap_get (rs_Data r) k = Some v"
proof (induction rs rule: rev_induct)
  case Nil
  then show ?case by (simp add: merged_fields_def)
qed (auto simp: merged_fields_snoc)

lemma merged_fields_ex: "r \<in> set rs \<Longrightarrow> nmap_get (rs_Data r) k = Some v \<Longrightarrow> \<exists>w. merged_fields rs k = Some w"
proof (induction rs rule: rev_induct)
  case (snoc q rs)
  then show ?case by (cases "nmap_get (rs_Data q) k") (auto simp: merged_fields_snoc map_add_def)
qed simp

lemma merged_fields_agree:
  assumes "agree rs"
  shows "merged_fields rs k = Some v \<longleftrightarrow> (\<exists>r \<in> set rs. nmap_get (rs_Data r) k = Some v)"
proof
  assume "\<exists>r \<in> set rs. nmap_get (rs_Data r) k = Some v"
  then obtain r where r: "r \<in> set rs" "nmap_get (rs_Data r) k = Some v" by blast
  then obtain w where w: "merged_fields rs k = Some w" using merged_fields_ex by blast
  with merged_fields_dest obtain q where "q \<in> set rs" "nmap_get (rs_Data q) k = Some w" by blast
  with assms r w show "merged_fields rs k = Some v" unfolding agree_def by metis
qed (rule merged_fields_dest)

lemma merged_fields_perm:
  assumes "agree rs" "mset rs' = mset rs"
  shows "merged_fields rs' = merged_fields rs"
proof
  fix k
  have s: "set rs' = set rs" using assms(2) by (rule mset_eq_setD)
  have a: "agree rs'" using assms(1) by (simp add: agree_def s)
  show "merged_fields rs' k = merged_fields rs k"
    by (rule option_eqI) (simp add: merged_fields_agree [OF a] merged_fields_agree [OF assms(1)] s)
qed

lemma all_complete_perm:
  assumes "mset rs' = mset rs" shows "all_complete rs' \<longleftrightarrow> all_complete rs"
proof -
  have "set rs' = set rs" "length rs' = length rs"
    by (rule mset_eq_setD [OF assms], rule mset_eq_length [OF assms])
  then show ?thesis by (simp add: all_complete_def list_all_iff)
qed

lemma mset_responses_of: "mset ms' = mset ms \<Longrightarrow> mset (responses_of ms') = mset (responses_of ms)"
  unfolding responses_of_def List.map_filter_def mset_map mset_filter by simp

lemma mset_errors_of: "mset ms' = mset ms \<Longrightarrow> mset (errors_of ms') = mset (errors_of ms)"
  unfolding errors_of_def List.map_filter_def mset_map mset_filter by simp

section \<open>The channels of the parallel merger\<close>

definition pm_inv :: "msg list \<Rightarrow> pmerge \<Rightarrow> bool" where
  "pm_inv outs s \<longleftrightarrow>
     mset (pm_running s) + mset (map MsgResp (pm_parts s)) + mset (map MsgErr (pm_failed s)) + mset (pm_log s)
       = mset outs \<and> pm_want s = length outs"

definition pm_measure :: "pmerge \<Rightarrow> nat" where
  "pm_measure s = 2 * length (pm_running s) + length (pm_parts s) + length (pm_failed s)"

inductive_cases pm_stepE: "pm_step cap s t"

lemma pm_init_inv: "pm_inv outs (pm_init outs)"
  by (simp add: pm_inv_def pm_init_def)

lemma pm_step_inv: "pm_step cap s t \<Longrightarrow> pm_inv outs s \<Longrightarrow> pm_inv outs t"
  by (induction rule: pm_step.induct) (auto simp: pm_inv_def ac_simps)

lemma pm_step_measure: "pm_step cap s t \<Longrightarrow> pm_measure t < pm_measure s"
  by (induction rule: pm_step.induct) (auto simp: pm_measure_def)

lemma pm_reach_inv: "(pm_step cap)\<^sup>*\<^sup>* (pm_init outs) s \<Longrightarrow> pm_inv outs s"
  by (induction rule: rtranclp_induct) (auto intro: pm_init_inv pm_step_inv)

lemma pm_inv_sizes:
  assumes "pm_inv outs s"
  shows "length (pm_running s) + length (pm_parts s) + length (pm_failed s) + length (pm_log s) = pm_want s"
    "pm_want s = length outs"
proof -
  have "size (mset (pm_running s) + mset (map MsgResp (pm_parts s)) + mset (map MsgErr (pm_failed s)) + mset (pm_log s))
      = size (mset outs)" using assms by (simp add: pm_inv_def)
  then show "length (pm_running s) + length (pm_parts s) + length (pm_failed s) + length (pm_log s) = pm_want s"
    using assms by (simp add: pm_inv_def)
  show "pm_want s = length outs" using assms by (simp add: pm_inv_def)
qed

lemma pm_progress:
  assumes "pm_inv outs s" "length outs \<le> cap" "\<not> pm_done s"
  shows "\<exists>t. pm_step cap s t"
proof (cases "pm_running s")
  case (Cons m ms)
  note sz = pm_inv_sizes [OF assms(1)]
  have b: "length (pm_parts s) < cap" "length (pm_failed s) < cap"
    using sz assms(2) Cons by simp_all
  show ?thesis
  proof (cases m)
    case (MsgErr e)
    with Cons have "pm_running s = [] @ MsgErr e # ms" by simp
    with b show ?thesis using send_failed by blast
  next
    case (MsgResp r)
    with Cons have "pm_running s = [] @ MsgResp r # ms" by simp
    with b show ?thesis using send_part by blast
  qed
next
  case Nil
  note sz = pm_inv_sizes [OF assms(1)]
  have l: "length (pm_log s) < pm_want s" using sz assms(3) by (simp add: pm_done_def)
  show ?thesis
  proof (cases "pm_failed s")
    case (Cons e es)
    with l show ?thesis using recv_failed by blast
  next
    case Nil
    with sz l \<open>pm_running s = []\<close> have "pm_parts s \<noteq> []" by auto
    then obtain r rs where "pm_parts s = r # rs" by (cases "pm_parts s") auto
    with l show ?thesis using recv_part by blast
  qed
qed

lemma pm_steps_bound: "(pm_step cap ^^ n) s t \<Longrightarrow> n + pm_measure t \<le> pm_measure s"
proof (induction n arbitrary: t)
  case (Suc n)
  then obtain u where "(pm_step cap ^^ n) s u" "pm_step cap u t" by auto
  with Suc.IH [of u] pm_step_measure [of cap u t] show ?case by simp
qed simp

lemma pm_done_log:
  assumes "pm_inv outs s" "pm_done s"
  shows "mset (pm_log s) = mset outs"
proof -
  have "pm_running s = []" "pm_parts s = []" "pm_failed s = []"
    using pm_inv_sizes [OF assms(1)] assms(2) by (auto simp: pm_done_def)
  with assms(1) show ?thesis by (simp add: pm_inv_def)
qed

text \<open>
  Conversely every order is possible: each message can be sent and received before the next
  one is sent.
\<close>

lemma pm_any_order:
  assumes "mset ms = mset (pm_running s)" "pm_parts s = []" "pm_failed s = []"
    and "pm_want s = length (pm_log s) + length ms" "length ms \<le> cap"
  shows "\<exists>t. (pm_step cap)\<^sup>*\<^sup>* s t \<and> pm_done t \<and> pm_log t = pm_log s @ ms"
  using assms
proof (induction ms arbitrary: s)
  case Nil
  then show ?case by (intro exI [of _ s]) (simp add: pm_done_def)
next
  case (Cons m ms)
  obtain run lg want where s: "s = \<lparr>pm_running = run, pm_parts = [], pm_failed = [], pm_log = lg, pm_want = want\<rparr>"
    using Cons.prems(2,3) by (cases s) simp
  have want: "length lg < want" and cap: "0 < cap" using Cons.prems(4,5) s by simp_all
  have "m \<in> set run" using Cons.prems(1) s by (metis list.set_intros(1) mset_eq_setD pmerge.select_convs(1))
  then obtain xs ys where r: "run = xs @ m # ys" by (meson split_list)
  let ?t = "\<lparr>pm_running = xs @ ys, pm_parts = [], pm_failed = [], pm_log = lg @ [m], pm_want = want\<rparr>"
  have "\<exists>u. pm_step cap s u \<and> pm_step cap u ?t"
  proof (cases m)
    case (MsgErr e)
    let ?u = "\<lparr>pm_running = xs @ ys, pm_parts = [], pm_failed = [e], pm_log = lg, pm_want = want\<rparr>"
    have "pm_step cap s ?u" using send_failed [of s xs e ys cap] r cap s MsgErr by simp
    moreover have "pm_step cap ?u ?t" using recv_failed [of ?u e "[]" cap] want MsgErr by simp
    ultimately show ?thesis by blast
  next
    case (MsgResp a)
    let ?u = "\<lparr>pm_running = xs @ ys, pm_parts = [a], pm_failed = [], pm_log = lg, pm_want = want\<rparr>"
    have "pm_step cap s ?u" using send_part [of s xs a ys cap] r cap s MsgResp by simp
    moreover have "pm_step cap ?u ?t" using recv_part [of ?u a "[]" cap] want MsgResp by simp
    ultimately show ?thesis by blast
  qed
  then have "(pm_step cap)\<^sup>*\<^sup>* s ?t" by (meson converse_rtranclp_into_rtranclp rtranclp.rtrancl_refl)
  moreover have "\<exists>u. (pm_step cap)\<^sup>*\<^sup>* ?t u \<and> pm_done u \<and> pm_log u = pm_log ?t @ ms"
    using Cons.prems r s by (intro Cons.IH) simp_all
  ultimately obtain u where "(pm_step cap)\<^sup>*\<^sup>* s u" "pm_done u" "pm_log u = lg @ m # ms"
    by (metis (no_types) append.assoc append_Cons append_Nil pmerge.select_convs(4) rtranclp_trans)
  then show ?case using s by auto
qed

lemma pm_logs:
  assumes "length outs \<le> cap"
  shows "(\<exists>s. (pm_step cap)\<^sup>*\<^sup>* (pm_init outs) s \<and> pm_done s \<and> pm_log s = ms) \<longleftrightarrow> mset ms = mset outs"
proof
  assume "\<exists>s. (pm_step cap)\<^sup>*\<^sup>* (pm_init outs) s \<and> pm_done s \<and> pm_log s = ms"
  then show "mset ms = mset outs" using pm_reach_inv pm_done_log by blast
next
  assume m: "mset ms = mset outs"
  then have "length ms = length outs" by (metis size_mset)
  with m assms pm_any_order [of ms "pm_init outs" cap]
  show "\<exists>s. (pm_step cap)\<^sup>*\<^sup>* (pm_init outs) s \<and> pm_done s \<and> pm_log s = ms"
    by (simp add: pm_init_def)
qed

lemma length_parallel_calls: "length (parallel_calls cl filters i nxt r) \<le> length nxt"
  by (induction cl filters i nxt r rule: parallel_calls.induct) (auto split: prod.splits)

lemma all_messages_length: "all_messages xs = Some ms \<Longrightarrow> length ms = length xs"
  by (induction xs arbitrary: ms) (auto split: option.splits)

section \<open>The sequential merger on values\<close>

text \<open>
  The replacements read the store, write parameters and may exhaust a body; they leave the
  accumulator, and the data and completeness of every response.
\<close>

definition same_data :: "heap \<Rightarrow> heap \<Rightarrow> bool" where
  "same_data h h' \<longleftrightarrow> (\<forall>a. valid h a \<longrightarrow> valid h' a \<and> hr_Data (h_resp h' ! a) = hr_Data (h_resp h ! a) \<and>
     rs_Data (deref h' a) = rs_Data (deref h a) \<and> rs_IsComplete (deref h' a) = rs_IsComplete (deref h a))"

lemma same_data_refl [simp]: "same_data h h"
  by (simp add: same_data_def)

lemma same_data_trans: "same_data h h' \<Longrightarrow> same_data h' h'' \<Longrightarrow> same_data h h''"
  by (simp add: same_data_def)

lemma same_data_drain: "same_data h (drain p h)"
  by (cases "p < length (h_resp h)")
    (auto simp: same_data_def drain_def valid_def deref_def Let_def nth_list_update)

lemma same_data_alloc: "alloc r h = (a, h') \<Longrightarrow> same_data h h'"
  using alloc_frame [of r h a h'] by (auto simp: same_data_def)

lemma set_param_frame: "set_param k v s = Some s' \<Longrightarrow> sq_acc s' = sq_acc s \<and> sq_heap s' = sq_heap s"
  by (auto simp: set_param_def split: option.splits)

lemma register_param_frame:
  "sq_acc (register_param k v s) = sq_acc s" "sq_heap (register_param k v s) = sq_heap s"
  by (simp_all add: register_param_def)

lemma apply_replacement_frame:
  "apply_replacement ff fe i r s = Some s' \<Longrightarrow> sq_acc s' = sq_acc s \<and> same_data (sq_heap s) (sq_heap s')"
  using same_data_drain
  by (auto simp: apply_replacement_def Let_def register_param_frame dest!: set_param_frame
      split: if_splits option.splits sum.splits)

lemma apply_replacements_frame:
  "apply_replacements ff fe i rs s = Some s' \<Longrightarrow> sq_acc s' = sq_acc s \<and> same_data (sq_heap s) (sq_heap s')"
proof (induction rs arbitrary: s)
  case (Cons r rs)
  then obtain t where "apply_replacement ff fe i r s = Some t" "apply_replacements ff fe i rs t = Some s'"
    by (auto split: option.splits)
  with Cons.IH [of t] apply_replacement_frame [of ff fe i r s t] same_data_trans show ?case by auto
qed simp

text \<open>The accumulator and its value, up to the metadata and the body of the response.\<close>

definition data_eq :: "Response option \<Rightarrow> Response option \<Rightarrow> bool" where
  "data_eq x y \<longleftrightarrow> map_option (\<lambda>r. (rs_Data r, rs_IsComplete r)) x = map_option (\<lambda>r. (rs_Data r, rs_IsComplete r)) y"

definition seq_rel :: "sequential \<Rightarrow> Response option \<times> goerror list \<Rightarrow> bool" where
  "seq_rel s v \<longleftrightarrow> (\<exists>d. acc_rel (sq_acc s, sq_heap s) (d, snd v) \<and> data_eq d (fst v))"

lemma combine_values_cong:
  "data_eq (Some a) (Some a') \<Longrightarrow> combine_values 2 [Some a, Some r] = combine_values 2 [Some a', Some r]"
  by (auto simp: data_eq_def combine_values_def part_data_def List.map_filter_simps)

lemma data_eq_refl [simp]: "data_eq x x"
  by (simp add: data_eq_def)

lemma v_receive_cong:
  assumes "data_eq d d'"
  shows "snd (v_receive m (d, errs)) = snd (v_receive m (d', errs)) \<and>
    data_eq (fst (v_receive m (d, errs))) (fst (v_receive m (d', errs)))"
proof (cases m)
  case (MsgErr e)
  with assms show ?thesis
    by (cases d; cases d') (auto simp: v_receive_simps data_eq_def)
next
  case (MsgResp r)
  show ?thesis
  proof (cases d)
    case None
    with assms MsgResp show ?thesis by (auto simp: v_receive_simps data_eq_def)
  next
    case (Some a)
    with assms obtain a' where a': "d' = Some a'" by (cases d') (auto simp: data_eq_def)
    with Some assms show ?thesis
      using combine_values_cong [of a a' r] by (simp add: v_receive_simps MsgResp)
  qed
qed

lemma fold_v_receive_cong:
  "data_eq d d' \<Longrightarrow> snd (fold v_receive ms (d, errs)) = snd (fold v_receive ms (d', errs)) \<and>
    data_eq (fst (fold v_receive ms (d, errs))) (fst (fold v_receive ms (d', errs)))"
proof (induction ms arbitrary: d d' errs)
  case (Cons m ms)
  obtain d1 e1 where p: "v_receive m (d, errs) = (d1, e1)" by fastforce
  obtain d2 e2 where q: "v_receive m (d', errs) = (d2, e2)" by fastforce
  show ?case
    using v_receive_cong [OF Cons.prems, of m errs] Cons.IH [of d1 d2 e1] by (simp add: p q)
qed simp

lemma seq_rel_frame:
  assumes "seq_rel s v" "sq_acc s' = sq_acc s" "same_data (sq_heap s) (sq_heap s')"
  shows "seq_rel s' v"
proof -
  obtain d where d: "acc_rel (sq_acc s, sq_heap s) (d, snd v)" "data_eq d (fst v)"
    using assms(1) by (auto simp: seq_rel_def)
  define d' where "d' = map_option (deref (sq_heap s')) (ac_data (sq_acc s))"
  have "acc_rel (sq_acc s', sq_heap s') (d', snd v)"
    using d(1) assms(2,3) by (auto simp: acc_rel_def d'_def same_data_def)
  moreover have "data_eq d' d"
    using d(1) assms(3) by (auto simp: acc_rel_def d'_def same_data_def data_eq_def option.map_comp
        intro!: option.map_cong)
  ultimately show ?thesis using d(2) by (auto simp: seq_rel_def data_eq_def)
qed

lemma seq_rel_receive:
  assumes "seq_rel s v" "acc_receive combineData m (sq_acc s, sq_heap s) = (acc, h)"
  shows "seq_rel (s\<lparr>sq_acc := acc, sq_heap := h\<rparr>) (v_receive m v) \<and> ac_pending acc = ac_pending (sq_acc s) - 1"
proof -
  obtain d where d: "acc_rel (sq_acc s, sq_heap s) (d, snd v)" "data_eq d (fst v)"
    using assms(1) by (auto simp: seq_rel_def)
  have "acc_rel (acc, h) (v_receive m (d, snd v))" "ac_pending acc = ac_pending (sq_acc s) - 1"
    using acc_receive_rel [OF d(1), of m] assms(2) by simp_all
  moreover obtain d1 e1 where p: "v_receive m (d, snd v) = (d1, e1)" by fastforce
  ultimately show ?thesis
    using v_receive_cong [OF d(2), of m "snd v"] by (auto simp: seq_rel_def p)
qed

text \<open>
  The messages of a sequential merge: one per backend called, in order, the last one only may
  be an error or an incomplete response, and it is then the last backend called.
\<close>

definition stops :: "msg \<Rightarrow> bool" where
  "stops m \<longleftrightarrow> (case m of MsgErr _ \<Rightarrow> True | MsgResp r \<Rightarrow> \<not> rs_IsComplete r)"

definition seq_trace :: "(nat \<Rightarrow> goerror option) \<Rightarrow> nat \<Rightarrow> Proxy list \<Rightarrow> msg list \<Rightarrow> bool" where
  "seq_trace ctx_err i nxt ms \<longleftrightarrow>
     length ms \<le> length nxt \<and>
     (\<forall>j < length ms. \<exists>q. requestPart (ctx_err (i + j)) ((nxt ! j) q) = Some (ms ! j)) \<and>
     (\<forall>j < length ms. stops (ms ! j) \<longrightarrow> Suc j = length ms) \<and>
     (length ms < length nxt \<longrightarrow> ms \<noteq> [] \<and> stops (last ms))"

lemma seq_trace_Cons:
  assumes "requestPart (ctx_err i) (n q) = Some m" "\<not> stops m" "seq_trace ctx_err (Suc i) nxt ms"
  shows "seq_trace ctx_err i (n # nxt) (m # ms)"
  using assms by (auto simp: seq_trace_def nth_Cons split: nat.splits)

lemma seq_trace_stop:
  "requestPart (ctx_err i) (n q) = Some m \<Longrightarrow> stops m \<Longrightarrow> seq_trace ctx_err i (n # nxt) [m]"
  by (auto simp: seq_trace_def)

text \<open>The combiner makes a new response and does not write into the ones it got.\<close>

lemma combine_loop_keeps:
  "combine_loop parts c ret h = (c', ret', h') \<Longrightarrow>
    (\<exists>xs. h_resp h' = h_resp h @ xs) \<and> (ret' = ret \<or> (\<exists>r. ret' = Some r \<and> length (h_resp h) \<le> r))"
proof (induction parts arbitrary: c ret h)
  case (Cons p ps)
  from Cons.prems show ?case
    by (auto simp: Let_def split: option.splits dest!: Cons.IH)
qed simp

lemma combineData_keeps:
  assumes "combineData tot parts h = (d, h')" "a < length (h_resp h)"
  shows "h_resp h' ! a = h_resp h ! a"
proof -
  obtain c ret h1 where l: "combine_loop parts (length parts = tot) None h = (c, ret, h1)"
    by (metis prod_cases3)
  from combine_loop_keeps [OF l] assms l show ?thesis
    by (auto simp: combineData_def alloc_def set_complete_def nth_append Let_def split: option.splits)
qed

lemma acc_Merge_keeps:
  assumes "alloc r h = (a, h1)" "acc_Merge combineData (Some a) None (i, h1) = (acc, h')"
  shows "hr_IsComplete (h_resp h' ! a) = rs_IsComplete r"
proof -
  have a: "a < length (h_resp h1)" "hr_IsComplete (h_resp h1 ! a) = rs_IsComplete r"
    using assms(1) by (auto simp: alloc_def Let_def split: option.splits)
  have "h_resp h' ! a = h_resp h1 ! a"
    using assms(2) combineData_keeps [OF _ a(1)]
    by (auto simp: acc_Merge_def Let_def split: option.splits prod.splits)
  with a(2) show ?thesis by simp
qed

lemma seq_loop_rel:
  assumes "seq_loop ff fe cl combineData reps [] ctx_err i nxt s = SeqDone s'" "seq_rel s v"
  shows "\<exists>ms. seq_trace ctx_err i nxt ms \<and> seq_rel s' (fold v_receive ms v) \<and>
    ac_pending (sq_acc s') = ac_pending (sq_acc s) - int (length ms)"
  using assms
proof (induction nxt arbitrary: i s v)
  case Nil
  then show ?case by (intro exI [of _ "[]"]) (simp add: seq_trace_def)
next
  case (Cons n nxt)
  define o1 where "o1 = (if i > 0 then (if i < length reps then apply_replacements ff fe i (reps ! i) s else None) else Some s)"
  obtain s1 where s1: "o1 = Some s1" using Cons.prems(1) by (cases o1) (auto simp: o1_def)
  have fr: "sq_acc s1 = sq_acc s" "same_data (sq_heap s) (sq_heap s1)"
    using s1 apply_replacements_frame unfolding o1_def by (auto split: if_splits)
  obtain req clone where cl: "cl (sq_request s1) = (req, clone)" by fastforce
  define s2 where "s2 = s1\<lparr>sq_request := req\<rparr>"
  have r2: "seq_rel s2 v" using seq_rel_frame [OF Cons.prems(2), of s2] fr by (simp add: s2_def)
  obtain m where m: "requestPart (ctx_err i) (n clone) = Some m"
    using Cons.prems(1) s1 unfolding o1_def [symmetric] seq_loop.simps
    by (auto simp: skipped_def cl Let_def split: option.splits)
  obtain acc h where ah: "acc_receive combineData m (sq_acc s2, sq_heap s2) = (acc, h)" by fastforce
  define s3 where "s3 = s2\<lparr>sq_acc := acc, sq_heap := h\<rparr>"
  have r3: "seq_rel s3 (v_receive m v)" "ac_pending (sq_acc s3) = ac_pending (sq_acc s) - 1"
    using seq_rel_receive [OF r2 ah] fr by (simp_all add: s3_def s2_def)
  have loop: "(stops m \<and> s' = s3) \<or>
      (\<not> stops m \<and> (\<exists>a. seq_loop ff fe cl combineData reps [] ctx_err (Suc i) nxt
        (s3\<lparr>sq_parts := (sq_parts s3)[i := Some a]\<rparr>) = SeqDone s'))"
    using Cons.prems(1) s1 ah m unfolding o1_def [symmetric] seq_loop.simps
    by (cases m) (auto simp: skipped_def cl Let_def s2_def s3_def acc_receive_def stops_def acc_Merge_keeps
        split: if_splits prod.splits)
  then show ?case
  proof (elim disjE conjE exE)
    assume "stops m" "s' = s3"
    with seq_trace_stop [where q = clone and ctx_err = ctx_err and i = i and n = n, OF m] r3 show ?thesis by (intro exI [of _ "[m]"]) simp
  next
    fix a assume ns: "\<not> stops m" and l: "seq_loop ff fe cl combineData reps [] ctx_err (Suc i) nxt
        (s3\<lparr>sq_parts := (sq_parts s3)[i := Some a]\<rparr>) = SeqDone s'"
    have "seq_rel (s3\<lparr>sq_parts := (sq_parts s3)[i := Some a]\<rparr>) (v_receive m v)"
      using r3(1) by (simp add: seq_rel_def)
    from Cons.IH [OF l this] obtain ms where "seq_trace ctx_err (Suc i) nxt ms"
      "seq_rel s' (fold v_receive ms (v_receive m v))"
      "ac_pending (sq_acc s') = ac_pending (sq_acc s3) - int (length ms)" by auto
    with seq_trace_Cons [where q = clone and ctx_err = ctx_err and i = i and n = n, OF m ns] r3 show ?thesis by (intro exI [of _ "m # ms"]) simp
  qed
qed


lemma seq_loop_first_error:
  assumes "requestPart (ctx_err 0) (n (snd (cl request))) = Some (MsgErr e)" "\<not> skipped filters 0 request"
  shows "sequentialMerge ff fe cl rc reps filters ctx_err (n # nxt) request = Ret None (Some e)"
  using assms by (simp add: sequentialMerge_def seq_init_def split_beta Let_def)

lemma seq_loop_all_skipped:
  assumes "\<And>i. i < length nxt + k \<Longrightarrow> skipped filters i (sq_request s)" "\<And>i. i < length nxt + k \<Longrightarrow> i < length reps \<and> reps ! i = []"
  shows "\<exists>s'. seq_loop ff fe cl rc reps filters ctx_err k nxt s = SeqDone s' \<and>
    ac_data (sq_acc s') = ac_data (sq_acc s) \<and> ac_errs (sq_acc s') = ac_errs (sq_acc s)"
  using assms
proof (induction nxt arbitrary: k s)
  case (Cons n nxt)
  obtain a h where al: "alloc (mk_Response (Some []) True) (sq_heap s) = (a, h)" by fastforce
  define s1 where "s1 = s\<lparr>sq_heap := h, sq_parts := (sq_parts s)[k := Some a],
    sq_acc := (sq_acc s)\<lparr>ac_pending := ac_pending (sq_acc s) - 1\<rparr>\<rparr>"
  have "seq_loop ff fe cl rc reps filters ctx_err k (n # nxt) s =
      seq_loop ff fe cl rc reps filters ctx_err (Suc k) nxt s1"
    using Cons.prems(1) [of k] Cons.prems(2) [of k] al by (cases "k = 0") (auto simp: s1_def)
  moreover have "\<exists>s'. seq_loop ff fe cl rc reps filters ctx_err (Suc k) nxt s1 = SeqDone s' \<and>
      ac_data (sq_acc s') = ac_data (sq_acc s1) \<and> ac_errs (sq_acc s') = ac_errs (sq_acc s1)"
    using Cons.prems by (intro Cons.IH) (simp_all add: s1_def)
  ultimately show ?case by (simp add: s1_def)
qed simp

lemma parallel_calls_all_skipped:
  "(\<And>j. j < length nxt \<Longrightarrow> skipped filters (i + j) request) \<Longrightarrow> parallel_calls cl filters i nxt request = []"
proof (induction nxt arbitrary: i)
  case (Cons n nxt)
  have "skipped filters i request" using Cons.prems [of 0] by simp
  moreover have "parallel_calls cl filters (Suc i) nxt request = []"
    using Cons.prems [of "Suc j" for j] by (intro Cons.IH) simp
  ultimately show ?case by simp
qed simp

lemma parallel_calls_none:
  "parallel_calls cl [] i nxt request = [] \<longleftrightarrow> nxt = []"
  by (cases nxt) (auto simp: skipped_def split: prod.splits)

lemma seq_trace_response:
  assumes "seq_trace ctx_err i nxt ms" "MsgResp x \<in> set ms"
  shows "\<exists>n \<in> set nxt. \<exists>q. n q = Ret (Some x) None"
proof -
  from assms(2) obtain j where j: "j < length ms" "ms ! j = MsgResp x" by (auto simp: in_set_conv_nth)
  with assms(1) obtain q where "requestPart (ctx_err (i + j)) ((nxt ! j) q) = Some (MsgResp x)"
    unfolding seq_trace_def by metis
  then have "(nxt ! j) q = Ret (Some x) None"
    by (auto simp: requestPart_def split: presult.splits option.splits)
  moreover have "nxt ! j \<in> set nxt" using j assms(1) by (simp add: seq_trace_def)
  ultimately show ?thesis by blast
qed

text \<open>The result of a sequential merge in terms of the messages it received.\<close>

lemma sequentialMerge_values:
  assumes "sequentialMerge ff fe cl combineData reps [] ctx_err nxt request = Ret (Some r) e"
  shows "\<exists>ms y errs. seq_trace ctx_err 0 nxt ms \<and> fold v_receive ms (None, []) = (Some y, errs) \<and>
    rs_Data r = rs_Data y \<and> e = newMergeError errs \<and>
    (rs_IsComplete r \<longleftrightarrow> length ms = length nxt \<and> errs = [] \<and> rs_IsComplete y)"
proof -
  let ?s = "seq_init (length nxt) request"
  obtain s' where s': "seq_loop ff fe cl combineData reps [] ctx_err 0 nxt ?s = SeqDone s'"
    and res: "result_value (acc_Result (sq_acc s', sq_heap s')) = Ret (Some r) e"
    using assms(1) by (auto simp: sequentialMerge_def split: seq_outcome.splits)
  have "seq_rel ?s (None, [])"
    by (simp add: seq_rel_def seq_init_def acc_rel_def newIncrementalMergeAccumulator_def data_eq_def)
  from seq_loop_rel [OF s' this] obtain ms where tr: "seq_trace ctx_err 0 nxt ms"
    and rel: "seq_rel s' (fold v_receive ms (None, []))"
    and pend: "ac_pending (sq_acc s') = int (length nxt) - int (length ms)"
    by (auto simp: seq_init_def newIncrementalMergeAccumulator_def)
  obtain d errs where v: "fold v_receive ms (None, []) = (d, errs)" by fastforce
  obtain d' where d': "acc_rel (sq_acc s', sq_heap s') (d', errs)" "data_eq d' d"
    using rel by (auto simp: seq_rel_def v)
  from acc_Result_rel [OF d'(1)] res obtain x where x: "d' = Some x" "e = newMergeError errs"
    "r = (if ac_pending (sq_acc s') > 0 \<or> errs \<noteq> [] then x\<lparr>rs_IsComplete := False\<rparr> else x)"
    by (cases d') simp_all
  then obtain y where y: "d = Some y" "rs_Data x = rs_Data y" "rs_IsComplete x = rs_IsComplete y"
    using d'(2) by (cases d) (simp_all add: data_eq_def)
  have "length ms \<le> length nxt" using tr by (simp add: seq_trace_def)
  then have "rs_IsComplete r \<longleftrightarrow> length ms = length nxt \<and> errs = [] \<and> rs_IsComplete x"
    using pend by (auto simp: x(3))
  moreover have "rs_Data r = rs_Data x" by (simp add: x(3))
  ultimately show ?thesis using tr v x(2) y by (intro exI [of _ ms] exI [of _ y] exI [of _ errs]) simp
qed

section \<open>Complete merges\<close>

text \<open>
  A merge is complete only when every message was a complete response. A proxy \<open>gave_complete\<close>
  when some request was answered so.
\<close>

definition gave_complete :: "Proxy \<Rightarrow> bool" where
  "gave_complete p \<longleftrightarrow> (\<exists>q resp err. p q = Ret (Some resp) err \<and> rs_IsComplete resp)"

lemma fold_v_complete:
  assumes "fold v_receive ms (None, []) = (d, errs)"
  shows "errs = errors_of ms \<and> (d = None \<longrightarrow> responses_of ms = []) \<and>
    (\<forall>r. d = Some r \<longrightarrow> errs = [] \<longrightarrow> rs_IsComplete r \<longrightarrow> list_all rs_IsComplete (responses_of ms))"
  using assms
proof (induction ms arbitrary: d errs rule: rev_induct)
  case (snoc m ms)
  obtain d0 errs0 where v: "fold v_receive ms (None, []) = (d0, errs0)" by fastforce
  note IH = snoc.IH [OF v]
  show ?case
  proof (cases m)
    case (MsgErr x)
    with IH snoc.prems show ?thesis by (auto simp: v v_receive_simps)
  next
    case (MsgResp x)
    with IH snoc.prems show ?thesis
      by (cases d0) (auto simp: v v_receive_simps combine2_complete)
  qed
qed simp

lemma errors_of_Nil: "errors_of ms = [] \<longleftrightarrow> (\<forall>m \<in> set ms. \<exists>r. m = MsgResp r)"
proof (induction ms)
  case (Cons m ms)
  then show ?case by (cases m) auto
qed simp

lemma requestPart_response:
  "requestPart c res = Some (MsgResp r) \<Longrightarrow> res = Ret (Some r) None"
  by (auto simp: requestPart_def split: presult.splits option.splits)

lemma merge_log_complete:
  assumes "merge_log combineData ms = Ret (Some r) e" "rs_IsComplete r"
  shows "e = None \<and> (\<forall>m \<in> set ms. \<exists>x. m = MsgResp x \<and> rs_IsComplete x)"
proof -
  obtain d errs where v: "fold v_receive ms (None, []) = (d, errs)" by fastforce
  obtain z where z: "d = Some z" "r = (if errs \<noteq> [] then z\<lparr>rs_IsComplete := False\<rparr> else z)"
    using assms(1) by (auto simp: merge_log_values merge_values_def v)
  then have "errs = []" using assms(2) by (cases "errs = []") simp_all
  have e: "e = newMergeError errs" using assms(1) by (simp add: merge_log_values merge_values_def v)
  have "errors_of ms = []" "list_all rs_IsComplete (responses_of ms)"
    using fold_v_complete [OF v] \<open>errs = []\<close> z assms(2) by simp_all
  then have "\<forall>m \<in> set ms. \<exists>x. m = MsgResp x \<and> rs_IsComplete x"
    unfolding errors_of_Nil list_all_iff by (metis set_responses_of)
  then show ?thesis using e \<open>errs = []\<close> by (simp add: newMergeError_def)
qed

lemma all_messages_nth: "all_messages xs = Some ms \<Longrightarrow> i < length xs \<Longrightarrow> xs ! i = Some (ms ! i)"
proof (induction xs arbitrary: ms i)
  case (Cons x xs)
  then show ?case by (cases i) (auto split: option.splits)
qed simp

lemma parallel_calls_unfiltered: "map fst (parallel_calls cl [] i nxt request) = nxt"
  by (induction nxt arbitrary: i request) (auto simp: skipped_def split: prod.splits)

lemma parallelMerge_complete:
  assumes "parallelMerge sched ctx_err cl combineData [] nxt request = Ret (Some r) e" "rs_IsComplete r"
    and "\<And>ms. mset (sched ms) = mset ms"
  shows "e = None \<and> (\<forall>n \<in> set nxt. gave_complete n)"
proof -
  let ?calls = "parallel_calls cl [] 0 nxt request"
  let ?xs = "map (\<lambda>(i, n, r). requestPart (ctx_err i) (n r)) (zip [0..<length ?calls] ?calls)"
  obtain outs where o: "all_messages ?xs = Some outs" and m: "merge_log combineData (sched outs) = Ret (Some r) e"
    using assms(1) by (auto simp: parallelMerge_def Let_def split: option.splits)
  from merge_log_complete [OF m assms(2)] mset_eq_setD [OF assms(3) [of outs]]
  have c: "e = None" "\<forall>m \<in> set outs. \<exists>x. m = MsgResp x \<and> rs_IsComplete x" by simp_all
  have "gave_complete n" if "n \<in> set nxt" for n
  proof -
    from that obtain i where i: "i < length nxt" "nxt ! i = n" by (auto simp: in_set_conv_nth)
    have len: "length ?calls = length nxt" by (metis length_map parallel_calls_unfiltered)
    then have f: "fst (?calls ! i) = n" using i by (metis nth_map parallel_calls_unfiltered)
    have "?xs ! i = Some (outs ! i)" "i < length outs"
      using all_messages_nth [OF o, of i] all_messages_length [OF o] i(1) len by simp_all
    then have r: "requestPart (ctx_err i) (n (snd (?calls ! i))) = Some (outs ! i)"
      using i(1) len f by (simp add: split_beta)
    obtain x where x: "outs ! i = MsgResp x" "rs_IsComplete x" using c(2) \<open>i < length outs\<close> by (metis nth_mem)
    with requestPart_response [of "ctx_err i"] r show ?thesis unfolding gave_complete_def by metis
  qed
  with c(1) show ?thesis by blast
qed

lemma sequentialMerge_complete:
  assumes "sequentialMerge ff fe cl combineData reps [] ctx_err nxt request = Ret (Some r) e" "rs_IsComplete r"
  shows "e = None \<and> (\<forall>n \<in> set nxt. gave_complete n)"
proof -
  obtain ms y errs where tr: "seq_trace ctx_err 0 nxt ms" and v: "fold v_receive ms (None, []) = (Some y, errs)"
    and r: "e = newMergeError errs" "length ms = length nxt" "errs = []" "rs_IsComplete y"
    using sequentialMerge_values [OF assms(1)] assms(2) by blast
  from fold_v_complete [OF v] r have c: "\<forall>m \<in> set ms. \<exists>x. m = MsgResp x \<and> rs_IsComplete x"
    by (metis errors_of_Nil list_all_iff set_responses_of)
  have "gave_complete n" if "n \<in> set nxt" for n
  proof -
    from that obtain j where j: "j < length nxt" "nxt ! j = n" by (auto simp: in_set_conv_nth)
    then obtain q where "requestPart (ctx_err (0 + j)) (n q) = Some (ms ! j)"
      using tr r(2) unfolding seq_trace_def by metis
    moreover obtain x where "ms ! j = MsgResp x" "rs_IsComplete x" using c j(1) r(2) by (metis nth_mem)
    ultimately show ?thesis using requestPart_response unfolding gave_complete_def by metis
  qed
  then show ?thesis using r by (simp add: newMergeError_def)
qed

section \<open>Properties\<close>

text \<open>
  C15: The default combiner, which works on shared maps in the store, implements the
  combination of response values: the result has the fields of the first part with data,
  overwritten by the later ones in order, no metadata and no body, and is complete when no part
  is missing, without data or incomplete.
\<close>

theorem combineData_refines:
  "parts_ok h parts \<Longrightarrow>
   \<exists>a h'. combineData tot parts h = (Some a, h') \<and> valid h' a \<and>
     deref h' a = combine_values tot (map (map_option (deref h)) parts)"
  by (rule combineData_values)

theorem combineData_refines_witness:
  "\<exists>a h'. combineData 2 [Some 0, None]
     (snd (alloc (mk_Response (Some [(''a'', VInt 1)]) True) empty_heap)) = (Some a, h') \<and>
     deref h' a = mk_Response (Some [(''a'', VInt 1)]) False"
  using combineData_refines [of "snd (alloc (mk_Response (Some [(''a'', VInt 1)]) True) empty_heap)"
      "[Some 0, None]" 2]
  by (auto simp: parts_ok_def addrs_def map_addr_def valid_def alloc_def empty_heap_def mk_Response_def deref_def
      combine_values_def part_data_def List.map_filter_simps)

lemma parallel_outcome:
  assumes "(pm_step cap)\<^sup>*\<^sup>* (pm_init outs) s" "pm_done s" "list_all resp_ok (responses_of outs)"
  shows "mset (pm_log s) = mset outs \<and>
    (\<exists>res. merge_log combineData (pm_log s) = Ret res (newMergeError (errors_of (pm_log s))) \<and>
      (res = None \<longleftrightarrow> responses_of outs = []) \<and>
      (\<forall>r. res = Some r \<longrightarrow> nmap_get (rs_Data r) = merged_fields (responses_of (pm_log s)) \<and>
        (rs_IsComplete r \<longleftrightarrow> errors_of outs = [] \<and> all_complete (responses_of outs))))"
proof -
  have m: "mset (pm_log s) = mset outs" using pm_done_log [OF pm_reach_inv [OF assms(1)] assms(2)] .
  note p = mset_responses_of [OF m] mset_errors_of [OF m]
  have ok: "list_all resp_ok (responses_of (pm_log s))"
    using assms(3) mset_eq_setD [OF p(1)] by (simp add: list_all_iff)
  have e: "errors_of (pm_log s) = [] \<longleftrightarrow> errors_of outs = []" "responses_of (pm_log s) = [] \<longleftrightarrow> responses_of outs = []"
    using p by (metis mset_zero_iff)+
  show ?thesis
    using merge_values_ok [OF ok] by (simp add: m merge_log_values e all_complete_perm [OF p(1)])
qed

text \<open>
  C1: A run of the parallel merger that ends has received each backend's message exactly once,
  and returns: nothing when every backend failed; otherwise a response with the fields of all
  the responses, later arrivals over earlier ones, complete exactly when no backend failed and
  every response is complete (and has data, if there are several); and the errors of all the
  failed backends.
\<close>

theorem parallel_result:
  assumes "(pm_step cap)\<^sup>*\<^sup>* (pm_init outs) s" "pm_done s" "list_all resp_ok (responses_of outs)"
  shows "mset (pm_log s) = mset outs \<and>
    (\<exists>res. merge_log combineData (pm_log s) = Ret res (newMergeError (errors_of (pm_log s))) \<and>
      (res = None \<longleftrightarrow> responses_of outs = []) \<and>
      (\<forall>r. res = Some r \<longrightarrow> nmap_get (rs_Data r) = merged_fields (responses_of (pm_log s)) \<and>
        (rs_IsComplete r \<longleftrightarrow> errors_of outs = [] \<and> all_complete (responses_of outs))))"
  by (rule parallel_outcome [OF assms])

theorem parallel_result_witness:
  "\<exists>res. merge_log combineData [MsgErr errNullResult, MsgResp (mk_Response (Some [(''a'', VInt 1)]) True)] =
     Ret (Some res) (newMergeError [errNullResult]) \<and> nmap_get (rs_Data res) ''a'' = Some (VInt 1) \<and> \<not> rs_IsComplete res"
proof -
  let ?r = "mk_Response (Some [(''a'', VInt 1)]) True" and ?e = "errNullResult"
  let ?s = "\<lambda>run parts failed log. \<lparr>pm_running = run, pm_parts = parts, pm_failed = failed, pm_log = log, pm_want = 2\<rparr>"
  have "pm_step 2 (?s [MsgResp ?r, MsgErr ?e] [] [] []) (?s [MsgErr ?e] [?r] [] [])"
    using send_part [of "?s [MsgResp ?r, MsgErr ?e] [] [] []" "[]" ?r "[MsgErr ?e]" 2] by simp
  moreover have "pm_step 2 (?s [MsgErr ?e] [?r] [] []) (?s [] [?r] [?e] [])"
    using send_failed [of "?s [MsgErr ?e] [?r] [] []" "[]" ?e "[]" 2] by simp
  moreover have "pm_step 2 (?s [] [?r] [?e] []) (?s [] [?r] [] [MsgErr ?e])"
    using recv_failed [of "?s [] [?r] [?e] []" ?e "[]" 2] by simp
  moreover have "pm_step 2 (?s [] [?r] [] [MsgErr ?e]) (?s [] [] [] [MsgErr ?e, MsgResp ?r])"
    using recv_part [of "?s [] [?r] [] [MsgErr ?e]" ?r "[]" 2] by simp
  ultimately have "(pm_step 2)\<^sup>*\<^sup>* (?s [MsgResp ?r, MsgErr ?e] [] [] []) (?s [] [] [] [MsgErr ?e, MsgResp ?r])"
    by (meson converse_rtranclp_into_rtranclp rtranclp.rtrancl_refl)
  then have "(pm_step 2)\<^sup>*\<^sup>* (pm_init [MsgResp ?r, MsgErr ?e]) (?s [] [] [] [MsgErr ?e, MsgResp ?r])"
    by (simp add: pm_init_def numeral_2_eq_2)
  from parallel_result [OF this] show ?thesis
    by (auto simp: pm_done_def resp_ok_def mk_Response_def gmap_ok_def merged_fields_def)
qed

text \<open>
  C2: The parallel merger always returns: while the loop waits, some send or receive can
  happen (no goroutine ever blocks on a full channel), and every run has at most two steps per
  backend.
\<close>

theorem parallel_terminates:
  assumes "length outs \<le> cap" "(pm_step cap ^^ n) (pm_init outs) s"
  shows "n \<le> 2 * length outs \<and> (\<not> pm_done s \<longrightarrow> (\<exists>t. pm_step cap s t)) \<and>
    (pm_running s \<noteq> [] \<longrightarrow> length (pm_parts s) < cap \<and> length (pm_failed s) < cap)"
proof -
  have inv: "pm_inv outs s"
    using assms(2) pm_reach_inv [of cap outs s] relpowp_imp_rtranclp by metis
  have "n \<le> 2 * length outs"
    using pm_steps_bound [OF assms(2)] by (simp add: pm_measure_def pm_init_def)
  moreover have "pm_running s \<noteq> [] \<Longrightarrow> length (pm_parts s) < cap \<and> length (pm_failed s) < cap"
    using pm_inv_sizes [OF inv] assms(1) by (cases "pm_running s") auto
  ultimately show ?thesis using pm_progress [OF inv assms(1)] by blast
qed

theorem parallel_terminates_witness:
  "\<exists>t. pm_step 1 (pm_init [MsgErr errNullResult]) t"
  using parallel_terminates [of "[MsgErr errNullResult]" 1 0] by (simp add: pm_done_def pm_init_def)

text \<open>
  C17: The parallel merger as a function of the order of arrival is exactly its goroutines and
  channels: the outcomes for all the orders are the outcomes of the finished runs.
\<close>

theorem parallelMerge_is_its_runs:
  assumes "calls = parallel_calls reqCloner filters 0 nxt request"
    and "all_messages (map (\<lambda>(i, n, r). requestPart (ctx_err i) (n r)) (zip [0..<length calls] calls)) = Some outs"
  shows "{parallelMerge sched ctx_err reqCloner rc filters nxt request | sched. \<forall>ms. mset (sched ms) = mset ms} =
    {merge_log rc (pm_log s) | s. (pm_step (length nxt))\<^sup>*\<^sup>* (pm_init outs) s \<and> pm_done s}" (is "?L = ?R")
proof -
  have "length outs = length calls" using all_messages_length [OF assms(2)] by simp
  then have cap: "length outs \<le> length nxt" using assms(1) length_parallel_calls by metis
  have run: "parallelMerge sched ctx_err reqCloner rc filters nxt request = merge_log rc (sched outs)" for sched
    using assms by (simp add: parallelMerge_def Let_def)
  have "?L \<subseteq> ?R"
  proof
    fix x
    assume "x \<in> ?L"
    then obtain sched where x: "x = merge_log rc (sched outs)" and "mset (sched outs) = mset outs" by (auto simp: run)
    then obtain s where "(pm_step (length nxt))\<^sup>*\<^sup>* (pm_init outs) s" "pm_done s" "pm_log s = sched outs"
      using pm_logs [OF cap] by blast
    with x show "x \<in> ?R" by force
  qed
  moreover have "?R \<subseteq> ?L"
  proof
    fix x
    assume "x \<in> ?R"
    then obtain s where x: "x = merge_log rc (pm_log s)" and r: "(pm_step (length nxt))\<^sup>*\<^sup>* (pm_init outs) s" "pm_done s"
      by blast
    then have "mset (pm_log s) = mset outs" using pm_reach_inv pm_done_log by blast
    then have "\<forall>ms. mset (if ms = outs then pm_log s else ms) = mset ms" by simp
    then show "x \<in> ?L" unfolding run x by (intro CollectI exI [of _ "\<lambda>ms. if ms = outs then pm_log s else ms"]) simp
  qed
  ultimately show ?thesis by blast
qed

theorem parallelMerge_is_its_runs_witness:
  "parallelMerge (\<lambda>ms. ms) (\<lambda>i. None) (\<lambda>r. (r, r)) combineData [] [NoopProxy] empty_Request \<in>
     {merge_log combineData (pm_log s) | s. (pm_step 1)\<^sup>*\<^sup>* (pm_init [MsgErr errNullResult]) s \<and> pm_done s}"
proof -
  let ?calls = "[(NoopProxy, empty_Request)]"
  have c: "?calls = parallel_calls (\<lambda>r. (r, r)) [] 0 [NoopProxy] empty_Request" by (simp add: skipped_def)
  have m: "all_messages (map (\<lambda>(i, n, r). requestPart None (n r)) (zip [0..<length ?calls] ?calls)) =
      Some [MsgErr errNullResult]" by (simp add: requestPart_def NoopProxy_def)
  have "parallelMerge (\<lambda>ms. ms) (\<lambda>i. None) (\<lambda>r. (r, r)) combineData [] [NoopProxy] empty_Request \<in>
      {parallelMerge sched (\<lambda>i. None) (\<lambda>r. (r, r)) combineData [] [NoopProxy] empty_Request | sched.
        \<forall>ms. mset (sched ms) = mset ms}"
    by (intro CollectI exI [of _ "\<lambda>ms. ms"] conjI refl) simp
  then show ?thesis using parallelMerge_is_its_runs [OF c m, of combineData] by simp
qed

text \<open>
  C16: When the responses agree on the fields they share, any two finished runs of the parallel
  merger over the same messages have the same outcome up to the order of the errors: both return a
  response or neither does, the responses have the same fields and the same completeness, and the
  errors are the same ones, each as often. The order of the errors is the order of arrival.
\<close>

theorem merge_order_independent:
  assumes "(pm_step cap)\<^sup>*\<^sup>* (pm_init outs) s" "pm_done s" "(pm_step cap)\<^sup>*\<^sup>* (pm_init outs) s'" "pm_done s'"
    and "agree (responses_of outs)" "list_all resp_ok (responses_of outs)"
  shows "\<exists>res errs res' errs'. merge_log combineData (pm_log s) = Ret res (newMergeError errs) \<and>
    merge_log combineData (pm_log s') = Ret res' (newMergeError errs') \<and> mset errs' = mset errs \<and>
    rel_option (\<lambda>r r'. nmap_get (rs_Data r') = nmap_get (rs_Data r) \<and> (rs_IsComplete r' \<longleftrightarrow> rs_IsComplete r)) res res'"
proof -
  have m: "mset (pm_log s) = mset outs" "mset (pm_log s') = mset outs"
    using pm_done_log [OF pm_reach_inv [OF assms(1)] assms(2)] pm_done_log [OF pm_reach_inv [OF assms(3)] assms(4)] .
  from parallel_outcome [OF assms(1,2,6)] obtain res where
    res: "merge_log combineData (pm_log s) = Ret res (newMergeError (errors_of (pm_log s)))"
      "res = None \<longleftrightarrow> responses_of outs = []"
      "\<forall>r. res = Some r \<longrightarrow> nmap_get (rs_Data r) = merged_fields (responses_of (pm_log s)) \<and>
        (rs_IsComplete r \<longleftrightarrow> errors_of outs = [] \<and> all_complete (responses_of outs))" by blast
  from parallel_outcome [OF assms(3,4,6)] obtain res' where
    res': "merge_log combineData (pm_log s') = Ret res' (newMergeError (errors_of (pm_log s')))"
      "res' = None \<longleftrightarrow> responses_of outs = []"
      "\<forall>r. res' = Some r \<longrightarrow> nmap_get (rs_Data r) = merged_fields (responses_of (pm_log s')) \<and>
        (rs_IsComplete r \<longleftrightarrow> errors_of outs = [] \<and> all_complete (responses_of outs))" by blast
  have f: "merged_fields (responses_of (pm_log s)) = merged_fields (responses_of outs)"
    "merged_fields (responses_of (pm_log s')) = merged_fields (responses_of outs)"
    using merged_fields_perm [OF assms(5) mset_responses_of [OF m(1)]]
      merged_fields_perm [OF assms(5) mset_responses_of [OF m(2)]] by blast+
  have "mset (errors_of (pm_log s')) = mset (errors_of (pm_log s))"
    by (rule mset_errors_of) (simp add: m)
  moreover have "rel_option (\<lambda>r r'. nmap_get (rs_Data r') = nmap_get (rs_Data r) \<and> (rs_IsComplete r' \<longleftrightarrow> rs_IsComplete r)) res res'"
    using res(2,3) res'(2,3) f by (cases res; cases res') simp_all
  ultimately show ?thesis using res(1) res'(1) by blast
qed

theorem merge_order_independent_witness:
  "\<exists>r r' errs errs'.
     merge_log combineData [MsgResp (mk_Response (Some [(''a'', VInt 1)]) True), MsgErr errNullResult, MsgErr (ErrText ''b'')]
       = Ret (Some r) (newMergeError errs) \<and>
     merge_log combineData [MsgErr (ErrText ''b''), MsgErr errNullResult, MsgResp (mk_Response (Some [(''a'', VInt 1)]) True)]
       = Ret (Some r') (newMergeError errs') \<and>
     mset errs' = mset errs \<and> nmap_get (rs_Data r') = nmap_get (rs_Data r)"
proof -
  let ?a = "MsgResp (mk_Response (Some [(''a'', VInt 1)]) True)" and ?b = "MsgErr errNullResult" and ?c = "MsgErr (ErrText ''b'')"
  let ?outs = "[?a, ?b, ?c]"
  have cap: "length ?outs \<le> 3" by simp
  have "mset ?outs = mset ?outs" "mset [?c, ?b, ?a] = mset ?outs" by simp_all
  then obtain s s' where s: "(pm_step 3)\<^sup>*\<^sup>* (pm_init ?outs) s" "pm_done s" "pm_log s = ?outs"
    and s': "(pm_step 3)\<^sup>*\<^sup>* (pm_init ?outs) s'" "pm_done s'" "pm_log s' = [?c, ?b, ?a]"
    unfolding pm_logs [OF cap, symmetric] by blast
  have ok: "agree (responses_of ?outs)" "list_all resp_ok (responses_of ?outs)"
    by (simp_all add: agree_def resp_ok_def mk_Response_def gmap_ok_def)
  from merge_order_independent [OF s(1,2) s'(1,2) ok, unfolded s(3) s'(3)] obtain res errs res' errs' where
    w: "merge_log combineData [?a, ?b, ?c] = Ret res (newMergeError errs)"
      "merge_log combineData [?c, ?b, ?a] = Ret res' (newMergeError errs')" "mset errs' = mset errs"
      "rel_option (\<lambda>r r'. nmap_get (rs_Data r') = nmap_get (rs_Data r) \<and> (rs_IsComplete r' \<longleftrightarrow> rs_IsComplete r)) res res'"
    by blast
  moreover have "res \<noteq> None"
    using w(1) by (auto simp: merge_log_values merge_values_def v_receive_simps)
  ultimately show ?thesis by (cases res; cases res') auto
qed



text \<open>
  An error of the first backend of a sequential merge is returned as it is, without a merge
  error around it, and no other backend is called.
\<close>

theorem sequential_first_error:
  assumes "n (snd (cl request)) = Ret resp (Some e)" "\<not> skipped filters 0 request"
  shows "sequentialMerge ff fe cl rc reps filters ctx_err (n # nxt) request = Ret None (Some e)"
  by (rule seq_loop_first_error) (use assms in \<open>cases resp; simp add: requestPart_def\<close>)+

theorem sequential_first_error_witness:
  "sequentialMerge (\<lambda>_. []) (\<lambda>_. []) (\<lambda>r. (r, r)) combineData [] [] (\<lambda>_. None)
     [\<lambda>q. Ret None (Some errNullResult), \<lambda>q. GoPanic] empty_Request
   = Ret None (Some errNullResult)"
  by (rule sequential_first_error) (simp_all add: skipped_def)

text \<open>
  When the filters skip every backend, both mergers return a nil response and a nil
  error.
\<close>

theorem all_skipped_returns_nil:
  assumes "length filters = length nxt" "list_all (\<lambda>f. f = Some (\<lambda>q. False)) filters"
  shows "parallelMerge sched ctx_err cl combineData filters nxt request = merge_log combineData (sched []) \<and>
    merge_log combineData [] = Ret None None \<and>
    sequentialMerge ff fe cl rc (replicate (length nxt) []) filters ctx_err nxt request = Ret None None"
proof -
  have sk: "skipped filters i q" if "i < length nxt" for i q
    using assms that by (auto simp: skipped_def list_all_length)
  then have "parallel_calls cl filters 0 nxt request = []"
    by (intro parallel_calls_all_skipped) simp
  then have "parallelMerge sched ctx_err cl combineData filters nxt request = merge_log combineData (sched [])"
    by (simp add: parallelMerge_def)
  moreover have "\<exists>s'. seq_loop ff fe cl rc (replicate (length nxt) []) filters ctx_err 0 nxt (seq_init (length nxt) request)
      = SeqDone s' \<and> ac_data (sq_acc s') = None \<and> ac_errs (sq_acc s') = []"
    using seq_loop_all_skipped [of nxt 0 filters "seq_init (length nxt) request" "replicate (length nxt) []"
        ff fe cl rc ctx_err] sk
    by (simp add: seq_init_def newIncrementalMergeAccumulator_def)
  then have "sequentialMerge ff fe cl rc (replicate (length nxt) []) filters ctx_err nxt request = Ret None None"
    by (auto simp: sequentialMerge_def acc_Result_def result_value_def newMergeError_def)
  ultimately show ?thesis
    by (simp add: merge_log_values merge_values_def newMergeError_def)
qed

theorem all_skipped_returns_nil_witness:
  "sequentialMerge (\<lambda>_. []) (\<lambda>_. []) (\<lambda>r. (r, r)) combineData [[], []]
     [Some (\<lambda>q. False), Some (\<lambda>q. False)] (\<lambda>_. None) [NoopProxy, NoopProxy] empty_Request = Ret None None"
  using all_skipped_returns_nil [of "[Some (\<lambda>q. False), Some (\<lambda>q. False)]" "[NoopProxy, NoopProxy]"]
  by (simp add: numeral_2_eq_2)

text \<open>
  The accumulated response shares its data map with the first response, so a parameter
  \<open>Resp0_x\<close> of the third backend of a sequence finds the field \<open>x\<close> that only the second
  backend returned.
\<close>

definition aliasing_request :: Request where
  "aliasing_request = empty_Request\<lparr>rq_Params := Some []\<rparr>"

definition aliasing_backends :: "Proxy list" where
  "aliasing_backends =
     [\<lambda>q. Ret (Some (mk_Response (Some [(''a'', VStr ''zero'')]) True)) None,
      \<lambda>q. Ret (Some (mk_Response (Some [(''x'', VStr ''one'')]) True)) None,
      \<lambda>q. Ret (Some (mk_Response (Some [(''seen'', VStr (case nmap_get (rq_Params q) ''Resp0_x'' of
                                                        None \<Rightarrow> [] | Some v \<Rightarrow> v))]) True)) None]"

definition aliasing_replacements :: "sequentialBackendReplacement list list" where
  "aliasing_replacements =
     [[], [], [\<lparr>sr_backendIndex = 0, sr_destination = ''Resp0_x'', sr_source = [''x''], sr_fullResponse = False\<rparr>]]"

theorem sequential_sees_later_fields:
  "sequentialMerge (\<lambda>_. []) (\<lambda>_. []) (\<lambda>r. (r, r)) combineData aliasing_replacements [] (\<lambda>_. None)
     aliasing_backends aliasing_request =
   Ret (Some (mk_Response (Some [(''a'', VStr ''zero''), (''x'', VStr ''one''), (''seen'', VStr ''one'')]) True)) None"
  by code_simp

text \<open>
  Whatever the configuration of an endpoint says, the selected merger is the one
  registered under the reported name, and it exists as long as the two built-in mergers are
  registered.
\<close>

theorem getMergerFactory_total:
  "fst (getMergerFactory mrgs cfg) = map_of mrgs (snd (getMergerFactory mrgs cfg)) \<and>
   (map_of mrgs ''parallel'' \<noteq> None \<longrightarrow> map_of mrgs ''sequential'' \<noteq> None \<longrightarrow>
     fst (getMergerFactory mrgs cfg) \<noteq> None)"
  by (auto simp: getMergerFactory_def Let_def split: option.splits)

theorem getMergerFactory_total_witness:
  "fst (getMergerFactory (mergers (\<lambda>_. []) (\<lambda>_. []) (\<lambda>ms. ms) (\<lambda>_. None)) []) \<noteq> None"
  by (rule getMergerFactory_total [THEN conjunct2, THEN mp, THEN mp]) (simp_all add: mergers_def)

end
