(* ===== verification/Middlewares.thy ===== *)
theory Middlewares
  imports Merging
begin

text \<open>
  The middlewares of the package proxy that wrap one proxy: the header and query string
  filters, the static data, the shadow backends, the concurrent calls and the logging one.
\<close>

section \<open>Header and query string filters (headers_filter.go, query_strings_filter.go)\<close>

text \<open>
  What the filter of headers passes on: the map itself when the count of the configured names
  that are present equals the number of headers, else a new map of the configured names.
\<close>

definition filter_values :: "string list \<Rightarrow> (string \<times> string list) list \<Rightarrow> (string \<times> string list) list" where
  "filter_values pass hs =
     (let numToPass = length (filter (\<lambda>v. map_of hs v \<noteq> None) pass)
      in if numToPass = length hs then hs
         else fold (\<lambda>v new. case map_of hs v of None \<Rightarrow> new | Some values \<Rightarrow> mput v values new) pass [])"

definition filter_headers :: "string list \<Rightarrow> Request \<Rightarrow> Request" where
  "filter_headers pass request =
     (case rq_Headers request of
        None \<Rightarrow> request
      | Some hs \<Rightarrow>
          if length hs = 0 then request
          else request\<lparr>rq_Headers := Some (filter_values pass hs)\<rparr>)"

definition NewFilterHeadersMiddleware :: "Backend \<Rightarrow> Middleware" where
  "NewFilterHeadersMiddleware remote nxt =
     (if length (be_HeadersToPass remote) = 0 then emptyMiddlewareFallback nxt
      else if length nxt > 1 then Inl FatalExit
      else case nxt of
        [] \<Rightarrow> Inl IndexPanic
      | nextProxy # _ \<Rightarrow> Inr (\<lambda>request. nextProxy (filter_headers (be_HeadersToPass remote) request)))"

definition filter_query :: "string list \<Rightarrow> Request \<Rightarrow> Request" where
  "filter_query pass request =
     (case rq_Query request of
        None \<Rightarrow> request
      | Some qs \<Rightarrow>
          if length qs = 0 then request
          else request\<lparr>rq_Query := Some (filter_values pass qs)\<rparr>)"

definition NewFilterQueryStringsMiddleware :: "Backend \<Rightarrow> Middleware" where
  "NewFilterQueryStringsMiddleware remote nxt =
     (if length (be_QueryStringsToPass remote) = 0 then emptyMiddlewareFallback nxt
      else if length nxt > 1 then Inl FatalExit
      else case nxt of
        [] \<Rightarrow> Inl IndexPanic
      | nextProxy # _ \<Rightarrow> Inr (\<lambda>request. nextProxy (filter_query (be_QueryStringsToPass remote) request)))"

section \<open>Static data (static.go)\<close>

record staticConfig =
  st_Data :: "jmap option"
  st_Strategy :: string

text \<open>The predicate \<open>Match\<close> that the strategy's name selects; an unknown name matches always.\<close>

definition static_match :: "string \<Rightarrow> Response option \<Rightarrow> goerror option \<Rightarrow> bool" where
  "static_match name r err =
     (if name = ''success'' then err = None
      else if name = ''errored'' then err \<noteq> None
      else if name = ''complete'' then
        err = None \<and> (case r of None \<Rightarrow> False | Some r \<Rightarrow> rs_IsComplete r)
      else if name = ''incomplete'' then
        (case r of None \<Rightarrow> True | Some r \<Rightarrow> \<not> rs_IsComplete r)
      else True)"

definition getStaticMiddlewareCfg :: "ExtraConfig \<Rightarrow> staticConfig option" where
  "getStaticMiddlewareCfg extra =
     (case Option.bind (ec_get extra proxy_Namespace ''static'') as_map of
        None \<Rightarrow> None
      | Some tmp \<Rightarrow>
          (case Option.bind (nmap_get tmp ''data'') as_map of
             None \<Rightarrow> None
           | Some data \<Rightarrow>
               Some \<lparr>st_Data = data,
                     st_Strategy = (case Option.bind (nmap_get tmp ''strategy'') as_str of
                        None \<Rightarrow> ''always'' | Some name \<Rightarrow> name)\<rparr>))"

definition add_static :: "jmap option \<Rightarrow> Response option \<Rightarrow> Response" where
  "add_static data result =
     (let r = (case result of
                 None \<Rightarrow> mk_Response (Some []) False
               | Some r \<Rightarrow> (case rs_Data r of None \<Rightarrow> r\<lparr>rs_Data := Some []\<rparr> | Some _ \<Rightarrow> r))
      in r\<lparr>rs_Data := map_option (mput_all (case data of None \<Rightarrow> [] | Some d \<Rightarrow> d)) (rs_Data r)\<rparr>)"

definition NewStaticMiddleware :: "EndpointConfig \<Rightarrow> Middleware" where
  "NewStaticMiddleware endpointConfig nxt =
     (case getStaticMiddlewareCfg (ep_ExtraConfig endpointConfig) of
        None \<Rightarrow> emptyMiddlewareFallback nxt
      | Some cfg \<Rightarrow>
          wrap_one (\<lambda>n request.
            case n request of
              GoPanic \<Rightarrow> GoPanic
            | Ret result err \<Rightarrow>
                (if static_match (st_Strategy cfg) result err
                 then Ret (Some (add_static (st_Data cfg) result)) err
                 else Ret result err)) nxt)"

section \<open>Shadow backends (shadow.go)\<close>

text \<open>
  The duration and whether the backend is a shadow. \<open>parse_dur\<close> is \<open>time.ParseDuration\<close>.
\<close>

definition isShadowBackend :: "(string \<Rightarrow> int option) \<Rightarrow> Backend \<Rightarrow> int \<times> bool" where
  "isShadowBackend parse_dur c =
     (let duration = be_Timeout c
      in case ec_section (be_ExtraConfig c) proxy_Namespace of
           None \<Rightarrow> (duration, False)
         | Some e \<Rightarrow>
             (case nmap_get e ''shadow'' of
                None \<Rightarrow> (duration, False)
              | Some k \<Rightarrow>
                  (if as_bool k \<noteq> Some True then (duration, False)
                   else case Option.bind (nmap_get e ''shadow_timeout'') as_str of
                     None \<Rightarrow> (duration, True)
                   | Some t \<Rightarrow>
                       (case parse_dur t of None \<Rightarrow> (duration, True) | Some d \<Rightarrow> (d, True)))))"

text \<open>The loop over the backends: the largest timeout, the shadow and the regular ones.\<close>

fun split_shadow ::
  "(string \<Rightarrow> int option) \<Rightarrow> Backend list \<Rightarrow> int \<times> Backend list \<times> Backend list
   \<Rightarrow> int \<times> Backend list \<times> Backend list" where
  "split_shadow parse_dur [] st = st"
| "split_shadow parse_dur (b # bs) (maxTimeout, shadow, regular) =
     (case isShadowBackend parse_dur b of
        (d, True) \<Rightarrow> split_shadow parse_dur bs (if maxTimeout < d then d else maxTimeout, shadow @ [b], regular)
      | (_, False) \<Rightarrow> split_shadow parse_dur bs (maxTimeout, shadow, regular @ [b]))"

text \<open>
  The shadow proxy calls \<open>p2\<close> in a goroutine on a clone of the request, whose result it drops, and
  returns what \<open>p1\<close> returns. The goroutine can still be seen from outside in two ways. It has no
  \<open>recover\<close>, so a panic of \<open>p2\<close> ends the process. And the clone shares the query map with the
  request: \<open>leaves\<close> are the contents that \<open>p2\<close>, called with a request, gives to that map one after the
  other (the GraphQL middleware writes it). The first part of \<open>race\<close> is how many of them there are
  when \<open>p1\<close> reads the map, the second whether \<open>p2\<close> has ended before \<open>p1\<close> returns; a panic after that
  comes too late for the answer. A nil map is not shared: writing needs a new one, which only the
  clone gets. The timeout is the deadline of the context of \<open>p2\<close>, whose effect is in the outcome
  of \<open>p2\<close>, as everywhere.
\<close>

type_synonym query_map = "(string \<times> string list) list"

definition NewShadowProxyWithTimeout ::
  "(string \<Rightarrow> goerror + URL) \<Rightarrow> (URL \<Rightarrow> string) \<Rightarrow> (Request \<Rightarrow> nat \<times> bool) \<Rightarrow> (Request \<Rightarrow> query_map list)
   \<Rightarrow> int \<Rightarrow> Proxy \<Rightarrow> Proxy \<Rightarrow> Proxy" where
  "NewShadowProxyWithTimeout url_Parse url_String race leaves timeout p1 p2 request =
     (case CloneRequest url_Parse url_String request of
        (request, shadowRequest) \<Rightarrow>
          let (k, over) = race request;
              answer = p1 (request\<lparr>rq_Query := map_option (\<lambda>q. last (q # take k (leaves shadowRequest))) (rq_Query request)\<rparr>)
          in case p2 shadowRequest of
               GoPanic \<Rightarrow> if over then GoPanic else answer
             | Ret _ _ \<Rightarrow> answer)"

definition NewShadowProxy ::
  "(string \<Rightarrow> goerror + URL) \<Rightarrow> (URL \<Rightarrow> string) \<Rightarrow> (Request \<Rightarrow> nat \<times> bool) \<Rightarrow> (Request \<Rightarrow> query_map list)
   \<Rightarrow> Proxy \<Rightarrow> Proxy \<Rightarrow> Proxy" where
  "NewShadowProxy url_Parse url_String race leaves p1 p2 =
     NewShadowProxyWithTimeout url_Parse url_String race leaves DefaultTimeout p1 p2"

definition ShadowMiddlewareWithLogger ::
  "(string \<Rightarrow> goerror + URL) \<Rightarrow> (URL \<Rightarrow> string) \<Rightarrow> (Request \<Rightarrow> nat \<times> bool) \<Rightarrow> (Request \<Rightarrow> query_map list) \<Rightarrow> Middleware" where
  "ShadowMiddlewareWithLogger url_Parse url_String race leaves nxt =
     (case nxt of
        [] \<Rightarrow> Inl FatalExit
      | [p] \<Rightarrow> Inr p
      | [p1, p2] \<Rightarrow> Inr (NewShadowProxy url_Parse url_String race leaves p1 p2)
      | _ \<Rightarrow> Inl FatalExit)"

definition ShadowMiddlewareWithTimeoutAndLogger ::
  "(string \<Rightarrow> goerror + URL) \<Rightarrow> (URL \<Rightarrow> string) \<Rightarrow> (Request \<Rightarrow> nat \<times> bool) \<Rightarrow> (Request \<Rightarrow> query_map list)
   \<Rightarrow> int \<Rightarrow> Middleware" where
  "ShadowMiddlewareWithTimeoutAndLogger url_Parse url_String race leaves timeout nxt =
     (case nxt of
        [] \<Rightarrow> Inl FatalExit
      | [p] \<Rightarrow> Inr p
      | [p1, p2] \<Rightarrow> Inr (NewShadowProxyWithTimeout url_Parse url_String race leaves timeout p1 p2)
      | _ \<Rightarrow> Inl FatalExit)"

definition ShadowMiddleware ::
  "(string \<Rightarrow> goerror + URL) \<Rightarrow> (URL \<Rightarrow> string) \<Rightarrow> (Request \<Rightarrow> nat \<times> bool) \<Rightarrow> (Request \<Rightarrow> query_map list) \<Rightarrow> Middleware" where
  "ShadowMiddleware url_Parse url_String race leaves nxt = ShadowMiddlewareWithLogger url_Parse url_String race leaves nxt"

definition ShadowMiddlewareWithTimeout ::
  "(string \<Rightarrow> goerror + URL) \<Rightarrow> (URL \<Rightarrow> string) \<Rightarrow> (Request \<Rightarrow> nat \<times> bool) \<Rightarrow> (Request \<Rightarrow> query_map list)
   \<Rightarrow> int \<Rightarrow> Middleware" where
  "ShadowMiddlewareWithTimeout url_Parse url_String race leaves timeout nxt =
     ShadowMiddlewareWithTimeoutAndLogger url_Parse url_String race leaves timeout nxt"

text \<open>
  A factory returns a proxy (nil is \<open>None\<close>) and an error, or ends the process.
  \<open>call_proxy\<close> is the call of a possibly nil proxy.
\<close>

type_synonym Factory = "EndpointConfig \<Rightarrow> build_error + (Proxy option \<times> goerror option)"

definition call_proxy :: "Proxy option \<Rightarrow> Proxy" where
  "call_proxy p = (case p of None \<Rightarrow> (\<lambda>r. GoPanic) | Some p \<Rightarrow> p)"

definition shadowFactory_New ::
  "(string \<Rightarrow> int option) \<Rightarrow> (string \<Rightarrow> goerror + URL) \<Rightarrow> (URL \<Rightarrow> string) \<Rightarrow> (Request \<Rightarrow> nat \<times> bool)
   \<Rightarrow> (Request \<Rightarrow> query_map list) \<Rightarrow> Factory \<Rightarrow> Factory" where
  "shadowFactory_New parse_dur url_Parse url_String race leaves f cfg =
     (if length (ep_Backend cfg) = 0 then Inr (None, Some ErrNoBackends)
      else case split_shadow parse_dur (ep_Backend cfg) (0, [], []) of
        (maxTimeout, shadow, regular) \<Rightarrow>
          (case f (cfg\<lparr>ep_Backend := regular\<rparr>) of
             Inl x \<Rightarrow> Inl x
           | Inr (p, err) \<Rightarrow>
               (if length shadow > 0 then
                  (case f (cfg\<lparr>ep_Backend := shadow\<rparr>) of
                     Inl x \<Rightarrow> Inl x
                   | Inr (pShadow, _) \<Rightarrow>
                       (case ShadowMiddlewareWithTimeout url_Parse url_String race leaves maxTimeout
                               [call_proxy p, call_proxy pShadow] of
                          Inl x \<Rightarrow> Inl x
                        | Inr p \<Rightarrow> Inr (Some p, err)))
                else Inr (p, err))))"

definition NewShadowFactory ::
  "(string \<Rightarrow> int option) \<Rightarrow> (string \<Rightarrow> goerror + URL) \<Rightarrow> (URL \<Rightarrow> string) \<Rightarrow> (Request \<Rightarrow> nat \<times> bool)
   \<Rightarrow> (Request \<Rightarrow> query_map list) \<Rightarrow> Factory \<Rightarrow> Factory" where
  "NewShadowFactory parse_dur url_Parse url_String race leaves f =
     shadowFactory_New parse_dur url_Parse url_String race leaves f"

section \<open>Concurrent calls (concurrent.go)\<close>

definition concurrent_timeout :: "int \<Rightarrow> int" where
  "concurrent_timeout timeout = wrap64 (75 * timeout) sdiv 100"

text \<open>
  The requests of the n calls: the first n-1 get clones, the last one the request itself.
\<close>

fun concurrent_requests ::
  "(string \<Rightarrow> goerror + URL) \<Rightarrow> (URL \<Rightarrow> string) \<Rightarrow> nat \<Rightarrow> Request \<Rightarrow> Request list" where
  "concurrent_requests url_Parse url_String 0 request = []"
| "concurrent_requests url_Parse url_String (Suc 0) request = [request]"
| "concurrent_requests url_Parse url_String (Suc n) request =
     (case CloneRequest url_Parse url_String request of
        (request, clone) \<Rightarrow> clone # concurrent_requests url_Parse url_String n request)"

text \<open>
  An iteration of the collecting loop receives a message or finds the context done. The calls
  send one message each, as \<open>requestPart\<close> does (\<open>processConcurrentCall\<close> is the same code).
\<close>

datatype cevent = EvMsg msg | EvDone

fun concurrent_collect :: "cevent list \<Rightarrow> Response option \<Rightarrow> goerror option \<Rightarrow> presult" where
  "concurrent_collect [] response err = Ret response err"
| "concurrent_collect (e # es) response err =
     (case e of
        EvMsg (MsgResp r) \<Rightarrow>
          (if rs_IsComplete r then Ret (Some r) None else concurrent_collect es (Some r) err)
      | EvMsg (MsgErr e) \<Rightarrow> concurrent_collect es response (Some e)
      | EvDone \<Rightarrow> concurrent_collect es response err)"

text \<open>
  The middleware: \<open>sched\<close> is what the iterations see, from the messages of the calls.
\<close>

definition NewConcurrentMiddlewareWithLogger ::
  "(string \<Rightarrow> goerror + URL) \<Rightarrow> (URL \<Rightarrow> string) \<Rightarrow> (msg list \<Rightarrow> cevent list) \<Rightarrow> (nat \<Rightarrow> goerror option)
   \<Rightarrow> Backend \<Rightarrow> Middleware" where
  "NewConcurrentMiddlewareWithLogger url_Parse url_String sched ctx_err remote nxt =
     (if be_ConcurrentCalls remote = 1 then Inl FatalExit
      else wrap_one (\<lambda>n request.
        let rqs = concurrent_requests url_Parse url_String (nat (be_ConcurrentCalls remote)) request
        in case all_messages (map (\<lambda>(i, r). requestPart (ctx_err i) (n r)) (zip [0..<length rqs] rqs)) of
             None \<Rightarrow> GoPanic
           | Some outs \<Rightarrow> concurrent_collect (sched outs) None None) nxt)"

definition NewConcurrentMiddleware ::
  "(string \<Rightarrow> goerror + URL) \<Rightarrow> (URL \<Rightarrow> string) \<Rightarrow> (msg list \<Rightarrow> cevent list) \<Rightarrow> (nat \<Rightarrow> goerror option)
   \<Rightarrow> Backend \<Rightarrow> Middleware" where
  "NewConcurrentMiddleware url_Parse url_String sched ctx_err remote =
     NewConcurrentMiddlewareWithLogger url_Parse url_String sched ctx_err remote"

section \<open>Logging (logging.go)\<close>

text \<open>The middleware only writes log lines: the proxy's outcome goes through unchanged.\<close>

definition NewLoggingMiddleware :: "string \<Rightarrow> Middleware" where
  "NewLoggingMiddleware name = wrap_one (\<lambda>n request. n request)"

section \<open>Lemmas\<close>

lemma filter_fold_lookup:
  "map_of (fold (\<lambda>v new. case map_of hs v of None \<Rightarrow> new | Some values \<Rightarrow> mput v values new) pass m) k =
     (if k \<in> set pass \<and> map_of hs k \<noteq> None then map_of hs k else map_of m k)"
  by (induction pass arbitrary: m) (auto split: option.splits)

lemma filter_count:
  assumes "gmap_ok hs" "distinct pass"
    and "length (filter (\<lambda>v. map_of hs v \<noteq> None) pass) = length hs" "map_of hs k = Some v"
  shows "k \<in> set pass"
proof -
  have d: "distinct (filter (\<lambda>v. map_of hs v \<noteq> None) pass)" using assms(2) by simp
  have "set (filter (\<lambda>v. map_of hs v \<noteq> None) pass) \<subseteq> fst ` set hs"
    by (auto simp: map_of_eq_None_iff)
  moreover have "card (set (filter (\<lambda>v. map_of hs v \<noteq> None) pass)) = card (fst ` set hs)"
    using distinct_card [OF d] assms(1,3) by (metis distinct_card gmap_ok_def length_map list.set_map)
  ultimately have "set (filter (\<lambda>v. map_of hs v \<noteq> None) pass) = fst ` set hs"
    by (intro card_subset_eq) auto
  moreover have "k \<in> fst ` set hs" using assms(4) by (metis map_of_SomeD fst_conv imageI)
  ultimately show ?thesis by auto
qed

lemma filter_values_lookup:
  assumes "gmap_ok hs" "distinct pass"
  shows "map_of (filter_values pass hs) k = (if k \<in> set pass then map_of hs k else None)"
proof (cases "length (filter (\<lambda>v. map_of hs v \<noteq> None) pass) = length hs")
  case True
  then have "map_of hs k \<noteq> None \<Longrightarrow> k \<in> set pass" using filter_count [OF assms] by blast
  with True show ?thesis unfolding filter_values_def by (cases "map_of hs k") (auto simp: Let_def)
next
  case False
  then show ?thesis
    unfolding filter_values_def Let_def if_not_P [OF False] filter_fold_lookup
    by (cases "map_of hs k") auto
qed

lemma split_shadow_filter:
  "snd (split_shadow pd bs (t, sh, rg)) =
     (sh @ filter (\<lambda>b. snd (isShadowBackend pd b)) bs, rg @ filter (\<lambda>b. \<not> snd (isShadowBackend pd b)) bs)"
  by (induction bs arbitrary: t sh rg) (auto split: prod.splits bool.splits)

lemma split_shadow_timeout:
  "fst (split_shadow pd bs (t, sh, rg)) =
     fold (\<lambda>b m. max m (fst (isShadowBackend pd b))) (filter (\<lambda>b. snd (isShadowBackend pd b)) bs) t"
  by (induction bs arbitrary: t sh rg) (auto simp: max_def split: prod.splits bool.splits)


lemma concurrent_collect_None:
  "list_all (\<lambda>e. case e of EvMsg (MsgResp r) \<Rightarrow> \<not> rs_IsComplete r | _ \<Rightarrow> True) es \<Longrightarrow>
   concurrent_collect es res err =
     Ret (fold (\<lambda>e a. case e of EvMsg (MsgResp r) \<Rightarrow> Some r | _ \<Rightarrow> a) es res)
         (fold (\<lambda>e a. case e of EvMsg (MsgErr x) \<Rightarrow> Some x | _ \<Rightarrow> a) es err)"
  by (induction es arbitrary: res err) (auto split: cevent.splits msg.splits)

lemma CloneRequest_same:
  assumes "CloneRequest url_Parse url_String r = (r', c)"
  shows "rq_Body c = rq_Body r' \<and> map_option fst (rq_Body r') = map_option fst (rq_Body r) \<and>
    rq_Method c = rq_Method r \<and> rq_Path c = rq_Path r \<and> rq_Query c = rq_Query r \<and>
    rq_Headers c = CloneRequestHeaders (rq_Headers r) \<and> rq_Params c = CloneRequestParams (rq_Params r) \<and>
    (rq_Method r' = rq_Method r \<and> rq_Path r' = rq_Path r \<and> rq_Query r' = rq_Query r \<and>
     rq_Headers r' = rq_Headers r \<and> rq_Params r' = rq_Params r)"
  using assms by (auto simp: CloneRequest_def Clone_def Let_def split: option.splits)

lemma CloneRequestHeaders_lookup:
  "(\<And>h. m = Some h \<Longrightarrow> gmap_ok h) \<Longrightarrow> nmap_get (CloneRequestHeaders m) k = nmap_get m k"
  by (cases m) (simp_all add: CloneRequestHeaders_def mput_all_Nil_lookup)

lemma CloneRequestParams_lookup:
  "(\<And>h. m = Some h \<Longrightarrow> gmap_ok h) \<Longrightarrow> nmap_get (CloneRequestParams m) k = nmap_get m k"
  by (cases m) (simp_all add: CloneRequestParams_def mput_all_Nil_lookup)

text \<open>What each of the concurrent calls shares with the request.\<close>

definition same_call :: "Request \<Rightarrow> Request \<Rightarrow> bool" where
  "same_call r q \<longleftrightarrow> map_option fst (rq_Body q) = map_option fst (rq_Body r) \<and>
     rq_Method q = rq_Method r \<and> rq_Path q = rq_Path r \<and> rq_Query q = rq_Query r \<and>
     nmap_get (rq_Headers q) = nmap_get (rq_Headers r) \<and> nmap_get (rq_Params q) = nmap_get (rq_Params r)"

definition request_ok :: "Request \<Rightarrow> bool" where
  "request_ok r \<longleftrightarrow> (\<forall>h. rq_Headers r = Some h \<longrightarrow> gmap_ok h) \<and> (\<forall>p. rq_Params r = Some p \<longrightarrow> gmap_ok p)"

lemma concurrent_requests_same:
  "request_ok r \<Longrightarrow> length (concurrent_requests up us n r) = n \<and>
     list_all (same_call r) (concurrent_requests up us n r)"
proof (induction up us n r rule: concurrent_requests.induct)
  case (3 up us n r)
  obtain r' c where rc: "CloneRequest up us r = (r', c)" by fastforce
  note same = CloneRequest_same [OF rc]
  have "request_ok r'" using 3(2) same by (simp add: request_ok_def)
  with "3.IH" [OF rc [symmetric]] have
    "length (concurrent_requests up us (Suc n) r') = Suc n \<and> list_all (same_call r') (concurrent_requests up us (Suc n) r')"
    by blast
  moreover have "same_call r c"
    using same 3(2) CloneRequestHeaders_lookup [of "rq_Headers r"] CloneRequestParams_lookup [of "rq_Params r"]
    by (auto simp: same_call_def request_ok_def fun_eq_iff)
  moreover have "same_call r' q \<Longrightarrow> same_call r q" for q using same by (simp add: same_call_def)
  ultimately show ?case using rc by (auto simp: list_all_iff)
qed (simp_all add: same_call_def)

section \<open>Properties\<close>

text \<open>
  With distinct names in \<open>HeadersToPass\<close>, the backend gets exactly the configured headers
  that the request has, with their values, and the rest of the request unchanged.
\<close>

theorem header_filter_exact:
  assumes "rq_Headers r = Some hs" "gmap_ok hs" "distinct pass"
  shows "nmap_get (rq_Headers (filter_headers pass r)) k = (if k \<in> set pass then map_of hs k else None) \<and>
    (filter_headers pass r)\<lparr>rq_Headers := Some hs\<rparr> = r"
  using assms by (cases hs) (auto simp: filter_headers_def filter_values_lookup)

theorem header_filter_exact_witness:
  "nmap_get (rq_Headers (filter_headers [''A''] (empty_Request\<lparr>rq_Headers := Some [(''A'', [''1'']), (''Cookie'', [''s''])]\<rparr>)))
     ''Cookie'' = None"
  using header_filter_exact [of "empty_Request\<lparr>rq_Headers := Some [(''A'', [''1'']), (''Cookie'', [''s''])]\<rparr>"
      "[(''A'', [''1'']), (''Cookie'', [''s''])]" "[''A'']" "''Cookie''"]
  by (simp add: gmap_ok_def)

text \<open>
  A name listed twice is counted twice: as soon as the count reaches the number of headers
  of the request, every header passes, also those that are not listed.
\<close>

theorem header_filter_duplicate_leaks:
  "nmap_get (rq_Headers (filter_headers [''A'', ''A'']
     (empty_Request\<lparr>rq_Headers := Some [(''A'', [''1'']), (''Cookie'', [''s''])]\<rparr>))) ''Cookie'' = Some [''s'']"
  by code_simp

text \<open>
  C33: The static data of an endpoint: a strategy \<open>success\<close> applies when the proxy gave no error,
  \<open>errored\<close> when it gave one, \<open>complete\<close> when it gave a complete response and no error, \<open>incomplete\<close>
  when it gave no complete response, and any other strategy, or none, always. When the strategy
  applies, the caller gets the error of the proxy and its response with the fields of the data
  over its own ones and all else unchanged, or, when there was none, an incomplete response with
  the fields of the data; when it does not, the caller gets what the proxy gave.
\<close>

theorem static_middleware_result:
  assumes "ec_get (ep_ExtraConfig ep) proxy_Namespace ''static'' = Some (VObj sec)"
    and "map_of sec ''data'' = Some (VObj data)" "gmap_ok data" "p r = Ret res err"
  defines "name \<equiv> (case map_of sec ''strategy'' of Some (VStr s) \<Rightarrow> s | _ \<Rightarrow> ''always'')"
    and "finished \<equiv> (\<exists>x. res = Some x \<and> rs_IsComplete x)"
  shows "\<exists>q. NewStaticMiddleware ep [p] = Inr q \<and>
    (if (name = ''success'' \<longrightarrow> err = None) \<and> (name = ''errored'' \<longrightarrow> err \<noteq> None) \<and>
        (name = ''complete'' \<longrightarrow> err = None \<and> finished) \<and> (name = ''incomplete'' \<longrightarrow> \<not> finished)
     then \<exists>r'. q r = Ret (Some r') err \<and>
       (\<forall>k. nmap_get (rs_Data r') k =
         (case map_of data k of Some v \<Rightarrow> Some v | None \<Rightarrow> Option.bind res (\<lambda>x. nmap_get (rs_Data x) k))) \<and>
       (case res of None \<Rightarrow> \<not> rs_IsComplete r' | Some x \<Rightarrow> r' = x\<lparr>rs_Data := rs_Data r'\<rparr>)
     else q r = Ret res err)"
proof -
  have "map_option as_str (map_of sec ''strategy'') = None \<or> map_option as_str (map_of sec ''strategy'') = Some None \<or>
      (\<exists>s. map_of sec ''strategy'' = Some (VStr s))"
    by (cases "map_of sec ''strategy''"; cases "the (map_of sec ''strategy'')") auto
  then have name: "(case Option.bind (map_of sec ''strategy'') as_str of None \<Rightarrow> ''always'' | Some name \<Rightarrow> name) = name"
    by (auto simp: name_def split: option.splits gval.splits)
  have "getStaticMiddlewareCfg (ep_ExtraConfig ep) = Some \<lparr>st_Data = Some data, st_Strategy = name\<rparr>"
    using assms(1,2) name by (simp add: getStaticMiddlewareCfg_def nmap_get_def)
  then obtain q where q: "NewStaticMiddleware ep [p] = Inr q"
    and qr: "q r = (if static_match name res err then Ret (Some (add_static (Some data) res)) err else Ret res err)"
    using assms(4) by (simp add: NewStaticMiddleware_def wrap_one_def)
  have match: "static_match name res err \<longleftrightarrow>
      (name = ''success'' \<longrightarrow> err = None) \<and> (name = ''errored'' \<longrightarrow> err \<noteq> None) \<and>
      (name = ''complete'' \<longrightarrow> err = None \<and> finished) \<and> (name = ''incomplete'' \<longrightarrow> \<not> finished)"
    by (auto simp: static_match_def finished_def split: option.splits)
  have "nmap_get (rs_Data (add_static (Some data) res)) k =
      (case map_of data k of Some v \<Rightarrow> Some v | None \<Rightarrow> Option.bind res (\<lambda>x. nmap_get (rs_Data x) k))" for k
    using assms(3) by (cases res)
      (auto simp: add_static_def mk_Response_def Let_def map_of_mput_all map_add_def split: option.splits)
  moreover have "case res of None \<Rightarrow> \<not> rs_IsComplete (add_static (Some data) res)
      | Some x \<Rightarrow> add_static (Some data) res = x\<lparr>rs_Data := rs_Data (add_static (Some data) res)\<rparr>"
    by (cases res) (auto simp: add_static_def mk_Response_def Let_def split: option.splits)
  ultimately show ?thesis unfolding match [symmetric] using q qr by auto
qed

theorem static_middleware_result_witness:
  "\<exists>q r'. NewStaticMiddleware (empty_EndpointConfig\<lparr>ep_ExtraConfig :=
      [(proxy_Namespace, VObj [(''static'', VObj [(''data'', VObj [(''a'', VInt 1)]), (''strategy'', VStr ''errored'')])])]\<rparr>)
      [\<lambda>r. Ret None (Some errNullResult)] = Inr q \<and>
     q empty_Request = Ret (Some r') (Some errNullResult) \<and> nmap_get (rs_Data r') ''a'' = Some (VInt 1)"
proof -
  let ?sec = "[(''data'', VObj [(''a'', VInt 1)]), (''strategy'', VStr ''errored'')]"
  let ?ep = "empty_EndpointConfig\<lparr>ep_ExtraConfig := [(proxy_Namespace, VObj [(''static'', VObj ?sec)])]\<rparr>"
    and ?p = "\<lambda>r. Ret None (Some errNullResult)"
  have sec: "ec_get (ep_ExtraConfig ?ep) proxy_Namespace ''static'' = Some (VObj ?sec)"
    by (simp add: ec_get_def ec_section_def nmap_get_def)
  from static_middleware_result [where p = ?p and r = empty_Request and res = None and err = "Some errNullResult"
      and data = "[(''a'', VInt 1)]", OF sec] show ?thesis
    by (auto simp: gmap_ok_def)
qed

text \<open>
  What a shadow can do to the answer: with the panic of \<open>p2\<close> in time there is none; otherwise it is
  the answer of \<open>p1\<close>, on the request with the query map as \<open>p2\<close> has left it.
\<close>

lemma shadow_proxy_cases:
  assumes "request_ok r"
  obtains c r' where "same_call r c" "same_call (r\<lparr>rq_Query := rq_Query r'\<rparr>) r'"
    "rq_Query r' = rq_Query r \<or> rq_Query r \<noteq> None \<and> rq_Query r' \<in> Some ` set (leaves c)"
    "NewShadowProxyWithTimeout up us race leaves t p1 p2 r = p1 r' \<or>
     NewShadowProxyWithTimeout up us race leaves t p1 p2 r = GoPanic \<and> p2 c = GoPanic"
proof -
  obtain r1 c where rc: "CloneRequest up us r = (r1, c)" by fastforce
  obtain k over where race: "race r1 = (k, over)" by fastforce
  define r' where "r' = r1\<lparr>rq_Query := map_option (\<lambda>q. last (q # take k (leaves c))) (rq_Query r1)\<rparr>"
  note same = CloneRequest_same [OF rc]
  have "same_call r c"
    using same assms CloneRequestHeaders_lookup [of "rq_Headers r"] CloneRequestParams_lookup [of "rq_Params r"]
    by (auto simp: same_call_def request_ok_def fun_eq_iff)
  moreover have "same_call (r\<lparr>rq_Query := rq_Query r'\<rparr>) r'" using same by (simp add: same_call_def r'_def)
  moreover have "rq_Query r' = rq_Query r \<or> rq_Query r \<noteq> None \<and> rq_Query r' \<in> Some ` set (leaves c)"
  proof (cases "rq_Query r")
    case (Some q)
    have "last (q # take k (leaves c)) = q \<or> last (q # take k (leaves c)) \<in> set (leaves c)"
    proof (cases "take k (leaves c) = []")
      case False
      then have "last (take k (leaves c)) \<in> set (leaves c)" by (rule in_set_takeD [OF last_in_set])
      with False show ?thesis by simp
    qed simp
    with Some same show ?thesis by (auto simp: r'_def)
  qed (use same in \<open>simp add: r'_def\<close>)
  moreover have "NewShadowProxyWithTimeout up us race leaves t p1 p2 r = p1 r' \<or>
     NewShadowProxyWithTimeout up us race leaves t p1 p2 r = GoPanic \<and> p2 c = GoPanic"
    by (auto simp: NewShadowProxyWithTimeout_def rc race r'_def Let_def split: presult.splits)
  ultimately show thesis by (rule that)
qed

text \<open>
  Both happen: a shadow that panics in time ends the process, and one that writes the query map
  changes what the regular proxy is called with.
\<close>

theorem shadow_panic_ends_process:
  "NewShadowProxyWithTimeout up us (\<lambda>r. (0, True)) leaves t p1 (call_proxy None) r = GoPanic"
  by (simp add: NewShadowProxyWithTimeout_def call_proxy_def split: prod.split)

theorem shadow_query_is_seen:
  "NewShadowProxyWithTimeout (\<lambda>s. Inl errNullResult) url_rest (\<lambda>r. (1, False)) (\<lambda>r. [[(''query'', [''q''])]]) t
     (\<lambda>r. Ret (Some (mk_Response (Some [(''query'', VBool (nmap_get (rq_Query r) ''query'' = Some [''q'']))]) True)) None)
     NoopProxy (empty_Request\<lparr>rq_Query := Some []\<rparr>)
   = Ret (Some (mk_Response (Some [(''query'', VBool True)]) True)) None"
  by (simp add: NewShadowProxyWithTimeout_def CloneRequest_def Clone_def empty_Request_def NoopProxy_def)

text \<open>
  The shadow factory splits the backends of an endpoint into the shadow ones and the
  regular ones, each kind in its order, and gives the shadow proxy the largest of the shadow
  timeouts (and at least zero).
\<close>

theorem shadow_split:
  "split_shadow pd bs (0, [], []) =
     (fold (\<lambda>b m. max m (fst (isShadowBackend pd b))) (filter (\<lambda>b. snd (isShadowBackend pd b)) bs) 0,
      filter (\<lambda>b. snd (isShadowBackend pd b)) bs, filter (\<lambda>b. \<not> snd (isShadowBackend pd b)) bs)"
  using split_shadow_filter [of pd bs 0 "[]" "[]"] split_shadow_timeout [of pd bs 0 "[]" "[]"]
  by (simp add: prod_eq_iff)

text \<open>
  C36: Of concurrent calls, the first complete response to arrive is returned, without an error
  and whatever the other calls do; without one, the last response and the last error are.
\<close>

theorem concurrent_first_complete:
  assumes "list_all (\<lambda>e. case e of EvMsg (MsgResp x) \<Rightarrow> \<not> rs_IsComplete x | _ \<Rightarrow> True) es"
  shows "(rs_IsComplete r \<longrightarrow> concurrent_collect (es @ EvMsg (MsgResp r) # es') None None = Ret (Some r) None) \<and>
    concurrent_collect es None None =
      Ret (fold (\<lambda>e a. case e of EvMsg (MsgResp x) \<Rightarrow> Some x | _ \<Rightarrow> a) es None)
          (fold (\<lambda>e a. case e of EvMsg (MsgErr x) \<Rightarrow> Some x | _ \<Rightarrow> a) es None)"
proof -
  have "rs_IsComplete r \<longrightarrow> concurrent_collect (es @ EvMsg (MsgResp r) # es') res err = Ret (Some r) None" for res err
    using assms by (induction es arbitrary: res err) (auto split: cevent.splits msg.splits)
  with concurrent_collect_None [OF assms] show ?thesis by blast
qed

theorem concurrent_first_complete_witness:
  "concurrent_collect [EvMsg (MsgErr errNullResult), EvMsg (MsgResp (mk_Response None True))] None None
     = Ret (Some (mk_Response None True)) None"
  using concurrent_first_complete [of "[EvMsg (MsgErr errNullResult)]" "mk_Response None True" "[]"]
  by (simp add: mk_Response_def)

text \<open>
  Every concurrent call gets a request with the same method, path, query, body bytes,
  headers and parameters, and there is one per configured call.
\<close>

theorem concurrent_calls_same_request:
  assumes "request_ok r"
  shows "length (concurrent_requests up us n r) = n \<and>
    (\<forall>q \<in> set (concurrent_requests up us n r). same_call r q)"
  using concurrent_requests_same [OF assms, of up us n] by (simp add: list_all_iff)

theorem concurrent_calls_same_request_witness:
  "length (concurrent_requests (\<lambda>s. Inl errNullResult) url_rest 3 (empty_Request\<lparr>rq_Body := Some (''x'', None)\<rparr>)) = 3"
  using concurrent_calls_same_request [of "empty_Request\<lparr>rq_Body := Some (''x'', None)\<rparr>"
      "\<lambda>s. Inl errNullResult" url_rest 3]
  by (simp add: request_ok_def empty_Request_def)

end
