(* ===== verification/Transport.thy ===== *)
theory Transport
  imports Formatter Sd
begin

text \<open>
  The http side of a backend proxy: the status handlers (transport/http/client/status.go), the
  response parsers (proxy/http_response.go), the http proxy itself and the request builder
  (proxy/http.go) and the load balancing middleware (proxy/balancing.go).

  net/http, compress/gzip, encoding/json and net/url are parameters: the executor of a request,
  the constructor's check, the gzip reader, the JSON decoder, the URL parser and the query
  encoder.
\<close>

section \<open>http.Request and http.Response\<close>

record http_request =
  hq_Method :: string
  hq_URL :: string
  hq_Body :: "io_reader option"
  hq_Header :: "(string \<times> string list) list"
  hq_ContentLength :: int

record http_response =
  hp_StatusCode :: int
  hp_Header :: "(string \<times> string list) list"
  hp_Body :: io_reader
  hp_URL :: "string option"

text \<open>\<open>Header.Get\<close>: the first value of a key, given in canonical form.\<close>

definition header_Get :: "(string \<times> string list) list \<Rightarrow> string \<Rightarrow> string" where
  "header_Get h k = (case map_of h k of Some (v # _) \<Rightarrow> v | _ \<Rightarrow> [])"

section \<open>Status handlers (status.go)\<close>

abbreviation client_Namespace :: string where
  "client_Namespace \<equiv> ''github.com/devopsfaith/krakend/http''"

abbreviation ErrInvalidStatusCode :: goerror where
  "ErrInvalidStatusCode \<equiv> ErrText ''invalid status code''"

text \<open>
  A handler returns the response, nil or not, and the error. Building an error reads the body
  and replaces it by a reader over what was read.
\<close>

type_synonym HTTPStatusHandler = "http_response \<Rightarrow> http_response option \<times> goerror option"

definition status_ok :: "http_response \<Rightarrow> bool" where
  "status_ok resp \<longleftrightarrow> hp_StatusCode resp = 200 \<or> hp_StatusCode resp = 201"

definition NewErrInvalidStatusCode :: "http_response \<Rightarrow> string \<Rightarrow> goerror" where
  "NewErrInvalidStatusCode resp errPrefix =
     ErrInvalidStatus (hp_StatusCode resp) errPrefix (case hp_URL resp of None \<Rightarrow> [] | Some p \<Rightarrow> p)"

definition error_body :: "http_response \<Rightarrow> string" where
  "error_body resp = (case read_all (hp_Body resp) of Inl _ \<Rightarrow> [] | Inr body \<Rightarrow> body)"

definition newHTTPResponseError :: "http_response \<Rightarrow> (int \<times> string \<times> string) \<times> http_response" where
  "newHTTPResponseError resp =
     (let body = error_body resp
      in ((hp_StatusCode resp, body, header_Get (hp_Header resp) ''Content-Type''),
          resp\<lparr>hp_Body := (body, None)\<rparr>))"

definition DefaultHTTPStatusHandler :: HTTPStatusHandler where
  "DefaultHTTPStatusHandler resp =
     (if \<not> status_ok resp then (None, Some ErrInvalidStatusCode) else (Some resp, None))"

definition DefaultHTTPStatusHandlerWithErrPrefix :: "string \<Rightarrow> HTTPStatusHandler" where
  "DefaultHTTPStatusHandlerWithErrPrefix errPrefix resp =
     (if \<not> status_ok resp then (None, Some (NewErrInvalidStatusCode resp errPrefix)) else (Some resp, None))"

definition ErrorHTTPStatusHandler :: HTTPStatusHandler where
  "ErrorHTTPStatusHandler resp =
     (if snd (DefaultHTTPStatusHandler resp) = None then (Some resp, None)
      else case newHTTPResponseError resp of
        ((code, msg, enc), resp) \<Rightarrow> (Some resp, Some (ErrHTTPResponse code msg enc)))"

definition ErrorHTTPStatusHandlerWithErrPrefix :: "string \<Rightarrow> HTTPStatusHandler" where
  "ErrorHTTPStatusHandlerWithErrPrefix errPrefix resp =
     (if snd (DefaultHTTPStatusHandlerWithErrPrefix errPrefix resp) = None then (Some resp, None)
      else case newHTTPResponseError resp of
        ((code, msg, enc), resp) \<Rightarrow> (Some resp, Some (ErrHTTPResponse code msg enc)))"

definition NoOpHTTPStatusHandler :: HTTPStatusHandler where
  "NoOpHTTPStatusHandler resp = (Some resp, None)"

definition DetailedHTTPStatusHandler :: "string \<Rightarrow> HTTPStatusHandler" where
  "DetailedHTTPStatusHandler name resp =
     (if snd (DefaultHTTPStatusHandler resp) = None then (Some resp, None)
      else case newHTTPResponseError resp of
        ((code, msg, enc), resp) \<Rightarrow> (Some resp, Some (ErrNamedHTTPResponse code msg enc name)))"

definition DetailedHTTPStatusHandlerWithErrPrefix :: "string \<Rightarrow> string \<Rightarrow> HTTPStatusHandler" where
  "DetailedHTTPStatusHandlerWithErrPrefix name errPrefix resp =
     (if snd (DefaultHTTPStatusHandlerWithErrPrefix errPrefix resp) = None then (Some resp, None)
      else case newHTTPResponseError resp of
        ((code, msg, enc), resp) \<Rightarrow> (Some resp, Some (ErrNamedHTTPResponse code msg enc name)))"

definition GetHTTPStatusHandler :: "Backend \<Rightarrow> HTTPStatusHandler" where
  "GetHTTPStatusHandler remote =
     (let errPrefix = ''['' @ be_Method remote @ '' '' @ be_URLPattern remote @ '']:'';
          default_handler = DefaultHTTPStatusHandlerWithErrPrefix errPrefix
      in case ec_section (be_ExtraConfig remote) client_Namespace of
           None \<Rightarrow> default_handler
         | Some m \<Rightarrow>
             (case nmap_get m ''return_error_details'' of
                Some v \<Rightarrow>
                  (case as_str v of
                     Some b \<Rightarrow> (if b \<noteq> [] then DetailedHTTPStatusHandlerWithErrPrefix b errPrefix
                                else default_handler)
                   | None \<Rightarrow> default_handler)
              | None \<Rightarrow>
                  (if Option.bind (nmap_get m ''return_error_code'') as_bool = Some True
                   then ErrorHTTPStatusHandlerWithErrPrefix errPrefix
                   else default_handler)))"

section \<open>Response parsers (http_response.go)\<close>

type_synonym HTTPResponseParser = "http_response \<Rightarrow> presult"

text \<open>
  \<open>gzip_NewReader\<close> fails on a bad header. The entity formatter may panic (\<open>None\<close>).
\<close>

definition DefaultHTTPResponseParserFactory ::
  "(io_reader \<Rightarrow> goerror + io_reader) \<Rightarrow> decoder \<Rightarrow> (Response \<Rightarrow> Response option) \<Rightarrow> HTTPResponseParser" where
  "DefaultHTTPResponseParserFactory gzip_NewReader dec ef resp =
     (case (if header_Get (hp_Header resp) ''Content-Encoding'' = ''gzip''
            then gzip_NewReader (hp_Body resp) else Inr (hp_Body resp)) of
        Inl err \<Rightarrow> Ret None (Some err)
      | Inr reader \<Rightarrow>
          (case dec reader None of
             (Some err, _) \<Rightarrow> Ret None (Some err)
           | (None, data) \<Rightarrow>
               (case ef (mk_Response data True) of
                  None \<Rightarrow> GoPanic
                | Some newResponse \<Rightarrow> Ret (Some newResponse) None)))"

definition NoOpHTTPResponseParser :: HTTPResponseParser where
  "NoOpHTTPResponseParser resp =
     Ret (Some \<lparr>rs_Data = Some [], rs_IsComplete = True,
                rs_Metadata = \<lparr>md_Headers = Some (hp_Header resp), md_StatusCode = hp_StatusCode resp\<rparr>,
                rs_Io = Some (hp_Body resp)\<rparr>) None"

section \<open>The http proxy (http.go)\<close>

text \<open>
  The body of the backend request. With \<open>send_body_on_redirect\<close> the body is read into a
  buffer: the bytes, and no read error (\<open>buf.ReadFrom\<close>'s error is dropped).
\<close>

definition sendBodyOnRedirect :: "Backend \<Rightarrow> bool" where
  "sendBodyOnRedirect cfg \<longleftrightarrow>
     Option.bind (ec_get (be_ExtraConfig cfg) ''backend/http/client'' ''send_body_on_redirect'') as_bool = Some True"

definition redirectPostReaderFactory :: "Backend \<Rightarrow> io_reader option \<Rightarrow> io_reader option" where
  "redirectPostReaderFactory cfg r =
     (if sendBodyOnRedirect cfg then map_option (\<lambda>r. (fst r, None)) r else r)"

text \<open>
  \<open>client\<close>: the check of \<open>http.NewRequest\<close> on method and URL, the \<open>String\<close> of a URL, the
  executor. \<open>ctx_err\<close> is the error of a context that is done after the call. A nil URL is a
  nil pointer, a panic. The content length of a request that \<open>NewRequest\<close> builds from a plain
  reader is 0, of one built from a buffer the number of its bytes.
\<close>

record http_client =
  hc_NewRequest :: "string \<Rightarrow> string \<Rightarrow> goerror option"
  hc_URL_String :: "URL \<Rightarrow> string"
  hc_Do :: "http_request \<Rightarrow> goerror + http_response"

definition backend_request :: "http_client \<Rightarrow> Backend \<Rightarrow> Request \<Rightarrow> URL \<Rightarrow> http_request" where
  "backend_request client cfg request u =
     (let body = redirectPostReaderFactory cfg (rq_Body request);
          len0 = (if sendBodyOnRedirect cfg then (case body of None \<Rightarrow> 0 | Some b \<Rightarrow> int (length (fst b))) else 0);
          len = (if rq_Body request \<noteq> None then
                   (case nmap_get (rq_Headers request) ''Content-Length'' of
                      Some [v] \<Rightarrow> (if v \<noteq> ''chunked'' then (case atoi v of Some sz \<Rightarrow> sz | None \<Rightarrow> len0) else len0)
                    | _ \<Rightarrow> len0)
                 else len0)
      in \<lparr>hq_Method = to_upper (rq_Method request), hq_URL = hc_URL_String client u, hq_Body = body,
          hq_Header = mput_all (case rq_Headers request of None \<Rightarrow> [] | Some h \<Rightarrow> h) [],
          hq_ContentLength = len\<rparr>)"

definition NewHTTPProxyDetailed ::
  "http_client \<Rightarrow> goerror option \<Rightarrow> Backend \<Rightarrow> HTTPStatusHandler \<Rightarrow> HTTPResponseParser \<Rightarrow> Proxy" where
  "NewHTTPProxyDetailed client ctx_err cfg ch rp request =
     (case rq_URL request of
        None \<Rightarrow> GoPanic
      | Some u \<Rightarrow>
          (case hc_NewRequest client (to_upper (rq_Method request)) (hc_URL_String client u) of
             Some err \<Rightarrow> Ret None (Some err)
           | None \<Rightarrow>
               (let res = hc_Do client (backend_request client cfg request u)
                in case ctx_err of
                     Some e \<Rightarrow> Ret None (Some e)
                   | None \<Rightarrow>
                       (case res of
                          Inl err \<Rightarrow> Ret None (Some err)
                        | Inr resp \<Rightarrow>
                            (case ch resp of
                               (_, Some (ErrNamedHTTPResponse code msg enc name)) \<Rightarrow>
                                 Ret (Some \<lparr>rs_Data = Some [(''error_'' @ name, VHTTPError code msg enc name)],
                                            rs_IsComplete = False,
                                            rs_Metadata = \<lparr>md_Headers = None, md_StatusCode = code\<rparr>,
                                            rs_Io = None\<rparr>) None
                             | (_, Some err) \<Rightarrow> Ret None (Some err)
                             | (Some resp, None) \<Rightarrow> rp resp
                             | (None, None) \<Rightarrow> GoPanic)))))"

definition NewHTTPProxyWithHTTPExecutor ::
  "'t tree_lib \<Rightarrow> (io_reader \<Rightarrow> goerror + io_reader) \<Rightarrow> http_client \<Rightarrow> goerror option \<Rightarrow> Backend
   \<Rightarrow> decoder \<Rightarrow> Proxy" where
  "NewHTTPProxyWithHTTPExecutor fl gzip_NewReader client ctx_err remote dec =
     (if be_Encoding remote = enc_NOOP then
        NewHTTPProxyDetailed client ctx_err remote NoOpHTTPStatusHandler NoOpHTTPResponseParser
      else
        NewHTTPProxyDetailed client ctx_err remote (GetHTTPStatusHandler remote)
          (DefaultHTTPResponseParserFactory gzip_NewReader dec (NewEntityFormatter fl remote)))"

text \<open>The factory of backend proxies; calling a nil decoder panics.\<close>

definition CustomHTTPProxyFactory ::
  "'t tree_lib \<Rightarrow> (io_reader \<Rightarrow> goerror + io_reader) \<Rightarrow> http_client \<Rightarrow> goerror option \<Rightarrow> Backend \<Rightarrow> Proxy" where
  "CustomHTTPProxyFactory fl gzip_NewReader client ctx_err backend =
     (case be_Decoder backend of
        Some dec \<Rightarrow> NewHTTPProxyWithHTTPExecutor fl gzip_NewReader client ctx_err backend dec
      | None \<Rightarrow>
          (if be_Encoding backend = enc_NOOP
           then NewHTTPProxyWithHTTPExecutor fl gzip_NewReader client ctx_err backend NoOpDecoder
           else (\<lambda>request. GoPanic)))"

definition newRequestBuilderMiddleware :: "Backend \<Rightarrow> Middleware" where
  "newRequestBuilderMiddleware remote =
     wrap_one (\<lambda>n r. n ((GeneratePath (be_URLPattern remote) r)\<lparr>rq_Method := be_Method remote\<rparr>))"

definition NewRequestBuilderMiddleware :: "Backend \<Rightarrow> Middleware" where
  "NewRequestBuilderMiddleware remote = newRequestBuilderMiddleware remote"

definition NewRequestBuilderMiddlewareWithLogger :: "Backend \<Rightarrow> Middleware" where
  "NewRequestBuilderMiddlewareWithLogger remote = newRequestBuilderMiddleware remote"

section \<open>Load balancing (balancing.go)\<close>

definition balanced_request ::
  "(string \<Rightarrow> goerror + URL) \<Rightarrow> ((string \<times> string list) list \<Rightarrow> string) \<Rightarrow> string \<Rightarrow> Request \<Rightarrow> goerror + Request" where
  "balanced_request url_Parse query_Encode host r =
     (case url_Parse (host @ rq_Path r) of
        Inl err \<Rightarrow> Inl err
      | Inr u \<Rightarrow>
          Inr (r\<lparr>rq_URL := Some
            (case rq_Query r of
               None \<Rightarrow> u
             | Some q \<Rightarrow>
                 if length q > 0 then
                   (if length (url_RawQuery u) > 0
                    then u\<lparr>url_RawQuery := url_RawQuery u @ ''&'' @ query_Encode q\<rparr>
                    else u\<lparr>url_RawQuery := url_RawQuery u @ query_Encode q\<rparr>)
                 else u)\<rparr>))"

text \<open>
  The balanced proxy has a state, the balancer: a call returns the outcome and the balancer
  after it.
\<close>

definition balanced_call ::
  "(string \<Rightarrow> goerror + URL) \<Rightarrow> ((string \<times> string list) list \<Rightarrow> string)
   \<Rightarrow> ('s \<Rightarrow> string list \<times> goerror option) \<Rightarrow> (nat \<Rightarrow> nat) \<Rightarrow> Proxy \<Rightarrow> Request \<Rightarrow> 's balancer
   \<Rightarrow> presult \<times> 's balancer" where
  "balanced_call url_Parse query_Encode impl rnd n r b =
     (case Host impl rnd b of
        None \<Rightarrow> (GoPanic, b)
      | Some (Inl err, b) \<Rightarrow> (Ret None (Some err), b)
      | Some (Inr host, b) \<Rightarrow>
          (case balanced_request url_Parse query_Encode host r of
             Inl err \<Rightarrow> (Ret None (Some err), b)
           | Inr r \<Rightarrow> (n r, b)))"

text \<open>
  The middleware, in a given state of its balancer. The constructors build a balancer, which
  then has served the earlier \<open>calls\<close>. No balancer draws both in its constructor and in its
  calls, so one random source serves for both.
\<close>

definition newLoadBalancedMiddleware ::
  "(string \<Rightarrow> goerror + URL) \<Rightarrow> ((string \<times> string list) list \<Rightarrow> string)
   \<Rightarrow> ('s \<Rightarrow> string list \<times> goerror option) \<Rightarrow> (nat \<Rightarrow> nat) \<Rightarrow> 's balancer \<Rightarrow> Middleware" where
  "newLoadBalancedMiddleware url_Parse query_Encode impl rnd b =
     wrap_one (\<lambda>n r. fst (balanced_call url_Parse query_Encode impl rnd n r b))"

definition NewLoadBalancedMiddlewareWithSubscriberAndLogger ::
  "'s balancer_history \<Rightarrow> nat \<Rightarrow> (string \<Rightarrow> goerror + URL) \<Rightarrow> ((string \<times> string list) list \<Rightarrow> string)
   \<Rightarrow> ('s \<Rightarrow> string list \<times> goerror option) \<Rightarrow> (nat \<Rightarrow> nat) \<Rightarrow> 's subscriber \<Rightarrow> Middleware" where
  "NewLoadBalancedMiddlewareWithSubscriberAndLogger calls gomaxprocs url_Parse query_Encode impl rnd subscriber =
     newLoadBalancedMiddleware url_Parse query_Encode impl rnd (balancer_after calls (NewBalancer gomaxprocs rnd subscriber))"

definition NewRoundRobinLoadBalancedMiddlewareWithSubscriberAndLogger ::
  "'s balancer_history \<Rightarrow> (string \<Rightarrow> goerror + URL) \<Rightarrow> ((string \<times> string list) list \<Rightarrow> string)
   \<Rightarrow> ('s \<Rightarrow> string list \<times> goerror option) \<Rightarrow> (nat \<Rightarrow> nat) \<Rightarrow> 's subscriber \<Rightarrow> Middleware" where
  "NewRoundRobinLoadBalancedMiddlewareWithSubscriberAndLogger calls url_Parse query_Encode impl rnd subscriber =
     newLoadBalancedMiddleware url_Parse query_Encode impl rnd (balancer_after calls (NewRoundRobinLB rnd subscriber))"

definition NewRandomLoadBalancedMiddlewareWithSubscriberAndLogger ::
  "'s balancer_history \<Rightarrow> (string \<Rightarrow> goerror + URL) \<Rightarrow> ((string \<times> string list) list \<Rightarrow> string)
   \<Rightarrow> ('s \<Rightarrow> string list \<times> goerror option) \<Rightarrow> (nat \<Rightarrow> nat) \<Rightarrow> 's subscriber \<Rightarrow> Middleware" where
  "NewRandomLoadBalancedMiddlewareWithSubscriberAndLogger calls url_Parse query_Encode impl rnd subscriber =
     newLoadBalancedMiddleware url_Parse query_Encode impl rnd (balancer_after calls (NewRandomLB subscriber))"

text \<open>
  The constructors that look the subscriber's factory up under the name of the backend's
  service discovery (\<open>reg\<close> is the register of the package sd), and those without a logger. A
  factory that panics ends the construction.
\<close>

definition backend_subscriber ::
  "(Backend, 's) subscriber_factory untyped \<Rightarrow> Backend \<Rightarrow> 's subscriber option" where
  "backend_subscriber reg remote = Sd_Get be_Host (be_SD remote) reg remote"

definition with_subscriber :: "('s subscriber \<Rightarrow> Middleware) \<Rightarrow> 's subscriber option \<Rightarrow> Middleware" where
  "with_subscriber m s nxt = (case s of None \<Rightarrow> Inl IndexPanic | Some s \<Rightarrow> m s nxt)"

definition NewLoadBalancedMiddlewareWithLogger ::
  "'s balancer_history \<Rightarrow> nat \<Rightarrow> (string \<Rightarrow> goerror + URL) \<Rightarrow> ((string \<times> string list) list \<Rightarrow> string)
   \<Rightarrow> ('s \<Rightarrow> string list \<times> goerror option) \<Rightarrow> (nat \<Rightarrow> nat) \<Rightarrow> (Backend, 's) subscriber_factory untyped \<Rightarrow> Backend \<Rightarrow> Middleware" where
  "NewLoadBalancedMiddlewareWithLogger calls gomaxprocs url_Parse query_Encode impl rnd reg remote =
     with_subscriber (NewLoadBalancedMiddlewareWithSubscriberAndLogger calls gomaxprocs url_Parse query_Encode impl rnd)
       (backend_subscriber reg remote)"

definition NewLoadBalancedMiddlewareWithSubscriber ::
  "'s balancer_history \<Rightarrow> nat \<Rightarrow> (string \<Rightarrow> goerror + URL) \<Rightarrow> ((string \<times> string list) list \<Rightarrow> string)
   \<Rightarrow> ('s \<Rightarrow> string list \<times> goerror option) \<Rightarrow> (nat \<Rightarrow> nat) \<Rightarrow> 's subscriber \<Rightarrow> Middleware" where
  "NewLoadBalancedMiddlewareWithSubscriber calls gomaxprocs url_Parse query_Encode impl rnd subscriber =
     newLoadBalancedMiddleware url_Parse query_Encode impl rnd (balancer_after calls (NewBalancer gomaxprocs rnd subscriber))"

definition NewLoadBalancedMiddleware ::
  "'s balancer_history \<Rightarrow> nat \<Rightarrow> (string \<Rightarrow> goerror + URL) \<Rightarrow> ((string \<times> string list) list \<Rightarrow> string)
   \<Rightarrow> ('s \<Rightarrow> string list \<times> goerror option) \<Rightarrow> (nat \<Rightarrow> nat) \<Rightarrow> (Backend, 's) subscriber_factory untyped \<Rightarrow> Backend \<Rightarrow> Middleware" where
  "NewLoadBalancedMiddleware calls gomaxprocs url_Parse query_Encode impl rnd reg remote =
     with_subscriber (NewLoadBalancedMiddlewareWithSubscriber calls gomaxprocs url_Parse query_Encode impl rnd) (backend_subscriber reg remote)"

definition NewRoundRobinLoadBalancedMiddlewareWithLogger ::
  "'s balancer_history \<Rightarrow> (string \<Rightarrow> goerror + URL) \<Rightarrow> ((string \<times> string list) list \<Rightarrow> string)
   \<Rightarrow> ('s \<Rightarrow> string list \<times> goerror option) \<Rightarrow> (nat \<Rightarrow> nat) \<Rightarrow> (Backend, 's) subscriber_factory untyped \<Rightarrow> Backend \<Rightarrow> Middleware" where
  "NewRoundRobinLoadBalancedMiddlewareWithLogger calls url_Parse query_Encode impl rnd reg remote =
     with_subscriber (NewRoundRobinLoadBalancedMiddlewareWithSubscriberAndLogger calls url_Parse query_Encode impl rnd)
       (backend_subscriber reg remote)"

definition NewRoundRobinLoadBalancedMiddlewareWithSubscriber ::
  "'s balancer_history \<Rightarrow> (string \<Rightarrow> goerror + URL) \<Rightarrow> ((string \<times> string list) list \<Rightarrow> string)
   \<Rightarrow> ('s \<Rightarrow> string list \<times> goerror option) \<Rightarrow> (nat \<Rightarrow> nat) \<Rightarrow> 's subscriber \<Rightarrow> Middleware" where
  "NewRoundRobinLoadBalancedMiddlewareWithSubscriber calls url_Parse query_Encode impl rnd subscriber =
     newLoadBalancedMiddleware url_Parse query_Encode impl rnd (balancer_after calls (NewRoundRobinLB rnd subscriber))"

definition NewRoundRobinLoadBalancedMiddleware ::
  "'s balancer_history \<Rightarrow> (string \<Rightarrow> goerror + URL) \<Rightarrow> ((string \<times> string list) list \<Rightarrow> string)
   \<Rightarrow> ('s \<Rightarrow> string list \<times> goerror option) \<Rightarrow> (nat \<Rightarrow> nat) \<Rightarrow> (Backend, 's) subscriber_factory untyped \<Rightarrow> Backend \<Rightarrow> Middleware" where
  "NewRoundRobinLoadBalancedMiddleware calls url_Parse query_Encode impl rnd reg remote =
     with_subscriber (NewRoundRobinLoadBalancedMiddlewareWithSubscriber calls url_Parse query_Encode impl rnd) (backend_subscriber reg remote)"

definition NewRandomLoadBalancedMiddlewareWithLogger ::
  "'s balancer_history \<Rightarrow> (string \<Rightarrow> goerror + URL) \<Rightarrow> ((string \<times> string list) list \<Rightarrow> string)
   \<Rightarrow> ('s \<Rightarrow> string list \<times> goerror option) \<Rightarrow> (nat \<Rightarrow> nat) \<Rightarrow> (Backend, 's) subscriber_factory untyped \<Rightarrow> Backend \<Rightarrow> Middleware" where
  "NewRandomLoadBalancedMiddlewareWithLogger calls url_Parse query_Encode impl rnd reg remote =
     with_subscriber (NewRandomLoadBalancedMiddlewareWithSubscriberAndLogger calls url_Parse query_Encode impl rnd)
       (backend_subscriber reg remote)"

definition NewRandomLoadBalancedMiddlewareWithSubscriber ::
  "'s balancer_history \<Rightarrow> (string \<Rightarrow> goerror + URL) \<Rightarrow> ((string \<times> string list) list \<Rightarrow> string)
   \<Rightarrow> ('s \<Rightarrow> string list \<times> goerror option) \<Rightarrow> (nat \<Rightarrow> nat) \<Rightarrow> 's subscriber \<Rightarrow> Middleware" where
  "NewRandomLoadBalancedMiddlewareWithSubscriber calls url_Parse query_Encode impl rnd subscriber =
     newLoadBalancedMiddleware url_Parse query_Encode impl rnd (balancer_after calls (NewRandomLB subscriber))"

definition NewRandomLoadBalancedMiddleware ::
  "'s balancer_history \<Rightarrow> (string \<Rightarrow> goerror + URL) \<Rightarrow> ((string \<times> string list) list \<Rightarrow> string)
   \<Rightarrow> ('s \<Rightarrow> string list \<times> goerror option) \<Rightarrow> (nat \<Rightarrow> nat) \<Rightarrow> (Backend, 's) subscriber_factory untyped \<Rightarrow> Backend \<Rightarrow> Middleware" where
  "NewRandomLoadBalancedMiddleware calls url_Parse query_Encode impl rnd reg remote =
     with_subscriber (NewRandomLoadBalancedMiddlewareWithSubscriber calls url_Parse query_Encode impl rnd) (backend_subscriber reg remote)"

section \<open>Properties\<close>

lemma with_subscriber_simps [simp]:
  "with_subscriber m (Some s) = m s"
  "with_subscriber m None nxt = Inl IndexPanic"
  by (simp_all add: with_subscriber_def fun_eq_iff)

text \<open>Without a factory for its name, a backend is balanced over its own hosts.\<close>

lemma backend_subscriber_fallback:
  "Untyped_Get (be_SD remote) reg = None \<Longrightarrow> backend_subscriber reg remote = Some (FixedSubscriber (be_Host remote))"
  by (simp add: backend_subscriber_def Sd_Get_def FixedSubscriberFactory_def)

lemma ErrorHTTPStatusHandler_eq:
  "ErrorHTTPStatusHandler resp =
     (if status_ok resp then (Some resp, None)
      else (Some (resp\<lparr>hp_Body := (error_body resp, None)\<rparr>),
            Some (ErrHTTPResponse (hp_StatusCode resp) (error_body resp) (header_Get (hp_Header resp) ''Content-Type''))))"
  by (simp add: ErrorHTTPStatusHandler_def DefaultHTTPStatusHandler_def newHTTPResponseError_def Let_def)

lemma ErrorHTTPStatusHandlerWithErrPrefix_eq:
  "ErrorHTTPStatusHandlerWithErrPrefix p resp = ErrorHTTPStatusHandler resp"
  by (simp add: ErrorHTTPStatusHandlerWithErrPrefix_def ErrorHTTPStatusHandler_def
      DefaultHTTPStatusHandlerWithErrPrefix_def DefaultHTTPStatusHandler_def)

lemma DetailedHTTPStatusHandler_eq:
  "DetailedHTTPStatusHandlerWithErrPrefix name p resp = DetailedHTTPStatusHandler name resp \<and>
   DetailedHTTPStatusHandler name resp =
     (if status_ok resp then (Some resp, None)
      else (Some (resp\<lparr>hp_Body := (error_body resp, None)\<rparr>),
            Some (ErrNamedHTTPResponse (hp_StatusCode resp) (error_body resp)
              (header_Get (hp_Header resp) ''Content-Type'') name)))"
  by (simp add: DetailedHTTPStatusHandler_def DetailedHTTPStatusHandlerWithErrPrefix_def
      DefaultHTTPStatusHandlerWithErrPrefix_def DefaultHTTPStatusHandler_def newHTTPResponseError_def Let_def)

lemmas status_handler_eqs =
  ErrorHTTPStatusHandlerWithErrPrefix_eq ErrorHTTPStatusHandler_eq DetailedHTTPStatusHandler_eq
  DefaultHTTPStatusHandlerWithErrPrefix_def

text \<open>
  C40: Whatever the configuration of a backend, its status handler passes a response exactly when
  the status is 200 or 201, unchanged. It turns any other status into an error with the status
  code: with the body and the name that \<open>return_error_details\<close> gives, when that is a text that is
  not empty; with the body when \<open>return_error_details\<close> is absent and \<open>return_error_code\<close> is true; else
  with the method and the pattern of the backend and the path of the request.
\<close>

theorem status_handler_sound:
  "(hp_StatusCode resp = 200 \<or> hp_StatusCode resp = 201 \<longrightarrow> GetHTTPStatusHandler remote resp = (Some resp, None)) \<and>
   (hp_StatusCode resp \<noteq> 200 \<and> hp_StatusCode resp \<noteq> 201 \<longrightarrow>
      snd (GetHTTPStatusHandler remote resp) =
        (let body = (case read_all (hp_Body resp) of Inl _ \<Rightarrow> [] | Inr body \<Rightarrow> body);
             encoding = header_Get (hp_Header resp) ''Content-Type'';
             plain = ErrInvalidStatus (hp_StatusCode resp) (''['' @ be_Method remote @ '' '' @ be_URLPattern remote @ '']:'')
               (case hp_URL resp of None \<Rightarrow> [] | Some path \<Rightarrow> path)
         in case ec_get (be_ExtraConfig remote) client_Namespace ''return_error_details'' of
              Some (VStr name) \<Rightarrow> Some (if name \<noteq> [] then ErrNamedHTTPResponse (hp_StatusCode resp) body encoding name else plain)
            | Some _ \<Rightarrow> Some plain
            | None \<Rightarrow>
                Some (if ec_get (be_ExtraConfig remote) client_Namespace ''return_error_code'' = Some (VBool True)
                      then ErrHTTPResponse (hp_StatusCode resp) body encoding else plain)))"
proof -
  have b: "Option.bind x as_bool = Some True \<longleftrightarrow> x = Some (VBool True)" for x
    by (cases x; cases "the x") auto
  show ?thesis
    by (auto simp: GetHTTPStatusHandler_def Let_def status_handler_eqs NewErrInvalidStatusCode_def status_ok_def
        error_body_def ec_get_def b split: option.splits gval.splits)
qed

theorem status_handler_sound_witness:
  "snd (GetHTTPStatusHandler (empty_Backend\<lparr>be_ExtraConfig := [(client_Namespace, VObj [(''return_error_code'', VBool True)])]\<rparr>)
     \<lparr>hp_StatusCode = 404, hp_Header = [], hp_Body = (''gone'', None), hp_URL = None\<rparr>) = Some (ErrHTTPResponse 404 ''gone'' [])"
  using status_handler_sound [where remote = "empty_Backend\<lparr>be_ExtraConfig := [(client_Namespace, VObj [(''return_error_code'', VBool True)])]\<rparr>"
      and resp = "\<lparr>hp_StatusCode = 404, hp_Header = [], hp_Body = (''gone'', None), hp_URL = None\<rparr>"]
  by (simp add: ec_get_def ec_section_def nmap_get_def header_Get_def read_all_def)

text \<open>
  The http proxy passes no response of a failed call on: for a status that is not 200 or
  201 it returns no response and an error, or, for a backend with error details, an incomplete response whose
  only field is the named error.
\<close>

theorem http_proxy_bad_status:
  assumes "rq_URL request = Some u"
    and "hc_NewRequest client (to_upper (rq_Method request)) (hc_URL_String client u) = None"
    and "hc_Do client (backend_request client remote request u) = Inr resp" "\<not> status_ok resp"
    and "be_Encoding remote \<noteq> enc_NOOP"
  shows "(\<exists>err. NewHTTPProxyWithHTTPExecutor fl gz client None remote dec request = Ret None (Some err)) \<or>
    (\<exists>r name v. NewHTTPProxyWithHTTPExecutor fl gz client None remote dec request = Ret (Some r) None \<and>
      rs_Data r = Some [(''error_'' @ name, v)] \<and> \<not> rs_IsComplete r \<and>
      md_StatusCode (rs_Metadata r) = hp_StatusCode resp)"
  using assms
  by (auto simp: NewHTTPProxyWithHTTPExecutor_def NewHTTPProxyDetailed_def GetHTTPStatusHandler_def Let_def
      status_handler_eqs NewErrInvalidStatusCode_def split: option.splits)

theorem http_proxy_bad_status_witness:
  "\<exists>err. NewHTTPProxyWithHTTPExecutor
     \<lparr>tree_New = \<lambda>d. Inr d, tree_Move = \<lambda>a b t. t, tree_Append = \<lambda>a b t. t, tree_Del = \<lambda>a t. t, tree_Get = \<lambda>a t. of_map t\<rparr>
     Inr \<lparr>hc_NewRequest = \<lambda>m u. None, hc_URL_String = url_rest,
          hc_Do = \<lambda>q. Inr \<lparr>hp_StatusCode = 500, hp_Header = [], hp_Body = ([], None), hp_URL = None\<rparr>\<rparr>
     None empty_Backend NoOpDecoder (empty_Request\<lparr>rq_URL := Some \<lparr>url_rest = ''u'', url_RawQuery = []\<rparr>\<rparr>)
     = Ret None (Some err)"
proof -
  let ?c = "\<lparr>hc_NewRequest = \<lambda>m u. None, hc_URL_String = url_rest,
          hc_Do = \<lambda>q. Inr \<lparr>hp_StatusCode = 500, hp_Header = [], hp_Body = ([], None), hp_URL = None\<rparr>\<rparr> :: http_client"
    and ?q = "empty_Request\<lparr>rq_URL := Some \<lparr>url_rest = ''u'', url_RawQuery = []\<rparr>\<rparr> :: Request"
    and ?fl = "\<lparr>tree_New = \<lambda>d. Inr d, tree_Move = \<lambda>a b t. t, tree_Append = \<lambda>a b t. t, tree_Del = \<lambda>a t. t,
       tree_Get = \<lambda>a t. of_map t\<rparr> :: jmap option tree_lib"
  have "(\<exists>err. NewHTTPProxyWithHTTPExecutor ?fl Inr ?c None empty_Backend NoOpDecoder ?q = Ret None (Some err)) \<or>
    (\<exists>r name v. NewHTTPProxyWithHTTPExecutor ?fl Inr ?c None empty_Backend NoOpDecoder ?q = Ret (Some r) None \<and>
      rs_Data r = Some [(''error_'' @ name, v)] \<and> \<not> rs_IsComplete r \<and>
      md_StatusCode (rs_Metadata r) = hp_StatusCode \<lparr>hp_StatusCode = 500, hp_Header = [], hp_Body = ([], None), hp_URL = None\<rparr>)"
    by (rule http_proxy_bad_status) (simp_all add: status_ok_def empty_Backend_def)
  moreover have "NewHTTPProxyWithHTTPExecutor ?fl Inr ?c None empty_Backend NoOpDecoder ?q \<noteq> Ret (Some r) None" for r
    by (simp add: NewHTTPProxyWithHTTPExecutor_def NewHTTPProxyDetailed_def GetHTTPStatusHandler_def
        empty_Backend_def ec_section_def DefaultHTTPStatusHandlerWithErrPrefix_def status_ok_def
        NewErrInvalidStatusCode_def Let_def)
  ultimately show ?thesis by blast
qed

text \<open>
  What a call to a host has to do, written without the code's own definitions: the text of the
  host and the path is parsed; an error of the parser is returned; otherwise the next proxy is
  called with the request whose URL is the parsed one, where the encoded query strings of the
  request, when it has some, join the query that the URL has.
\<close>

definition sent_to ::
  "(string \<Rightarrow> goerror + URL) \<Rightarrow> ((string \<times> string list) list \<Rightarrow> string) \<Rightarrow> Proxy \<Rightarrow> Request \<Rightarrow> string \<Rightarrow> presult \<Rightarrow> bool" where
  "sent_to url_Parse query_Encode n r host out \<longleftrightarrow>
     (case url_Parse (host @ rq_Path r) of
        Inl err \<Rightarrow> out = Ret None (Some err)
      | Inr u \<Rightarrow> \<exists>u'. out = n (r\<lparr>rq_URL := Some u'\<rparr>) \<and> url_rest u' = url_rest u \<and>
          url_RawQuery u' = join_with ''&'' (filter (\<lambda>x. x \<noteq> []) [url_RawQuery u] @
            (case rq_Query r of None \<Rightarrow> [] | Some q \<Rightarrow> if q = [] then [] else [query_Encode q])))"

lemma balanced_request_Inr:
  assumes "up (h @ rq_Path r) = Inr u"
  shows "\<exists>u'. balanced_request up enc h r = Inr (r\<lparr>rq_URL := Some u'\<rparr>) \<and> url_rest u' = url_rest u \<and>
    url_RawQuery u' = join_with ''&'' (filter (\<lambda>x. x \<noteq> []) [url_RawQuery u] @
      (case rq_Query r of None \<Rightarrow> [] | Some q \<Rightarrow> if q = [] then [] else [enc q]))"
  using assms by (auto simp: balanced_request_def split: option.splits)

lemma sent_to_balanced:
  "sent_to up enc n r h (case balanced_request up enc h r of Inl err \<Rightarrow> Ret None (Some err) | Inr r' \<Rightarrow> n r')"
proof (cases "up (h @ rq_Path r)")
  case (Inr u)
  from balanced_request_Inr [where up = up and h = h and r = r and enc = enc, OF this] Inr show ?thesis by (force simp: sent_to_def)
qed (simp add: sent_to_def balanced_request_def)

text \<open>
  C25: With a balancer that \<open>NewBalancer\<close> made, after any earlier calls, a call returns the error
  of the subscriber when it has one, and the error that there is no host when the list of hosts is
  empty. Otherwise it takes one of the subscriber's hosts and parses that host followed by the
  request's path: it returns the error of the parser, or calls the next proxy with the request
  whose URL is the parsed one, with the encoded query strings of the request added to its query
  (\<open>sent_to\<close>). The random numbers are below their bound, and the list of hosts is shorter than
  \<open>2 ^ 32\<close>.
\<close>

theorem balanced_call_sound:
  assumes "rand_Uint32n_ok rnd" "length (fst (Hosts impl s)) < 2 ^ 32"
    and "fst (balanced_call up enc impl rnd n r (balancer_after calls (NewBalancer p rnd s))) = out"
  shows "case Hosts impl s of
     (hs, Some err) \<Rightarrow> out = Ret None (Some err)
   | ([], None) \<Rightarrow> out = Ret None (Some (ErrText ''no hosts available''))
   | (hs, None) \<Rightarrow> \<exists>h \<in> set hs. sent_to up enc n r h out"
proof -
  define b where "b = balancer_after calls (NewBalancer p rnd s)"
  have b: "balancer_ready impl rnd b" "balancer_for s b"
    using NewBalancer_ready [OF assms(1,2)] by (simp_all add: b_def balancer_for_New)
  obtain res b' where h: "Host impl rnd b = Some (res, b')"
    using lb.host_returns [OF b(1)] by (metis not_None_eq surj_pair)
  note a = Host_answers [OF h b(2,1)]
  obtain hs err where hs: "Hosts impl s = (hs, err)" by fastforce
  show ?thesis
  proof (cases res)
    case (Inl e)
    with assms(3) have "out = Ret None (Some e)" by (simp add: balanced_call_def h b_def [symmetric])
    with a Inl hs show ?thesis by (auto simp: balancer_hosts_def split: option.splits list.splits if_splits)
  next
    case (Inr host)
    with a hs have *: "err = None" "host \<in> set hs" by (auto simp: balancer_hosts_def split: option.splits if_splits)
    have "out = (case balanced_request up enc host r of Inl err \<Rightarrow> Ret None (Some err) | Inr r' \<Rightarrow> n r')"
      using assms(3) Inr by (auto simp: balanced_call_def h b_def [symmetric] split: sum.splits)
    with sent_to_balanced [of up enc n r host] have "sent_to up enc n r host out" by simp
    with hs * show ?thesis by (cases hs) auto
  qed
qed

theorem balanced_call_sound_witness:
  "fst (balanced_call (\<lambda>s. Inr \<lparr>url_rest = s, url_RawQuery = ''a=1''\<rparr>) (\<lambda>q. ''b=2'') (\<lambda>s. ([], None)) (\<lambda>k. 0)
      (\<lambda>r. Ret (Some (mk_Response (Some [(url_rest (the (rq_URL r)), VStr (url_RawQuery (the (rq_URL r))))]) True)) None)
      (empty_Request\<lparr>rq_Path := ''/p'', rq_Query := Some [(''b'', [''2''])]\<rparr>)
      (NewBalancer 1 (\<lambda>k. 0) (FixedSubscriber [''h''] :: unit subscriber)))
    = Ret (Some (mk_Response (Some [(''h/p'', VStr ''a=1&b=2'')]) True)) None"
  using balanced_call_sound [of "\<lambda>k. 0" "\<lambda>s. ([], None)" "FixedSubscriber [''h''] :: unit subscriber"
      "\<lambda>s. Inr \<lparr>url_rest = s, url_RawQuery = ''a=1''\<rparr>" "\<lambda>q. ''b=2''"
      "\<lambda>r. Ret (Some (mk_Response (Some [(url_rest (the (rq_URL r)), VStr (url_RawQuery (the (rq_URL r))))]) True)) None"
      "empty_Request\<lparr>rq_Path := ''/p'', rq_Query := Some [(''b'', [''2''])]\<rparr>" "[]" 1, OF _ _ refl]
  by (auto simp: rand_Uint32n_ok_def Hosts_def sent_to_def)

end
