(* ===== verification/Uri.thy ===== *)
theory Uri
  imports ConfigTypes Regexp
begin

text \<open>
  config/uri.go and the patterns of config/config.go: the cleaning of hosts and paths, and the
  translation of endpoint parameters to the syntax of the router.
\<close>

section \<open>Patterns\<close>

definition key_char :: "char \<Rightarrow> bool" where
  "key_char c \<longleftrightarrow> is_letter c \<or> is_digit c \<or> c = CHR ''-'' \<or> c = CHR ''_''"

definition host_char :: "char \<Rightarrow> bool" where
  "host_char c \<longleftrightarrow> is_letter c \<or> is_digit c \<or> c = CHR ''.'' \<or> c = CHR ''_'' \<or> c = CHR ''-''"

definition param_char :: "char \<Rightarrow> bool" where
  "param_char c \<longleftrightarrow> is_word c \<or> c = CHR ''-'' \<or> c = CHR ''.'' \<or> c = CHR '':'' \<or> c = CHR ''/''"

text \<open>\<open>/\{([a-zA-Z\-_0-9]+)\}\<close>\<close>

definition endpointURLKeysPattern :: regex where
  "endpointURLKeysPattern = RSeq (RLit ''/{'') (RSeq (RGrp 1 (RPlus key_char)) (RLit ''}''))"

text \<open>\<open>(https?://)?([a-zA-Z0-9\._\-]+)(:[0-9]{2,6})?/?\<close>\<close>

definition hostPattern :: regex where
  "hostPattern =
     RSeq (ROpt (RGrp 1 (RSeq (RLit ''http'') (RSeq (ROpt (RLit ''s'')) (RLit ''://'')))))
       (RSeq (RGrp 2 (RPlus host_char))
         (RSeq (ROpt (RGrp 3 (RSeq (RLit '':'') (RBetween 2 6 is_digit)))) (ROpt (RLit ''/''))))"

text \<open>\<open>\{([\w\-\.:/]+)\}\<close>\<close>

definition simpleURLKeysPattern :: regex where
  "simpleURLKeysPattern = RSeq (RLit ''{'') (RSeq (RGrp 1 (RPlus param_char)) (RLit ''}''))"

text \<open>\<open>^(resp[\d]+_.+)?(JWT\.([\w\-\.:/]+))?$\<close>\<close>

definition sequentialParamsPattern :: regex where
  "sequentialParamsPattern =
     RSeq RBol (RSeq (ROpt (RGrp 1 (RSeq (RLit ''resp'') (RSeq (RPlus is_digit) (RSeq (RLit ''_'') (RPlus not_newline))))))
       (RSeq (ROpt (RGrp 2 (RSeq (RLit ''JWT.'') (RGrp 3 (RPlus param_char))))) REol))"

text \<open>\<open>^[^/]|\*.|/__(debug|echo|health)(/.*)?$\<close>\<close>

definition invalidPattern :: regex where
  "invalidPattern =
     RAlt (RSeq RBol (RCls (\<lambda>c. c \<noteq> CHR ''/'')))
       (RAlt (RSeq (RLit ''*'') (RCls not_newline))
         (RSeq (RLit ''/__'') (RSeq (RGrp 1 (RAlt (RLit ''debug'') (RAlt (RLit ''echo'') (RLit ''health''))))
           (RSeq (ROpt (RGrp 2 (RSeq (RLit ''/'') (RStar not_newline)))) REol))))"

section \<open>The URI parser\<close>

text \<open>\<open>errInvalidHost\<close>, and its wrapping by \<open>SafeCleanHosts\<close>.\<close>

abbreviation errInvalidHost :: goerror where
  "errInvalidHost \<equiv> ErrText ''invalid host''"

definition SafeCleanHost :: "string \<Rightarrow> goerror + string" where
  "SafeCleanHost host =
     (case FindAllStringSubmatch hostPattern host of
        [m] \<Rightarrow>
          (let k0 = submatch m 1
           in Inr ((if k0 = [] then ''http://'' else k0) @ submatch m 2 @ submatch m 3))
      | _ \<Rightarrow> Inl errInvalidHost)"

fun SafeCleanHosts :: "string list \<Rightarrow> goerror + string list" where
  "SafeCleanHosts [] = Inr []"
| "SafeCleanHosts (h # hosts) =
     (case SafeCleanHost h of
        Inl _ \<Rightarrow> Inl (ErrText (''host '' @ h @ '' not valid: '' @ error_text errInvalidHost))
      | Inr c \<Rightarrow>
          (case SafeCleanHosts hosts of Inl e \<Rightarrow> Inl e | Inr cs \<Rightarrow> Inr (c # cs)))"

text \<open>\<open>CleanHost\<close> and \<open>CleanHosts\<close> panic (\<open>None\<close>) where the safe versions fail.\<close>

definition CleanHost :: "string \<Rightarrow> string option" where
  "CleanHost host = (case SafeCleanHost host of Inl _ \<Rightarrow> None | Inr h \<Rightarrow> Some h)"

definition CleanHosts :: "string list \<Rightarrow> string list option" where
  "CleanHosts hosts = (case SafeCleanHosts hosts of Inl _ \<Rightarrow> None | Inr hs \<Rightarrow> Some hs)"

definition CleanPath :: "string \<Rightarrow> string" where
  "CleanPath path = ''/'' @ trim_prefix path ''/''"

fun colon_params :: "string list \<Rightarrow> string \<Rightarrow> string" where
  "colon_params [] result = result"
| "colon_params (p # ps) result =
     (case split_on CHR ''?'' result of
        [] \<Rightarrow> colon_params ps result
      | part0 # parts \<Rightarrow>
          colon_params ps
            (join_with ''?'' (replace_all part0 (''{'' @ p @ ''}'') ('':'' @ p) # parts)))"

definition GetEndpointPath :: "RouterPattern \<Rightarrow> string \<Rightarrow> string list \<Rightarrow> string" where
  "GetEndpointPath u path params =
     (if u = ColonRouterPatternBuilder then colon_params params path else path)"

definition extractPlaceHoldersFromURLTemplate :: "string \<Rightarrow> regex \<Rightarrow> string list" where
  "extractPlaceHoldersFromURLTemplate subject pat =
     map (\<lambda>v. submatch v 1) (FindAllStringSubmatch pat subject)"

section \<open>The preferred match\<close>

text \<open>The first way to match of a sequence, an option and a greedy repetition.\<close>

lemma rmatch_RSeq_hd:
  "rmatch r1 i s c = (i1, s1, c1) # l1 \<Longrightarrow> rmatch r2 i1 s1 c1 = x # l2 \<Longrightarrow>
   \<exists>l. rmatch (RSeq r1 r2) i s c = x # l"
  by simp

lemma rmatch_ROpt_hd: "rmatch r i s c = x # l \<Longrightarrow> \<exists>l'. rmatch (ROpt r) i s c = x # l'"
  by simp

lemma rmatch_RGrp_hd:
  "rmatch r i s c = (i', s', c') # l \<Longrightarrow>
   \<exists>l'. rmatch (RGrp n r) i s c = (i', s', mput n (take (i' - i) s) c') # l'"
  by simp

lemma star_splits_hd: "\<exists>l. star_splits p s = (takeWhile p s, dropWhile p s) # l"
  by (induction p s rule: star_splits.induct) auto

lemma rmatch_RPlus_hd:
  assumes "p x"
  shows "\<exists>l. rmatch (RPlus p) i (x # s) c =
    (i + length (takeWhile p (x # s)), dropWhile p (x # s), c) # l"
proof -
  obtain l where "star_splits p s = (takeWhile p s, dropWhile p s) # l" using star_splits_hd by blast
  with assms show ?thesis by (simp add: RPlus_def)
qed

lemma rmatch_RPlus_Nil: "(\<And>x xs. s = x # xs \<Longrightarrow> \<not> p x) \<Longrightarrow> rmatch (RPlus p) i s c = []"
  by (cases s) (auto simp: RPlus_def)

lemma rmatch_RLit: "rmatch (RLit t) i s c = (if prefix t s then [(i + length t, drop (length t) s, c)] else [])"
proof (induction t arbitrary: i s)
  case (Cons x t)
  then show ?case by (cases s) (auto simp: RLit_def)
qed (simp add: RLit_def)


section \<open>What the groups of a match hold\<close>

fun group_free :: "regex \<Rightarrow> bool" where
  "group_free (RSeq r1 r2) = (group_free r1 \<and> group_free r2)"
| "group_free (RAlt r1 r2) = (group_free r1 \<and> group_free r2)"
| "group_free (ROpt r) = group_free r"
| "group_free (RGrp n r) = False"
| "group_free _ = True"

lemma rmatch_group_free:
  "group_free r \<Longrightarrow> (i', s', c') \<in> set (rmatch r i s c) \<Longrightarrow> c' = c"
proof (induction r arbitrary: i s c i' s' c')
  case (RSeq r1 r2)
  from RSeq.prems obtain i1 s1 c1 where
    "(i1, s1, c1) \<in> set (rmatch r1 i s c)" "(i', s', c') \<in> set (rmatch r2 i1 s1 c1)"
    unfolding rmatch_RSeq_mem by blast
  with RSeq show ?case by (metis group_free.simps(1))
qed (auto split: list.splits if_splits)

lemma rmatch_RGrp:
  assumes "group_free r" "(i', s', c') \<in> set (rmatch (RGrp n r) i s c)"
  shows "\<exists>u. s = u @ s' \<and> means r i u s' \<and> c' = mput n u c"
proof -
  from assms(2) obtain d where d: "(i', s', d) \<in> set (rmatch r i s c)" "c' = mput n (take (i' - i) s) d" by auto
  from rmatch_progress [OF d(1)] obtain u where "s = u @ s'" "i' = i + length u" "means r i u s'" by blast
  with d rmatch_group_free [OF assms(1) d(1)] show ?thesis by auto
qed

lemma rmatch_ROpt_RGrp:
  assumes "group_free r" "(i', s', c') \<in> set (rmatch (ROpt (RGrp n r)) i s c)"
  shows "c' = c \<or> (\<exists>u. means r i u s' \<and> c' = mput n u c)"
proof -
  from assms(2) have "(i', s', c') \<in> set (rmatch (RGrp n r) i s c) \<or> c' = c" by auto
  with rmatch_RGrp [OF assms(1)] show ?thesis by blast
qed

lemma means_RLit [simp]: "means (RLit t) i u s \<longleftrightarrow> u = t"
  by (induction t arbitrary: i u) (auto simp: RLit_def)

lemma group_free_RLit [simp]: "group_free (RLit t)"
  by (induction t) (auto simp: RLit_def)

lemma means_RPlus [simp]: "means (RPlus p) i u s \<longleftrightarrow> u \<noteq> [] \<and> list_all p u"
proof
  assume "u \<noteq> [] \<and> list_all p u"
  then obtain x v where u: "u = [x] @ v" "p x" "list_all p v" by (cases u) auto
  then show "means (RPlus p) i u s" unfolding RPlus_def means.simps by blast
qed (auto simp: RPlus_def)

lemma group_free_RPlus [simp]: "group_free (RPlus p)"
  by (simp add: RPlus_def)

lemma means_RBetween: "m \<le> n \<Longrightarrow> means (RBetween m n p) i u s \<Longrightarrow> m \<le> length u \<and> length u \<le> n \<and> list_all p u"
proof (induction m n p arbitrary: i u rule: RBetween.induct)
  case (2 m n p)
  show ?case
  proof (cases "m = 0")
    case True
    with 2 show ?thesis by fastforce
  next
    case False
    with 2(4) obtain x v where v: "u = x # v" "p x" "means (RBetween (m - 1) n p) (Suc i) v s" by auto
    have "m - 1 \<le> n" using 2(3) by simp
    from "2.IH"(2) [OF False this v(3)] v(1,2) False show ?thesis by auto
  qed
qed simp

lemma group_free_RBetween [simp]: "group_free (RBetween m n p)"
  by (induction m n p rule: RBetween.induct) auto

lemma rmatch_RBetween_hd:
  "list_all p ds \<Longrightarrow> m \<le> length ds \<Longrightarrow> length ds \<le> n \<Longrightarrow>
   \<exists>l. rmatch (RBetween m n p) i ds c = (i + length ds, [], c) # l"
proof (induction m n p arbitrary: i ds rule: RBetween.induct)
  case (2 m n p)
  show ?case
  proof (cases ds)
    case Nil
    with 2(4) show ?thesis by simp
  next
    case (Cons d ds')
    have "\<exists>l. rmatch (RBetween (m - 1) n p) (Suc i) ds' c = (Suc i + length ds', [], c) # l"
    proof (cases "m = 0")
      case True
      with 2(3-5) Cons "2.IH"(1) [OF True, of ds' "Suc i"] show ?thesis by simp
    next
      case False
      with 2(3-5) Cons "2.IH"(2) [OF False, of ds' "Suc i"] show ?thesis by simp
    qed
    with Cons 2(3) show ?thesis by (cases "m = 0") auto
  qed
qed auto

lemma find_first_mem:
  "find_first r i s = Some (b, e, m, c, s') \<Longrightarrow> \<exists>u. (e, s', c) \<in> set (rmatch r b u [])"
proof (induction r i s rule: find_first.induct)
  case (1 r i)
  then show ?case by (cases "rmatch r i [] []") (auto intro!: exI [of _ "[]"])
next
  case (2 r i x xs)
  then show ?case by (cases "rmatch r i (x # xs) []") (auto intro!: exI [of _ "x # xs"])
qed

lemma find_all_mem:
  "(m, c) \<in> set (find_all r i q s) \<Longrightarrow> \<exists>b e s' u. (e, s', c) \<in> set (rmatch r b u [])"
proof (induction r i q s rule: find_all.induct)
  case (1 r i q s)
  show ?case
  proof (cases "find_first r i s")
    case None
    with 1(3) show ?thesis by (simp add: find_all.simps [of r i q s])
  next
    case (Some t)
    obtain b e m' c' s' where t: "t = (b, e, m', c', s')" by (cases t)
    with Some find_first_mem have here: "\<exists>u. (e, s', c') \<in> set (rmatch r b u [])" by blast
    note eq = find_all.simps [of r i q s, unfolded Some t option.case prod.case Let_def]
    from 1(3) consider "c = c'" | x xs where "s = x # xs" "e = i" "(m, c) \<in> set (find_all r (Suc i) (Some e) xs)"
      | "e \<noteq> i" "length s' < length s" "(m, c) \<in> set (find_all r e (Some e) s')"
      unfolding eq by (auto split: if_splits list.splits)
    then show ?thesis
    proof cases
      case 1
      with here show ?thesis by blast
    next
      case 2
      with "1.IH"(1) Some t show ?thesis by blast
    next
      case 3
      with "1.IH"(2) Some t show ?thesis by blast
    qed
  qed
qed

section \<open>Clean hosts\<close>

text \<open>A host in the form that the cleaning produces: scheme, name, optional port.\<close>

definition clean_host :: "string \<Rightarrow> string \<Rightarrow> string \<Rightarrow> bool" where
  "clean_host scheme name port \<longleftrightarrow>
     (scheme = ''http://'' \<or> scheme = ''https://'') \<and> name \<noteq> [] \<and> list_all host_char name \<and>
     (port = [] \<or> (\<exists>ds. port = CHR '':'' # ds \<and> list_all is_digit ds \<and> 2 \<le> length ds \<and> length ds \<le> 6))"

text \<open>A cleaned host, without its parts.\<close>

definition host_ready :: "string \<Rightarrow> bool" where
  "host_ready h \<longleftrightarrow> (\<exists>scheme name port. clean_host scheme name port \<and> h = scheme @ name @ port)"

lemma means_scheme:
  "means (RSeq (RLit ''http'') (RSeq (ROpt (RLit ''s'')) (RLit ''://''))) i u s \<Longrightarrow> u = ''http://'' \<or> u = ''https://''"
  unfolding means.simps means_RLit by (elim exE conjE disjE) simp_all

lemma hostPattern_captures:
  assumes "(e, s', c) \<in> set (rmatch hostPattern b u [])"
  shows "\<exists>scheme name port. clean_host scheme name port \<and>
    (map_of c 1 = None \<and> scheme = ''http://'' \<or> map_of c 1 = Some scheme) \<and> map_of c 2 = Some name \<and>
    (map_of c 3 = None \<and> port = [] \<or> map_of c 3 = Some port)"
proof -
  let ?g1 = "RSeq (RLit ''http'') (RSeq (ROpt (RLit ''s'')) (RLit ''://''))"
    and ?g3 = "RSeq (RLit '':'') (RBetween 2 6 is_digit)"
  from assms obtain i1 s1 c1 i2 s2 c2 i3 s3 c3 where
    m1: "(i1, s1, c1) \<in> set (rmatch (ROpt (RGrp 1 ?g1)) b u [])" and
    m2: "(i2, s2, c2) \<in> set (rmatch (RGrp 2 (RPlus host_char)) i1 s1 c1)" and
    m3: "(i3, s3, c3) \<in> set (rmatch (ROpt (RGrp 3 ?g3)) i2 s2 c2)" and
    m4: "(e, s', c) \<in> set (rmatch (ROpt (RLit ''/'')) i3 s3 c3)"
    unfolding hostPattern_def rmatch_RSeq_mem by blast
  have c4: "c = c3" by (rule rmatch_group_free [OF _ m4]) simp
  have c1: "c1 = [] \<or> (\<exists>g. (g = ''http://'' \<or> g = ''https://'') \<and> c1 = [(1, g)])"
    using rmatch_ROpt_RGrp [OF _ m1] means_scheme by fastforce
  from rmatch_RGrp [OF _ m2] obtain name where name: "name \<noteq> []" "list_all host_char name" "c2 = mput 2 name c1"
    by auto
  from rmatch_ROpt_RGrp [OF _ m3] have c3: "c3 = c2 \<or>
      (\<exists>ds. list_all is_digit ds \<and> 2 \<le> length ds \<and> length ds \<le> 6 \<and> c3 = mput 3 (CHR '':'' # ds) c2)"
    using means_RBetween [of 2 6 is_digit] by fastforce
  define scheme where "scheme = (case map_of c 1 of None \<Rightarrow> ''http://'' | Some g \<Rightarrow> g)"
  define port where "port = (case map_of c 3 of None \<Rightarrow> [] | Some g \<Rightarrow> g)"
  have "clean_host scheme name port"
    using c1 c3 name c4 by (auto simp: clean_host_def scheme_def port_def)
  moreover have "map_of c 2 = Some name" using c3 name c4 by auto
  moreover have "map_of c 1 = None \<and> scheme = ''http://'' \<or> map_of c 1 = Some scheme"
    by (auto simp: scheme_def split: option.splits)
  moreover have "map_of c 3 = None \<and> port = [] \<or> map_of c 3 = Some port"
    by (auto simp: port_def split: option.splits)
  ultimately show ?thesis by blast
qed

lemma SafeCleanHost_clean:
  assumes "SafeCleanHost h = Inr h'"
  shows "\<exists>scheme name port. clean_host scheme name port \<and> h' = scheme @ name @ port"
proof -
  obtain m c where fa: "FindAllStringSubmatch hostPattern h = [(m, c)]"
    and h': "h' = (if submatch (m, c) 1 = [] then ''http://'' else submatch (m, c) 1) @ submatch (m, c) 2 @ submatch (m, c) 3"
    using assms by (auto simp: SafeCleanHost_def Let_def split: list.splits)
  then have "(m, c) \<in> set (find_all hostPattern 0 None h)" by (simp add: FindAllStringSubmatch_def)
  from find_all_mem [OF this] hostPattern_captures obtain scheme name port where
    *: "clean_host scheme name port" "map_of c 1 = None \<and> scheme = ''http://'' \<or> map_of c 1 = Some scheme"
      "map_of c 2 = Some name" "map_of c 3 = None \<and> port = [] \<or> map_of c 3 = Some port" by blast
  then have "h' = scheme @ name @ port" by (auto simp: h' submatch_def Let_def clean_host_def)
  with * show ?thesis by blast
qed

lemma host_char_not_colon: "\<not> host_char CHR '':''"
  by (simp add: host_char_def is_letter_def is_digit_def)

lemma takeWhile_name:
  assumes "clean_host scheme name port"
  shows "takeWhile host_char (name @ port) = name" "dropWhile host_char (name @ port) = port"
  using assms host_char_not_colon
  by (auto simp: clean_host_def list_all_iff takeWhile_append2 dropWhile_append2)

lemma hostPattern_full:
  assumes "clean_host scheme name port"
  shows "\<exists>l c. rmatch hostPattern 0 (scheme @ name @ port) [] = (length (scheme @ name @ port), [], c) # l \<and>
    map_of c 1 = Some scheme \<and> map_of c 2 = Some name \<and> map_of c 3 = (if port = [] then None else Some port)"
proof -
  let ?g1 = "RSeq (RLit ''http'') (RSeq (ROpt (RLit ''s'')) (RLit ''://''))"
    and ?g3 = "RSeq (RLit '':'') (RBetween 2 6 is_digit)" and ?s = "scheme @ name @ port"
  let ?n1 = "length scheme" and ?n2 = "length scheme + length name"
  have "\<exists>l. rmatch ?g1 0 ?s [] = (?n1, name @ port, []) # l"
    using assms by (auto simp: clean_host_def rmatch_RLit)
  then obtain l1 where 1: "rmatch (ROpt (RGrp 1 ?g1)) 0 ?s [] = (?n1, name @ port, [(1, scheme)]) # l1" by auto
  obtain x xs where name: "name = x # xs" "host_char x" using assms by (cases name) (auto simp: clean_host_def)
  have "\<exists>l. rmatch (RPlus host_char) ?n1 (name @ port) [(1, scheme)] = (?n2, port, [(1, scheme)]) # l"
    using rmatch_RPlus_hd [where p = host_char and x = x and i = ?n1 and s = "xs @ port", OF name(2)] takeWhile_name [OF assms] name by simp
  then obtain l2 where 2: "rmatch (RGrp 2 (RPlus host_char)) ?n1 (name @ port) [(1, scheme)] =
      (?n2, port, [(1, scheme), (2, name)]) # l2" by auto
  define c where "c = (if port = [] then [(1, scheme), (2, name)] else [(1, scheme), (2, name), (3::nat, port)])"
  have "\<exists>l. rmatch (ROpt (RGrp 3 ?g3)) ?n2 port [(1, scheme), (2, name)] = (?n2 + length port, [], c) # l"
  proof (cases "port = []")
    case True
    then show ?thesis by (simp add: rmatch_RLit c_def)
  next
    case False
    then obtain ds where ds: "port = CHR '':'' # ds" "list_all is_digit ds" "2 \<le> length ds" "length ds \<le> 6"
      using assms by (auto simp: clean_host_def)
    obtain l where "rmatch (RBetween 2 6 is_digit) (Suc ?n2) ds [(1, scheme), (2, name)] =
        (Suc ?n2 + length ds, [], [(1, scheme), (2, name)]) # l"
      using rmatch_RBetween_hd [OF ds(2-4)] by blast
    then show ?thesis by (simp add: rmatch_RLit ds(1) c_def)
  qed
  then obtain l3 where 3: "rmatch (ROpt (RGrp 3 ?g3)) ?n2 port [(1, scheme), (2, name)] = (?n2 + length port, [], c) # l3"
    by blast
  have 4: "rmatch (ROpt (RLit ''/'')) (?n2 + length port) [] c = [(?n2 + length port, [], c)]"
    by (simp add: rmatch_RLit)
  obtain l4 where "rmatch (RSeq (ROpt (RGrp 3 ?g3)) (ROpt (RLit ''/''))) ?n2 port [(1, scheme), (2, name)] =
      (?n2 + length port, [], c) # l4" using rmatch_RSeq_hd [OF 3 4] by blast
  from rmatch_RSeq_hd [OF 2 this] obtain l5 where
    "rmatch (RSeq (RGrp 2 (RPlus host_char)) (RSeq (ROpt (RGrp 3 ?g3)) (ROpt (RLit ''/'')))) ?n1 (name @ port) [(1, scheme)] =
      (?n2 + length port, [], c) # l5" by blast
  from rmatch_RSeq_hd [OF 1 this] obtain l6 where
    "rmatch hostPattern 0 ?s [] = (?n2 + length port, [], c) # l6" unfolding hostPattern_def by blast
  then show ?thesis by (auto simp: c_def)
qed

lemma hostPattern_end: "rmatch hostPattern i [] [] = []"
  by (simp add: hostPattern_def rmatch_RLit RPlus_def)

lemma clean_host_SafeCleanHost:
  assumes "clean_host scheme name port"
  shows "SafeCleanHost (scheme @ name @ port) = Inr (scheme @ name @ port)"
proof -
  let ?s = "scheme @ name @ port"
  obtain l c where m: "rmatch hostPattern 0 ?s [] = (length ?s, [], c) # l" "map_of c 1 = Some scheme"
    "map_of c 2 = Some name" "map_of c 3 = (if port = [] then None else Some port)"
    using hostPattern_full [OF assms] by blast
  obtain y ys where s: "?s = y # ys" using assms by (cases ?s) (auto simp: clean_host_def)
  have "find_first hostPattern 0 ?s = Some (0, length ?s, ?s, c, [])"
    unfolding s find_first.simps using m(1) unfolding s by simp
  moreover have "find_all hostPattern (length ?s) (Some (length ?s)) [] = []"
    by (simp add: find_all.simps [of _ _ _ "[]"] hostPattern_end)
  moreover have "length ?s \<noteq> 0" using s by simp
  ultimately have "FindAllStringSubmatch hostPattern ?s = [(?s, c)]"
    unfolding FindAllStringSubmatch_def by (subst find_all.simps) (simp add: Let_def)
  moreover have "scheme \<noteq> []" using assms by (auto simp: clean_host_def)
  ultimately show ?thesis using m(2-4) by (simp add: SafeCleanHost_def submatch_def Let_def)
qed

end
