(* ===== verification/ConfigInit.thy ===== *)
theory ConfigInit
  imports Uri
begin

text \<open>
  The initialisation of the configuration (\<open>ServiceConfig.Init\<close> and \<open>Normalize\<close> of
  config/config.go). The code fills the structs in place through pointers; here every step
  returns the struct it leaves, or the error that ends the initialisation.

  \<open>init_env\<close> holds what the code takes from elsewhere: the package variables
  \<open>RoutingPattern\<close>, \<open>sequentialParamsPattern\<close> and \<open>invalidPattern\<close> (of the latter, which is
  compiled at each use, the result of \<open>regexp.Compile\<close>), \<open>net.ParseIP\<close>, the title caser of
  golang.org/x/text, the JSON library with the decoder register, and the text of floats.
\<close>

record init_env =
  ie_RoutingPattern :: RouterPattern
  ie_sequentialParamsPattern :: regex
  ie_invalidPattern :: "goerror + regex"
  ie_ParseIP :: "string \<Rightarrow> bool"
  ie_Title :: "string \<Rightarrow> string"
  ie_json :: json_lib
  ie_decoders :: decoder_register
  ie_float :: "64 word \<Rightarrow> string"

text \<open>
  The patterns can be replaced at run time. \<open>Compile\<close> is \<open>regexp.Compile\<close>; a text that it
  refuses leaves the pattern of the sequential parameters as it is.
\<close>

definition SetSequentialParamsPattern ::
  "(string \<Rightarrow> goerror + regex) \<Rightarrow> string \<Rightarrow> init_env \<Rightarrow> init_env \<times> goerror option" where
  "SetSequentialParamsPattern Compile pattern env =
     (case Compile pattern of
        Inl err \<Rightarrow> (env, Some err)
      | Inr re \<Rightarrow> (env\<lparr>ie_sequentialParamsPattern := re\<rparr>, None))"

definition SetInvalidPattern :: "(string \<Rightarrow> goerror + regex) \<Rightarrow> string \<Rightarrow> init_env \<Rightarrow> init_env" where
  "SetInvalidPattern Compile pattern env = env\<lparr>ie_invalidPattern := Compile pattern\<rparr>"

section \<open>Errors\<close>

datatype config_error =
    UnsupportedVersionError int int
  | InvalidAddressError string
  | InvalidHostError goerror
  | EndpointMatchError string string goerror
  | EndpointPathError string string
  | NoBackendsError string string
  | InvalidNoOpEncoding
  | UndefinedOutputParamError string string string nat "string list" "string list"
  | WrongNumberOfParamsError string string nat "string list" "string list"

text \<open>The text of a string slice under \<open>%v\<close>, and the method \<open>Error() string\<close>.\<close>

definition slice_text :: "string list \<Rightarrow> string" where
  "slice_text xs = ''['' @ join_with '' '' xs @ '']''"

fun config_error_text :: "config_error \<Rightarrow> string" where
  "config_error_text (UnsupportedVersionError have want) =
     ''unsupported version: '' @ itoa have @ '' (want: '' @ itoa want @ '')''"
| "config_error_text (InvalidAddressError a) = ''invalid ip address '' @ a"
| "config_error_text (InvalidHostError e) = error_text e"
| "config_error_text (EndpointMatchError path meth e) =
     ''ignoring the '' @ [CHR 0x27] @ meth @ '' '' @ path @ [CHR 0x27] @ '' endpoint due to a parsing error: '' @
     error_text e"
| "config_error_text (EndpointPathError path meth) =
     ''ignoring the '' @ [CHR 0x27] @ meth @ '' '' @ path @ [CHR 0x27] @ '' endpoint, since it is invalid!!!''"
| "config_error_text (NoBackendsError path meth) =
     ''ignoring the '' @ [CHR 0x27] @ meth @ '' '' @ path @ [CHR 0x27] @
     '' endpoint, since it has 0 backends defined!''"
| "config_error_text InvalidNoOpEncoding =
     ''can not use NoOp encoding with more than one backends connected to the same endpoint''"
| "config_error_text (UndefinedOutputParamError param endpoint meth backend inp outp) =
     ''undefined output param '' @ [CHR 0x27] @ param @ [CHR 0x27] @ ''! endpoint: '' @ meth @ '' '' @ endpoint @
     '', backend: '' @ itoa (int backend) @ ''. input: '' @ slice_text inp @ '', output: '' @ slice_text outp"
| "config_error_text (WrongNumberOfParamsError endpoint meth backend inp outp) =
     ''input and output params do not match. endpoint: '' @ meth @ '' '' @ endpoint @
     '', backend: '' @ itoa (int backend) @ ''. input: '' @ slice_text inp @ '', output: '' @ slice_text outp"

section \<open>Extra configurations\<close>

text \<open>
  \<open>sanitize\<close> turns the YAML maps into maps with string keys; \<open>Normalize\<close> renames the
  aliased modules. \<open>aliases\<close> is the package variable \<open>ExtraConfigAlias\<close>.
\<close>

fun sanitize_module :: "(64 word \<Rightarrow> string) \<Rightarrow> gval \<Rightarrow> gval" where
  "sanitize_module ff (VAnyMap extra) = VObj (fold (\<lambda>(k, v) m. mput (sprint_v ff k) v m) extra [])"
| "sanitize_module ff v = v"

definition ExtraConfig_sanitize :: "(64 word \<Rightarrow> string) \<Rightarrow> ExtraConfig \<Rightarrow> ExtraConfig" where
  "ExtraConfig_sanitize ff e = map (\<lambda>(module, extra). (module, sanitize_module ff extra)) e"

definition ExtraConfig_Normalize :: "string gmap \<Rightarrow> ExtraConfig \<Rightarrow> ExtraConfig" where
  "ExtraConfig_Normalize aliases e =
     fold (\<lambda>module e.
       case map_of aliases module of
         None \<Rightarrow> e
       | Some alias \<Rightarrow>
           (case map_of e module of
              None \<Rightarrow> e
            | Some v \<Rightarrow> mdel module (mput alias v e)))
     (map fst e) e"

definition ServiceConfig_Normalize :: "string gmap \<Rightarrow> ServiceConfig \<Rightarrow> ServiceConfig" where
  "ServiceConfig_Normalize aliases s =
     (let norm_b = (\<lambda>b. b\<lparr>be_ExtraConfig := ExtraConfig_Normalize aliases (be_ExtraConfig b)\<rparr>)
      in s\<lparr>sc_ExtraConfig := ExtraConfig_Normalize aliases (sc_ExtraConfig s),
           sc_Endpoints := map (\<lambda>e. e\<lparr>ep_ExtraConfig := ExtraConfig_Normalize aliases (ep_ExtraConfig e),
                                      ep_Backend := map norm_b (ep_Backend e)\<rparr>) (sc_Endpoints s),
           sc_AsyncAgents := map (\<lambda>a. a\<lparr>aa_ExtraConfig := ExtraConfig_Normalize aliases (aa_ExtraConfig a),
                                        aa_Backend := map norm_b (aa_Backend a)\<rparr>) (sc_AsyncAgents s)\<rparr>)"

section \<open>Global parameters\<close>

definition initGlobalParams :: "init_env \<Rightarrow> ServiceConfig \<Rightarrow> config_error + ServiceConfig" where
  "initGlobalParams env s =
     (let s = (if sc_Port s = 0 then s\<lparr>sc_Port := defaultPort\<rparr> else s)
      in if sc_Address s \<noteq> [] \<and> \<not> ie_ParseIP env (sc_Address s) then Inl (InvalidAddressError (sc_Address s))
         else
           (let s = (if sc_MaxIdleConnsPerHost s = 0
                     then s\<lparr>sc_MaxIdleConnsPerHost := DefaultMaxIdleConnsPerHost\<rparr> else s);
                s = (if sc_Timeout s = 0 then s\<lparr>sc_Timeout := DefaultTimeout\<rparr> else s)
            in case SafeCleanHosts (sc_Host s) of
                 Inl err \<Rightarrow> Inl (InvalidHostError err)
               | Inr hs \<Rightarrow>
                   Inr (s\<lparr>sc_Host := hs,
                          sc_ExtraConfig := ExtraConfig_sanitize (ie_float env) (sc_ExtraConfig s)\<rparr>)))"

section \<open>Async agents\<close>

definition initAsyncAgentDefaults :: "ServiceConfig \<Rightarrow> AsyncAgent \<Rightarrow> AsyncAgent" where
  "initAsyncAgentDefaults s agent =
     (let c = aa_Consumer agent;
          c = (if sc_Timeout s \<noteq> 0 \<and> cs_Timeout c = 0 then c\<lparr>cs_Timeout := sc_Timeout s\<rparr> else c);
          c = (if cs_Workers c < 1 then c\<lparr>cs_Workers := 1\<rparr> else c);
          n = aa_Connection agent;
          n = (if cn_HealthInterval n < time_Second then n\<lparr>cn_HealthInterval := time_Second\<rparr> else n)
      in agent\<lparr>aa_Consumer := c, aa_Connection := n\<rparr>)"

text \<open>The hosts of a backend: the service's ones, or its own, cleaned unless that is disabled.\<close>

definition backend_hosts :: "ServiceConfig \<Rightarrow> Backend \<Rightarrow> goerror + string list" where
  "backend_hosts s b =
     (if length (be_Host b) = 0 then Inr (sc_Host s)
      else if \<not> be_HostSanitizationDisabled b then SafeCleanHosts (be_Host b)
      else Inr (be_Host b))"

definition backend_decoder :: "init_env \<Rightarrow> Backend \<Rightarrow> decoder" where
  "backend_decoder env b =
     DecoderRegister_Get (ie_json env) (to_lower (be_Encoding b)) (ie_decoders env) (be_IsCollection b)"

definition initAsyncBackend :: "init_env \<Rightarrow> ServiceConfig \<Rightarrow> int \<Rightarrow> Backend \<Rightarrow> config_error + Backend" where
  "initAsyncBackend env s timeout b =
     (case backend_hosts s b of
        Inl err \<Rightarrow> Inl (InvalidHostError err)
      | Inr hs \<Rightarrow>
          Inr (b\<lparr>be_Host := hs,
                 be_Method := (if be_Method b = [] then ''GET'' else be_Method b),
                 be_Timeout := timeout,
                 be_Decoder := Some (backend_decoder env b),
                 be_ExtraConfig := ExtraConfig_sanitize (ie_float env) (be_ExtraConfig b)\<rparr>))"

text \<open>A loop that replaces each element or stops at the first error.\<close>

fun map_err :: "('a \<Rightarrow> 'e + 'b) \<Rightarrow> 'a list \<Rightarrow> 'e + 'b list" where
  "map_err f [] = Inr []"
| "map_err f (x # xs) =
     (case f x of
        Inl e \<Rightarrow> Inl e
      | Inr y \<Rightarrow> (case map_err f xs of Inl e \<Rightarrow> Inl e | Inr ys \<Rightarrow> Inr (y # ys)))"

definition initAsyncAgent :: "init_env \<Rightarrow> ServiceConfig \<Rightarrow> AsyncAgent \<Rightarrow> config_error + AsyncAgent" where
  "initAsyncAgent env s agent =
     (let a = initAsyncAgentDefaults s agent;
          a = a\<lparr>aa_ExtraConfig := ExtraConfig_sanitize (ie_float env) (aa_ExtraConfig a)\<rparr>
      in case map_err (initAsyncBackend env s (cs_Timeout (aa_Consumer a))) (aa_Backend a) of
           Inl e \<Rightarrow> Inl e
         | Inr bs \<Rightarrow> Inr (a\<lparr>aa_Backend := bs\<rparr>))"

definition initAsyncAgents :: "init_env \<Rightarrow> ServiceConfig \<Rightarrow> config_error + ServiceConfig" where
  "initAsyncAgents env s =
     (case map_err (initAsyncAgent env s) (sc_AsyncAgents s) of
        Inl e \<Rightarrow> Inl e
      | Inr as \<Rightarrow> Inr (s\<lparr>sc_AsyncAgents := as\<rparr>))"

section \<open>Endpoints\<close>

text \<open>
  \<open>textproto.CanonicalMIMEHeaderKey\<close>: a key of token characters gets an upper case letter
  at its start and after each dash and lower case ones elsewhere; another key is unchanged.
\<close>

definition is_token_char :: "char \<Rightarrow> bool" where
  "is_token_char c \<longleftrightarrow> is_letter c \<or> is_digit c \<or> c \<in> set ''!#$%&*+-.^_`|~'' \<or> c = CHR 0x27"

fun canonical_key :: "bool \<Rightarrow> string \<Rightarrow> string" where
  "canonical_key upper [] = []"
| "canonical_key upper (c # cs) =
     (if upper then ascii_upper c else ascii_lower c) # canonical_key (c = CHR ''-'') cs"

definition CanonicalMIMEHeaderKey :: "string \<Rightarrow> string" where
  "CanonicalMIMEHeaderKey k = (if list_all is_token_char k then canonical_key True k else k)"

definition validate :: "init_env \<Rightarrow> EndpointConfig \<Rightarrow> config_error option" where
  "validate env e =
     (case ie_invalidPattern env of
        Inl err \<Rightarrow> Some (EndpointMatchError (ep_Endpoint e) (ep_Method e) err)
      | Inr pattern \<Rightarrow>
          if MatchString pattern (ep_Endpoint e) then Some (EndpointPathError (ep_Endpoint e) (ep_Method e))
          else if length (ep_Backend e) = 0 then Some (NoBackendsError (ep_Endpoint e) (ep_Method e))
          else None)"

definition paramExtractionPattern :: "ServiceConfig \<Rightarrow> regex" where
  "paramExtractionPattern s =
     (if sc_DisableStrictREST s then simpleURLKeysPattern else endpointURLKeysPattern)"

definition initEndpointDefaults :: "ServiceConfig \<Rightarrow> EndpointConfig \<Rightarrow> EndpointConfig" where
  "initEndpointDefaults s e =
     (let e = (if ep_Method e = [] then e\<lparr>ep_Method := ''GET''\<rparr> else e);
          e = (if sc_CacheTTL s \<noteq> 0 \<and> ep_CacheTTL e = 0 then e\<lparr>ep_CacheTTL := sc_CacheTTL s\<rparr> else e);
          e = (if sc_Timeout s \<noteq> 0 \<and> ep_Timeout e = 0 then e\<lparr>ep_Timeout := sc_Timeout s\<rparr> else e);
          e = (if ep_ConcurrentCalls e = 0 then e\<lparr>ep_ConcurrentCalls := 1\<rparr> else e)
      in if ep_OutputEncoding e = []
         then e\<lparr>ep_OutputEncoding := (if sc_OutputEncoding s \<noteq> [] then sc_OutputEncoding s else enc_JSON)\<rparr>
         else e)"

definition initBackendDefaults ::
  "init_env \<Rightarrow> ServiceConfig \<Rightarrow> EndpointConfig \<Rightarrow> Backend \<Rightarrow> config_error + Backend" where
  "initBackendDefaults env s e b =
     (case backend_hosts s b of
        Inl err \<Rightarrow> Inl (InvalidHostError err)
      | Inr hs \<Rightarrow>
          (let b = b\<lparr>be_Host := hs\<rparr>;
               b = (if be_Method b = [] then b\<lparr>be_Method := ep_Method e\<rparr> else b);
               b = (if ep_OutputEncoding e = enc_NOOP then b\<lparr>be_Encoding := enc_NOOP\<rparr> else b);
               b = b\<lparr>be_Timeout := ep_Timeout e, be_ConcurrentCalls := ep_ConcurrentCalls e,
                     be_Decoder := Some (backend_decoder env b),
                     be_HeadersToPass := map CanonicalMIMEHeaderKey (be_HeadersToPass b)\<rparr>
           in Inr (if be_SDScheme b = [] then b\<lparr>be_SDScheme := ''http''\<rparr> else b)))"

section \<open>URL mappings\<close>

definition fromSetToSortedSlice :: "string list \<Rightarrow> string list" where
  "fromSetToSortedSlice set_keys = sort (remdups set_keys)"

text \<open>
  The loop of \<open>uniqueOutput\<close> over the sorted list, from \<open>output[j]\<close>: the distinct names, and
  the count of those that are not sequential parameters, the last name left out.
\<close>

fun uniqueOutput_loop :: "init_env \<Rightarrow> string \<Rightarrow> string list \<Rightarrow> nat \<Rightarrow> string list \<times> nat" where
  "uniqueOutput_loop env cur [] outputSetSize = ([cur], outputSetSize)"
| "uniqueOutput_loop env cur (x # xs) outputSetSize =
     (if cur = x then uniqueOutput_loop env cur xs outputSetSize
      else case uniqueOutput_loop env x xs
                  (if MatchString (ie_sequentialParamsPattern env) cur then outputSetSize else outputSetSize + 1) of
        (names, n) \<Rightarrow> (cur # names, n))"

definition uniqueOutput :: "init_env \<Rightarrow> string list \<Rightarrow> string list \<times> nat" where
  "uniqueOutput env output = (case sort output of [] \<Rightarrow> ([], 0) | x # xs \<Rightarrow> uniqueOutput_loop env x xs 0)"

definition output_key :: "init_env \<Rightarrow> string \<Rightarrow> string" where
  "output_key env output = ie_Title env (take 1 output) @ drop 1 output"

text \<open>The loop over the output parameters, from the pattern and the keys built so far.\<close>

fun map_outputs ::
  "init_env \<Rightarrow> string list \<Rightarrow> (string \<Rightarrow> config_error) \<Rightarrow> string list \<Rightarrow> string \<Rightarrow> string list
   \<Rightarrow> config_error + (string \<times> string list)" where
  "map_outputs env inp undefd [] urlPattern keys = Inr (urlPattern, keys)"
| "map_outputs env inp undefd (outp # outs) urlPattern keys =
     (if \<not> MatchString (ie_sequentialParamsPattern env) outp \<and> outp \<notin> set inp then Inl (undefd outp)
      else let key = output_key env outp
           in map_outputs env inp undefd outs
                (replace_all urlPattern (''{'' @ outp @ ''}'') (''{{.'' @ key @ ''}}'')) (keys @ [key]))"

definition initBackendURLMappings ::
  "init_env \<Rightarrow> EndpointConfig \<Rightarrow> nat \<Rightarrow> string list \<Rightarrow> Backend \<Rightarrow> config_error + Backend" where
  "initBackendURLMappings env e b inputParams backend =
     (let urlPattern = CleanPath (be_URLPattern backend);
          (outputParams, outputSetSize) =
            uniqueOutput env (extractPlaceHoldersFromURLTemplate urlPattern simpleURLKeysPattern);
          ip = fromSetToSortedSlice inputParams
      in if outputSetSize > length ip
         then Inl (WrongNumberOfParamsError (ep_Endpoint e) (ep_Method e) b ip outputParams)
         else
           (case map_outputs env inputParams
                   (\<lambda>outp. UndefinedOutputParamError outp (ep_Endpoint e) (ep_Method e) b ip outputParams)
                   outputParams urlPattern [] of
              Inl err \<Rightarrow> Inl err
            | Inr (pat, keys) \<Rightarrow> Inr (backend\<lparr>be_URLPattern := pat, be_URLKeys := keys\<rparr>)))"

definition initBackend ::
  "init_env \<Rightarrow> ServiceConfig \<Rightarrow> EndpointConfig \<Rightarrow> string list \<Rightarrow> nat \<times> Backend \<Rightarrow> config_error + Backend" where
  "initBackend env s e inputSet = (\<lambda>(j, b).
     case initBackendDefaults env s e
            (b\<lparr>be_ParentEndpoint := ep_Endpoint e, be_ParentEndpointMethod := ep_Method e\<rparr>) of
       Inl err \<Rightarrow> Inl err
     | Inr b \<Rightarrow>
         (case initBackendURLMappings env e j inputSet b of
            Inl err \<Rightarrow> Inl err
          | Inr b \<Rightarrow> Inr (b\<lparr>be_ExtraConfig := ExtraConfig_sanitize (ie_float env) (be_ExtraConfig b)\<rparr>)))"

definition initEndpoint :: "init_env \<Rightarrow> ServiceConfig \<Rightarrow> EndpointConfig \<Rightarrow> config_error + EndpointConfig" where
  "initEndpoint env s e =
     (let e = e\<lparr>ep_Endpoint := CleanPath (ep_Endpoint e)\<rparr>
      in case validate env e of
           Some err \<Rightarrow> Inl err
         | None \<Rightarrow>
             (let e = e\<lparr>ep_HeadersToPass := map CanonicalMIMEHeaderKey (ep_HeadersToPass e)\<rparr>;
                  inputParams = extractPlaceHoldersFromURLTemplate (ep_Endpoint e) (paramExtractionPattern s);
                  e = e\<lparr>ep_Endpoint := GetEndpointPath (ie_RoutingPattern env) (ep_Endpoint e) inputParams\<rparr>;
                  e = initEndpointDefaults s e
              in if ep_OutputEncoding e = enc_NOOP \<and> length (ep_Backend e) > 1 then Inl InvalidNoOpEncoding
                 else
                   (let e = e\<lparr>ep_ExtraConfig := ExtraConfig_sanitize (ie_float env) (ep_ExtraConfig e)\<rparr>
                    in case map_err (initBackend env s e inputParams)
                              (zip [0..<length (ep_Backend e)] (ep_Backend e)) of
                         Inl err \<Rightarrow> Inl err
                       | Inr bs \<Rightarrow> Inr (e\<lparr>ep_Backend := bs\<rparr>))))"

definition initEndpoints :: "init_env \<Rightarrow> ServiceConfig \<Rightarrow> config_error + ServiceConfig" where
  "initEndpoints env s =
     (case map_err (initEndpoint env s) (sc_Endpoints s) of
        Inl e \<Rightarrow> Inl e
      | Inr es \<Rightarrow> Inr (s\<lparr>sc_Endpoints := es\<rparr>))"

definition Init :: "init_env \<Rightarrow> ServiceConfig \<Rightarrow> config_error + ServiceConfig" where
  "Init env s0 =
     (let s = s0\<lparr>sc_uriParser := Some (ie_RoutingPattern env)\<rparr>
      in if sc_Version s \<noteq> ConfigVersion then Inl (UnsupportedVersionError (sc_Version s) ConfigVersion)
         else case initGlobalParams env s of
           Inl err \<Rightarrow> Inl err
         | Inr s \<Rightarrow>
             (case initAsyncAgents env s of
                Inl err \<Rightarrow> Inl err
              | Inr s \<Rightarrow> initEndpoints env s))"

end
