(* ===== verification/ConfigSpec.thy ===== *)
theory ConfigSpec
  imports ConfigInit
begin

text \<open>
  What a successful initialisation of the configuration guarantees, and the laws of its parts:
  the paths that are refused, the parameters of the backends, the cleaning of hosts.
\<close>

section \<open>Loops that stop at the first error\<close>

lemma map_err_Inr: "map_err f xs = Inr ys \<Longrightarrow> list_all2 (\<lambda>x y. f x = Inr y) xs ys"
  by (induction xs arbitrary: ys) (auto split: sum.splits)

lemma map_err_Inr_all:
  assumes "map_err f xs = Inr ys" "\<And>x y. x \<in> set xs \<Longrightarrow> f x = Inr y \<Longrightarrow> P y"
  shows "list_all P ys"
  using map_err_Inr [OF assms(1)] assms(2)
  by (auto simp: list_all2_conv_all_nth list_all_length) (metis nth_mem)

lemma map_err_length: "map_err f xs = Inr ys \<Longrightarrow> length ys = length xs"
  using map_err_Inr list_all2_lengthD by fastforce

section \<open>Well-formed configurations\<close>

text \<open>The hosts of a backend are clean, unless it has switched the cleaning off.\<close>

definition hosts_ready :: "Backend \<Rightarrow> bool" where
  "hosts_ready b \<longleftrightarrow> be_HostSanitizationDisabled b \<or> list_all host_ready (be_Host b)"

definition agent_ready :: "AsyncAgent \<Rightarrow> bool" where
  "agent_ready a \<longleftrightarrow> cs_Workers (aa_Consumer a) \<ge> 1 \<and> cn_HealthInterval (aa_Connection a) \<ge> time_Second \<and>
     cs_Timeout (aa_Consumer a) \<noteq> 0 \<and>
     list_all (\<lambda>b. be_Method b \<noteq> [] \<and> be_Decoder b \<noteq> None \<and> be_Timeout b = cs_Timeout (aa_Consumer a) \<and>
       hosts_ready b) (aa_Backend a)"

definition backend_ready :: "EndpointConfig \<Rightarrow> Backend \<Rightarrow> bool" where
  "backend_ready e b \<longleftrightarrow> hosts_ready b \<and> be_Method b \<noteq> [] \<and> be_Decoder b \<noteq> None \<and> be_SDScheme b \<noteq> [] \<and>
     be_Timeout b = ep_Timeout e \<and> be_ConcurrentCalls b = ep_ConcurrentCalls e \<and>
     be_ParentEndpoint b = ep_Endpoint e \<and> be_ParentEndpointMethod b = ep_Method e \<and>
     (ep_OutputEncoding e = enc_NOOP \<longrightarrow> be_Encoding b = enc_NOOP)"

definition endpoint_ready :: "EndpointConfig \<Rightarrow> bool" where
  "endpoint_ready e \<longleftrightarrow> ep_Method e \<noteq> [] \<and> ep_Timeout e \<noteq> 0 \<and> ep_ConcurrentCalls e \<noteq> 0 \<and>
     ep_OutputEncoding e \<noteq> [] \<and> ep_Backend e \<noteq> [] \<and>
     (ep_OutputEncoding e = enc_NOOP \<longrightarrow> length (ep_Backend e) = 1) \<and>
     list_all (backend_ready e) (ep_Backend e)"

definition config_ready :: "init_env \<Rightarrow> ServiceConfig \<Rightarrow> bool" where
  "config_ready env s \<longleftrightarrow> sc_Version s = ConfigVersion \<and> sc_Port s \<noteq> 0 \<and> sc_Timeout s \<noteq> 0 \<and>
     sc_MaxIdleConnsPerHost s \<noteq> 0 \<and> (sc_Address s = [] \<or> ie_ParseIP env (sc_Address s)) \<and>
     list_all host_ready (sc_Host s) \<and>
     list_all agent_ready (sc_AsyncAgents s) \<and> list_all endpoint_ready (sc_Endpoints s)"

lemma SafeCleanHosts_ready: "SafeCleanHosts hs = Inr hs' \<Longrightarrow> list_all host_ready hs'"
  by (induction hs arbitrary: hs') (force simp: host_ready_def split: sum.splits dest: SafeCleanHost_clean)+

lemma backend_hosts_ready:
  "backend_hosts s b = Inr hs \<Longrightarrow> list_all host_ready (sc_Host s) \<Longrightarrow>
   be_HostSanitizationDisabled b \<or> list_all host_ready hs"
  by (auto simp: backend_hosts_def dest: SafeCleanHosts_ready split: if_splits)

lemma initGlobalParams_ready:
  "initGlobalParams env s = Inr s' \<Longrightarrow>
   list_all host_ready (sc_Host s') \<and> sc_DisableStrictREST s' = sc_DisableStrictREST s \<and>
   sc_Port s' \<noteq> 0 \<and> sc_Timeout s' \<noteq> 0 \<and> sc_MaxIdleConnsPerHost s' \<noteq> 0 \<and>
   (sc_Address s' = [] \<or> ie_ParseIP env (sc_Address s')) \<and> sc_Version s' = sc_Version s \<and>
   sc_Endpoints s' = sc_Endpoints s \<and> sc_AsyncAgents s' = sc_AsyncAgents s"
  by (auto simp: initGlobalParams_def Let_def defaultPort_def DefaultMaxIdleConnsPerHost_def
      DefaultTimeout_def time_Second_def dest: SafeCleanHosts_ready split: if_splits sum.splits)

lemma initAsyncBackend_ready:
  "initAsyncBackend env s t b = Inr b' \<Longrightarrow> list_all host_ready (sc_Host s) \<Longrightarrow>
   be_Method b' \<noteq> [] \<and> be_Decoder b' \<noteq> None \<and> be_Timeout b' = t \<and> hosts_ready b'"
  by (auto simp: initAsyncBackend_def hosts_ready_def dest: backend_hosts_ready split: sum.splits if_splits)

lemma initAsyncAgent_ready:
  assumes "initAsyncAgent env s a = Inr a'" "sc_Timeout s \<noteq> 0" "list_all host_ready (sc_Host s)"
  shows "agent_ready a'"
proof -
  define d where "d = (initAsyncAgentDefaults s a)
    \<lparr>aa_ExtraConfig := ExtraConfig_sanitize (ie_float env) (aa_ExtraConfig (initAsyncAgentDefaults s a))\<rparr>"
  obtain bs where bs: "map_err (initAsyncBackend env s (cs_Timeout (aa_Consumer d))) (aa_Backend d) = Inr bs"
    and a': "a' = d\<lparr>aa_Backend := bs\<rparr>"
    using assms(1) by (auto simp: initAsyncAgent_def d_def Let_def split: sum.splits)
  have "cs_Workers (aa_Consumer d) \<ge> 1 \<and> cn_HealthInterval (aa_Connection d) \<ge> time_Second \<and>
      cs_Timeout (aa_Consumer d) \<noteq> 0"
    using assms(2) by (simp add: d_def initAsyncAgentDefaults_def Let_def)
  moreover have "list_all (\<lambda>b. be_Method b \<noteq> [] \<and> be_Decoder b \<noteq> None \<and> be_Timeout b = cs_Timeout (aa_Consumer d) \<and>
      hosts_ready b) bs"
    by (rule map_err_Inr_all [OF bs]) (rule initAsyncBackend_ready [OF _ assms(3)])
  ultimately show ?thesis by (simp add: agent_ready_def a')
qed

lemma initBackendDefaults_ready:
  "initBackendDefaults env s e b = Inr b' \<Longrightarrow> ep_Method e \<noteq> [] \<Longrightarrow> list_all host_ready (sc_Host s) \<Longrightarrow>
   hosts_ready b' \<and> be_URLPattern b' = be_URLPattern b \<and>
   be_Method b' \<noteq> [] \<and> be_Decoder b' \<noteq> None \<and> be_SDScheme b' \<noteq> [] \<and>
   be_Timeout b' = ep_Timeout e \<and> be_ConcurrentCalls b' = ep_ConcurrentCalls e \<and>
   be_ParentEndpoint b' = be_ParentEndpoint b \<and> be_ParentEndpointMethod b' = be_ParentEndpointMethod b \<and>
   (ep_OutputEncoding e = enc_NOOP \<longrightarrow> be_Encoding b' = enc_NOOP)"
  by (auto simp: initBackendDefaults_def hosts_ready_def Let_def dest: backend_hosts_ready split: sum.splits if_splits)

lemma initBackendURLMappings_frame:
  "initBackendURLMappings env e j inp b = Inr b' \<Longrightarrow> \<exists>pat keys. b' = b\<lparr>be_URLPattern := pat, be_URLKeys := keys\<rparr>"
  by (auto simp: initBackendURLMappings_def Let_def split: prod.splits sum.splits if_splits)

lemma initBackend_ready:
  assumes "initBackend env s e inp jb = Inr b'" "ep_Method e \<noteq> []" "list_all host_ready (sc_Host s)"
  shows "backend_ready e b'"
proof -
  obtain j b where jb: "jb = (j, b)" by (cases jb)
  define b0 where "b0 = b\<lparr>be_ParentEndpoint := ep_Endpoint e, be_ParentEndpointMethod := ep_Method e\<rparr>"
  obtain b1 where b1: "initBackendDefaults env s e b0 = Inr b1"
    using assms(1) by (auto simp: initBackend_def jb b0_def split: sum.splits)
  obtain b2 where b2: "initBackendURLMappings env e j inp b1 = Inr b2"
    and b': "b' = b2\<lparr>be_ExtraConfig := ExtraConfig_sanitize (ie_float env) (be_ExtraConfig b2)\<rparr>"
    using assms(1) b1 by (auto simp: initBackend_def jb b0_def split: sum.splits)
  show ?thesis
    using initBackendDefaults_ready [OF b1 assms(2,3)] initBackendURLMappings_frame [OF b2]
    by (auto simp: backend_ready_def hosts_ready_def b' b0_def)
qed

lemma initEndpointDefaults_ready:
  "sc_Timeout s \<noteq> 0 \<Longrightarrow>
   ep_Method (initEndpointDefaults s e) \<noteq> [] \<and> ep_Timeout (initEndpointDefaults s e) \<noteq> 0 \<and>
   ep_ConcurrentCalls (initEndpointDefaults s e) \<noteq> 0 \<and> ep_OutputEncoding (initEndpointDefaults s e) \<noteq> [] \<and>
   ep_Backend (initEndpointDefaults s e) = ep_Backend e \<and> ep_Endpoint (initEndpointDefaults s e) = ep_Endpoint e"
  by (simp add: initEndpointDefaults_def Let_def)

definition endpoint_before_backends :: "init_env \<Rightarrow> ServiceConfig \<Rightarrow> EndpointConfig \<Rightarrow> EndpointConfig" where
  "endpoint_before_backends env s e =
     (let e1 = e\<lparr>ep_Endpoint := CleanPath (ep_Endpoint e),
                 ep_HeadersToPass := map CanonicalMIMEHeaderKey (ep_HeadersToPass e)\<rparr>;
          e2 = initEndpointDefaults s (e1\<lparr>ep_Endpoint := GetEndpointPath (ie_RoutingPattern env) (ep_Endpoint e1)
                 (extractPlaceHoldersFromURLTemplate (ep_Endpoint e1) (paramExtractionPattern s))\<rparr>)
      in e2\<lparr>ep_ExtraConfig := ExtraConfig_sanitize (ie_float env) (ep_ExtraConfig e2)\<rparr>)"

lemma initEndpoint_Inr:
  assumes "initEndpoint env s e = Inr e'"
  shows "validate env (e\<lparr>ep_Endpoint := CleanPath (ep_Endpoint e)\<rparr>) = None \<and>
    \<not> (ep_OutputEncoding (endpoint_before_backends env s e) = enc_NOOP \<and>
       length (ep_Backend (endpoint_before_backends env s e)) > 1) \<and>
    (\<exists>bs. map_err (initBackend env s (endpoint_before_backends env s e)
        (extractPlaceHoldersFromURLTemplate (CleanPath (ep_Endpoint e)) (paramExtractionPattern s)))
        (zip [0..<length (ep_Backend (endpoint_before_backends env s e))]
          (ep_Backend (endpoint_before_backends env s e))) = Inr bs \<and>
      e' = (endpoint_before_backends env s e)\<lparr>ep_Backend := bs\<rparr>)"
  using assms unfolding initEndpoint_def Let_def endpoint_before_backends_def
  by (auto split: option.splits if_splits sum.splits)

lemma initEndpoint_ready:
  assumes "initEndpoint env s e = Inr e'" "sc_Timeout s \<noteq> 0" "list_all host_ready (sc_Host s)"
  shows "endpoint_ready e'"
proof -
  let ?e = "endpoint_before_backends env s e"
  note i = initEndpoint_Inr [OF assms(1)]
  then obtain bs where bs: "map_err (initBackend env s ?e
        (extractPlaceHoldersFromURLTemplate (CleanPath (ep_Endpoint e)) (paramExtractionPattern s)))
        (zip [0..<length (ep_Backend ?e)] (ep_Backend ?e)) = Inr bs"
    and e': "e' = ?e\<lparr>ep_Backend := bs\<rparr>" by blast
  have d: "ep_Method ?e \<noteq> []" "ep_Timeout ?e \<noteq> 0" "ep_ConcurrentCalls ?e \<noteq> 0" "ep_OutputEncoding ?e \<noteq> []"
    "ep_Backend ?e = ep_Backend e"
    using initEndpointDefaults_ready [OF assms(2)] by (simp_all add: endpoint_before_backends_def Let_def)
  have "ep_Backend e \<noteq> []" using i by (auto simp: validate_def split: sum.splits if_splits)
  moreover have "length bs = length (ep_Backend e)" using map_err_length [OF bs] d by simp
  moreover have "list_all (backend_ready ?e) bs"
    by (rule map_err_Inr_all [OF bs]) (rule initBackend_ready [OF _ d(1) assms(3)])
  moreover have "backend_ready (?e\<lparr>ep_Backend := bs\<rparr>) = backend_ready ?e"
    by (rule ext) (simp add: backend_ready_def)
  moreover have "ep_OutputEncoding ?e = enc_NOOP \<longrightarrow> length bs = 1"
  proof
    assume "ep_OutputEncoding ?e = enc_NOOP"
    with i d(5) have "\<not> length (ep_Backend e) > 1" by simp
    with calculation(1,2) show "length bs = 1" by (cases "ep_Backend e") auto
  qed
  ultimately show ?thesis using d by (auto simp: endpoint_ready_def e')
qed

section \<open>The output parameters\<close>

lemma uniqueOutput_loop_eq:
  "uniqueOutput_loop env cur xs n =
     (remdups_adj (cur # xs),
      n + length (filter (\<lambda>q. \<not> MatchString (ie_sequentialParamsPattern env) q) (butlast (remdups_adj (cur # xs)))))"
proof (induction xs arbitrary: cur n)
  case (Cons x xs)
  have "remdups_adj (x # xs) \<noteq> []" by simp
  with Cons show ?case by (auto split: prod.splits)
qed simp

lemma sorted_remdups_adj_eq: "sorted xs \<Longrightarrow> remdups_adj xs = sorted_list_of_set (set xs)"
  for xs :: "string list"
proof -
  assume s: "sorted xs"
  have "sorted (remdups_adj xs)" using s by (rule sorted_remdups_adj)
  moreover have "distinct (remdups_adj xs)"
    using s by (induction xs rule: remdups_adj.induct) (auto simp: order_antisym)
  ultimately show ?thesis using sorted_list_of_set.idem_if_sorted_distinct [of "remdups_adj xs"] by simp
qed

lemma uniqueOutput_eq:
  "uniqueOutput env out =
     (sorted_list_of_set (set out),
      length (filter (\<lambda>q. \<not> MatchString (ie_sequentialParamsPattern env) q) (butlast (sorted_list_of_set (set out)))))"
proof (cases "sort out")
  case Nil
  then have "out = []" by (metis set_empty set_sort)
  then show ?thesis by (simp add: uniqueOutput_def)
next
  case (Cons x xs)
  have "remdups_adj (x # xs) = sorted_list_of_set (set out)"
    unfolding Cons [symmetric] using sorted_remdups_adj_eq [OF sorted_sort, of out] by simp
  with Cons show ?thesis by (simp add: uniqueOutput_def uniqueOutput_loop_eq)
qed

lemma map_outputs_Inr:
  "map_outputs env inp f outs p ks = Inr (p', ks') \<Longrightarrow>
   ks' = ks @ map (output_key env) outs \<and>
   (\<forall>q \<in> set outs. MatchString (ie_sequentialParamsPattern env) q \<or> q \<in> set inp)"
proof (induction outs arbitrary: p ks)
  case (Cons a outs)
  from Cons.prems obtain q where "map_outputs env inp f outs q (ks @ [output_key env a]) = Inr (p', ks')"
    and "MatchString (ie_sequentialParamsPattern env) a \<or> a \<in> set inp"
    by (auto simp: Let_def split: if_splits)
  with Cons.IH [of q "ks @ [output_key env a]"] show ?case by simp
qed simp


section \<open>Refused paths\<close>

lemma means_RSeq_RLit: "means (RSeq (RLit t) r) i u s \<longleftrightarrow> (\<exists>v. u = t @ v \<and> means r (i + length t) v s)"
  by auto

lemma means_invalid1: "means (RSeq RBol (RCls p)) i u s \<longleftrightarrow> i = 0 \<and> (\<exists>x. u = [x] \<and> p x)"
  by auto

lemma means_invalid2: "means (RSeq (RLit ''*'') (RCls p)) i u s \<longleftrightarrow> (\<exists>x. u = [CHR ''*'', x] \<and> p x)"
  by (auto simp: means_RSeq_RLit)

lemma means_tail: "means (RSeq (ROpt (RGrp 2 (RSeq (RLit ''/'') (RStar p)))) REol) i u s \<longleftrightarrow>
    s = [] \<and> (u = [] \<or> (\<exists>x. u = CHR ''/'' # x \<and> list_all p x))"
proof
  assume "means (RSeq (ROpt (RGrp 2 (RSeq (RLit ''/'') (RStar p)))) REol) i u s"
  then show "s = [] \<and> (u = [] \<or> (\<exists>x. u = CHR ''/'' # x \<and> list_all p x))" by auto
next
  assume "s = [] \<and> (u = [] \<or> (\<exists>x. u = CHR ''/'' # x \<and> list_all p x))"
  then have "u = u @ [] \<and> means (ROpt (RGrp 2 (RSeq (RLit ''/'') (RStar p)))) i u ([] @ s) \<and>
      means REol (i + length u) [] s"
    by auto
  then show "means (RSeq (ROpt (RGrp 2 (RSeq (RLit ''/'') (RStar p)))) REol) i u s"
    unfolding means.simps(4) by blast
qed

lemma means_RSeq_RGrp: "means (RSeq (RGrp n (RAlt r1 (RAlt r2 r3))) q) i u s \<longleftrightarrow>
    means (RSeq r1 q) i u s \<or> means (RSeq r2 q) i u s \<or> means (RSeq r3 q) i u s"
  by auto

lemma means_invalid3:
  "means (RSeq (RLit ''/__'') (RSeq (RGrp 1 (RAlt (RLit ''debug'') (RAlt (RLit ''echo'') (RLit ''health''))))
      (RSeq (ROpt (RGrp 2 (RSeq (RLit ''/'') (RStar p)))) REol))) i u s \<longleftrightarrow>
   s = [] \<and> (\<exists>w v. u = ''/__'' @ w @ v \<and> w \<in> {''debug'', ''echo'', ''health''} \<and>
     (v = [] \<or> (\<exists>x. v = CHR ''/'' # x \<and> list_all p x)))"
  unfolding means_RSeq_RLit means_RSeq_RGrp means_tail by blast

lemma invalidPattern_iff:
  "MatchString invalidPattern s \<longleftrightarrow>
     (\<exists>x v. s = x # v \<and> x \<noteq> CHR ''/'') \<or> (\<exists>a x v. s = a @ [CHR ''*'', x] @ v \<and> not_newline x) \<or>
     (\<exists>a w v. s = a @ ''/__'' @ w @ v \<and> w \<in> {''debug'', ''echo'', ''health''} \<and>
       (v = [] \<or> (\<exists>x. v = CHR ''/'' # x \<and> list_all not_newline x)))"
  (is "_ \<longleftrightarrow> ?A \<or> ?B \<or> ?C")
proof -
  define P1 where "P1 = (\<lambda>u. \<exists>x. u = [x] \<and> x \<noteq> CHR ''/'')"
  define P2 where "P2 = (\<lambda>u. \<exists>x. u = [CHR ''*'', x] \<and> not_newline x)"
  define P3 where "P3 = (\<lambda>u. \<exists>w v. u = ''/__'' @ w @ v \<and> w \<in> {''debug'', ''echo'', ''health''} \<and>
        (v = [] \<or> (\<exists>x. v = CHR ''/'' # x \<and> list_all not_newline x)))"
  have "MatchString invalidPattern s \<longleftrightarrow>
      (\<exists>a u v. s = a @ u @ v \<and> (length a = 0 \<and> P1 u \<or> P2 u \<or> v = [] \<and> P3 u))"
    unfolding MatchString_iff invalidPattern_def means.simps(5) means_invalid1 means_invalid2 means_invalid3
      P1_def P2_def P3_def ..
  also have "\<dots> \<longleftrightarrow> (\<exists>a u v. s = a @ u @ v \<and> length a = 0 \<and> P1 u) \<or> (\<exists>a u v. s = a @ u @ v \<and> P2 u) \<or>
      (\<exists>a u v. s = a @ u @ v \<and> v = [] \<and> P3 u)"
    by blast
  also have "(\<exists>a u v. s = a @ u @ v \<and> length a = 0 \<and> P1 u) \<longleftrightarrow> (\<exists>u v. s = u @ v \<and> P1 u)" by simp
  also have "(\<exists>a u v. s = a @ u @ v \<and> v = [] \<and> P3 u) \<longleftrightarrow> (\<exists>a u. s = a @ u \<and> P3 u)" by simp
  also have "(\<exists>u v. s = u @ v \<and> P1 u) \<longleftrightarrow> ?A"
    unfolding P1_def by (metis append_Cons append_Nil)
  also have "(\<exists>a u v. s = a @ u @ v \<and> P2 u) \<longleftrightarrow> ?B" unfolding P2_def by blast
  also have "(\<exists>a u. s = a @ u \<and> P3 u) \<longleftrightarrow> ?C" unfolding P3_def by blast
  finally show ?thesis .
qed

section \<open>What an accepted configuration satisfies\<close>

lemma Init_Inr:
  assumes "Init env s = Inr s'"
  obtains s2 where "sc_Version s = ConfigVersion" "list_all2 (\<lambda>e e'. initEndpoint env s2 e = Inr e') (sc_Endpoints s) (sc_Endpoints s')"
    "list_all agent_ready (sc_AsyncAgents s2)" "list_all host_ready (sc_Host s2)" "sc_Timeout s2 \<noteq> 0" "sc_Port s2 \<noteq> 0"
    "sc_MaxIdleConnsPerHost s2 \<noteq> 0" "sc_Address s2 = [] \<or> ie_ParseIP env (sc_Address s2)"
    "sc_DisableStrictREST s2 = sc_DisableStrictREST s" "sc_Version s2 = sc_Version s" "s' = s2\<lparr>sc_Endpoints := sc_Endpoints s'\<rparr>"
proof -
  define s0 where "s0 = s\<lparr>sc_uriParser := Some (ie_RoutingPattern env)\<rparr>"
  obtain s1 where v: "sc_Version s0 = ConfigVersion" and s1: "initGlobalParams env s0 = Inr s1"
    using assms by (auto simp: Init_def s0_def Let_def split: if_splits sum.splits)
  obtain s2 where s2: "initAsyncAgents env s1 = Inr s2" and s3: "initEndpoints env s2 = Inr s'"
    using assms v s1 by (auto simp: Init_def s0_def Let_def split: sum.splits)
  obtain as where as: "map_err (initAsyncAgent env s1) (sc_AsyncAgents s1) = Inr as"
    and s2': "s2 = s1\<lparr>sc_AsyncAgents := as\<rparr>" using s2 by (auto simp: initAsyncAgents_def split: sum.splits)
  obtain es where es: "map_err (initEndpoint env s2) (sc_Endpoints s2) = Inr es"
    and s': "s' = s2\<lparr>sc_Endpoints := es\<rparr>" using s3 by (auto simp: initEndpoints_def split: sum.splits)
  note g = initGlobalParams_ready [OF s1]
  have "list_all agent_ready as"
    by (rule map_err_Inr_all [OF as]) (use g in \<open>blast intro: initAsyncAgent_ready\<close>)
  with g v map_err_Inr [OF es] show thesis by (intro that [of s2]) (simp_all add: s2' s' s0_def)
qed

lemma Init_ready:
  assumes "Init env s = Inr s'"
  shows "config_ready env s'"
proof -
  from assms obtain s2 where v: "sc_Version s = ConfigVersion"
    and es: "list_all2 (\<lambda>e e'. initEndpoint env s2 e = Inr e') (sc_Endpoints s) (sc_Endpoints s')"
    and s2: "list_all agent_ready (sc_AsyncAgents s2)" "list_all host_ready (sc_Host s2)" "sc_Timeout s2 \<noteq> 0"
      "sc_Port s2 \<noteq> 0" "sc_MaxIdleConnsPerHost s2 \<noteq> 0" "sc_Address s2 = [] \<or> ie_ParseIP env (sc_Address s2)"
      "sc_Version s2 = sc_Version s"
    and s': "s' = s2\<lparr>sc_Endpoints := sc_Endpoints s'\<rparr>" by (rule Init_Inr)
  have "list_all endpoint_ready (sc_Endpoints s')"
    using es initEndpoint_ready [OF _ s2(3,2)] by (auto simp: list_all2_conv_all_nth list_all_length)
  with v s2 show ?thesis by (subst s') (simp add: config_ready_def)
qed

text \<open>The parameters of the backends of an accepted endpoint.\<close>

lemma initBackendURLMappings_params:
  assumes "initBackendURLMappings env e j inputParams b = Inr b'"
  shows "(\<forall>q \<in> set (extractPlaceHoldersFromURLTemplate (CleanPath (be_URLPattern b)) simpleURLKeysPattern).
      MatchString (ie_sequentialParamsPattern env) q \<or> q \<in> set inputParams) \<and>
    be_URLKeys b' = map (output_key env) (sorted_list_of_set
      (set (extractPlaceHoldersFromURLTemplate (CleanPath (be_URLPattern b)) simpleURLKeysPattern)))"
proof -
  let ?out = "extractPlaceHoldersFromURLTemplate (CleanPath (be_URLPattern b)) simpleURLKeysPattern"
  obtain f pat keys where m: "map_outputs env inputParams f (fst (uniqueOutput env ?out)) (CleanPath (be_URLPattern b)) []
      = Inr (pat, keys)" and b': "b' = b\<lparr>be_URLPattern := pat, be_URLKeys := keys\<rparr>"
    using assms by (auto simp: initBackendURLMappings_def Let_def split: prod.splits sum.splits if_splits)
  from map_outputs_Inr [OF m] show ?thesis by (simp add: b' uniqueOutput_eq)
qed

lemma initBackendDefaults_URLPattern:
  "initBackendDefaults env s e b = Inr b' \<Longrightarrow> be_URLPattern b' = be_URLPattern b"
  by (auto simp: initBackendDefaults_def Let_def split: sum.splits if_splits)

lemma initBackend_params:
  assumes "initBackend env s e inp (j, b) = Inr b'"
  shows "(\<forall>q \<in> set (extractPlaceHoldersFromURLTemplate (CleanPath (be_URLPattern b)) simpleURLKeysPattern).
      MatchString (ie_sequentialParamsPattern env) q \<or> q \<in> set inp) \<and>
    be_URLKeys b' = map (output_key env) (sorted_list_of_set
      (set (extractPlaceHoldersFromURLTemplate (CleanPath (be_URLPattern b)) simpleURLKeysPattern)))"
proof -
  obtain b1 b2 where b1: "initBackendDefaults env s e
        (b\<lparr>be_ParentEndpoint := ep_Endpoint e, be_ParentEndpointMethod := ep_Method e\<rparr>) = Inr b1"
    and b2: "initBackendURLMappings env e j inp b1 = Inr b2" and keys: "be_URLKeys b' = be_URLKeys b2"
    using assms by (auto simp: initBackend_def split: sum.splits)
  show ?thesis
    using initBackendURLMappings_params [OF b2] initBackendDefaults_URLPattern [OF b1] by (simp add: keys)
qed

lemma initEndpoint_params:
  assumes "initEndpoint env s e = Inr e'"
  shows "list_all2 (\<lambda>b b'.
      (\<forall>q \<in> set (extractPlaceHoldersFromURLTemplate (CleanPath (be_URLPattern b)) simpleURLKeysPattern).
        MatchString (ie_sequentialParamsPattern env) q \<or>
        q \<in> set (extractPlaceHoldersFromURLTemplate (CleanPath (ep_Endpoint e)) (paramExtractionPattern s))) \<and>
      be_URLKeys b' = map (output_key env) (sorted_list_of_set
        (set (extractPlaceHoldersFromURLTemplate (CleanPath (be_URLPattern b)) simpleURLKeysPattern))))
    (ep_Backend e) (ep_Backend e')"
proof -
  let ?e = "endpoint_before_backends env s e"
  have be: "ep_Backend ?e = ep_Backend e"
    by (simp add: endpoint_before_backends_def initEndpointDefaults_def Let_def)
  obtain bs where bs: "map_err (initBackend env s ?e
        (extractPlaceHoldersFromURLTemplate (CleanPath (ep_Endpoint e)) (paramExtractionPattern s)))
        (zip [0..<length (ep_Backend e)] (ep_Backend e)) = Inr bs"
    and e': "e' = ?e\<lparr>ep_Backend := bs\<rparr>" using initEndpoint_Inr [OF assms] be by auto
  have "list_all2 (\<lambda>jb b'. initBackend env s ?e
        (extractPlaceHoldersFromURLTemplate (CleanPath (ep_Endpoint e)) (paramExtractionPattern s)) jb = Inr b')
      (zip [0..<length (ep_Backend e)] (ep_Backend e)) bs"
    using map_err_Inr [OF bs] .
  then show ?thesis
    by (auto simp: e' list_all2_conv_all_nth dest!: initBackend_params)
qed

section \<open>Properties\<close>

text \<open>
  C4: A configuration that \<open>Init\<close> accepts is ready to be served: the version is the supported
  one; port, timeout and connection limit are set; the address is valid; the hosts of the
  service, and those of every backend that has not switched the cleaning off, consist of the
  scheme http or https, a name and an optional port; every endpoint has a method, a timeout, a
  concurrency, an encoding and backends (exactly one for the no-op encoding); every backend has
  a method, a decoder, a scheme and the timeout, concurrency and parent of its endpoint; every
  agent has workers, a health interval of at least a second and a timeout, which its backends
  share, and each of them a method and a decoder.
\<close>

theorem Init_config_ready:
  assumes "Init env s = Inr s'"
  shows "config_ready env s'"
  using assms by (rule Init_ready)

definition demo_env :: init_env where
  "demo_env = \<lparr>ie_RoutingPattern = ColonRouterPatternBuilder,
     ie_sequentialParamsPattern = sequentialParamsPattern, ie_invalidPattern = Inr invalidPattern, ie_ParseIP = (\<lambda>_. True), ie_Title = to_upper,
     ie_json = \<lparr>decode_map = (\<lambda>r v. (None, v)), decode_list = (\<lambda>r. Inr []), decode_any = (\<lambda>r. Inr VNull)\<rparr>,
     ie_decoders = NewUntyped, ie_float = (\<lambda>_. [])\<rparr>"

definition demo_config :: ServiceConfig where
  "demo_config = \<lparr>sc_Name = [],
     sc_Endpoints = [empty_EndpointConfig\<lparr>ep_Endpoint := ''/u/{id}'',
       ep_Backend := [empty_Backend\<lparr>be_URLPattern := ''/b/{id}''\<rparr>]\<rparr>],
     sc_AsyncAgents = [], sc_Timeout = 0, sc_CacheTTL = 0, sc_Host = [''h:80''], sc_Port = 0, sc_Address = [],
     sc_Version = 3, sc_OutputEncoding = [], sc_ExtraConfig = [], sc_ReadTimeout = 0, sc_WriteTimeout = 0,
     sc_IdleTimeout = 0, sc_ReadHeaderTimeout = 0, sc_MaxHeaderBytes = 0, sc_DisableKeepAlives = False,
     sc_DisableCompression = False, sc_MaxIdleConns = 0, sc_MaxIdleConnsPerHost = 0, sc_IdleConnTimeout = 0,
     sc_ResponseHeaderTimeout = 0, sc_ExpectContinueTimeout = 0, sc_DialerTimeout = 0,
     sc_DialerFallbackDelay = 0, sc_DialerKeepAlive = 0, sc_DisableStrictREST = False, sc_Plugin = None,
     sc_TLS = None, sc_UseH2C = False, sc_Debug = False, sc_Echo = False, sc_uriParser = None,
     sc_SequentialStart = False, sc_AllowInsecureConnections = False, sc_ClientTLS = None,
     sc_DNSCacheTTL = 0, sc_MaxShutdownDuration = 0\<rparr>"

lemma demo_config_init:
  "case Init demo_env demo_config of Inl e \<Rightarrow> False
   | Inr s \<Rightarrow> map (\<lambda>e. (ep_Endpoint e, map (\<lambda>b. (be_URLPattern b, be_URLKeys b, be_Host b)) (ep_Backend e)))
       (sc_Endpoints s) = [(''/u/:id'', [(''/b/{{.Id}}'', [''Id''], [''http://h:80''])])]"
  by code_simp

theorem Init_config_ready_witness:
  "\<exists>s'. Init demo_env demo_config = Inr s' \<and> config_ready demo_env s'"
  using Init_config_ready [of demo_env demo_config] demo_config_init by (auto split: sum.splits)

text \<open>
  C18: In a configuration that \<open>Init\<close> accepts, every parameter of a backend's URL is a parameter
  of the path of its endpoint, or matches the pattern of the sequential parameters (at first, an
  earlier response's \<open>respN_...\<close> or a token's \<open>JWT...\<close>), and the keys that \<open>Init\<close> leaves in the
  backend are its distinct parameters in sorted order, with their first letter in title case.
\<close>

theorem backend_params_defined:
  assumes "Init env s = Inr s'"
  shows "list_all2 (\<lambda>e e'. list_all2 (\<lambda>b b'.
      (\<forall>q \<in> set (extractPlaceHoldersFromURLTemplate (CleanPath (be_URLPattern b)) simpleURLKeysPattern).
        MatchString (ie_sequentialParamsPattern env) q \<or>
        q \<in> set (extractPlaceHoldersFromURLTemplate (CleanPath (ep_Endpoint e))
          (if sc_DisableStrictREST s then simpleURLKeysPattern else endpointURLKeysPattern))) \<and>
      be_URLKeys b' = map (\<lambda>q. ie_Title env (take 1 q) @ drop 1 q) (sorted_list_of_set
        (set (extractPlaceHoldersFromURLTemplate (CleanPath (be_URLPattern b)) simpleURLKeysPattern))))
      (ep_Backend e) (ep_Backend e')) (sc_Endpoints s) (sc_Endpoints s')"
proof -
  from assms obtain s2 where es: "list_all2 (\<lambda>e e'. initEndpoint env s2 e = Inr e') (sc_Endpoints s) (sc_Endpoints s')"
    and strict: "sc_DisableStrictREST s2 = sc_DisableStrictREST s" by (rule Init_Inr)
  have key: "output_key env = (\<lambda>q. ie_Title env (take 1 q) @ drop 1 q)" by (rule ext) (simp add: output_key_def)
  show ?thesis
    by (rule list_all2_mono [OF es]) (rule initEndpoint_params [of env s2, unfolded paramExtractionPattern_def strict key])
qed

theorem backend_params_defined_witness:
  "\<exists>s'. Init demo_env demo_config = Inr s' \<and>
     map (\<lambda>e. map be_URLKeys (ep_Backend e)) (sc_Endpoints s') = [[[''Id'']]]"
proof -
  obtain s' where s': "Init demo_env demo_config = Inr s'"
    using demo_config_init by (cases "Init demo_env demo_config") auto
  have x: "extractPlaceHoldersFromURLTemplate (CleanPath ''/b/{id}'') simpleURLKeysPattern = [''id'']" by code_simp
  have t: "ie_Title demo_env ''i'' = ''I''" by code_simp
  from backend_params_defined [OF s'] s' show ?thesis
    by (auto simp: demo_config_def list_all2_Cons1 x t)
qed

text \<open>
  \<open>uniqueOutput\<close> returns the distinct names in sorted order, and counts those that are not
  sequential parameters without the last one, so the check against the number of input
  parameters misses one name.
\<close>

theorem uniqueOutput_counts_all_but_last:
  "uniqueOutput env outs =
     (sorted_list_of_set (set outs),
      length (filter (\<lambda>q. \<not> MatchString (ie_sequentialParamsPattern env) q) (butlast (sorted_list_of_set (set outs)))))"
  by (rule uniqueOutput_eq)

text \<open>
  Cleaning a host yields a scheme (http unless https was given), a name and an optional
  port of two to six digits, and cleaning it again changes nothing.
\<close>

theorem SafeCleanHost_idempotent:
  assumes "SafeCleanHost h = Inr h'"
  shows "SafeCleanHost h' = Inr h' \<and> (prefix ''http://'' h' \<or> prefix ''https://'' h')"
proof -
  from SafeCleanHost_clean [OF assms] obtain scheme name port where
    "clean_host scheme name port" "h' = scheme @ name @ port" by blast
  with clean_host_SafeCleanHost show ?thesis by (auto simp: clean_host_def)
qed

theorem SafeCleanHost_idempotent_witness:
  "SafeCleanHost ''https://h:80'' = Inr ''https://h:80''"
proof -
  have "SafeCleanHost ''https://h:80/'' = Inr ''https://h:80''" by code_simp
  from SafeCleanHost_idempotent [OF this] show ?thesis by blast
qed

text \<open>
  With the initial pattern, an endpoint path that starts with a slash is refused exactly when a star is followed by
  a character in it, or it ends in one of the reserved segments \<open>/__debug\<close>, \<open>/__echo\<close> and
  \<open>/__health\<close>, alone or followed by a slash and a rest on the same line.
\<close>

theorem refused_paths:
  assumes "ie_invalidPattern env = Inr invalidPattern"
  shows "validate env e = Some (EndpointPathError (CHR ''/'' # p) (ep_Method e)) \<and> ep_Endpoint e = CHR ''/'' # p \<longleftrightarrow>
   ep_Endpoint e = CHR ''/'' # p \<and>
   ((\<exists>a x v. ep_Endpoint e = a @ [CHR ''*'', x] @ v \<and> not_newline x) \<or>
    (\<exists>a w v. ep_Endpoint e = a @ ''/__'' @ w @ v \<and> w \<in> {''debug'', ''echo'', ''health''} \<and>
       (v = [] \<or> (\<exists>x. v = CHR ''/'' # x \<and> list_all not_newline x))))"
  unfolding validate_def assms sum.case invalidPattern_iff by auto

end
