(* ===== verification/Plugins.thy ===== *)
theory Plugins
  imports ProxyTypes
begin

text \<open>
  The modifiers that plugins register for requests and responses (proxy/plugin/modifier.go) and
  the middleware that runs them (proxy/plugin.go). The loading of plugin files is in the theory of
  the loaders.

  A modifier is a function on interfaces that gets a wrapper of a request or of a response. Of a
  value that it gets or returns the loops use only whether it implements the interface
  \<open>RequestWrapper\<close> or \<open>ResponseWrapper\<close>, and what the methods of that interface return.
\<close>

record requestWrapper =
  qw_method :: string
  qw_url :: "URL option"
  qw_query :: "(string \<times> string list) list option"
  qw_path :: string
  qw_body :: "io_reader option"
  qw_params :: "(string \<times> string) list option"
  qw_headers :: "(string \<times> string list) list option"

record metadataWrapper =
  mw_headers :: "(string \<times> string list) list option"
  mw_statusCode :: int

record responseWrapper =
  sw_request :: requestWrapper
  sw_data :: "jmap option"
  sw_isComplete :: bool
  sw_metadata :: metadataWrapper
  sw_io :: "io_reader option"

record wrapper =
  as_RequestWrapper :: "requestWrapper option"
  as_ResponseWrapper :: "responseWrapper option"

type_synonym modifier = "wrapper \<Rightarrow> goerror + wrapper"

abbreviation request_value :: "requestWrapper \<Rightarrow> wrapper" where
  "request_value w \<equiv> \<lparr>as_RequestWrapper = Some w, as_ResponseWrapper = None\<rparr>"

abbreviation response_value :: "responseWrapper \<Rightarrow> wrapper" where
  "response_value w \<equiv> \<lparr>as_RequestWrapper = None, as_ResponseWrapper = Some w\<rparr>"

abbreviation other_value :: wrapper where
  "other_value \<equiv> \<lparr>as_RequestWrapper = None, as_ResponseWrapper = None\<rparr>"

text \<open>A factory builds a modifier from the configuration; it may return nil.\<close>

type_synonym ModifierFactory = "jmap option \<Rightarrow> modifier option"

abbreviation plugin_Namespace :: string where
  "plugin_Namespace \<equiv> ''github.com/devopsfaith/krakend/proxy/plugin''"
abbreviation requestNamespace :: string where
  "requestNamespace \<equiv> ''github.com/devopsfaith/krakend/proxy/plugin/request''"
abbreviation responseNamespace :: string where
  "responseNamespace \<equiv> ''github.com/devopsfaith/krakend/proxy/plugin/response''"

definition getModifier :: "string \<Rightarrow> string \<Rightarrow> ModifierFactory namespaced \<Rightarrow> ModifierFactory option" where
  "getModifier namespace name reg = Namespaced_Find namespace name reg"

definition GetRequestModifier :: "string \<Rightarrow> ModifierFactory namespaced \<Rightarrow> ModifierFactory option" where
  "GetRequestModifier name reg = getModifier requestNamespace name reg"

definition GetResponseModifier :: "string \<Rightarrow> ModifierFactory namespaced \<Rightarrow> ModifierFactory option" where
  "GetResponseModifier name reg = getModifier responseNamespace name reg"

definition RegisterModifier ::
  "string \<Rightarrow> ModifierFactory \<Rightarrow> bool \<Rightarrow> bool \<Rightarrow> ModifierFactory namespaced \<Rightarrow> ModifierFactory namespaced" where
  "RegisterModifier name modifierFactory appliesToRequest appliesToResponse reg =
     (let reg = (if appliesToRequest then Namespaced_Register requestNamespace name modifierFactory reg else reg)
      in if appliesToResponse then Namespaced_Register responseNamespace name modifierFactory reg else reg)"

section \<open>The middleware (plugin.go)\<close>

text \<open>
  The loop over the configured names: a name found among the request modifiers is not looked up
  among the response modifiers.
\<close>

fun collect_modifiers ::
  "ModifierFactory namespaced \<Rightarrow> jmap option \<Rightarrow> gval list \<Rightarrow> modifier list \<times> modifier list" where
  "collect_modifiers reg cfg [] = ([], [])"
| "collect_modifiers reg cfg (p # ps) =
     (case collect_modifiers reg cfg ps of
        (rq, rs) \<Rightarrow>
          (case as_str p of
             None \<Rightarrow> (rq, rs)
           | Some name \<Rightarrow>
               (case GetRequestModifier name reg of
                  Some mf \<Rightarrow> (case mf cfg of None \<Rightarrow> (rq, rs) | Some fn \<Rightarrow> (fn # rq, rs))
                | None \<Rightarrow>
                    (case GetResponseModifier name reg of
                       Some mf \<Rightarrow> (case mf cfg of None \<Rightarrow> (rq, rs) | Some fn \<Rightarrow> (rq, fn # rs))
                     | None \<Rightarrow> (rq, rs)))))"

text \<open>
  The wrapper of a request has all its fields. The modifiers run on it in order: the wrapper that
  one returns is the argument of the next, a value that is no wrapper is skipped. The fields of
  the request are written once, from the last wrapper, so an error leaves the request as it was.
\<close>

definition newRequestWrapper :: "Request \<Rightarrow> requestWrapper" where
  "newRequestWrapper r =
     \<lparr>qw_method = rq_Method r, qw_url = rq_URL r, qw_query = rq_Query r, qw_path = rq_Path r,
      qw_body = rq_Body r, qw_params = rq_Params r, qw_headers = rq_Headers r\<rparr>"

fun run_request_modifiers :: "modifier list \<Rightarrow> requestWrapper \<Rightarrow> goerror + requestWrapper" where
  "run_request_modifiers [] tmp = Inr tmp"
| "run_request_modifiers (f # fs) tmp =
     (case f (request_value tmp) of
        Inl err \<Rightarrow> Inl err
      | Inr res \<Rightarrow>
          (case as_RequestWrapper res of
             None \<Rightarrow> run_request_modifiers fs tmp
           | Some t \<Rightarrow> run_request_modifiers fs t))"

definition write_request :: "requestWrapper \<Rightarrow> Request \<Rightarrow> Request" where
  "write_request tmp r =
     r\<lparr>rq_Method := qw_method tmp, rq_URL := qw_url tmp, rq_Query := qw_query tmp,
       rq_Path := qw_path tmp, rq_Body := qw_body tmp, rq_Params := qw_params tmp,
       rq_Headers := qw_headers tmp\<rparr>"

definition executeRequestModifiers :: "modifier list \<Rightarrow> Request \<Rightarrow> goerror + Request" where
  "executeRequestModifiers reqModifiers r =
     (case run_request_modifiers reqModifiers (newRequestWrapper r) of
        Inl err \<Rightarrow> Inl err
      | Inr tmp \<Rightarrow> Inr (write_request tmp r))"

definition newResponseWrapper :: "requestWrapper \<Rightarrow> Response \<Rightarrow> responseWrapper" where
  "newResponseWrapper req r =
     \<lparr>sw_request = req, sw_data = rs_Data r, sw_isComplete = rs_IsComplete r,
      sw_metadata = \<lparr>mw_headers = md_Headers (rs_Metadata r), mw_statusCode = md_StatusCode (rs_Metadata r)\<rparr>,
      sw_io = rs_Io r\<rparr>"

fun run_response_modifiers :: "modifier list \<Rightarrow> responseWrapper \<Rightarrow> goerror + responseWrapper" where
  "run_response_modifiers [] tmp = Inr tmp"
| "run_response_modifiers (f # fs) tmp =
     (case f (response_value tmp) of
        Inl err \<Rightarrow> Inl err
      | Inr res \<Rightarrow>
          (case as_ResponseWrapper res of
             None \<Rightarrow> run_response_modifiers fs tmp
           | Some t \<Rightarrow> run_response_modifiers fs t))"

definition write_response :: "responseWrapper \<Rightarrow> Response \<Rightarrow> Response" where
  "write_response tmp r =
     r\<lparr>rs_Data := sw_data tmp, rs_IsComplete := sw_isComplete tmp, rs_Io := sw_io tmp,
       rs_Metadata := \<lparr>md_Headers = mw_headers (sw_metadata tmp),
                       md_StatusCode = mw_statusCode (sw_metadata tmp)\<rparr>\<rparr>"

text \<open>The fields of the response are read before the loop: a nil response panics.\<close>

definition executeResponseModifiers :: "modifier list \<Rightarrow> Response option \<Rightarrow> requestWrapper \<Rightarrow> presult" where
  "executeResponseModifiers respModifiers r req =
     (case r of
        None \<Rightarrow> GoPanic
      | Some r \<Rightarrow>
          (case run_response_modifiers respModifiers (newResponseWrapper req r) of
             Inl err \<Rightarrow> Ret None (Some err)
           | Inr tmp \<Rightarrow> Ret (Some (write_response tmp r)) None))"

definition newPluginMiddleware :: "ModifierFactory namespaced \<Rightarrow> jmap option \<Rightarrow> Middleware" where
  "newPluginMiddleware reg cfg nxt =
     (case Option.bind (nmap_get cfg ''name'') as_list of
        None \<Rightarrow> emptyMiddlewareFallback nxt
      | Some plugins \<Rightarrow>
          (case collect_modifiers reg cfg plugins of
             (reqModifiers, respModifiers) \<Rightarrow>
               if length reqModifiers = length respModifiers \<and> length respModifiers = 0
               then emptyMiddlewareFallback nxt
               else wrap_one (\<lambda>n r.
                 if length reqModifiers = 0 then
                   (case n r of
                      GoPanic \<Rightarrow> GoPanic
                    | Ret resp (Some err) \<Rightarrow> Ret resp (Some err)
                    | Ret resp None \<Rightarrow> executeResponseModifiers respModifiers resp (newRequestWrapper r))
                 else
                   (case executeRequestModifiers reqModifiers r of
                      Inl err \<Rightarrow> Ret None (Some err)
                    | Inr r \<Rightarrow>
                        if length respModifiers = 0 then n r
                        else
                          (case n r of
                             GoPanic \<Rightarrow> GoPanic
                           | Ret resp (Some err) \<Rightarrow> Ret resp (Some err)
                           | Ret resp None \<Rightarrow> executeResponseModifiers respModifiers resp (newRequestWrapper r)))) nxt))"

definition NewPluginMiddleware :: "ModifierFactory namespaced \<Rightarrow> EndpointConfig \<Rightarrow> Middleware" where
  "NewPluginMiddleware reg endpoint nxt =
     (case ec_section (ep_ExtraConfig endpoint) plugin_Namespace of
        None \<Rightarrow> emptyMiddlewareFallback nxt
      | Some cfg \<Rightarrow> newPluginMiddleware reg cfg nxt)"

definition NewBackendPluginMiddleware :: "ModifierFactory namespaced \<Rightarrow> Backend \<Rightarrow> Middleware" where
  "NewBackendPluginMiddleware reg remote nxt =
     (case ec_section (be_ExtraConfig remote) plugin_Namespace of
        None \<Rightarrow> emptyMiddlewareFallback nxt
      | Some cfg \<Rightarrow> newPluginMiddleware reg cfg nxt)"

section \<open>Properties\<close>

lemma run_request_modifiers_append:
  "run_request_modifiers (fs @ gs) r =
     (case run_request_modifiers fs r of Inl e \<Rightarrow> Inl e | Inr r' \<Rightarrow> run_request_modifiers gs r')"
  by (induction fs arbitrary: r) (auto split: sum.splits option.splits)

text \<open>Wrapping and writing back is the identity, so modifiers that return no wrapper change nothing.\<close>

lemma write_newRequestWrapper [simp]: "write_request (newRequestWrapper r) r = r"
  by (simp add: write_request_def newRequestWrapper_def)

lemma write_newResponseWrapper [simp]: "write_response (newResponseWrapper q r) r = r"
  by (simp add: write_response_def newResponseWrapper_def)

lemma modifiers_without_wrapper:
  assumes "\<forall>f\<in>set fs. \<forall>w. f w = Inr other_value"
  shows "executeRequestModifiers fs r = Inr r"
    and "executeResponseModifiers fs (Some s) q = Ret (Some s) None"
proof -
  have "run_request_modifiers fs w = Inr w" for w using assms by (induction fs) auto
  then show "executeRequestModifiers fs r = Inr r" by (simp add: executeRequestModifiers_def)
  have "run_response_modifiers fs w = Inr w" for w using assms by (induction fs) auto
  then show "executeResponseModifiers fs (Some s) q = Ret (Some s) None"
    by (simp add: executeResponseModifiers_def)
qed

text \<open>
  A modifier registered for requests and for responses runs on requests only: the
  middleware finds it among the request modifiers and does not look further.
\<close>

theorem modifier_for_both_skips_responses:
  assumes "mf cfg = Some fn"
  shows "collect_modifiers (RegisterModifier name mf True True reg) cfg [VStr name] = ([fn], [])"
  using assms namespaced_reg.get_reg_same [of requestNamespace name mf]
  by (simp add: RegisterModifier_def GetRequestModifier_def getModifier_def Namespaced_Find_other Let_def)

theorem modifier_for_both_skips_responses_witness:
  "collect_modifiers (RegisterModifier ''m'' (\<lambda>cfg. Some (\<lambda>w. Inr other_value))
     True True Namespaced_New) None [VStr ''m''] =
   ([\<lambda>w. Inr other_value], [])"
  by (rule modifier_for_both_skips_responses) simp

text \<open>
  An error of a request modifier stops the call: the wrapped proxy is not called and no
  later modifier runs. Without an error, the proxy gets the request as the last modifier that
  returned a wrapper left it.
\<close>

theorem request_modifiers_in_order:
  assumes "newPluginMiddleware reg cfg [p] = Inr q"
    and "Option.bind (nmap_get cfg ''name'') as_list = Some plugins"
    and "collect_modifiers reg cfg plugins = (fs @ [f], [])"
  shows "q r = (case run_request_modifiers fs (newRequestWrapper r) of
      Inl err \<Rightarrow> Ret None (Some err)
    | Inr tmp \<Rightarrow> (case f (request_value tmp) of
        Inl err \<Rightarrow> Ret None (Some err)
      | Inr res \<Rightarrow> (case as_RequestWrapper res of
          None \<Rightarrow> p (write_request tmp r)
        | Some t \<Rightarrow> p (write_request t r))))"
  using assms
  by (auto simp: newPluginMiddleware_def wrap_one_def executeRequestModifiers_def run_request_modifiers_append
      split: sum.splits option.splits)

theorem request_modifiers_in_order_witness:
  "\<exists>q. newPluginMiddleware (RegisterModifier ''m''
       (\<lambda>cfg. Some (\<lambda>w. Inl errNullResult)) True False Namespaced_New)
     (Some [(''name'', VArr [VStr ''m''])]) [NoopProxy] = Inr q \<and> q empty_Request = Ret None (Some errNullResult)"
proof -
  let ?m = "(\<lambda>w. Inl errNullResult) :: modifier"
  let ?reg = "RegisterModifier ''m'' (\<lambda>cfg. Some ?m) True False Namespaced_New" and ?cfg = "Some [(''name'', VArr [VStr ''m''])]"
  have c: "collect_modifiers ?reg ?cfg [VStr ''m''] = ([] @ [?m], [])"
    using namespaced_reg.get_reg_same [of requestNamespace "''m''" "\<lambda>cfg. Some ?m" Namespaced_New]
    by (simp add: RegisterModifier_def GetRequestModifier_def getModifier_def)
  obtain q where q: "newPluginMiddleware ?reg ?cfg [NoopProxy] = Inr q"
    using c by (simp add: newPluginMiddleware_def wrap_one_def)
  have "q empty_Request = Ret None (Some errNullResult)"
    using request_modifiers_in_order [OF q _ c, of empty_Request] by simp
  with q show ?thesis by blast
qed

end
