(* ===== verification/Graphql.thy ===== *)
theory Graphql
  imports ProxyTypes
begin

text \<open>
  GraphQL backends: the extractor of transport/http/client/graphql/graphql.go and the
  middleware of proxy/graphql.go. encoding/json, the file system and the title caser are
  parameters (\<open>gql_lib\<close>).
\<close>

record GraphQLRequest =
  gr_Query :: string
  gr_OperationName :: string
  gr_Variables :: jmap

record gql_options =
  go_request :: GraphQLRequest
  go_QueryPath :: string
  go_Type :: string
  go_Method :: string

text \<open>
  \<open>gl_decode\<close> is the marshalling of the section and its decoding into \<open>Options\<close>,
  \<open>gl_encode\<close> and \<open>gl_encode_vars\<close> the marshalling of a request and of its variables, and
  \<open>gl_decode_vars\<close> the decoding of a body into a map, which the text \<open>null\<close> sets to nil.
\<close>

record gql_lib =
  gl_decode :: "gval \<Rightarrow> goerror + gql_options"
  gl_encode :: "GraphQLRequest \<Rightarrow> goerror + string"
  gl_encode_vars :: "jmap \<Rightarrow> string"
  gl_decode_vars :: "string \<Rightarrow> goerror + jmap option"
  gl_ReadFile :: "string \<Rightarrow> goerror + string"
  gl_Title :: "string \<Rightarrow> string"

abbreviation graphql_Namespace :: string where
  "graphql_Namespace \<equiv> ''github.com/devopsfaith/krakend/transport/http/client/graphql''"
abbreviation ErrNoConfigFound :: goerror where
  "ErrNoConfigFound \<equiv> ErrText ''grapghql: no configuration found''"

definition GetOptions :: "gql_lib \<Rightarrow> ExtraConfig \<Rightarrow> goerror + gql_options" where
  "GetOptions gl cfg =
     (case map_of cfg graphql_Namespace of
        None \<Rightarrow> Inl ErrNoConfigFound
      | Some tmp \<Rightarrow>
          (case gl_decode gl tmp of
             Inl err \<Rightarrow> Inl err
           | Inr opt \<Rightarrow>
               (let opt = opt\<lparr>go_Method := to_upper (go_Method opt), go_Type := to_lower (go_Type opt)\<rparr>;
                    opt = (if go_Method opt \<noteq> ''GET'' \<and> go_Method opt \<noteq> ''POST''
                           then opt\<lparr>go_Method := ''POST''\<rparr> else opt)
                in if go_QueryPath opt \<noteq> [] then
                     (case gl_ReadFile gl (go_QueryPath opt) of
                        Inl err \<Rightarrow> Inl err
                      | Inr q \<Rightarrow> Inr (opt\<lparr>go_request := (go_request opt)\<lparr>gr_Query := q\<rparr>\<rparr>))
                   else Inr opt)))"

text \<open>
  The replacements that \<open>New\<close> collects from the variables of the form \<open>{name}\<close>. An empty
  text makes \<open>val[0]\<close> panic, the text \<open>{}\<close> the slice \<open>val[2:1]\<close>: \<open>None\<close>.
\<close>

fun graphql_replacements :: "gql_lib \<Rightarrow> jmap \<Rightarrow> (string \<times> string) list option" where
  "graphql_replacements gl [] = Some []"
| "graphql_replacements gl ((k, v) # vars) =
     (case as_str v of
        None \<Rightarrow> graphql_replacements gl vars
      | Some val \<Rightarrow>
          (if val = [] then None
           else if hd val = CHR ''{'' \<and> last val = CHR ''}'' then
             (if length val < 3 then None
              else map_option (\<lambda>rs. (k, gl_Title gl [val ! 1] @ butlast (drop 2 val)) # rs)
                     (graphql_replacements gl vars))
           else graphql_replacements gl vars))"

record Extractor =
  ex_cfg :: gql_options
  ex_replacements :: "(string \<times> string) list"

text \<open>\<open>New\<close>; \<open>None\<close> is a panic.\<close>

definition graphql_New :: "gql_lib \<Rightarrow> gql_options \<Rightarrow> Extractor option" where
  "graphql_New gl opt =
     map_option (\<lambda>rs. \<lparr>ex_cfg = opt, ex_replacements = rs\<rparr>)
       (graphql_replacements gl (gr_Variables (go_request opt)))"

text \<open>\<open>paramExtractor\<close>: a missing parameter is the empty text.\<close>

definition paramExtractor :: "Extractor \<Rightarrow> (string \<times> string) list option \<Rightarrow> GraphQLRequest" where
  "paramExtractor ex params =
     (let req = go_request (ex_cfg ex)
      in if length (ex_replacements ex) = 0 then req
         else req\<lparr>gr_Variables :=
           fold (\<lambda>(k, p) vars. mput k (VStr (case nmap_get params p of None \<Rightarrow> [] | Some v \<Rightarrow> v)) vars)
             (ex_replacements ex) (mput_all (gr_Variables req) [])\<rparr>)"

text \<open>\<open>url.Values\<close> of a request.\<close>

definition query_of :: "gql_lib \<Rightarrow> GraphQLRequest \<Rightarrow> (string \<times> string list) list" where
  "query_of gl gr =
     [(''query'', [gr_Query gr])] @
     (if gr_OperationName gr \<noteq> [] then [(''operationName'', [gr_OperationName gr])] else []) @
     (if length (gr_Variables gr) \<noteq> 0 then [(''variables'', [gl_encode_vars gl (gr_Variables gr)])] else [])"

text \<open>
  \<open>fromBody\<close>: the defaults fill the variables that the body does not set. Writing a default
  into a nil map panics (the outer \<open>None\<close>).
\<close>

definition fromBody :: "gql_lib \<Rightarrow> Extractor \<Rightarrow> io_reader \<Rightarrow> (goerror + GraphQLRequest) option" where
  "fromBody gl ex r =
     (case read_all r of
        Inl err \<Rightarrow> Some (Inl err)
      | Inr b \<Rightarrow>
          (case gl_decode_vars gl b of
             Inl err \<Rightarrow> Some (Inl err)
           | Inr vars \<Rightarrow>
               (let req = go_request (ex_cfg ex)
                in case vars of
                     None \<Rightarrow>
                       (if length (gr_Variables req) > 0 then None
                        else Some (Inr (req\<lparr>gr_Variables := []\<rparr>)))
                   | Some vars \<Rightarrow>
                       Some (Inr (req\<lparr>gr_Variables :=
                         fold (\<lambda>(k, v) vars. case map_of vars k of Some _ \<Rightarrow> vars | None \<Rightarrow> mput k v vars)
                           (gr_Variables req) vars\<rparr>)))))"

definition QueryFromBody ::
  "gql_lib \<Rightarrow> Extractor \<Rightarrow> io_reader \<Rightarrow> (goerror + (string \<times> string list) list) option" where
  "QueryFromBody gl ex r =
     (case fromBody gl ex r of
        None \<Rightarrow> None
      | Some (Inl err) \<Rightarrow> Some (Inl err)
      | Some (Inr gr) \<Rightarrow> Some (Inr (query_of gl gr)))"

definition BodyFromBody :: "gql_lib \<Rightarrow> Extractor \<Rightarrow> io_reader \<Rightarrow> (goerror + string) option" where
  "BodyFromBody gl ex r =
     (case fromBody gl ex r of
        None \<Rightarrow> None
      | Some (Inl err) \<Rightarrow> Some (Inl err)
      | Some (Inr gr) \<Rightarrow> Some (gl_encode gl gr))"

definition QueryFromParams ::
  "gql_lib \<Rightarrow> Extractor \<Rightarrow> (string \<times> string) list option \<Rightarrow> (string \<times> string list) list" where
  "QueryFromParams gl ex params = query_of gl (paramExtractor ex params)"

text \<open>Without replacements the body is marshalled once and its error dropped.\<close>

definition BodyFromParams :: "gql_lib \<Rightarrow> Extractor \<Rightarrow> (string \<times> string) list option \<Rightarrow> goerror + string" where
  "BodyFromParams gl ex params =
     (if length (ex_replacements ex) = 0
      then Inr (case gl_encode gl (go_request (ex_cfg ex)) of Inl _ \<Rightarrow> [] | Inr b \<Rightarrow> b)
      else gl_encode gl (paramExtractor ex params))"

section \<open>The middleware (proxy/graphql.go)\<close>

definition request_reader :: "Request \<Rightarrow> io_reader" where
  "request_reader req = (case rq_Body req of None \<Rightarrow> ([], None) | Some b \<Rightarrow> b)"

text \<open>\<open>req.Headers[k] = v\<close> panics on nil headers.\<close>

definition set_headers :: "(string \<times> string list) list \<Rightarrow> Request \<Rightarrow> Request option" where
  "set_headers kvs req =
     (case rq_Headers req of
        None \<Rightarrow> None
      | Some h \<Rightarrow> Some (req\<lparr>rq_Headers := Some (fold (\<lambda>(k, v). mput k v) kvs h)\<rparr>))"

definition add_query :: "(string \<times> string list) list \<Rightarrow> Request \<Rightarrow> Request" where
  "add_query q req =
     req\<lparr>rq_Query :=
       (case rq_Query req of
          None \<Rightarrow> Some q
        | Some old \<Rightarrow> Some (fold (\<lambda>(k, vs) m.
            if vs = [] then m
            else mput k ((case map_of m k of None \<Rightarrow> [] | Some xs \<Rightarrow> xs) @ vs) m) q old))\<rparr>"

definition graphql_get_request ::
  "gql_options \<Rightarrow> (string \<times> string list) list \<Rightarrow> Request \<Rightarrow> Request option" where
  "graphql_get_request opt q req =
     map_option (add_query q)
       (set_headers [(''Content-Length'', [''0'']), (''Content-Type'', [''application/json''])]
         (req\<lparr>rq_Body := Some ([], None), rq_Method := go_Method opt\<rparr>))"

definition graphql_post_request :: "gql_options \<Rightarrow> string \<Rightarrow> Request \<Rightarrow> Request option" where
  "graphql_post_request opt b req =
     set_headers [(''Content-Length'', [itoa (int (length b))]), (''Content-Type'', [''application/json''])]
       (req\<lparr>rq_Body := Some (b, None), rq_Method := go_Method opt\<rparr>)"

definition graphql_call :: "gql_lib \<Rightarrow> Extractor \<Rightarrow> Proxy \<Rightarrow> Proxy" where
  "graphql_call gl ex n req =
     (let opt = ex_cfg ex;
          mutation = (go_Type opt = ''mutation'')
      in if go_Method opt = ''GET'' then
           (case (if mutation then QueryFromBody gl ex (request_reader req)
                  else Some (Inr (QueryFromParams gl ex (rq_Params req)))) of
              None \<Rightarrow> GoPanic
            | Some (Inl err) \<Rightarrow> Ret None (Some err)
            | Some (Inr q) \<Rightarrow>
                (case graphql_get_request opt q req of None \<Rightarrow> GoPanic | Some req \<Rightarrow> n req))
         else
           (case (if mutation then BodyFromBody gl ex (request_reader req)
                  else Some (BodyFromParams gl ex (rq_Params req))) of
              None \<Rightarrow> GoPanic
            | Some (Inl err) \<Rightarrow> Ret None (Some err)
            | Some (Inr b) \<Rightarrow>
                (case graphql_post_request opt b req of None \<Rightarrow> GoPanic | Some req \<Rightarrow> n req)))"

definition NewGraphQLMiddleware :: "gql_lib \<Rightarrow> Backend \<Rightarrow> Middleware" where
  "NewGraphQLMiddleware gl remote nxt =
     (case GetOptions gl (be_ExtraConfig remote) of
        Inl _ \<Rightarrow> emptyMiddlewareFallback nxt
      | Inr opt \<Rightarrow>
          (case graphql_New gl opt of
             None \<Rightarrow> Inl IndexPanic
           | Some extractor \<Rightarrow>
               (if go_Type opt \<noteq> ''mutation'' \<and> go_Type opt \<noteq> ''query'' then emptyMiddlewareFallback nxt
                else wrap_one (graphql_call gl extractor) nxt)))"

section \<open>Properties\<close>

lemma fold_default_lookup:
  "gmap_ok defaults \<Longrightarrow>
   map_of (fold (\<lambda>(k, v) vars. case map_of vars k of Some _ \<Rightarrow> vars | None \<Rightarrow> mput k v vars) defaults vars) k =
     (case map_of vars k of Some v \<Rightarrow> Some v | None \<Rightarrow> map_of defaults k)"
proof (induction defaults arbitrary: vars)
  case (Cons d defaults)
  obtain k' v' where d: "d = (k', v')" by (cases d)
  with Cons show ?case by (auto simp: gmap_ok_Cons split: option.splits)
qed (simp split: option.splits)

text \<open>
  The variables of a mutation are those of the request body over the configured defaults:
  a variable of the body keeps its value, a default fills what the body does not set; query and
  operation name are the configured ones.
\<close>

theorem mutation_variables:
  assumes "gmap_ok (gr_Variables (go_request (ex_cfg ex)))" "fst r = b" "snd r = None"
    and "gl_decode_vars gl b = Inr (Some vars)"
  shows "\<exists>gr. fromBody gl ex r = Some (Inr gr) \<and>
    gr_Query gr = gr_Query (go_request (ex_cfg ex)) \<and>
    gr_OperationName gr = gr_OperationName (go_request (ex_cfg ex)) \<and>
    (\<forall>k. map_of (gr_Variables gr) k =
      (case map_of vars k of Some v \<Rightarrow> Some v | None \<Rightarrow> map_of (gr_Variables (go_request (ex_cfg ex))) k))"
  using assms(2-4) by (simp add: fromBody_def read_all_def Let_def fold_default_lookup [OF assms(1)])

definition demo_gql :: gql_lib where
  "demo_gql = \<lparr>gl_decode = (\<lambda>v. Inl errNullResult), gl_encode = (\<lambda>r. Inr (gr_Query r)), gl_encode_vars = (\<lambda>m. []),
     gl_decode_vars = (\<lambda>b. Inr (if b = ''null'' then None else Some [(''b'', VStr b)])), gl_ReadFile = (\<lambda>p. Inl errNullResult), gl_Title = to_upper\<rparr>"

definition demo_extractor :: Extractor where
  "demo_extractor = \<lparr>ex_cfg = \<lparr>go_request = \<lparr>gr_Query = ''q'', gr_OperationName = [],
       gr_Variables = [(''a'', VInt 1), (''b'', VInt 2)]\<rparr>,
     go_QueryPath = [], go_Type = ''mutation'', go_Method = ''POST''\<rparr>, ex_replacements = []\<rparr>"

theorem mutation_variables_witness:
  "\<exists>gr. fromBody demo_gql demo_extractor (''x'', None) = Some (Inr gr) \<and> map_of (gr_Variables gr) ''a'' = Some (VInt 1)"
proof -
  have "gmap_ok (gr_Variables (go_request (ex_cfg demo_extractor)))"
    by (simp add: demo_extractor_def gmap_ok_def)
  moreover have "gl_decode_vars demo_gql ''x'' = Inr (Some [(''b'', VStr ''x'')])" by (simp add: demo_gql_def)
  ultimately show ?thesis
    using mutation_variables [of demo_extractor "(''x'', None)" "''x''" demo_gql "[(''b'', VStr ''x'')]"]
    by (auto simp: demo_extractor_def)
qed

text \<open>
  A GraphQL variable that is configured as the empty text, or as \<open>{}\<close>, makes the
  construction of the middleware panic.
\<close>

theorem graphql_empty_variable_panics:
  "graphql_replacements gl (vs @ (k, VStr []) # ws) = None \<and>
   graphql_replacements gl (vs @ (k, VStr ''{}'') # ws) = None"
  by (induction gl vs rule: graphql_replacements.induct) (auto split: option.splits)


text \<open>
  A mutation whose request body is the JSON text \<open>null\<close> (which json.Unmarshal decodes to
  a nil map) panics as soon as a default variable is configured, whatever the method.
\<close>

theorem graphql_null_body_panics:
  assumes "gl_decode_vars gl b = Inr None" "rq_Body req = Some (b, None)"
    and "go_Type (ex_cfg ex) = ''mutation''" "gr_Variables (go_request (ex_cfg ex)) \<noteq> []"
  shows "graphql_call gl ex p req = GoPanic"
  using assms
  by (simp add: graphql_call_def QueryFromBody_def BodyFromBody_def fromBody_def request_reader_def read_all_def Let_def)

theorem graphql_null_body_panics_witness:
  "graphql_call demo_gql demo_extractor NoopProxy (empty_Request\<lparr>rq_Body := Some (''null'', None)\<rparr>) = GoPanic"
  by (rule graphql_null_body_panics) (simp_all add: demo_gql_def demo_extractor_def)

end
