(* ===== verification/Factory.thy ===== *)
theory Factory
  imports MergeSpec Middlewares Transport Plugins Graphql
begin

text \<open>
  proxy/factory.go: the stack of middlewares around the proxy of a backend and around the
  merged proxy of an endpoint. \<open>factory_env\<close> holds what the factory gets or finds in package
  variables: the backend factory, the subscriber of a backend, the calls its
  balancer has served before, the registers, and the parameters of the middlewares.
\<close>

record 's factory_env =
  fe_backendFactory :: "Backend \<Rightarrow> Proxy"
  fe_subscriberFactory :: "Backend \<Rightarrow> 's subscriber option"
  fe_impl :: "'s \<Rightarrow> string list \<times> goerror option"
  fe_rnd :: "nat \<Rightarrow> nat"
  fe_calls :: "Backend \<Rightarrow> 's balancer_history"
  fe_gomaxprocs :: nat
  fe_modifiers :: "ModifierFactory namespaced"
  fe_graphql :: gql_lib
  fe_url_Parse :: "string \<Rightarrow> goerror + URL"
  fe_url_String :: "URL \<Rightarrow> string"
  fe_query_Encode :: "(string \<times> string list) list \<Rightarrow> string"
  fe_sched :: "msg list \<Rightarrow> cevent list"
  fe_ctx_err :: "nat \<Rightarrow> goerror option"
  fe_combiners :: "ResponseCombiner combinerRegister"
  fe_mergers :: "(string \<times> (EndpointConfig \<Rightarrow> Merger option)) list"
  fe_filterers :: "EndpointConfig \<Rightarrow> goerror + BackendFilterer list"

text \<open>\<open>p = middleware(p)\<close>, where a build error ends the construction.\<close>

definition stack :: "Middleware \<Rightarrow> build_error + Proxy \<Rightarrow> build_error + Proxy" where
  "stack m x = (case x of Inl e \<Rightarrow> Inl e | Inr p \<Rightarrow> m [p])"

definition newStack :: "'s factory_env \<Rightarrow> Backend \<Rightarrow> build_error + Proxy" where
  "newStack env backend =
     (let p = Inr (fe_backendFactory env backend);
          p = stack (NewBackendPluginMiddleware (fe_modifiers env) backend) p;
          p = stack (NewGraphQLMiddleware (fe_graphql env) backend) p;
          p = stack (NewFilterHeadersMiddleware backend) p;
          p = stack (with_subscriber
                       (NewLoadBalancedMiddlewareWithSubscriberAndLogger (fe_calls env backend) (fe_gomaxprocs env)
                          (fe_url_Parse env) (fe_query_Encode env) (fe_impl env) (fe_rnd env))
                       (fe_subscriberFactory env backend)) p;
          p = (if be_ConcurrentCalls backend > 1
               then stack (NewConcurrentMiddlewareWithLogger (fe_url_Parse env) (fe_url_String env)
                             (fe_sched env) (fe_ctx_err env) backend) p
               else p);
          p = stack (newRequestBuilderMiddleware backend) p
      in stack (NewFilterQueryStringsMiddleware backend) p)"

fun newStacks :: "'s factory_env \<Rightarrow> Backend list \<Rightarrow> build_error + Proxy list" where
  "newStacks env [] = Inr []"
| "newStacks env (b # bs) =
     (case newStack env b of
        Inl e \<Rightarrow> Inl e
      | Inr p \<Rightarrow> (case newStacks env bs of Inl e \<Rightarrow> Inl e | Inr ps \<Rightarrow> Inr (p # ps)))"

definition newMulti :: "'t tree_lib \<Rightarrow> 's factory_env \<Rightarrow> EndpointConfig \<Rightarrow> build_error + Proxy" where
  "newMulti fl env cfg =
     (case newStacks env (ep_Backend cfg) of
        Inl e \<Rightarrow> Inl e
      | Inr backendProxy \<Rightarrow>
          stack (NewFlatmapMiddleware fl cfg)
            (NewMergeDataMiddleware (fe_url_Parse env) (fe_url_String env) (fe_combiners env)
               (fe_mergers env) (fe_filterers env) cfg backendProxy))"

definition newSingle :: "'s factory_env \<Rightarrow> EndpointConfig \<Rightarrow> build_error + Proxy" where
  "newSingle env cfg = newStack env (hd (ep_Backend cfg))"

definition defaultFactory_New :: "'t tree_lib \<Rightarrow> 's factory_env \<Rightarrow> Factory" where
  "defaultFactory_New fl env cfg =
     (if length (ep_Backend cfg) = 0 then Inr (None, Some ErrNoBackends)
      else
        (let p = (if length (ep_Backend cfg) = 1 then newSingle env cfg else newMulti fl env cfg);
             p = stack (NewPluginMiddleware (fe_modifiers env) cfg) p;
             p = stack (NewStaticMiddleware cfg) p
         in case p of Inl e \<Rightarrow> Inl e | Inr q \<Rightarrow> Inr (Some q, None)))"

text \<open>
  The constructors of the factory, on an environment that holds the other parameters: the
  default subscriber of a backend is found in the register of the package sd, and the default
  backend proxy is the http proxy.
\<close>

definition NewDefaultFactoryWithSubscriber ::
  "'s factory_env \<Rightarrow> (Backend \<Rightarrow> Proxy) \<Rightarrow> (Backend \<Rightarrow> 's subscriber option) \<Rightarrow> 's factory_env" where
  "NewDefaultFactoryWithSubscriber env backendFactory sF =
     env\<lparr>fe_backendFactory := backendFactory, fe_subscriberFactory := sF\<rparr>"

definition NewDefaultFactory ::
  "(Backend, 's) subscriber_factory untyped \<Rightarrow> 's factory_env \<Rightarrow> (Backend \<Rightarrow> Proxy) \<Rightarrow> 's factory_env" where
  "NewDefaultFactory sd_register env backendFactory =
     (let sf = (\<lambda>remote. Sd_Get be_Host (be_SD remote) sd_register remote)
      in NewDefaultFactoryWithSubscriber env backendFactory sf)"

definition proxy_DefaultFactory ::
  "(Backend, 's) subscriber_factory untyped \<Rightarrow> 's factory_env \<Rightarrow> (Backend \<Rightarrow> Proxy) \<Rightarrow> 's factory_env" where
  "proxy_DefaultFactory sd_register env httpProxy = NewDefaultFactory sd_register env httpProxy"

definition DefaultFactoryWithSubscriber ::
  "'s factory_env \<Rightarrow> (Backend \<Rightarrow> Proxy) \<Rightarrow> (Backend \<Rightarrow> 's subscriber option) \<Rightarrow> 's factory_env" where
  "DefaultFactoryWithSubscriber env httpProxy sF = NewDefaultFactoryWithSubscriber env httpProxy sF"

section \<open>Properties\<close>

lemma stack_Inr [simp]: "stack m (Inr p) = m [p]" "stack m (Inl e) = Inl e"
  by (simp_all add: stack_def)

lemma fallback_one [simp]: "emptyMiddlewareFallback [p] = Inr p"
  by (simp add: emptyMiddlewareFallback_def EmptyMiddlewareWithLogger_def)

lemma filter_headers_none [simp]: "NewFilterHeadersMiddleware b [p] =
    Inr (if be_HeadersToPass b = [] then p else (\<lambda>r. p (filter_headers (be_HeadersToPass b) r)))"
  by (simp add: NewFilterHeadersMiddleware_def)

lemma filter_query_one [simp]: "NewFilterQueryStringsMiddleware b [p] =
    Inr (if be_QueryStringsToPass b = [] then p else (\<lambda>r. p (filter_query (be_QueryStringsToPass b) r)))"
  by (simp add: NewFilterQueryStringsMiddleware_def)

text \<open>What the stack of a plain backend does with a request before the backend gets it.\<close>

definition path_request :: "Backend \<Rightarrow> Request \<Rightarrow> Request" where
  "path_request b r =
     (GeneratePath (be_URLPattern b) (if be_QueryStringsToPass b = [] then r else filter_query (be_QueryStringsToPass b) r))
       \<lparr>rq_Method := be_Method b\<rparr>"

definition final_request :: "Backend \<Rightarrow> Request \<Rightarrow> Request" where
  "final_request b r = (if be_HeadersToPass b = [] then r else filter_headers (be_HeadersToPass b) r)"

text \<open>
  What the proxy of a backend has to get for a request \<open>q\<close>, written without the definitions of the
  stack: the method of the backend, the path of its pattern with the parameters put in, of the
  headers and of the query strings those that are listed, or all when none is, and the URL \<open>u\<close> of
  the host with the encoded query strings added.
\<close>

definition backend_path :: "Backend \<Rightarrow> Request \<Rightarrow> string" where
  "backend_path b q =
     fold (\<lambda>(k, v) p. replace_all p (''{{.'' @ k @ ''}}'') v) (case rq_Params q of None \<Rightarrow> [] | Some ps \<Rightarrow> ps) (be_URLPattern b)"

definition backend_gets :: "((string \<times> string list) list \<Rightarrow> string) \<Rightarrow> Backend \<Rightarrow> Request \<Rightarrow> URL \<Rightarrow> Request \<Rightarrow> bool" where
  "backend_gets query_Encode b q u q' \<longleftrightarrow>
     rq_Method q' = be_Method b \<and> rq_Path q' = backend_path b q \<and> rq_Body q' = rq_Body q \<and> rq_Params q' = rq_Params q \<and>
     (\<forall>k. nmap_get (rq_Headers q') k =
        (if be_HeadersToPass b = [] \<or> k \<in> set (be_HeadersToPass b) then nmap_get (rq_Headers q) k else None)) \<and>
     (\<forall>k. nmap_get (rq_Query q') k =
        (if be_QueryStringsToPass b = [] \<or> k \<in> set (be_QueryStringsToPass b) then nmap_get (rq_Query q) k else None)) \<and>
     (\<exists>v. rq_URL q' = Some v \<and> url_rest v = url_rest u \<and>
        url_RawQuery v = join_with ''&'' (filter (\<lambda>x. x \<noteq> []) [url_RawQuery u] @
          (case rq_Query q' of None \<Rightarrow> [] | Some m \<Rightarrow> if m = [] then [] else [query_Encode m])))"

lemma replace_params_fold: "replace_params ps p = fold (\<lambda>(k, v) p. replace_all p (''{{.'' @ k @ ''}}'') v) ps p"
  by (induction ps p rule: replace_params.induct) (simp_all add: param_key_def)

lemma filter_query_same [simp]:
  "rq_Params (filter_query p r) = rq_Params r" "rq_Body (filter_query p r) = rq_Body r"
  "rq_Headers (filter_query p r) = rq_Headers r"
  by (auto simp: filter_query_def split: option.splits)

lemma filter_headers_same [simp]:
  "rq_Params (filter_headers p r) = rq_Params r" "rq_Body (filter_headers p r) = rq_Body r"
  "rq_Query (filter_headers p r) = rq_Query r" "rq_URL (filter_headers p r) = rq_URL r"
  "rq_Path (filter_headers p r) = rq_Path r" "rq_Method (filter_headers p r) = rq_Method r"
  by (auto simp: filter_headers_def split: option.splits)

lemma GeneratePath_eq: "GeneratePath (be_URLPattern b) q = q\<lparr>rq_Path := backend_path b q\<rparr>"
  by (auto simp: GeneratePath_def backend_path_def replace_params_fold split: option.splits)

lemma path_request_parts:
  "rq_Path (path_request b q) = backend_path b q" "rq_Method (path_request b q) = be_Method b"
  "rq_Body (path_request b q) = rq_Body q" "rq_Params (path_request b q) = rq_Params q"
  "rq_Headers (path_request b q) = rq_Headers q"
  "rq_Query (path_request b q) =
     (if be_QueryStringsToPass b = [] then rq_Query q else rq_Query (filter_query (be_QueryStringsToPass b) q))"
  by (simp_all add: path_request_def GeneratePath_eq backend_path_def)

lemma filter_query_lookup:
  assumes "\<And>m. rq_Query r = Some m \<Longrightarrow> gmap_ok m" "distinct pass"
  shows "nmap_get (rq_Query (filter_query pass r)) k = (if k \<in> set pass then nmap_get (rq_Query r) k else None)"
  using assms by (auto simp: filter_query_def filter_values_lookup split: option.splits)

lemma filter_headers_lookup:
  assumes "\<And>m. rq_Headers r = Some m \<Longrightarrow> gmap_ok m" "distinct pass"
  shows "nmap_get (rq_Headers (filter_headers pass r)) k = (if k \<in> set pass then nmap_get (rq_Headers r) k else None)"
  using assms by (auto simp: filter_headers_def filter_values_lookup split: option.splits)

lemma final_request_gets:
  assumes "fe_url_Parse fe (h @ backend_path b q) = Inr u"
    and "distinct (be_HeadersToPass b)" "distinct (be_QueryStringsToPass b)"
    and "\<And>m. rq_Headers q = Some m \<Longrightarrow> gmap_ok m" "\<And>m. rq_Query q = Some m \<Longrightarrow> gmap_ok m"
  shows "\<exists>q'. balanced_request (fe_url_Parse fe) (fe_query_Encode fe) h (path_request b q) = Inr q' \<and>
    backend_gets (fe_query_Encode fe) b q u (final_request b q')"
proof -
  let ?p = "path_request b q"
  have "fe_url_Parse fe (h @ rq_Path ?p) = Inr u" using assms(1) by (simp add: path_request_parts)
  from balanced_request_Inr [where up = "fe_url_Parse fe" and h = h and r = ?p and enc = "fe_query_Encode fe", OF this] obtain v where v:
    "balanced_request (fe_url_Parse fe) (fe_query_Encode fe) h ?p = Inr (?p\<lparr>rq_URL := Some v\<rparr>)" "url_rest v = url_rest u"
    "url_RawQuery v = join_with ''&'' (filter (\<lambda>x. x \<noteq> []) [url_RawQuery u] @
      (case rq_Query ?p of None \<Rightarrow> [] | Some m \<Rightarrow> if m = [] then [] else [fe_query_Encode fe m]))"
    by blast
  define q' where "q' = final_request b (?p\<lparr>rq_URL := Some v\<rparr>)"
  have "nmap_get (rq_Headers q') k = (if be_HeadersToPass b = [] \<or> k \<in> set (be_HeadersToPass b) then nmap_get (rq_Headers q) k else None)" for k
    using filter_headers_lookup [of "?p\<lparr>rq_URL := Some v\<rparr>" "be_HeadersToPass b" k] assms(2,4)
    by (auto simp: q'_def final_request_def path_request_parts)
  moreover have "nmap_get (rq_Query q') k = (if be_QueryStringsToPass b = [] \<or> k \<in> set (be_QueryStringsToPass b) then nmap_get (rq_Query q) k else None)" for k
    using filter_query_lookup [of q "be_QueryStringsToPass b" k] assms(3,5)
    by (auto simp: q'_def final_request_def path_request_parts)
  moreover have "rq_Method q' = be_Method b" "rq_Path q' = backend_path b q" "rq_Body q' = rq_Body q"
    "rq_Params q' = rq_Params q" "rq_URL q' = Some v" "rq_Query q' = rq_Query ?p"
    by (simp_all add: q'_def final_request_def path_request_parts)
  ultimately have "backend_gets (fe_query_Encode fe) b q u q'"
    using v(2,3) by (simp add: backend_gets_def)
  with v(1) show ?thesis by (auto simp: q'_def)
qed

text \<open>The balancer of a backend over a subscriber, after the calls it has served.\<close>

definition backend_balancer :: "'s factory_env \<Rightarrow> Backend \<Rightarrow> 's subscriber \<Rightarrow> 's balancer" where
  "backend_balancer env b s = balancer_after (fe_calls env b) (NewBalancer (fe_gomaxprocs env) (fe_rnd env) s)"

text \<open>
  The stack of a backend without extra configuration and with one call at a time: the query
  strings are filtered, the path is generated and the method set, then a host is chosen and the
  URL built from it, then the headers are filtered, and the backend proxy gets that request. An
  error of the balancer or of the URL is returned without calling the backend.
\<close>

theorem newStack_order:
  assumes "be_ExtraConfig b = []" "be_ConcurrentCalls b \<le> 1" "fe_subscriberFactory env b = Some s"
  shows "\<exists>q. newStack env b = Inr q \<and>
    (\<forall>r. q r = (case Host (fe_impl env) (fe_rnd env) (backend_balancer env b s) of
        None \<Rightarrow> GoPanic
      | Some (Inl err, _) \<Rightarrow> Ret None (Some err)
      | Some (Inr host, _) \<Rightarrow>
          (case balanced_request (fe_url_Parse env) (fe_query_Encode env) host (path_request b r) of
             Inl err \<Rightarrow> Ret None (Some err)
           | Inr r' \<Rightarrow> fe_backendFactory env b (final_request b r'))))"
  using assms
  by (auto simp: newStack_def NewBackendPluginMiddleware_def NewGraphQLMiddleware_def GetOptions_def ec_section_def
      NewLoadBalancedMiddlewareWithSubscriberAndLogger_def newLoadBalancedMiddleware_def wrap_one_def
      newRequestBuilderMiddleware_def balanced_call_def path_request_def final_request_def backend_balancer_def
      split: option.splits sum.splits prod.splits)

definition demo_factory :: "unit factory_env" where
  "demo_factory = \<lparr>fe_backendFactory = (\<lambda>b r. Ret (Some (mk_Response (Some [(''path'', VStr (rq_Path r))]) True)) None),
     fe_subscriberFactory = (\<lambda>b. Some (FixedSubscriber (be_Host b))), fe_impl = (\<lambda>_. ([], None)), fe_rnd = (\<lambda>_. 0), fe_calls = (\<lambda>_. []),
     fe_gomaxprocs = 1, fe_modifiers = Namespaced_New, fe_graphql = demo_gql,
     fe_url_Parse = (\<lambda>s. Inr \<lparr>url_rest = s, url_RawQuery = []\<rparr>), fe_url_String = url_rest,
     fe_query_Encode = (\<lambda>q. []), fe_sched = map EvMsg, fe_ctx_err = (\<lambda>_. None),
     fe_combiners = initResponseCombiners, fe_mergers = [], fe_filterers = defaultBackendFiltererFactory\<rparr>"

theorem newStack_order_witness:
  "\<exists>q. newStack demo_factory (empty_Backend\<lparr>be_Host := [''h''], be_URLPattern := ''/p''\<rparr>) = Inr q \<and>
     q empty_Request = Ret (Some (mk_Response (Some [(''path'', VStr ''/p'')]) True)) None"
proof -
  let ?b = "empty_Backend\<lparr>be_Host := [''h''], be_URLPattern := ''/p''\<rparr>"
  have "be_ExtraConfig ?b = []" "be_ConcurrentCalls ?b \<le> 1"
    "fe_subscriberFactory demo_factory ?b = Some (FixedSubscriber [''h''])"
    by (simp_all add: empty_Backend_def demo_factory_def)
  from newStack_order [OF this] obtain q where "newStack demo_factory ?b = Inr q"
    "q empty_Request = (case Host (fe_impl demo_factory) (fe_rnd demo_factory)
                 (backend_balancer demo_factory ?b (FixedSubscriber [''h''])) of
        None \<Rightarrow> GoPanic
      | Some (Inl err, _) \<Rightarrow> Ret None (Some err)
      | Some (Inr host, _) \<Rightarrow>
          (case balanced_request (fe_url_Parse demo_factory) (fe_query_Encode demo_factory) host (path_request ?b empty_Request) of
             Inl err \<Rightarrow> Ret None (Some err)
           | Inr r' \<Rightarrow> fe_backendFactory demo_factory ?b (final_request ?b r')))" by blast
  then show ?thesis
    by (auto simp: demo_factory_def backend_balancer_def NewBalancer_def NewRoundRobinLB_def Host_def balanced_request_def path_request_def
        final_request_def empty_Backend_def empty_Request_def GeneratePath_def)
qed



text \<open>
  C39: A GraphQL operation of the type query with the method GET is not sent by the stack of a
  backend without plugins and with one call at a time: the balancer, which is outside the GraphQL
  middleware, has built the URL before that middleware adds the operation's parameters to the
  query map of the request, and the URL that the backend proxy gets is the balancer's. (With
  concurrent calls the clones share the query map, so that a later call may find the parameters
  there; the model does not follow that.)
\<close>

theorem graphql_get_query_not_sent:
  assumes "GetOptions (fe_graphql env) (be_ExtraConfig b) = Inr opt" "graphql_New (fe_graphql env) opt = Some ex"
    and "go_Method opt = ''GET''" "go_Type opt = ''query''"
    and "ec_section (be_ExtraConfig b) plugin_Namespace = None" "be_ConcurrentCalls b \<le> 1"
    and "fe_subscriberFactory env b = Some sub"
  shows "\<exists>q. newStack env b = Inr q \<and>
    (\<forall>r host s r'. Host (fe_impl env) (fe_rnd env) (backend_balancer env b sub) = Some (Inr host, s) \<longrightarrow>
       balanced_request (fe_url_Parse env) (fe_query_Encode env) host (path_request b r) = Inr r' \<longrightarrow>
       rq_Headers (final_request b r') \<noteq> None \<longrightarrow>
       (\<exists>r''. q r = fe_backendFactory env b r'' \<and> rq_URL r'' = rq_URL r'))"
proof -
  let ?g = "\<lambda>r. graphql_call (fe_graphql env) ex (fe_backendFactory env b) (final_request b r)"
  let ?q = "\<lambda>r. fst (balanced_call (fe_url_Parse env) (fe_query_Encode env) (fe_impl env) (fe_rnd env) ?g (path_request b r)
      (backend_balancer env b sub))"
  have cfg: "ex_cfg ex = opt" using assms(2) by (auto simp: graphql_New_def)
  have call: "\<exists>r''. graphql_call (fe_graphql env) ex p r = p r'' \<and> rq_URL r'' = rq_URL r"
    if "rq_Headers r \<noteq> None" for p r
    using that assms(3,4) cfg
    by (auto simp: graphql_call_def graphql_get_request_def set_headers_def add_query_def Let_def)
  have url: "rq_URL (final_request b r) = rq_URL r" for r
    by (auto simp: final_request_def filter_headers_def split: option.splits)
  have "newStack env b = Inr ?q"
    using assms
    by (auto simp: newStack_def NewBackendPluginMiddleware_def NewGraphQLMiddleware_def
        NewLoadBalancedMiddlewareWithSubscriberAndLogger_def newLoadBalancedMiddleware_def wrap_one_def
        newRequestBuilderMiddleware_def path_request_def final_request_def backend_balancer_def fun_eq_iff)
  moreover have "\<exists>r''. ?q r = fe_backendFactory env b r'' \<and> rq_URL r'' = rq_URL r'"
    if "Host (fe_impl env) (fe_rnd env)
(backend_balancer env b sub) = Some (Inr host, s)"
      "balanced_request (fe_url_Parse env) (fe_query_Encode env) host (path_request b r) = Inr r'"
      "rq_Headers (final_request b r') \<noteq> None" for r host s r'
    using call [OF that(3)] that(1,2) url [of r'] by (auto simp: balanced_call_def)
  ultimately show ?thesis by blast
qed

definition demo_get_options :: gql_options where
  "demo_get_options = \<lparr>go_request = \<lparr>gr_Query = ''q'', gr_OperationName = [], gr_Variables = []\<rparr>,
     go_QueryPath = [], go_Type = ''query'', go_Method = ''GET''\<rparr>"

theorem graphql_get_query_not_sent_witness:
  "\<exists>q. newStack (demo_factory\<lparr>fe_graphql := demo_gql\<lparr>gl_decode := \<lambda>v. Inr demo_get_options\<rparr>,
         fe_backendFactory := \<lambda>b r. Ret (Some (mk_Response (Some [(''url'', VStr (url_RawQuery (the (rq_URL r))))]) True)) None\<rparr>)
       (empty_Backend\<lparr>be_Host := [''h''], be_ExtraConfig := [(graphql_Namespace, VNull)]\<rparr>) = Inr q \<and>
     q (empty_Request\<lparr>rq_Headers := Some []\<rparr>) = Ret (Some (mk_Response (Some [(''url'', VStr [])]) True)) None"
proof -
  let ?e = "demo_factory\<lparr>fe_graphql := demo_gql\<lparr>gl_decode := \<lambda>v. Inr demo_get_options\<rparr>,
         fe_backendFactory := \<lambda>b r. Ret (Some (mk_Response (Some [(''url'', VStr (url_RawQuery (the (rq_URL r))))]) True)) None\<rparr>"
  let ?b = "empty_Backend\<lparr>be_Host := [''h''], be_ExtraConfig := [(graphql_Namespace, VNull)]\<rparr>"
  have up: "to_upper ''GET'' = ''GET''" "to_lower ''query'' = ''query''" by code_simp+
  have opt: "GetOptions (fe_graphql ?e) (be_ExtraConfig ?b) = Inr demo_get_options"
    "graphql_New (fe_graphql ?e) demo_get_options = Some \<lparr>ex_cfg = demo_get_options, ex_replacements = []\<rparr>"
    "go_Method demo_get_options = ''GET''" "go_Type demo_get_options = ''query''"
    "ec_section (be_ExtraConfig ?b) plugin_Namespace = None" "be_ConcurrentCalls ?b \<le> 1"
    "fe_subscriberFactory ?e ?b = Some (FixedSubscriber [''h''])"
    using up by (simp_all add: demo_factory_def GetOptions_def demo_get_options_def graphql_New_def empty_Backend_def ec_section_def)
  let ?r' = "(path_request ?b (empty_Request\<lparr>rq_Headers := Some []\<rparr>))\<lparr>rq_URL := Some \<lparr>url_rest = ''h'', url_RawQuery = []\<rparr>\<rparr>"
  have env: "Host (fe_impl ?e) (fe_rnd ?e)
(backend_balancer ?e ?b (FixedSubscriber [''h''])) = Some (Inr ''h'', NopBalancer ''h'')"
    "balanced_request (fe_url_Parse ?e) (fe_query_Encode ?e) ''h'' (path_request ?b (empty_Request\<lparr>rq_Headers := Some []\<rparr>)) = Inr ?r'"
    "rq_Headers (final_request ?b ?r') \<noteq> None"
    by (simp_all add: demo_factory_def backend_balancer_def NewBalancer_def NewRoundRobinLB_def Host_def balanced_request_def path_request_def
        final_request_def empty_Backend_def empty_Request_def GeneratePath_def)
  from graphql_get_query_not_sent [OF opt] obtain q where "newStack ?e ?b = Inr q"
    "\<exists>r''. q (empty_Request\<lparr>rq_Headers := Some []\<rparr>) = fe_backendFactory ?e ?b r'' \<and> rq_URL r'' = rq_URL ?r'"
    using env by blast
  then show ?thesis by auto
qed

end
