(* ===== verification/Durations.thy ===== *)
theory Durations
  imports Prelude
begin

text \<open>
  \<open>time.ParseDuration\<close> as package time documents it, byte by byte, which the configuration
  parser and the shadow middleware call: a sign, then numbers with a unit each. The only part
  that computes with floats, the share of a fraction in its unit, is a parameter
  (\<open>frac f unit k\<close>: \<open>f / 10 ^ k\<close> of \<open>unit\<close>, in nanoseconds). And the text of a number of
  nanoseconds, which it reads back.
\<close>

section \<open>Reading\<close>

abbreviation two63 :: nat where
  "two63 \<equiv> 9223372036854775808"

definition digit_of :: "char \<Rightarrow> nat" where
  "digit_of c = of_char c - 48"

fun leadingInt :: "nat \<Rightarrow> string \<Rightarrow> (nat \<times> string) option" where
  "leadingInt x [] = Some (x, [])"
| "leadingInt x (c # s) =
     (if \<not> is_digit c then Some (x, c # s)
      else if x > two63 div 10 then None
      else if 10 * x + digit_of c > two63 then None
      else leadingInt (10 * x + digit_of c) s)"

text \<open>The digits after the overflow are skipped: value, number of digits read, rest.\<close>

fun leadingFraction :: "nat \<Rightarrow> nat \<Rightarrow> bool \<Rightarrow> string \<Rightarrow> nat \<times> nat \<times> string" where
  "leadingFraction x k overflow [] = (x, k, [])"
| "leadingFraction x k overflow (c # s) =
     (if \<not> is_digit c then (x, k, c # s)
      else if overflow then leadingFraction x k True s
      else if x > (two63 - 1) div 10 then leadingFraction x k True s
      else if 10 * x + digit_of c > two63 then leadingFraction x k True s
      else leadingFraction (10 * x + digit_of c) (Suc k) False s)"

text \<open>The units; the micro sign has two code points, of two bytes each.\<close>

definition unit_map :: "(string \<times> nat) list" where
  "unit_map =
     [(''ns'', 1), (''us'', 1000), ([CHR 0xC2, CHR 0xB5] @ ''s'', 1000), ([CHR 0xCE, CHR 0xBC] @ ''s'', 1000),
      (''ms'', 1000000), (''s'', 1000000000), (''m'', 60000000000), (''h'', 3600000000000)]"

definition unit_char :: "char \<Rightarrow> bool" where
  "unit_char c \<longleftrightarrow> c \<noteq> CHR ''.'' \<and> \<not> is_digit c"

text \<open>The optional point with the digits after it: fraction, number of its digits, rest.\<close>

definition fraction_part :: "string \<Rightarrow> nat \<times> nat \<times> string" where
  "fraction_part s =
     (case s of
        [] \<Rightarrow> (0, 0, [])
      | c # cs \<Rightarrow> if c = CHR ''.'' then leadingFraction 0 0 False cs else (0, 0, c # cs))"

text \<open>
  One number with its unit: the value and the rest. A number has a digit before or after its
  point, so that something else than the point is consumed.
\<close>

definition duration_item :: "(nat \<Rightarrow> nat \<Rightarrow> nat \<Rightarrow> nat) \<Rightarrow> string \<Rightarrow> (nat \<times> string) option" where
  "duration_item frac s =
     (if s = [] \<or> \<not> (hd s = CHR ''.'' \<or> is_digit (hd s)) then None
      else case leadingInt 0 s of
        None \<Rightarrow> None
      | Some (v, s1) \<Rightarrow>
          (case fraction_part s1 of
             (f, k, s2) \<Rightarrow>
               if length s1 = length s \<and> length s2 + 1 \<ge> length s1 then None
               else if takeWhile unit_char s2 = [] then None
               else case map_of unit_map (takeWhile unit_char s2) of
                 None \<Rightarrow> None
               | Some unit \<Rightarrow>
                   (if v > two63 div unit then None
                    else let w = (if f > 0 then v * unit + frac f unit k else v * unit)
                         in if w > two63 then None else Some (w, dropWhile unit_char s2))))"

lemma leadingInt_length: "leadingInt x s = Some (v, r) \<Longrightarrow> length r \<le> length s"
  by (induction x s rule: leadingInt.induct) (auto split: if_splits)

lemma leadingFraction_length: "length (snd (snd (leadingFraction x k ov s))) \<le> length s"
proof (induction s arbitrary: x k ov)
  case (Cons c s)
  have "length (snd (snd (leadingFraction x' k' ov' s))) \<le> length (c # s)" for x' k' ov'
    using Cons.IH [of x' k' ov'] by simp
  then show ?case unfolding leadingFraction.simps Let_def by (auto split: if_split)
qed simp

lemma dropWhile_shorter: "takeWhile p s \<noteq> [] \<Longrightarrow> length (dropWhile p s) < length s"
  by (metis append_Nil length_append length_greater_0_conv less_add_same_cancel2 takeWhile_dropWhile_id)

lemma fraction_part_length: "fraction_part s = (f, k, r) \<Longrightarrow> length r \<le> length s"
  using leadingFraction_length [of 0 0 False "tl s"]
  by (cases s) (auto simp: fraction_part_def split: if_splits)

lemma duration_item_shorter:
  assumes "duration_item frac s = Some (w, rest)"
  shows "length rest < length s"
proof -
  obtain v s1 f k s2 where s1: "leadingInt 0 s = Some (v, s1)" and s2: "fraction_part s1 = (f, k, s2)"
    and u: "takeWhile unit_char s2 \<noteq> []" "rest = dropWhile unit_char s2"
    using assms by (auto simp: duration_item_def Let_def split: if_splits option.splits prod.splits)
  show ?thesis
    using leadingInt_length [OF s1] fraction_part_length [OF s2] dropWhile_shorter [OF u(1)] u(2) by simp
qed

function duration_loop :: "(nat \<Rightarrow> nat \<Rightarrow> nat \<Rightarrow> nat) \<Rightarrow> nat \<Rightarrow> string \<Rightarrow> nat option" where
  "duration_loop frac d s =
     (if s = [] then Some d
      else case duration_item frac s of
        None \<Rightarrow> None
      | Some (w, rest) \<Rightarrow> if d + w > two63 then None else duration_loop frac (d + w) rest)"
  by pat_completeness auto
termination
  by (relation "measure (\<lambda>(frac, d, s). length s)") (auto dest: duration_item_shorter)

declare duration_loop.simps [simp del]

definition ParseDuration :: "(nat \<Rightarrow> nat \<Rightarrow> nat \<Rightarrow> nat) \<Rightarrow> string \<Rightarrow> int option" where
  "ParseDuration frac s =
     (let neg = (s \<noteq> [] \<and> hd s = CHR ''-'');
          s = (if s \<noteq> [] \<and> (hd s = CHR ''-'' \<or> hd s = CHR ''+'') then tl s else s)
      in if s = ''0'' then Some 0
         else if s = [] then None
         else case duration_loop frac 0 s of
           None \<Rightarrow> None
         | Some d \<Rightarrow>
             (if neg then Some (- int d) else if d > two63 - 1 then None else Some (int d)))"

section \<open>Reading back a number of nanoseconds\<close>

definition nanoseconds :: "int \<Rightarrow> string" where
  "nanoseconds d = itoa d @ ''ns''"

lemma digits_value_foldl: "digits_value s = foldl (\<lambda>acc c. 10 * acc + digit_of c) 0 s"
  by (simp add: digits_value_def digit_of_def)

lemma digits_value_snoc: "digits_value (s @ [c]) = 10 * digits_value s + digit_of c"
  by (simp add: digits_value_foldl)

lemma digit_char: "n < 10 \<Longrightarrow> is_digit (char_of (48 + n)) \<and> digit_of (char_of (48 + n)) = n"
proof -
  assume "n < 10"
  then have "(of_char (char_of (48 + n) :: char) :: nat) = 48 + n" by simp
  with \<open>n < 10\<close> show ?thesis unfolding is_digit_def digit_of_def by linarith
qed

lemma digits_of_nat_ok:
  "digits_value (digits_of_nat n) = n \<and> list_all is_digit (digits_of_nat n) \<and> digits_of_nat n \<noteq> []"
proof (induction n rule: less_induct)
  case (less n)
  show ?case
  proof (cases "n < 10")
    case True
    with digit_char [OF True] show ?thesis
      by (simp add: digits_of_nat.simps [of n] digits_value_foldl)
  next
    case False
    then have "digits_value (digits_of_nat (n div 10)) = n div 10 \<and> list_all is_digit (digits_of_nat (n div 10))"
      using less [of "n div 10"] by simp
    moreover have "n mod 10 < 10" by simp
    note digit_char [OF this]
    ultimately show ?thesis using False
      by (simp add: digits_of_nat.simps [of n] digits_value_snoc)
  qed
qed

lemma foldl_digits_ge: "(x::nat) * 10 ^ length s \<le> foldl (\<lambda>acc c. 10 * acc + digit_of c) x s"
proof (induction s arbitrary: x)
  case (Cons c s)
  have "x * 10 ^ length (c # s) \<le> (10 * x + digit_of c) * 10 ^ length s"
    by (simp add: add_mult_distrib)
  also note Cons.IH [of "10 * x + digit_of c"]
  finally show ?case by simp
qed simp

lemma leadingInt_digits:
  assumes "list_all is_digit s" "r = [] \<or> \<not> is_digit (hd r)"
    and "foldl (\<lambda>acc c. 10 * acc + digit_of c) x s \<le> two63"
  shows "leadingInt x (s @ r) = Some (foldl (\<lambda>acc c. 10 * acc + digit_of c) x s, r)"
  using assms
proof (induction s arbitrary: x)
  case Nil
  then show ?case by (cases r) auto
next
  case (Cons c s)
  let ?y = "10 * x + digit_of c :: nat"
  have "?y \<le> ?y * 10 ^ length s" using mult_le_mono2 [of 1 "10 ^ length s" ?y] by simp
  also note foldl_digits_ge [of ?y s]
  finally have y: "?y \<le> two63" using Cons.prems(3) by simp
  then have "x \<le> two63 div 10" by simp
  with y Cons show ?case by simp
qed

lemma leadingInt_nat: "n \<le> two63 \<Longrightarrow> leadingInt 0 (digits_of_nat n @ ''ns'') = Some (n, ''ns'')"
  using digits_of_nat_ok [of n] leadingInt_digits [of "digits_of_nat n" "''ns''" 0]
  by (simp add: digits_value_foldl is_digit_def)

lemma duration_item_ns:
  assumes n: "n \<le> two63"
  shows "duration_item frac (digits_of_nat n @ ''ns'') = Some (n, [])"
proof -
  let ?s = "digits_of_nat n @ ''ns''"
  have hd: "?s \<noteq> []" "is_digit (hd ?s)" "length ''ns'' \<noteq> length ?s"
    using digits_of_nat_ok [of n] by (cases "digits_of_nat n"; simp)+
  have ns: "takeWhile unit_char ''ns'' = ''ns''" "dropWhile unit_char ''ns'' = []" "map_of unit_map ''ns'' = Some 1"
    "fraction_part ''ns'' = (0, 0, ''ns'')"
    by (simp_all add: unit_char_def is_digit_def unit_map_def fraction_part_def)
  have w: "\<not> n > two63 div 1" "\<not> n * 1 > two63" using n by simp_all
  show ?thesis
    unfolding duration_item_def leadingInt_nat [OF n] option.case prod.case ns
    using hd w by (simp del: One_nat_def)
qed

text \<open>Every 64-bit number of nanoseconds is read back from its text.\<close>

lemma ParseDuration_nanoseconds:
  assumes "in64 d"
  shows "ParseDuration frac (nanoseconds d) = Some d"
proof -
  have loop: "duration_loop frac 0 (digits_of_nat n @ ''ns'') = Some n" if "n \<le> two63" for n
    using that [folded not_less] duration_item_ns [OF that, of frac]
      duration_loop.simps [of frac 0 "digits_of_nat n @ ''ns''"] duration_loop.simps [of frac n "[]"]
    by (simp only: append_is_Nil_conv option.case prod.case add_0 if_False if_True simp_thms list.distinct)
  have ne: "digits_of_nat n @ ''ns'' \<noteq> ''0''" for n
    using arg_cong [of "digits_of_nat n @ ''ns''" "''0''" length] by auto
  have hd: "\<exists>c cs. digits_of_nat n = c # cs \<and> c \<noteq> CHR ''-'' \<and> c \<noteq> CHR ''+''" for n
    using digits_of_nat_ok [of n] by (cases "digits_of_nat n") (auto simp: is_digit_def)
  show ?thesis
  proof (cases "d < 0")
    case True
    with assms have "nat (- d) \<le> two63" by (simp add: in64_def)
    from loop [OF this] True ne show ?thesis
      by (simp add: ParseDuration_def nanoseconds_def itoa_def Let_def)
  next
    case False
    with assms have "nat d \<le> two63" "nat d \<le> two63 - 1" by (simp_all add: in64_def)
    with loop [of "nat d"] False ne [of "nat d"] hd [of "nat d"] show ?thesis
      by (auto simp: ParseDuration_def nanoseconds_def itoa_def Let_def)
  qed
qed

end
