(* ===== verification/Parser.thy ===== *)
theory Parser
  imports ConfigSpec Durations
begin

text \<open>
  config/parser.go: the structs that a configuration file is decoded into, their translation to
  the configuration structs, the parser and its errors. The decoding of JSON into the structs is
  encoding/json's and a parameter; so are the two ways to read a file. A pointer is an option: a
  JSON null in a list of endpoints, agents or backends is a nil pointer, whose translation
  panics (\<open>None\<close>).
\<close>

section \<open>The structs of the file\<close>

record parseableTLSKeyPair =
  pk_PublicKey :: string
  pk_PrivateKey :: string

record parseableTLS =
  pt_IsDisabled :: bool
  pt_PublicKey :: string
  pt_PrivateKey :: string
  pt_CaCerts :: "string list"
  pt_MinVersion :: string
  pt_MaxVersion :: string
  pt_CurvePreferences :: "uint16 list"
  pt_PreferServerCipherSuites :: bool
  pt_CipherSuites :: "uint16 list"
  pt_EnableMTLS :: bool
  pt_DisableSystemCaPool :: bool
  pt_Keys :: "parseableTLSKeyPair list"

record parseableClientTLSCert =
  px_Certificate :: string
  px_PrivateKey :: string

record parseableClientTLS =
  pc_AllowInsecureConnections :: bool
  pc_CaCerts :: "string list"
  pc_DisableSystemCaPool :: bool
  pc_MinVersion :: string
  pc_MaxVersion :: string
  pc_CurvePreferences :: "uint16 list"
  pc_CipherSuites :: "uint16 list"
  pc_ClientCerts :: "parseableClientTLSCert list"

record parseableBackend =
  pb_Group :: string
  pb_Method :: string
  pb_Host :: "string list"
  pb_HostSanitizationDisabled :: bool
  pb_URLPattern :: string
  pb_AllowList :: "string list"
  pb_DenyList :: "string list"
  pb_Mapping :: "string gmap"
  pb_Encoding :: string
  pb_IsCollection :: bool
  pb_Target :: string
  pb_ExtraConfig :: "ExtraConfig option"
  pb_SD :: string
  pb_HeadersToPass :: "string list"
  pb_SDScheme :: string
  pb_QueryStringsToPass :: "string list"

record parseableEndpointConfig =
  pe_Endpoint :: string
  pe_Method :: string
  pe_Backend :: "parseableBackend option list"
  pe_ConcurrentCalls :: int
  pe_Timeout :: string
  pe_CacheTTL :: string
  pe_QueryString :: "string list"
  pe_ExtraConfig :: "ExtraConfig option"
  pe_HeadersToPass :: "string list"
  pe_OutputEncoding :: string

record parseableAsyncAgent =
  pa_Name :: string
  pa_MaxRetries :: int
  pa_BackoffStrategy :: string
  pa_HealthInterval :: string
  pa_Timeout :: string
  pa_Workers :: int
  pa_Topic :: string
  pa_MaxRate :: "64 word"
  pa_Encoding :: string
  pa_Backend :: "parseableBackend option list"
  pa_ExtraConfig :: "ExtraConfig option"

record parseableServiceConfig =
  ps_Name :: string
  ps_Endpoints :: "parseableEndpointConfig option list"
  ps_AsyncAgents :: "parseableAsyncAgent option list"
  ps_Timeout :: string
  ps_CacheTTL :: string
  ps_Host :: "string list"
  ps_Port :: int
  ps_Address :: string
  ps_Version :: int
  ps_ExtraConfig :: "ExtraConfig option"
  ps_ReadTimeout :: string
  ps_WriteTimeout :: string
  ps_IdleTimeout :: string
  ps_ReadHeaderTimeout :: string
  ps_MaxHeaderBytes :: int
  ps_DisableKeepAlives :: bool
  ps_DisableCompression :: bool
  ps_DisableStrictREST :: bool
  ps_MaxIdleConns :: int
  ps_MaxIdleConnsPerHost :: int
  ps_IdleConnTimeout :: string
  ps_ResponseHeaderTimeout :: string
  ps_ExpectContinueTimeout :: string
  ps_OutputEncoding :: string
  ps_DialerTimeout :: string
  ps_DialerFallbackDelay :: string
  ps_DialerKeepAlive :: string
  ps_Debug :: bool
  ps_Echo :: bool
  ps_Plugin :: "Plugin option"
  ps_TLS :: "parseableTLS option"
  ps_ClientTLS :: "parseableClientTLS option"
  ps_UseH2C :: bool
  ps_DNSCacheTTL :: string
  ps_MaxShutdownDuration :: string

section \<open>The translation\<close>

text \<open>A text that is no duration counts as zero.\<close>

definition parseDuration :: "(nat \<Rightarrow> nat \<Rightarrow> nat \<Rightarrow> nat) \<Rightarrow> string \<Rightarrow> int" where
  "parseDuration frac v = (case ParseDuration frac v of None \<Rightarrow> 0 | Some d \<Rightarrow> d)"

definition extra_of :: "ExtraConfig option \<Rightarrow> ExtraConfig" where
  "extra_of e = (case e of None \<Rightarrow> [] | Some e \<Rightarrow> e)"

definition backend_normalize :: "parseableBackend \<Rightarrow> Backend" where
  "backend_normalize p =
     \<lparr>be_Group = pb_Group p, be_Method = pb_Method p, be_Host = pb_Host p,
      be_HostSanitizationDisabled = pb_HostSanitizationDisabled p, be_URLPattern = pb_URLPattern p,
      be_AllowList = pb_AllowList p, be_DenyList = pb_DenyList p, be_Mapping = pb_Mapping p,
      be_Encoding = pb_Encoding p, be_IsCollection = pb_IsCollection p, be_Target = pb_Target p,
      be_SD = pb_SD p, be_SDScheme = (if pb_SDScheme p = [] then ''http'' else pb_SDScheme p),
      be_URLKeys = [], be_ConcurrentCalls = 0, be_Timeout = 0, be_Decoder = None,
      be_ExtraConfig = extra_of (pb_ExtraConfig p), be_HeadersToPass = pb_HeadersToPass p,
      be_QueryStringsToPass = pb_QueryStringsToPass p, be_ParentEndpoint = [], be_ParentEndpointMethod = []\<rparr>"

text \<open>A loop over pointers: a nil one panics.\<close>

fun through_pointers :: "('a \<Rightarrow> 'b option) \<Rightarrow> 'a option list \<Rightarrow> 'b list option" where
  "through_pointers f [] = Some []"
| "through_pointers f (p # ps) =
     (case p of
        None \<Rightarrow> None
      | Some x \<Rightarrow>
          (case f x of
             None \<Rightarrow> None
           | Some y \<Rightarrow> map_option ((#) y) (through_pointers f ps)))"

definition backends_normalize :: "parseableBackend option list \<Rightarrow> Backend list option" where
  "backends_normalize ps = through_pointers (\<lambda>p. Some (backend_normalize p)) ps"

definition endpoint_normalize ::
  "(nat \<Rightarrow> nat \<Rightarrow> nat \<Rightarrow> nat) \<Rightarrow> parseableEndpointConfig \<Rightarrow> EndpointConfig option" where
  "endpoint_normalize frac p =
     map_option (\<lambda>backends.
       \<lparr>ep_Endpoint = pe_Endpoint p, ep_Method = pe_Method p, ep_Backend = backends,
        ep_ConcurrentCalls = pe_ConcurrentCalls p, ep_Timeout = parseDuration frac (pe_Timeout p),
        ep_CacheTTL = parseDuration frac (pe_CacheTTL p), ep_QueryString = pe_QueryString p,
        ep_ExtraConfig = extra_of (pe_ExtraConfig p), ep_HeadersToPass = pe_HeadersToPass p,
        ep_OutputEncoding = pe_OutputEncoding p\<rparr>)
     (backends_normalize (pe_Backend p))"

definition agent_normalize :: "(nat \<Rightarrow> nat \<Rightarrow> nat \<Rightarrow> nat) \<Rightarrow> parseableAsyncAgent \<Rightarrow> AsyncAgent option" where
  "agent_normalize frac p =
     map_option (\<lambda>backends.
       \<lparr>aa_Name = pa_Name p,
        aa_Connection = \<lparr>cn_MaxRetries = pa_MaxRetries p, cn_BackoffStrategy = pa_BackoffStrategy p,
          cn_HealthInterval = parseDuration frac (pa_HealthInterval p)\<rparr>,
        aa_Consumer = \<lparr>cs_Timeout = parseDuration frac (pa_Timeout p), cs_Workers = pa_Workers p,
          cs_Topic = pa_Topic p, cs_MaxRate = pa_MaxRate p\<rparr>,
        aa_Encoding = pa_Encoding p, aa_Backend = backends, aa_ExtraConfig = extra_of (pa_ExtraConfig p)\<rparr>)
     (backends_normalize (pa_Backend p))"

definition tls_normalize :: "parseableTLS \<Rightarrow> TLS" where
  "tls_normalize p =
     \<lparr>tls_IsDisabled = pt_IsDisabled p, tls_PublicKey = pt_PublicKey p, tls_PrivateKey = pt_PrivateKey p,
      tls_CaCerts = pt_CaCerts p, tls_MinVersion = pt_MinVersion p, tls_MaxVersion = pt_MaxVersion p,
      tls_CurvePreferences = pt_CurvePreferences p,
      tls_PreferServerCipherSuites = pt_PreferServerCipherSuites p, tls_CipherSuites = pt_CipherSuites p,
      tls_EnableMTLS = pt_EnableMTLS p, tls_DisableSystemCaPool = pt_DisableSystemCaPool p,
      tls_Keys = map (\<lambda>k. \<lparr>kp_PublicKey = pk_PublicKey k, kp_PrivateKey = pk_PrivateKey k\<rparr>) (pt_Keys p)\<rparr>"

definition client_tls_normalize :: "parseableClientTLS \<Rightarrow> ClientTLS" where
  "client_tls_normalize p =
     \<lparr>ct_AllowInsecureConnections = pc_AllowInsecureConnections p, ct_CaCerts = pc_CaCerts p,
      ct_DisableSystemCaPool = pc_DisableSystemCaPool p, ct_MinVersion = pc_MinVersion p,
      ct_MaxVersion = pc_MaxVersion p, ct_CurvePreferences = pc_CurvePreferences p,
      ct_CipherSuites = pc_CipherSuites p,
      ct_ClientCerts = map (\<lambda>c. \<lparr>cc_Certificate = px_Certificate c, cc_PrivateKey = px_PrivateKey c\<rparr>) (pc_ClientCerts p)\<rparr>"

definition service_normalize ::
  "(nat \<Rightarrow> nat \<Rightarrow> nat \<Rightarrow> nat) \<Rightarrow> parseableServiceConfig \<Rightarrow> ServiceConfig option" where
  "service_normalize frac p =
     (case through_pointers (endpoint_normalize frac) (ps_Endpoints p) of
        None \<Rightarrow> None
      | Some endpoints \<Rightarrow>
          (case through_pointers (agent_normalize frac) (ps_AsyncAgents p) of
             None \<Rightarrow> None
           | Some agents \<Rightarrow>
               (let dur = parseDuration frac in Some
                \<lparr>sc_Name = ps_Name p, sc_Endpoints = endpoints, sc_AsyncAgents = agents,
                 sc_Timeout = dur (ps_Timeout p), sc_CacheTTL = dur (ps_CacheTTL p), sc_Host = ps_Host p,
                 sc_Port = ps_Port p, sc_Address = ps_Address p, sc_Version = ps_Version p,
                 sc_OutputEncoding = ps_OutputEncoding p, sc_ExtraConfig = extra_of (ps_ExtraConfig p),
                 sc_ReadTimeout = dur (ps_ReadTimeout p), sc_WriteTimeout = dur (ps_WriteTimeout p),
                 sc_IdleTimeout = dur (ps_IdleTimeout p), sc_ReadHeaderTimeout = dur (ps_ReadHeaderTimeout p),
                 sc_MaxHeaderBytes = ps_MaxHeaderBytes p, sc_DisableKeepAlives = ps_DisableKeepAlives p,
                 sc_DisableCompression = ps_DisableCompression p, sc_MaxIdleConns = ps_MaxIdleConns p,
                 sc_MaxIdleConnsPerHost = ps_MaxIdleConnsPerHost p,
                 sc_IdleConnTimeout = dur (ps_IdleConnTimeout p),
                 sc_ResponseHeaderTimeout = dur (ps_ResponseHeaderTimeout p),
                 sc_ExpectContinueTimeout = dur (ps_ExpectContinueTimeout p),
                 sc_DialerTimeout = dur (ps_DialerTimeout p),
                 sc_DialerFallbackDelay = dur (ps_DialerFallbackDelay p),
                 sc_DialerKeepAlive = dur (ps_DialerKeepAlive p), sc_DisableStrictREST = ps_DisableStrictREST p,
                 sc_Plugin = ps_Plugin p, sc_TLS = map_option tls_normalize (ps_TLS p), sc_UseH2C = ps_UseH2C p,
                 sc_Debug = ps_Debug p, sc_Echo = ps_Echo p, sc_uriParser = None, sc_SequentialStart = False,
                 sc_AllowInsecureConnections = False,
                 sc_ClientTLS = map_option client_tls_normalize (ps_ClientTLS p),
                 sc_DNSCacheTTL = dur (ps_DNSCacheTTL p), sc_MaxShutdownDuration = dur (ps_MaxShutdownDuration p)\<rparr>)))"

section \<open>Errors with a position\<close>

text \<open>
  What fails: a JSON syntax or type error with the offset where it was found, the operating
  system, or anything else with its text.
\<close>

datatype parse_cause =
    SyntaxError string int
  | UnmarshalTypeError string int
  | PathError string string string
  | OtherCause string

datatype parse_error =
    ParseError string int int int string
  | FileError string

fun cause_text :: "parse_cause \<Rightarrow> string" where
  "cause_text (SyntaxError msg off) = msg"
| "cause_text (UnmarshalTypeError msg off) = msg"
| "cause_text (PathError op path err) = op @ '' '' @ path @ '': '' @ err"
| "cause_text (OtherCause msg) = msg"

text \<open>The method \<open>Error() string\<close>; \<open>ParseError file offset row col err\<close>.\<close>

fun parse_error_text :: "parse_error \<Rightarrow> string" where
  "parse_error_text (ParseError configFile off row col err) =
     [CHR 0x27] @ configFile @ [CHR 0x27] @ '': '' @ err @ '', offset: '' @ itoa off @ '', row: '' @ itoa row @
     '', col: '' @ itoa col"
| "parse_error_text (FileError msg) = msg"

fun row_col_loop :: "string \<Rightarrow> int \<Rightarrow> int \<Rightarrow> int \<times> int" where
  "row_col_loop [] row col = (row, col)"
| "row_col_loop (v # vs) row col =
     (if v = CHR 0x0D then row_col_loop vs row col
      else if v = CHR 0x0A then row_col_loop vs (row + 1) 0
      else row_col_loop vs row (col + 1))"

definition getErrorRowCol :: "string \<Rightarrow> int \<Rightarrow> int \<times> int" where
  "getErrorRowCol source off =
     (let off = (if int (length source) < off then int (length source) - 1 else off)
      in row_col_loop (take (nat off) source) 0 0)"

text \<open>
  The position is counted in what \<open>os.ReadFile\<close> reads, whatever the parser read; a file it
  cannot read counts as empty.
\<close>

definition NewParseError :: "(string \<Rightarrow> string option) \<Rightarrow> string \<Rightarrow> string \<Rightarrow> int \<Rightarrow> parse_error" where
  "NewParseError os_ReadFile err configFile off =
     (let b = (case os_ReadFile configFile of None \<Rightarrow> [] | Some b \<Rightarrow> b);
          (row, col) = getErrorRowCol b off
      in ParseError configFile off row col err)"

definition CheckErr :: "(string \<Rightarrow> string option) \<Rightarrow> parse_cause \<Rightarrow> string \<Rightarrow> parse_error" where
  "CheckErr os_ReadFile err configFile =
     (case err of
        SyntaxError msg off \<Rightarrow> NewParseError os_ReadFile msg configFile off
      | UnmarshalTypeError msg off \<Rightarrow> NewParseError os_ReadFile msg configFile off
      | PathError op path inner \<Rightarrow>
          FileError ([CHR 0x27] @ configFile @ [CHR 0x27] @ '' ('' @ op @ ''): '' @ inner)
      | OtherCause msg \<Rightarrow> FileError ([CHR 0x27] @ configFile @ [CHR 0x27] @ '': '' @ msg))"

section \<open>The parser\<close>

record parse_env =
  pv_fileReader :: "string \<Rightarrow> parse_cause + string"
  pv_os_ReadFile :: "string \<Rightarrow> string option"
  pv_Unmarshal :: "string \<Rightarrow> parse_cause + parseableServiceConfig"
  pv_frac :: "nat \<Rightarrow> nat \<Rightarrow> nat \<Rightarrow> nat"
  pv_init :: init_env

text \<open>The constructors: a parser is its reader of files; the default one reads with \<open>os.ReadFile\<close>.\<close>

definition NewParserWithFileReader :: "(string \<Rightarrow> parse_cause + string) \<Rightarrow> parse_env \<Rightarrow> parse_env" where
  "NewParserWithFileReader f env = env\<lparr>pv_fileReader := f\<rparr>"

definition NewParser :: "(string \<Rightarrow> parse_cause + string) \<Rightarrow> parse_env \<Rightarrow> parse_env" where
  "NewParser os_ReadFile env = NewParserWithFileReader os_ReadFile env"

text \<open>
  \<open>Parse\<close>; \<open>None\<close> is a panic. Beside an error the code returns the struct as far as it got,
  which its callers drop and the model leaves out.
\<close>

definition Parse :: "parse_env \<Rightarrow> string \<Rightarrow> (parse_error + ServiceConfig) option" where
  "Parse env configFile =
     (case pv_fileReader env configFile of
        Inl err \<Rightarrow> Some (Inl (CheckErr (pv_os_ReadFile env) err configFile))
      | Inr data \<Rightarrow>
          (case pv_Unmarshal env data of
             Inl err \<Rightarrow> Some (Inl (CheckErr (pv_os_ReadFile env) err configFile))
           | Inr cfg \<Rightarrow>
               (case service_normalize (pv_frac env) cfg of
                  None \<Rightarrow> None
                | Some result \<Rightarrow>
                    (case Init (pv_init env) result of
                       Inl err \<Rightarrow>
                         Some (Inl (CheckErr (pv_os_ReadFile env) (OtherCause (config_error_text err)) configFile))
                     | Inr result \<Rightarrow> Some (Inr result)))))"

end
