(* ===== verification/ParserSpec.thy ===== *)
theory ParserSpec
  imports Parser
begin

text \<open>
  What the configuration parser guarantees: a configuration that is written field by field, with
  its durations as numbers of nanoseconds, is read back unchanged; the position of an error is
  the line and the column of its offset; a configuration panics the parser exactly when it holds
  a null among its endpoints, agents or backends.
\<close>

section \<open>Writing a configuration\<close>

definition parseable_backend :: "Backend \<Rightarrow> parseableBackend" where
  "parseable_backend b =
     \<lparr>pb_Group = be_Group b, pb_Method = be_Method b, pb_Host = be_Host b,
      pb_HostSanitizationDisabled = be_HostSanitizationDisabled b, pb_URLPattern = be_URLPattern b,
      pb_AllowList = be_AllowList b, pb_DenyList = be_DenyList b, pb_Mapping = be_Mapping b,
      pb_Encoding = be_Encoding b, pb_IsCollection = be_IsCollection b, pb_Target = be_Target b,
      pb_ExtraConfig = Some (be_ExtraConfig b), pb_SD = be_SD b, pb_HeadersToPass = be_HeadersToPass b,
      pb_SDScheme = be_SDScheme b, pb_QueryStringsToPass = be_QueryStringsToPass b\<rparr>"

definition parseable_endpoint :: "EndpointConfig \<Rightarrow> parseableEndpointConfig" where
  "parseable_endpoint e =
     \<lparr>pe_Endpoint = ep_Endpoint e, pe_Method = ep_Method e,
      pe_Backend = map (\<lambda>b. Some (parseable_backend b)) (ep_Backend e),
      pe_ConcurrentCalls = ep_ConcurrentCalls e, pe_Timeout = nanoseconds (ep_Timeout e),
      pe_CacheTTL = nanoseconds (ep_CacheTTL e), pe_QueryString = ep_QueryString e,
      pe_ExtraConfig = Some (ep_ExtraConfig e), pe_HeadersToPass = ep_HeadersToPass e,
      pe_OutputEncoding = ep_OutputEncoding e\<rparr>"

definition parseable_agent :: "AsyncAgent \<Rightarrow> parseableAsyncAgent" where
  "parseable_agent a =
     \<lparr>pa_Name = aa_Name a, pa_MaxRetries = cn_MaxRetries (aa_Connection a),
      pa_BackoffStrategy = cn_BackoffStrategy (aa_Connection a),
      pa_HealthInterval = nanoseconds (cn_HealthInterval (aa_Connection a)),
      pa_Timeout = nanoseconds (cs_Timeout (aa_Consumer a)), pa_Workers = cs_Workers (aa_Consumer a),
      pa_Topic = cs_Topic (aa_Consumer a), pa_MaxRate = cs_MaxRate (aa_Consumer a),
      pa_Encoding = aa_Encoding a, pa_Backend = map (\<lambda>b. Some (parseable_backend b)) (aa_Backend a),
      pa_ExtraConfig = Some (aa_ExtraConfig a)\<rparr>"

definition parseable_tls :: "TLS \<Rightarrow> parseableTLS" where
  "parseable_tls t =
     \<lparr>pt_IsDisabled = tls_IsDisabled t, pt_PublicKey = tls_PublicKey t, pt_PrivateKey = tls_PrivateKey t,
      pt_CaCerts = tls_CaCerts t, pt_MinVersion = tls_MinVersion t, pt_MaxVersion = tls_MaxVersion t,
      pt_CurvePreferences = tls_CurvePreferences t,
      pt_PreferServerCipherSuites = tls_PreferServerCipherSuites t, pt_CipherSuites = tls_CipherSuites t,
      pt_EnableMTLS = tls_EnableMTLS t, pt_DisableSystemCaPool = tls_DisableSystemCaPool t,
      pt_Keys = map (\<lambda>k. \<lparr>pk_PublicKey = kp_PublicKey k, pk_PrivateKey = kp_PrivateKey k\<rparr>) (tls_Keys t)\<rparr>"

definition parseable_client_tls :: "ClientTLS \<Rightarrow> parseableClientTLS" where
  "parseable_client_tls t =
     \<lparr>pc_AllowInsecureConnections = ct_AllowInsecureConnections t, pc_CaCerts = ct_CaCerts t,
      pc_DisableSystemCaPool = ct_DisableSystemCaPool t, pc_MinVersion = ct_MinVersion t,
      pc_MaxVersion = ct_MaxVersion t, pc_CurvePreferences = ct_CurvePreferences t,
      pc_CipherSuites = ct_CipherSuites t,
      pc_ClientCerts = map (\<lambda>c. \<lparr>px_Certificate = cc_Certificate c, px_PrivateKey = cc_PrivateKey c\<rparr>) (ct_ClientCerts t)\<rparr>"

definition parseable_of :: "ServiceConfig \<Rightarrow> parseableServiceConfig" where
  "parseable_of s =
     \<lparr>ps_Name = sc_Name s, ps_Endpoints = map (\<lambda>e. Some (parseable_endpoint e)) (sc_Endpoints s),
      ps_AsyncAgents = map (\<lambda>a. Some (parseable_agent a)) (sc_AsyncAgents s),
      ps_Timeout = nanoseconds (sc_Timeout s), ps_CacheTTL = nanoseconds (sc_CacheTTL s), ps_Host = sc_Host s,
      ps_Port = sc_Port s, ps_Address = sc_Address s, ps_Version = sc_Version s,
      ps_ExtraConfig = Some (sc_ExtraConfig s), ps_ReadTimeout = nanoseconds (sc_ReadTimeout s),
      ps_WriteTimeout = nanoseconds (sc_WriteTimeout s), ps_IdleTimeout = nanoseconds (sc_IdleTimeout s),
      ps_ReadHeaderTimeout = nanoseconds (sc_ReadHeaderTimeout s), ps_MaxHeaderBytes = sc_MaxHeaderBytes s,
      ps_DisableKeepAlives = sc_DisableKeepAlives s, ps_DisableCompression = sc_DisableCompression s,
      ps_DisableStrictREST = sc_DisableStrictREST s, ps_MaxIdleConns = sc_MaxIdleConns s,
      ps_MaxIdleConnsPerHost = sc_MaxIdleConnsPerHost s,
      ps_IdleConnTimeout = nanoseconds (sc_IdleConnTimeout s),
      ps_ResponseHeaderTimeout = nanoseconds (sc_ResponseHeaderTimeout s),
      ps_ExpectContinueTimeout = nanoseconds (sc_ExpectContinueTimeout s),
      ps_OutputEncoding = sc_OutputEncoding s, ps_DialerTimeout = nanoseconds (sc_DialerTimeout s),
      ps_DialerFallbackDelay = nanoseconds (sc_DialerFallbackDelay s),
      ps_DialerKeepAlive = nanoseconds (sc_DialerKeepAlive s), ps_Debug = sc_Debug s, ps_Echo = sc_Echo s,
      ps_Plugin = sc_Plugin s, ps_TLS = map_option parseable_tls (sc_TLS s),
      ps_ClientTLS = map_option parseable_client_tls (sc_ClientTLS s), ps_UseH2C = sc_UseH2C s,
      ps_DNSCacheTTL = nanoseconds (sc_DNSCacheTTL s),
      ps_MaxShutdownDuration = nanoseconds (sc_MaxShutdownDuration s)\<rparr>"

text \<open>
  What the file format can express: durations of 64 bits; no value of a field that only
  \<open>Init\<close> sets; a scheme for the service discovery; and none of the two switches of the server
  that have no entry in the file.
\<close>

definition writable_backend :: "Backend \<Rightarrow> bool" where
  "writable_backend b \<longleftrightarrow> be_SDScheme b \<noteq> [] \<and> be_URLKeys b = [] \<and> be_ConcurrentCalls b = 0 \<and>
     be_Timeout b = 0 \<and> be_Decoder b = None \<and> be_ParentEndpoint b = [] \<and> be_ParentEndpointMethod b = []"

definition writable_endpoint :: "EndpointConfig \<Rightarrow> bool" where
  "writable_endpoint e \<longleftrightarrow> list_all writable_backend (ep_Backend e) \<and> in64 (ep_Timeout e) \<and> in64 (ep_CacheTTL e)"

definition writable_agent :: "AsyncAgent \<Rightarrow> bool" where
  "writable_agent a \<longleftrightarrow> list_all writable_backend (aa_Backend a) \<and>
     in64 (cn_HealthInterval (aa_Connection a)) \<and> in64 (cs_Timeout (aa_Consumer a))"

definition writable :: "ServiceConfig \<Rightarrow> bool" where
  "writable s \<longleftrightarrow> list_all writable_endpoint (sc_Endpoints s) \<and> list_all writable_agent (sc_AsyncAgents s) \<and>
     list_all in64 [sc_Timeout s, sc_CacheTTL s, sc_ReadTimeout s, sc_WriteTimeout s, sc_IdleTimeout s,
       sc_ReadHeaderTimeout s, sc_IdleConnTimeout s, sc_ResponseHeaderTimeout s, sc_ExpectContinueTimeout s,
       sc_DialerTimeout s, sc_DialerFallbackDelay s, sc_DialerKeepAlive s, sc_DNSCacheTTL s,
       sc_MaxShutdownDuration s] \<and>
     sc_uriParser s = None \<and> \<not> sc_SequentialStart s \<and> \<not> sc_AllowInsecureConnections s"

section \<open>Reading it back\<close>

lemma parseDuration_nanoseconds: "in64 d \<Longrightarrow> parseDuration frac (nanoseconds d) = d"
  by (simp add: parseDuration_def ParseDuration_nanoseconds)

lemma through_pointers_map:
  "(\<And>x. x \<in> set xs \<Longrightarrow> f (g x) = Some x) \<Longrightarrow> through_pointers f (map (\<lambda>x. Some (g x)) xs) = Some xs"
  by (induction xs) auto

lemma backend_normalize_parseable: "writable_backend b \<Longrightarrow> backend_normalize (parseable_backend b) = b"
  by (cases b) (simp add: backend_normalize_def parseable_backend_def writable_backend_def extra_of_def)

lemma backends_normalize_parseable:
  "list_all writable_backend bs \<Longrightarrow> backends_normalize (map (\<lambda>b. Some (parseable_backend b)) bs) = Some bs"
  unfolding backends_normalize_def
  by (rule through_pointers_map) (simp add: backend_normalize_parseable list_all_iff)

lemma endpoint_normalize_parseable:
  "writable_endpoint e \<Longrightarrow> endpoint_normalize frac (parseable_endpoint e) = Some e"
  by (cases e) (simp add: endpoint_normalize_def parseable_endpoint_def writable_endpoint_def extra_of_def
      backends_normalize_parseable parseDuration_nanoseconds)

lemma agent_normalize_parseable:
  "writable_agent a \<Longrightarrow> agent_normalize frac (parseable_agent a) = Some a"
  by (cases a; cases "aa_Connection a"; cases "aa_Consumer a")
    (simp add: agent_normalize_def parseable_agent_def writable_agent_def extra_of_def
      backends_normalize_parseable parseDuration_nanoseconds)

lemma tls_normalize_parseable: "tls_normalize (parseable_tls t) = t"
  by (cases t) (simp add: tls_normalize_def parseable_tls_def o_def map_idI)

lemma client_tls_normalize_parseable: "client_tls_normalize (parseable_client_tls t) = t"
  by (cases t) (simp add: client_tls_normalize_def parseable_client_tls_def o_def map_idI)

lemma service_normalize_parseable: "writable s \<Longrightarrow> service_normalize frac (parseable_of s) = Some s"
proof -
  assume w: "writable s"
  have e: "through_pointers (endpoint_normalize frac) (map (\<lambda>e. Some (parseable_endpoint e)) (sc_Endpoints s))
      = Some (sc_Endpoints s)"
    using w by (intro through_pointers_map endpoint_normalize_parseable) (simp add: writable_def list_all_iff)
  have a: "through_pointers (agent_normalize frac) (map (\<lambda>e. Some (parseable_agent e)) (sc_AsyncAgents s))
      = Some (sc_AsyncAgents s)"
    using w by (intro through_pointers_map agent_normalize_parseable) (simp add: writable_def list_all_iff)
  show ?thesis
    using w e a by (cases s) (simp add: service_normalize_def parseable_of_def writable_def extra_of_def
        parseDuration_nanoseconds option.map_comp o_def option.map_ident tls_normalize_parseable
        client_tls_normalize_parseable)
qed

section \<open>The position of an error\<close>

lemma split_on_several: "c \<in> set s \<Longrightarrow> tl (split_on c s) \<noteq> []"
  by (induction s) (auto split: list.splits)

lemma last_split_on_Cons:
  "last (split_on c (x # xs)) =
     (if x \<noteq> c \<and> c \<notin> set xs then x # last (split_on c xs) else last (split_on c xs))"
proof (cases "split_on c xs")
  case Nil
  then show ?thesis by simp
next
  case (Cons y ys)
  then show ?thesis using split_on_several [of c xs] split_on_no_sep [of c xs] by auto
qed

text \<open>The characters after the last newline, without carriage returns.\<close>

definition column_chars :: "string \<Rightarrow> string" where
  "column_chars s = filter (\<lambda>c. c \<noteq> CHR 0x0D) (last (split_on (CHR 0x0A) s))"

lemma row_col_loop_eq:
  "row_col_loop s row col =
     (row + int (count_list s (CHR 0x0A)),
      (if CHR 0x0A \<in> set s then 0 else col) + int (length (column_chars s)))"
proof (induction s row col rule: row_col_loop.induct)
  case (1 row col)
  then show ?case by (simp add: column_chars_def)
next
  case (2 v vs row col)
  have n: "CHR 0x0A \<noteq> CHR 0x0D" "CHR 0x0D \<noteq> CHR 0x0A" by simp_all
  consider "v = CHR 0x0D" | "v = CHR 0x0A" | "v \<noteq> CHR 0x0D" "v \<noteq> CHR 0x0A" by blast
  then show ?case
    using 2 n by cases (auto simp: column_chars_def last_split_on_Cons simp del: split_on.simps)
qed

text \<open>
  The position of an error is the number of newlines before its offset, and the number of
  characters after the last of them, carriage returns apart; for an offset behind the end of the
  file, the position is the one of the last byte.
\<close>

theorem error_position:
  "getErrorRowCol source off =
     (let before = take (nat (if int (length source) < off then int (length source) - 1 else off)) source
      in (int (count_list before (CHR 0x0A)), int (length (column_chars before))))"
  by (simp add: getErrorRowCol_def Let_def row_col_loop_eq)

section \<open>Panics\<close>

definition has_null :: "parseableServiceConfig \<Rightarrow> bool" where
  "has_null p \<longleftrightarrow>
     (\<exists>e \<in> set (ps_Endpoints p). case e of None \<Rightarrow> True | Some e \<Rightarrow> None \<in> set (pe_Backend e)) \<or>
     (\<exists>a \<in> set (ps_AsyncAgents p). case a of None \<Rightarrow> True | Some a \<Rightarrow> None \<in> set (pa_Backend a))"

lemma through_pointers_None_iff:
  "through_pointers f ps = None \<longleftrightarrow> (\<exists>p \<in> set ps. case p of None \<Rightarrow> True | Some x \<Rightarrow> f x = None)"
  by (induction f ps rule: through_pointers.induct) (auto split: option.splits)

lemma backends_normalize_None_iff: "backends_normalize bs = None \<longleftrightarrow> None \<in> set bs"
  unfolding backends_normalize_def through_pointers_None_iff by (auto split: option.splits)

lemma service_normalize_None_iff: "service_normalize frac p = None \<longleftrightarrow> has_null p"
proof -
  have "service_normalize frac p = None \<longleftrightarrow>
      through_pointers (endpoint_normalize frac) (ps_Endpoints p) = None \<or>
      through_pointers (agent_normalize frac) (ps_AsyncAgents p) = None"
    by (auto simp: service_normalize_def Let_def split: option.splits)
  then show ?thesis
    by (simp add: has_null_def through_pointers_None_iff endpoint_normalize_def agent_normalize_def
        backends_normalize_None_iff cong: option.case_cong)
qed

lemma service_normalize_Some: "service_normalize frac p = Some s \<Longrightarrow> \<not> has_null p"
  using service_normalize_None_iff [of frac p] by simp

text \<open>
  C26: The parser panics exactly when the file was read and decoded and there is a null among
  its endpoints or agents, or among the backends of one.
\<close>

theorem parse_panics_iff:
  "Parse env configFile = None \<longleftrightarrow>
     (\<exists>data cfg. pv_fileReader env configFile = Inr data \<and> pv_Unmarshal env data = Inr cfg \<and> has_null cfg)"
  by (auto simp: Parse_def service_normalize_None_iff dest: service_normalize_Some
      split: sum.splits option.splits)

section \<open>The whole parser\<close>

text \<open>
  C11: Of a file that decodes to a written configuration, the parser returns what \<open>Init\<close> makes
  of that very configuration, every field of it: ready to be served, or the error of \<open>Init\<close> with
  the name of the file.
\<close>

theorem parse_reads_back:
  assumes "writable s" "pv_fileReader env configFile = Inr data" "pv_Unmarshal env data = Inr (parseable_of s)"
  shows "case Init (pv_init env) s of
      Inl err \<Rightarrow> Parse env configFile =
        Some (Inl (FileError (CHR 0x27 # configFile @ CHR 0x27 # '': '' @ config_error_text err)))
    | Inr s' \<Rightarrow> Parse env configFile = Some (Inr s') \<and> config_ready (pv_init env) s'"
  using assms service_normalize_parseable [OF assms(1), of "pv_frac env"] Init_ready [of "pv_init env" s]
  by (auto simp: Parse_def CheckErr_def split: sum.splits)

definition demo_parse_env :: parse_env where
  "demo_parse_env = \<lparr>pv_fileReader = (\<lambda>_. Inr ''file''), pv_os_ReadFile = (\<lambda>_. None),
     pv_Unmarshal = (\<lambda>_. Inr (parseable_of (demo_config\<lparr>sc_Endpoints := []\<rparr>))),
     pv_frac = (\<lambda>_ _ _. 0), pv_init = demo_env\<rparr>"

theorem parse_reads_back_witness:
  "\<exists>s'. Parse demo_parse_env ''k.json'' = Some (Inr s') \<and> sc_Port s' = 8080"
proof -
  have w: "writable (demo_config\<lparr>sc_Endpoints := []\<rparr>)"
    by (simp add: writable_def demo_config_def in64_def)
  have "case Init demo_env (demo_config\<lparr>sc_Endpoints := []\<rparr>) of Inl e \<Rightarrow> False | Inr s \<Rightarrow> sc_Port s = 8080"
    by code_simp
  then show ?thesis
    using parse_reads_back [OF w, of demo_parse_env "''k.json''" "''file''"]
    by (auto simp: demo_parse_env_def split: sum.splits)
qed

end
