(* ===== verification/Async.thy ===== *)
theory Async
  imports Middlewares Backoff Durations
begin

text \<open>
  async/asyncagent.go: the start of the agents. A factory is a parameter: it gets the options of
  an agent, says whether it takes it, and may add functions to the error group, of which the
  model keeps the results. The context, the ping channel, the group and the logger go unchanged
  into the options and are left out of them. A run records what happened to one agent.
\<close>

abbreviation MaxInt :: int where
  "MaxInt \<equiv> 9223372036854775807"

record AgentOptions =
  ao_Agent :: AsyncAgent
  ao_Endpoint :: EndpointConfig
  ao_Proxy :: "Proxy option"
  ao_ShouldContinue :: "int \<Rightarrow> bool"
  ao_BackoffF :: backoff_strategy

type_synonym agent_factory = "AgentOptions \<Rightarrow> bool \<times> goerror option list"

datatype agent_log = AgentStarting string | AgentProxyError string goerror

text \<open>
  \<open>ar_options\<close> is none when the proxy was not built; \<open>ar_answers\<close> are the answers of the
  factories that were called, in order; \<open>ar_tasks\<close> what the functions in the group returned.
\<close>

record agent_run =
  ar_agent :: AsyncAgent
  ar_log :: "agent_log list"
  ar_options :: "AgentOptions option"
  ar_answers :: "bool list"
  ar_tasks :: "goerror option list"

text \<open>\<open>%02d\<close>, of an index.\<close>

definition two_digits :: "nat \<Rightarrow> string" where
  "two_digits i = (if i < 10 then CHR ''0'' # itoa (int i) else itoa (int i))"

definition agent_name :: "nat \<Rightarrow> AsyncAgent \<Rightarrow> AsyncAgent" where
  "agent_name i agent =
     (if aa_Name agent = [] then agent\<lparr>aa_Name := ''AsyncAgent-'' @ two_digits i\<rparr> else agent)"

definition agent_timeouts :: "AsyncAgent \<Rightarrow> AsyncAgent" where
  "agent_timeouts agent =
     agent\<lparr>aa_Backend := map (\<lambda>b. b\<lparr>be_Timeout := cs_Timeout (aa_Consumer agent)\<rparr>) (aa_Backend agent)\<rparr>"

definition agent_endpoint :: "AsyncAgent \<Rightarrow> EndpointConfig" where
  "agent_endpoint agent =
     empty_EndpointConfig\<lparr>ep_Endpoint := aa_Name agent, ep_Timeout := cs_Timeout (aa_Consumer agent),
       ep_Backend := aa_Backend agent, ep_ExtraConfig := aa_ExtraConfig agent\<rparr>"

definition agent_retries :: "AsyncAgent \<Rightarrow> AsyncAgent" where
  "agent_retries agent =
     (if cn_MaxRetries (aa_Connection agent) \<le> 0
      then agent\<lparr>aa_Connection := (aa_Connection agent)\<lparr>cn_MaxRetries := MaxInt\<rparr>\<rparr> else agent)"

definition agent_options :: "AsyncAgent \<Rightarrow> EndpointConfig \<Rightarrow> Proxy option \<Rightarrow> AgentOptions" where
  "agent_options agent endpoint p =
     \<lparr>ao_Agent = agent, ao_Endpoint = endpoint, ao_Proxy = p,
      ao_ShouldContinue = (\<lambda>i. i \<le> cn_MaxRetries (aa_Connection agent)),
      ao_BackoffF = GetByName (cn_BackoffStrategy (aa_Connection agent))\<rparr>"

text \<open>The loop over the factories: it ends at the first that takes the agent.\<close>

fun offer_agent :: "agent_factory list \<Rightarrow> AgentOptions \<Rightarrow> bool list \<times> goerror option list" where
  "offer_agent [] opts = ([], [])"
| "offer_agent (f # fs) opts =
     (case f opts of
        (True, tasks) \<Rightarrow> ([True], tasks)
      | (False, tasks) \<Rightarrow>
          (case offer_agent fs opts of (answers, later) \<Rightarrow> (False # answers, tasks @ later)))"

definition start_agent :: "agent_factory list \<Rightarrow> Factory \<Rightarrow> nat \<Rightarrow> AsyncAgent \<Rightarrow> build_error + agent_run" where
  "start_agent fs pf i agent =
     (let agent = agent_timeouts (agent_name i agent);
          endpoint = agent_endpoint agent
      in case pf endpoint of
           Inl x \<Rightarrow> Inl x
         | Inr (_, Some err) \<Rightarrow>
             Inr \<lparr>ar_agent = agent, ar_log = [AgentStarting (aa_Name agent), AgentProxyError (aa_Name agent) err],
               ar_options = None, ar_answers = [], ar_tasks = []\<rparr>
         | Inr (p, None) \<Rightarrow>
             (let agent = agent_retries agent;
                  opts = agent_options agent endpoint p
              in case offer_agent fs opts of (answers, tasks) \<Rightarrow>
                   Inr \<lparr>ar_agent = agent, ar_log = [AgentStarting (aa_Name agent)], ar_options = Some opts,
                     ar_answers = answers, ar_tasks = tasks\<rparr>))"

fun start_agents :: "agent_factory list \<Rightarrow> Factory \<Rightarrow> nat \<Rightarrow> AsyncAgent list \<Rightarrow> build_error + agent_run list" where
  "start_agents fs pf i [] = Inr []"
| "start_agents fs pf i (agent # agents) =
     (case start_agent fs pf i agent of
        Inl x \<Rightarrow> Inl x
      | Inr r \<Rightarrow>
          (case start_agents fs pf (Suc i) agents of Inl x \<Rightarrow> Inl x | Inr rs \<Rightarrow> Inr (r # rs)))"

text \<open>
  \<open>errgroup.Group.Wait\<close>: the first error in the order in which the functions of the group
  ended (\<open>order\<close>, a permutation of their results).
\<close>

definition group_Wait :: "goerror option list \<Rightarrow> goerror option" where
  "group_Wait order = (case List.find (\<lambda>x. x \<noteq> None) order of None \<Rightarrow> None | Some e \<Rightarrow> e)"

abbreviation ErrNoAgents :: goerror where
  "ErrNoAgents \<equiv> ErrText ''no agent factories defined''"

text \<open>
  The runs and the function that \<open>Start\<close> returns, which waits for the group; without a
  factory no agent is started and it always fails.
\<close>

definition AgentStarter_Start :: "agent_factory list \<Rightarrow> AsyncAgent list \<Rightarrow> Factory \<Rightarrow>
    build_error + agent_run list \<times> (goerror option list \<Rightarrow> goerror option)" where
  "AgentStarter_Start fs agents pf =
     (if length fs = 0 then Inr ([], \<lambda>_. Some ErrNoAgents)
      else case start_agents fs pf 0 agents of Inl x \<Rightarrow> Inl x | Inr rs \<Rightarrow> Inr (rs, group_Wait))"

section \<open>Lemmas\<close>

lemma start_agents_nth:
  "start_agents fs pf i agents = Inr rs \<Longrightarrow>
     length rs = length agents \<and> (\<forall>j < length agents. start_agent fs pf (i + j) (agents ! j) = Inr (rs ! j))"
proof (induction agents arbitrary: i rs)
  case Nil
  then show ?case by simp
next
  case (Cons a agents)
  then obtain r rs' where r: "start_agent fs pf i a = Inr r" "start_agents fs pf (Suc i) agents = Inr rs'" "rs = r # rs'"
    by (auto split: sum.splits)
  from Cons.IH [OF r(2)] r show ?case by (auto simp: nth_Cons split: nat.splits)
qed

lemma offer_agent_answers:
  "fst (offer_agent fs opts) = map (\<lambda>f. fst (f opts)) (take (length (fst (offer_agent fs opts))) fs) \<and>
   (fst (offer_agent fs opts) = replicate (length fs) False \<or>
    (\<exists>k < length fs. fst (offer_agent fs opts) = replicate k False @ [True]))"
proof (induction fs)
  case Nil
  then show ?case by simp
next
  case (Cons f fs)
  obtain a t where f: "f opts = (a, t)" by fastforce
  obtain as ts where o: "offer_agent fs opts = (as, ts)" by fastforce
  show ?case
  proof (cases a)
    case True
    then show ?thesis using f by (auto intro!: exI [of _ 0])
  next
    case False
    from Cons.IH o have "as = map (\<lambda>f. fst (f opts)) (take (length as) fs)"
      and d: "as = replicate (length fs) False \<or> (\<exists>k < length fs. as = replicate k False @ [True])" by auto
    moreover from d have "False # as = replicate (length (f # fs)) False \<or>
        (\<exists>k < length (f # fs). False # as = replicate k False @ [True])"
      by (metis Suc_mono append_Cons length_Cons replicate_Suc)
    ultimately show ?thesis using f o False by simp
  qed
qed

lemma two_digits_inj: "two_digits i = two_digits j \<Longrightarrow> i = j"
proof -
  have v: "digits_value (two_digits n) = n" for n
    using digits_of_nat_ok [of n] by (simp add: two_digits_def itoa_def digits_value_foldl digit_of_def)
  assume "two_digits i = two_digits j"
  then show ?thesis using v by metis
qed

lemma group_Wait_None_iff: "group_Wait order = None \<longleftrightarrow> (\<forall>x \<in> set order. x = None)"
  unfolding group_Wait_def by (induction order) auto

lemma start_agent_options:
  "start_agent fs pf i a = Inr r \<Longrightarrow> ar_options r = Some opts \<Longrightarrow>
     opts = agent_options (agent_retries (agent_timeouts (agent_name i a)))
       (agent_endpoint (agent_timeouts (agent_name i a))) (ao_Proxy opts)"
  by (auto simp: start_agent_def Let_def agent_options_def split: sum.splits prod.splits option.splits)

lemma agent_max_retries [simp]:
  "cn_MaxRetries (aa_Connection (agent_retries (agent_timeouts (agent_name i a)))) =
     (if cn_MaxRetries (aa_Connection a) \<le> 0 then MaxInt else cn_MaxRetries (aa_Connection a))"
  by (simp add: agent_retries_def agent_timeouts_def agent_name_def)

lemma start_Inr:
  "AgentStarter_Start fs agents pf = Inr (rs, wait) \<Longrightarrow> fs \<noteq> [] \<Longrightarrow>
     start_agents fs pf 0 agents = Inr rs \<and> wait = group_Wait"
  by (auto simp: AgentStarter_Start_def split: sum.splits)

section \<open>Properties\<close>

text \<open>
  Agents are started independently of each other. One whose proxy cannot be built is skipped;
  any other is offered to the factories in their order, all with the same options, until the first
  that takes it; the names filled in for agents without one differ.
\<close>

theorem agents_started_independently:
  assumes "AgentStarter_Start fs agents pf = Inr (rs, wait)" "fs \<noteq> []" "j < length agents"
  shows "case pf (agent_endpoint (agent_timeouts (agent_name j (agents ! j)))) of
      Inl x \<Rightarrow> False
    | Inr (p, Some err) \<Rightarrow> ar_options (rs ! j) = None \<and> ar_answers (rs ! j) = []
    | Inr (p, None) \<Rightarrow> (\<exists>opts. ar_options (rs ! j) = Some opts \<and> ao_Proxy opts = p \<and>
        ar_answers (rs ! j) = map (\<lambda>f. fst (f opts)) (take (length (ar_answers (rs ! j))) fs) \<and>
        (ar_answers (rs ! j) = replicate (length fs) False \<or>
         (\<exists>k < length fs. ar_answers (rs ! j) = replicate k False @ [True])))"
proof -
  from start_agents_nth start_Inr [OF assms(1,2)] assms(3)
  have r: "start_agent fs pf j (agents ! j) = Inr (rs ! j)" by fastforce
  show ?thesis
  proof (cases "pf (agent_endpoint (agent_timeouts (agent_name j (agents ! j))))")
    case (Inl x)
    with r show ?thesis by (simp add: start_agent_def Let_def)
  next
    case (Inr pe)
    obtain p e where pe: "pe = (p, e)" by fastforce
    show ?thesis
    proof (cases e)
      case (Some err)
      with r Inr pe show ?thesis by (auto simp: start_agent_def Let_def dest!: sym [of _ "rs ! j"])
    next
      case None
      define opts where "opts = agent_options (agent_retries (agent_timeouts (agent_name j (agents ! j))))
        (agent_endpoint (agent_timeouts (agent_name j (agents ! j)))) p"
      have "ar_options (rs ! j) = Some opts" "ar_answers (rs ! j) = fst (offer_agent fs opts)"
        using r Inr pe None by (auto simp: start_agent_def Let_def opts_def split: prod.splits dest!: sym [of _ "rs ! j"])
      moreover have "ao_Proxy opts = p" by (simp add: opts_def agent_options_def)
      ultimately show ?thesis using Inr pe None offer_agent_answers [of fs opts] by simp
    qed
  qed
qed

definition demo_agent :: AsyncAgent where
  "demo_agent = \<lparr>aa_Name = [],
     aa_Connection = \<lparr>cn_MaxRetries = 0, cn_BackoffStrategy = ''linear'', cn_HealthInterval = 1\<rparr>,
     aa_Consumer = \<lparr>cs_Timeout = 5, cs_Workers = 1, cs_Topic = [], cs_MaxRate = 0\<rparr>,
     aa_Encoding = [], aa_Backend = [empty_Backend], aa_ExtraConfig = []\<rparr>"

lemma demo_agents_start:
  "\<exists>rs wait. AgentStarter_Start [\<lambda>_. (False, []), \<lambda>_. (True, [])] [demo_agent] (\<lambda>e. Inr (Some NoopProxy, None))
     = Inr (rs, wait) \<and> length rs = 1 \<and> ar_options (rs ! 0) \<noteq> None"
  by (simp add: AgentStarter_Start_def start_agent_def Let_def)

theorem agents_started_independently_witness:
  "\<exists>rs wait. AgentStarter_Start [\<lambda>_. (False, []), \<lambda>_. (True, [])] [demo_agent] (\<lambda>e. Inr (Some NoopProxy, None))
     = Inr (rs, wait) \<and> (ar_answers (rs ! 0) = [False, False] \<or> (\<exists>k < 2. ar_answers (rs ! 0) = replicate k False @ [True]))"
proof -
  obtain rs wait where s: "AgentStarter_Start [\<lambda>_. (False, []), \<lambda>_. (True, [])] [demo_agent]
      (\<lambda>e. Inr (Some NoopProxy, None)) = Inr (rs, wait)" using demo_agents_start by blast
  from agents_started_independently [OF s, of 0] s show ?thesis by (auto simp: numeral_2_eq_2)
qed

text \<open>
  C27: An agent configured without a positive number of retries never gives up: its options tell
  it to continue at every count an \<open>int\<close> can have, and one with a positive number continues
  exactly up to that number. With a strategy without jitter there is always a time to wait.
\<close>

theorem agent_keeps_retrying:
  assumes "AgentStarter_Start fs agents pf = Inr (rs, wait)" "fs \<noteq> []" "j < length agents"
    "ar_options (rs ! j) = Some opts" "in64 i"
  shows "(ao_ShouldContinue opts i \<longleftrightarrow>
      cn_MaxRetries (aa_Connection (agents ! j)) \<le> 0 \<or> i \<le> cn_MaxRetries (aa_Connection (agents ! j))) \<and>
    (to_lower (cn_BackoffStrategy (aa_Connection (agents ! j))) \<notin> {''linear-jitter'', ''exponential-jitter''} \<longrightarrow>
       ao_BackoffF opts rnd i \<noteq> None)"
proof -
  from start_agents_nth start_Inr [OF assms(1,2)] assms(3)
  have r: "start_agent fs pf j (agents ! j) = Inr (rs ! j)" by fastforce
  have b: "cn_BackoffStrategy (aa_Connection (agent_retries (agent_timeouts (agent_name j a)))) =
      cn_BackoffStrategy (aa_Connection a)" for a
    by (simp add: agent_retries_def agent_timeouts_def agent_name_def)
  have o: "ao_ShouldContinue opts i \<longleftrightarrow> i \<le> (if cn_MaxRetries (aa_Connection (agents ! j)) \<le> 0 then MaxInt
        else cn_MaxRetries (aa_Connection (agents ! j)))"
    "ao_BackoffF opts = GetByName (cn_BackoffStrategy (aa_Connection (agents ! j)))"
    by (subst start_agent_options [OF r assms(4)], simp add: agent_options_def b)+
  from o assms(5) show ?thesis
    by (auto simp: in64_def GetByName_def Let_def LinearBackoff_def ExponentialBackoff_def DefaultBackoff_def)
qed

theorem agent_keeps_retrying_witness:
  "\<exists>rs wait opts. AgentStarter_Start [\<lambda>_. (False, []), \<lambda>_. (True, [])] [demo_agent] (\<lambda>e. Inr (Some NoopProxy, None))
     = Inr (rs, wait) \<and> ar_options (rs ! 0) = Some opts \<and> ao_ShouldContinue opts 1000000"
proof -
  obtain rs wait opts where s: "AgentStarter_Start [\<lambda>_. (False, []), \<lambda>_. (True, [])] [demo_agent]
      (\<lambda>e. Inr (Some NoopProxy, None)) = Inr (rs, wait)" "ar_options (rs ! 0) = Some opts"
    using demo_agents_start by blast
  from agent_keeps_retrying [OF s(1) _ _ s(2), of 1000000 "\<lambda>_. 0"] s show ?thesis
    by (auto simp: in64_def demo_agent_def)
qed

text \<open>
  The function that \<open>Start\<close> returns gives no error exactly when there is a factory and no
  function of the group failed, in whatever order they end.
\<close>

theorem wait_without_error:
  assumes "AgentStarter_Start fs agents pf = Inr (rs, wait)" "mset order = mset (concat (map ar_tasks rs))"
  shows "wait order = None \<longleftrightarrow> fs \<noteq> [] \<and> (\<forall>r \<in> set rs. \<forall>t \<in> set (ar_tasks r). t = None)"
proof -
  have o: "set order = (\<Union>r \<in> set rs. set (ar_tasks r))" using mset_eq_setD [OF assms(2)] by simp
  show ?thesis
  proof (cases "fs = []")
    case True
    with assms(1) show ?thesis by (auto simp: AgentStarter_Start_def)
  next
    case False
    with start_Inr [OF assms(1) False] o show ?thesis by (auto simp: group_Wait_None_iff)
  qed
qed

theorem wait_without_error_witness:
  "\<exists>rs wait. AgentStarter_Start [] [demo_agent] (\<lambda>e. Inr (None, None)) = Inr (rs, wait) \<and> wait [] \<noteq> None"
proof -
  have s: "AgentStarter_Start [] [demo_agent] (\<lambda>e. Inr (None, None)) = Inr ([], \<lambda>_. Some ErrNoAgents)"
    by (simp add: AgentStarter_Start_def)
  from wait_without_error [OF s, of "[]"] s show ?thesis by simp
qed

end
