(* ===== verification/Logging.thy ===== *)
theory Logging
  imports Prelude
begin

text \<open>
  logging/log.go: the levels and the basic logger. The operands of a message are given with the
  text that Println writes for them; a line has the time stamp of package log in front, which is
  a parameter, and goes to the logger's output. What a call does is the list of lines written
  and whether the process exits.
\<close>

definition LEVEL_DEBUG :: int where "LEVEL_DEBUG = 0"
definition LEVEL_INFO :: int where "LEVEL_INFO = 1"
definition LEVEL_WARNING :: int where "LEVEL_WARNING = 2"
definition LEVEL_ERROR :: int where "LEVEL_ERROR = 3"
definition LEVEL_CRITICAL :: int where "LEVEL_CRITICAL = 4"

lemmas level_defs = LEVEL_DEBUG_def LEVEL_INFO_def LEVEL_WARNING_def LEVEL_ERROR_def LEVEL_CRITICAL_def

definition logLevels :: "int gmap" where
  "logLevels =
     [(''DEBUG'', LEVEL_DEBUG), (''INFO'', LEVEL_INFO), (''WARNING'', LEVEL_WARNING), (''ERROR'', LEVEL_ERROR),
      (''CRITICAL'', LEVEL_CRITICAL)]"

datatype log_output = Stderr | Writer nat

record BasicLogger =
  bl_Level :: int
  bl_Prefix :: string
  bl_Logger :: log_output

definition defaultLogger :: BasicLogger where
  "defaultLogger = \<lparr>bl_Level = LEVEL_CRITICAL, bl_Prefix = [], bl_Logger = Stderr\<rparr>"

definition ErrInvalidLogLevel :: string where
  "ErrInvalidLogLevel = ''invalid log level''"

definition NewLogger :: "string \<Rightarrow> log_output \<Rightarrow> string \<Rightarrow> BasicLogger \<times> string option" where
  "NewLogger level out prefx =
     (case map_of logLevels (to_upper level) of
        None \<Rightarrow> (defaultLogger, Some ErrInvalidLogLevel)
      | Some l \<Rightarrow> (\<lparr>bl_Level = l, bl_Prefix = prefx, bl_Logger = out\<rparr>, None))"

record log_effect =
  le_lines :: "(log_output \<times> string) list"
  le_exit :: "int option"

definition no_effect :: log_effect where
  "no_effect = \<lparr>le_lines = [], le_exit = None\<rparr>"

definition prependLog :: "string \<Rightarrow> BasicLogger \<Rightarrow> string \<Rightarrow> string list \<Rightarrow> log_effect" where
  "prependLog stamp l level v =
     \<lparr>le_lines = [(bl_Logger l, stamp @ join_with '' '' (bl_Prefix l # level # v) @ [CHR 0x0A])], le_exit = None\<rparr>"

definition log_Debug :: "string \<Rightarrow> BasicLogger \<Rightarrow> string list \<Rightarrow> log_effect" where
  "log_Debug stamp l v = (if bl_Level l > LEVEL_DEBUG then no_effect else prependLog stamp l ''DEBUG:'' v)"

definition log_Info :: "string \<Rightarrow> BasicLogger \<Rightarrow> string list \<Rightarrow> log_effect" where
  "log_Info stamp l v = (if bl_Level l > LEVEL_INFO then no_effect else prependLog stamp l ''INFO:'' v)"

definition log_Warning :: "string \<Rightarrow> BasicLogger \<Rightarrow> string list \<Rightarrow> log_effect" where
  "log_Warning stamp l v = (if bl_Level l > LEVEL_WARNING then no_effect else prependLog stamp l ''WARNING:'' v)"

definition log_Error :: "string \<Rightarrow> BasicLogger \<Rightarrow> string list \<Rightarrow> log_effect" where
  "log_Error stamp l v = (if bl_Level l > LEVEL_ERROR then no_effect else prependLog stamp l ''ERROR:'' v)"

definition log_Critical :: "string \<Rightarrow> BasicLogger \<Rightarrow> string list \<Rightarrow> log_effect" where
  "log_Critical stamp l v = prependLog stamp l ''CRITICAL:'' v"

definition log_Fatal :: "string \<Rightarrow> BasicLogger \<Rightarrow> string list \<Rightarrow> log_effect" where
  "log_Fatal stamp l v = (prependLog stamp l ''FATAL:'' v)\<lparr>le_exit := Some 1\<rparr>"

section \<open>Lemmas\<close>

text \<open>
  The method of each level name; a logger writes exactly the messages of its own level and of
  the levels above it, and only a fatal one ends the process.
\<close>

definition log_methods :: "(string \<times> (string \<Rightarrow> BasicLogger \<Rightarrow> string list \<Rightarrow> log_effect)) list" where
  "log_methods =
     [(''DEBUG'', log_Debug), (''INFO'', log_Info), (''WARNING'', log_Warning), (''ERROR'', log_Error),
      (''CRITICAL'', log_Critical)]"

lemmas log_method_defs = log_Debug_def log_Info_def log_Warning_def log_Error_def log_Critical_def

lemma logLevels_cases:
  "map_of logLevels n = Some k \<Longrightarrow>
     (n, k) \<in> {(''DEBUG'', 0), (''INFO'', 1), (''WARNING'', 2), (''ERROR'', 3), (''CRITICAL'', 4)}"
  by (auto simp: logLevels_def level_defs split: if_splits)

text \<open>
  A logger of a known level, in any case, writes a message of a level exactly when that
  level is at or above its own, as one line with its prefix; it never ends the process with it.
\<close>

theorem logger_filters_levels:
  assumes "map_of logLevels (to_upper level) = Some l" "map_of logLevels name = Some k"
    "map_of log_methods name = Some log_it"
  shows "\<exists>lg. NewLogger level out prefx = (lg, None) \<and>
    log_it stamp lg v =
      (if l \<le> k
       then \<lparr>le_lines = [(out, stamp @ join_with '' '' (prefx # (name @ '':'') # v) @ [CHR 0x0A])], le_exit = None\<rparr>
       else no_effect)"
proof -
  have lg: "NewLogger level out prefx = (\<lparr>bl_Level = l, bl_Prefix = prefx, bl_Logger = out\<rparr>, None)"
    using assms(1) by (simp add: NewLogger_def)
  have l: "l \<in> {0, 1, 2, 3, 4}" using logLevels_cases [OF assms(1)] by auto
  from logLevels_cases [OF assms(2)] assms(3) l lg show ?thesis
    by (auto simp: log_methods_def log_method_defs level_defs prependLog_def)
qed

theorem logger_filters_levels_witness:
  "\<exists>lg. NewLogger ''warning'' (Writer 0) ''[K]'' = (lg, None) \<and> log_Info [] lg [''x''] = no_effect"
proof -
  have "to_upper ''warning'' = ''WARNING''" by code_simp
  then show ?thesis
    using logger_filters_levels [of "''warning''" 2 "''INFO''" 1 log_Info "Writer 0" "''[K]''" "[]" "[''x'']"]
    by (simp add: logLevels_def level_defs log_methods_def)
qed

end
