(* ===== verification/Server.thy ===== *)
theory Server
  imports ConfigTypes
begin

text \<open>
  transport/http/server/server.go: the configuration of the http server, of its TLS layer and of
  the default transport, the loading of certificates, and the life of a running server. Reading
  files, certificate pools and key pairs of crypto/tls and crypto/x509 are parameters; a server
  and a transport are records of the fields the code sets.
\<close>

abbreviation StatusInternalServerError :: int where
  "StatusInternalServerError \<equiv> 500"

definition DefaultToHTTPError :: "goerror \<Rightarrow> int" where
  "DefaultToHTTPError e = StatusInternalServerError"

definition HeaderCompleteResponseValue :: string where
  "HeaderCompleteResponseValue = ''true''"

definition HeaderIncompleteResponseValue :: string where
  "HeaderIncompleteResponseValue = ''false''"

definition CompleteResponseHeaderName :: string where
  "CompleteResponseHeaderName = ''X-Krakend-Completed''"

definition HeadersToSend :: "string list" where
  "HeadersToSend = [''Content-Type'']"

definition ErrInternalError :: goerror where
  "ErrInternalError = ErrText ''internal server error''"

definition ErrPrivateKey :: goerror where
  "ErrPrivateKey = ErrText ''private key not defined''"

definition ErrPublicKey :: goerror where
  "ErrPublicKey = ErrText ''public key not defined''"

section \<open>TLS\<close>

record ('p, 'c) tls_lib =
  tl_NewCertPool :: 'p
  tl_SystemCertPool :: "string + 'p"
  tl_AppendCertsFromPEM :: "'p \<Rightarrow> string \<Rightarrow> 'p"
  tl_ReadFile :: "string \<Rightarrow> string + string"
  tl_LoadX509KeyPair :: "string \<Rightarrow> string \<Rightarrow> goerror + 'c"

record ('p, 'c) tls_Config =
  tc_InsecureSkipVerify :: bool
  tc_RootCAs :: "'p option"
  tc_MinVersion :: uint16
  tc_MaxVersion :: uint16
  tc_CurvePreferences :: "uint16 list"
  tc_CipherSuites :: "uint16 list"
  tc_Certificates :: "'c list"
  tc_ClientCAs :: "'p option"
  tc_RequireClientCert :: bool

definition defaultCurves :: "uint16 list" where
  "defaultCurves = [25, 24, 23]"

definition defaultCipherSuites :: "uint16 list" where
  "defaultCipherSuites = [0xC02F, 0xC02B, 0xC030, 0xC02C, 0xCCA8, 0xCCA9]"

abbreviation VersionTLS13 :: uint16 where
  "VersionTLS13 \<equiv> 0x0304"

definition versions :: "uint16 gmap" where
  "versions =
     [(''SSL3.0'', 0x0300), (''TLS10'', 0x0301), (''TLS11'', 0x0302), (''TLS12'', 0x0303), (''TLS13'', VersionTLS13)]"

definition parseTLSVersion :: "string \<Rightarrow> uint16" where
  "parseTLSVersion key = (case map_of versions key of Some v \<Rightarrow> v | None \<Rightarrow> VersionTLS13)"

definition parseCurveIDs :: "uint16 list \<Rightarrow> uint16 list" where
  "parseCurveIDs curvePreferences = (if length curvePreferences = 0 then defaultCurves else curvePreferences)"

definition parseCipherSuites :: "uint16 list \<Rightarrow> uint16 list" where
  "parseCipherSuites cipherSuites = (if length cipherSuites = 0 then defaultCipherSuites else cipherSuites)"

text \<open>
  The loops over files: one that cannot be read is logged and left out. \<open>logger\<close> says whether
  the logger is not nil; logging to a nil one panics (\<open>None\<close>).
\<close>

datatype server_log =
    NoSystemPool string
  | NoCertificateCA string string
  | NoPublicKey string string
  | NoClientCert string string goerror

type_synonym 'a logged = "('a \<times> server_log list) option"

definition log_server :: "bool \<Rightarrow> server_log \<Rightarrow> 'a logged \<Rightarrow> 'a logged" where
  "log_server logger msg r = (if logger then map_option (\<lambda>(x, ls). (x, msg # ls)) r else None)"

fun append_files :: "('p, 'c) tls_lib \<Rightarrow> bool \<Rightarrow> (string \<Rightarrow> string \<Rightarrow> server_log) \<Rightarrow> string list \<Rightarrow> 'p \<Rightarrow> 'p logged" where
  "append_files lib logger msg [] certPool = Some (certPool, [])"
| "append_files lib logger msg (path # paths) certPool =
     (case tl_ReadFile lib path of
        Inr ca \<Rightarrow> append_files lib logger msg paths (tl_AppendCertsFromPEM lib certPool ca)
      | Inl err \<Rightarrow> log_server logger (msg path err) (append_files lib logger msg paths certPool))"

definition loadCertPool :: "('p, 'c) tls_lib \<Rightarrow> bool \<Rightarrow> string list \<Rightarrow> bool \<Rightarrow> 'p logged" where
  "loadCertPool lib disableSystemCaPool caCerts logger =
     (let load = append_files lib logger NoCertificateCA caCerts
      in if disableSystemCaPool then load (tl_NewCertPool lib)
         else case tl_SystemCertPool lib of
           Inr systemCertPool \<Rightarrow> load systemCertPool
         | Inl err \<Rightarrow> log_server logger (NoSystemPool err) (load (tl_NewCertPool lib)))"

fun loadClientCerts :: "('p, 'c) tls_lib \<Rightarrow> ClientTLSCert list \<Rightarrow> bool \<Rightarrow> 'c list logged" where
  "loadClientCerts lib [] logger = Some ([], [])"
| "loadClientCerts lib (c # cs) logger =
     (case tl_LoadX509KeyPair lib (cc_Certificate c) (cc_PrivateKey c) of
        Inl err \<Rightarrow>
          log_server logger (NoClientCert (cc_Certificate c) (cc_PrivateKey c) err) (loadClientCerts lib cs logger)
      | Inr cert \<Rightarrow> map_option (\<lambda>(certs, ls). (cert # certs, ls)) (loadClientCerts lib cs logger))"

text \<open>A nil logger is replaced by the one that discards its lines, so this never panics.\<close>

definition ParseTLSConfigWithLogger :: "('p, 'c) tls_lib \<Rightarrow> TLS option \<Rightarrow> ('p, 'c) tls_Config option logged" where
  "ParseTLSConfigWithLogger lib cfg =
     (case cfg of
        None \<Rightarrow> Some (None, [])
      | Some cfg \<Rightarrow>
          if tls_IsDisabled cfg then Some (None, [])
          else let tlsConfig =
              \<lparr>tc_InsecureSkipVerify = False, tc_RootCAs = None, tc_MinVersion = parseTLSVersion (tls_MinVersion cfg),
               tc_MaxVersion = parseTLSVersion (tls_MaxVersion cfg),
               tc_CurvePreferences = parseCurveIDs (tls_CurvePreferences cfg),
               tc_CipherSuites = parseCipherSuites (tls_CipherSuites cfg), tc_Certificates = [], tc_ClientCAs = None,
               tc_RequireClientCert = False\<rparr>
            in if \<not> tls_EnableMTLS cfg then Some (Some tlsConfig, [])
               else case loadCertPool lib (tls_DisableSystemCaPool cfg) (tls_CaCerts cfg) True of
                 None \<Rightarrow> None
               | Some (certPool, ls) \<Rightarrow>
                   (case append_files lib True NoPublicKey (map kp_PublicKey (tls_Keys cfg)) certPool of
                      None \<Rightarrow> None
                    | Some (certPool, ls') \<Rightarrow>
                        Some (Some (tlsConfig\<lparr>tc_ClientCAs := Some certPool, tc_RequireClientCert := True\<rparr>), ls @ ls')))"

definition ParseClientTLSConfigWithLogger ::
  "('p, 'c) tls_lib \<Rightarrow> ClientTLS option \<Rightarrow> bool \<Rightarrow> ('p, 'c) tls_Config option logged" where
  "ParseClientTLSConfigWithLogger lib cfg logger =
     (case cfg of
        None \<Rightarrow> Some (None, [])
      | Some cfg \<Rightarrow>
          (case loadCertPool lib (ct_DisableSystemCaPool cfg) (ct_CaCerts cfg) logger of
             None \<Rightarrow> None
           | Some (pool, ls) \<Rightarrow>
               (case loadClientCerts lib (ct_ClientCerts cfg) logger of
                  None \<Rightarrow> None
                | Some (certs, ls') \<Rightarrow>
                    Some (Some \<lparr>tc_InsecureSkipVerify = ct_AllowInsecureConnections cfg, tc_RootCAs = Some pool,
                      tc_MinVersion = parseTLSVersion (ct_MinVersion cfg),
                      tc_MaxVersion = parseTLSVersion (ct_MaxVersion cfg),
                      tc_CurvePreferences = parseCurveIDs (ct_CurvePreferences cfg),
                      tc_CipherSuites = parseCipherSuites (ct_CipherSuites cfg), tc_Certificates = certs,
                      tc_ClientCAs = None, tc_RequireClientCert = False\<rparr>, ls @ ls'))))"

section \<open>The default transport\<close>

record ('p, 'c) http_Transport =
  tr_Dialer_Timeout :: int
  tr_Dialer_KeepAlive :: int
  tr_Dialer_FallbackDelay :: int
  tr_DisableCompression :: bool
  tr_DisableKeepAlives :: bool
  tr_MaxIdleConns :: int
  tr_MaxIdleConnsPerHost :: int
  tr_IdleConnTimeout :: int
  tr_ResponseHeaderTimeout :: int
  tr_ExpectContinueTimeout :: int
  tr_TLSHandshakeTimeout :: int
  tr_TLSClientConfig :: "('p, 'c) tls_Config option"

definition NewTransport :: "('p, 'c) tls_lib \<Rightarrow> ServiceConfig \<Rightarrow> bool \<Rightarrow> ('p, 'c) http_Transport logged" where
  "NewTransport lib cfg logger =
     map_option (\<lambda>(tlsc, ls).
       (\<lparr>tr_Dialer_Timeout = sc_DialerTimeout cfg, tr_Dialer_KeepAlive = sc_DialerKeepAlive cfg,
         tr_Dialer_FallbackDelay = sc_DialerFallbackDelay cfg, tr_DisableCompression = sc_DisableCompression cfg,
         tr_DisableKeepAlives = sc_DisableKeepAlives cfg, tr_MaxIdleConns = sc_MaxIdleConns cfg,
         tr_MaxIdleConnsPerHost = sc_MaxIdleConnsPerHost cfg, tr_IdleConnTimeout = sc_IdleConnTimeout cfg,
         tr_ResponseHeaderTimeout = sc_ResponseHeaderTimeout cfg,
         tr_ExpectContinueTimeout = sc_ExpectContinueTimeout cfg, tr_TLSHandshakeTimeout = 10 * time_Second,
         tr_TLSClientConfig = tlsc\<rparr>, ls))
     (ParseClientTLSConfigWithLogger lib (sc_ClientTLS cfg) logger)"

text \<open>The zero value of the client's TLS section.\<close>

definition empty_ClientTLS :: ClientTLS where
  "empty_ClientTLS = \<lparr>ct_AllowInsecureConnections = False, ct_CaCerts = [], ct_DisableSystemCaPool = False,
     ct_MinVersion = [], ct_MaxVersion = [], ct_CurvePreferences = [], ct_CipherSuites = [], ct_ClientCerts = []\<rparr>"

text \<open>
  The state that \<open>sync.Once\<close> guards: whether it has run, and the default transport. The switch
  for insecure connections is also left in the section the caller's pointer leads to, when there
  is one: the first component. No nil logger gets here, so nothing panics
  (\<open>NewTransport_logs\<close>).
\<close>

record ('p, 'c) transport_state =
  ts_done :: bool
  ts_DefaultTransport :: "('p, 'c) http_Transport option"

definition InitHTTPDefaultTransportWithLogger ::
  "('p, 'c) tls_lib \<Rightarrow> ServiceConfig \<Rightarrow> ('p, 'c) transport_state \<Rightarrow> ClientTLS option \<times> ('p, 'c) transport_state" where
  "InitHTTPDefaultTransportWithLogger lib cfg st =
     (let insecure = (\<lambda>t. t\<lparr>ct_AllowInsecureConnections := True\<rparr>);
          caller = (if sc_AllowInsecureConnections cfg then map_option insecure (sc_ClientTLS cfg) else sc_ClientTLS cfg);
          cfg = (if sc_AllowInsecureConnections cfg
                 then cfg\<lparr>sc_ClientTLS := Some (insecure (case sc_ClientTLS cfg of None \<Rightarrow> empty_ClientTLS | Some t \<Rightarrow> t))\<rparr>
                 else cfg)
      in if ts_done st then (caller, st)
         else case NewTransport lib cfg True of
           None \<Rightarrow> (caller, st\<lparr>ts_done := True\<rparr>)
         | Some (t, ls) \<Rightarrow> (caller, \<lparr>ts_done = True, ts_DefaultTransport = Some t\<rparr>))"

section \<open>The server\<close>

text \<open>\<open>net.JoinHostPort\<close>\<close>

definition JoinHostPort :: "string \<Rightarrow> string \<Rightarrow> string" where
  "JoinHostPort host port =
     (if CHR '':'' \<in> set host then ''['' @ host @ '']:'' @ port else host @ '':'' @ port)"

record ('h, 'p, 'c) http_Server =
  sv_Addr :: string
  sv_Handler :: 'h
  sv_ReadTimeout :: int
  sv_WriteTimeout :: int
  sv_ReadHeaderTimeout :: int
  sv_IdleTimeout :: int
  sv_TLSConfig :: "('p, 'c) tls_Config option"
  sv_MaxHeaderBytes :: int

text \<open>\<open>h2c\<close> wraps the handler for cleartext HTTP/2.\<close>

definition NewServerWithLogger ::
  "('p, 'c) tls_lib \<Rightarrow> ('h \<Rightarrow> 'h) \<Rightarrow> ServiceConfig \<Rightarrow> 'h \<Rightarrow> ('h, 'p, 'c) http_Server logged" where
  "NewServerWithLogger lib h2c cfg handler =
     (let handler = (if sc_UseH2C cfg then h2c handler else handler)
      in map_option (\<lambda>(tlsc, ls).
           (\<lparr>sv_Addr = JoinHostPort (sc_Address cfg) (itoa (sc_Port cfg)), sv_Handler = handler,
             sv_ReadTimeout = sc_ReadTimeout cfg, sv_WriteTimeout = sc_WriteTimeout cfg,
             sv_ReadHeaderTimeout = sc_ReadHeaderTimeout cfg, sv_IdleTimeout = sc_IdleTimeout cfg,
             sv_TLSConfig = tlsc, sv_MaxHeaderBytes = sc_MaxHeaderBytes cfg\<rparr>, ls))
         (ParseTLSConfigWithLogger lib (sc_TLS cfg)))"

text \<open>Without a logger the lines are lost.\<close>

definition ParseTLSConfig :: "('p, 'c) tls_lib \<Rightarrow> TLS option \<Rightarrow> ('p, 'c) tls_Config option option" where
  "ParseTLSConfig lib cfg = map_option fst (ParseTLSConfigWithLogger lib cfg)"

definition NewServer :: "('p, 'c) tls_lib \<Rightarrow> ('h \<Rightarrow> 'h) \<Rightarrow> ServiceConfig \<Rightarrow> 'h \<Rightarrow> ('h, 'p, 'c) http_Server option" where
  "NewServer lib h2c cfg handler = map_option fst (NewServerWithLogger lib h2c cfg handler)"

definition InitHTTPDefaultTransport ::
  "('p, 'c) tls_lib \<Rightarrow> ServiceConfig \<Rightarrow> ('p, 'c) transport_state \<Rightarrow> ClientTLS option \<times> ('p, 'c) transport_state" where
  "InitHTTPDefaultTransport lib cfg st = InitHTTPDefaultTransportWithLogger lib cfg st"

text \<open>The loop over the key pairs: the certificates, or the first error.\<close>

fun load_key_pairs :: "('p, 'c) tls_lib \<Rightarrow> TLSKeyPair list \<Rightarrow> goerror + 'c list" where
  "load_key_pairs lib [] = Inr []"
| "load_key_pairs lib (k # ks) =
     (if kp_PublicKey k = [] then Inl ErrPublicKey
      else if kp_PrivateKey k = [] then Inl ErrPrivateKey
      else case tl_LoadX509KeyPair lib (kp_PublicKey k) (kp_PrivateKey k) of
        Inl err \<Rightarrow> Inl err
      | Inr cert \<Rightarrow> (case load_key_pairs lib ks of Inl err \<Rightarrow> Inl err | Inr certs \<Rightarrow> Inr (cert # certs)))"

text \<open>
  The first half of \<open>RunServerWithLoggerFactory\<close>, up to the goroutine that serves: the server,
  whether it serves with TLS, and the TLS section, in which the loop leaves the pair of the
  section itself, since the configuration only holds a pointer to it.
\<close>

definition tls_with_own_pair :: "TLS \<Rightarrow> TLS" where
  "tls_with_own_pair t =
     (if tls_PublicKey t \<noteq> [] \<or> tls_PrivateKey t \<noteq> []
      then t\<lparr>tls_Keys := tls_Keys t @ [\<lparr>kp_PublicKey = tls_PublicKey t, kp_PrivateKey = tls_PrivateKey t\<rparr>]\<rparr> else t)"

definition prepare_server ::
  "('p, 'c) tls_lib \<Rightarrow> ('h \<Rightarrow> 'h) \<Rightarrow> ServiceConfig \<Rightarrow> 'h \<Rightarrow>
     ((goerror + ('h, 'p, 'c) http_Server \<times> bool) \<times> TLS option) option" where
  "prepare_server lib h2c cfg handler =
     (case NewServerWithLogger lib h2c cfg handler of
        None \<Rightarrow> None
      | Some (s, ls) \<Rightarrow>
          (case (sv_TLSConfig s, sc_TLS cfg) of
             (Some tlsc, Some t) \<Rightarrow>
               (let t = tls_with_own_pair t
                in if length (tls_Keys t) = 0 then Some (Inl ErrPublicKey, Some t)
                   else case load_key_pairs lib (tls_Keys t) of
                     Inl err \<Rightarrow> Some (Inl err, Some t)
                   | Inr certs \<Rightarrow>
                       Some (Inr (s\<lparr>sv_TLSConfig := Some (tlsc\<lparr>tc_Certificates := tc_Certificates tlsc @ certs\<rparr>)\<rparr>, True),
                         Some t))
           | (Some tlsc, None) \<Rightarrow> None
           | (None, t) \<Rightarrow> Some (Inr (s, False), t)))"

text \<open>
  The second half: the goroutine that serves and sends the error of \<open>ListenAndServe\<close>, and the
  caller, which waits for it or for the context. What net/http and the caller's context do is
  the environment: the error with which the server ends on its own, if it ever does, whether the
  context is done at some time, and what \<open>Shutdown\<close> returns once the last connection is idle, if
  that ever happens. As net/http documents, a server that is shut down ends with
  \<open>ErrServerClosed\<close>, and \<open>Shutdown\<close> returns the error of its context when that is done first.
\<close>

abbreviation ErrServerClosed :: goerror where
  "ErrServerClosed \<equiv> ErrText ''http: Server closed''"

abbreviation DeadlineExceeded :: goerror where
  "DeadlineExceeded \<equiv> ErrText ''context deadline exceeded''"

record serve_env =
  sn_ends :: "goerror option"
  sn_cancels :: bool
  sn_drained :: "goerror option option"

datatype main_state = Selecting | ShuttingDown "int option" | Returned "goerror option"

datatype serve_state = Serving | Sending goerror | Ended

record run_state =
  rn_main :: main_state
  rn_serve :: serve_state
  rn_cancelled :: bool

definition run_init :: run_state where
  "run_init = \<lparr>rn_main = Selecting, rn_serve = Serving, rn_cancelled = False\<rparr>"

definition shutdown_timeout :: "ServiceConfig \<Rightarrow> int option" where
  "shutdown_timeout cfg = (if sc_MaxShutdownDuration cfg \<le> 0 then None else Some (sc_MaxShutdownDuration cfg))"

inductive run_step :: "serve_env \<Rightarrow> ServiceConfig \<Rightarrow> run_state \<Rightarrow> run_state \<Rightarrow> bool" for env cfg where
  serve_ends: "rn_serve s = Serving \<Longrightarrow> rn_main s = Selecting \<Longrightarrow> sn_ends env = Some err \<Longrightarrow>
    run_step env cfg s (s\<lparr>rn_serve := Sending err\<rparr>)"
| serve_closed: "rn_serve s = Serving \<Longrightarrow> rn_main s \<noteq> Selecting \<Longrightarrow>
    run_step env cfg s (s\<lparr>rn_serve := Sending ErrServerClosed\<rparr>)"
| context_done: "\<not> rn_cancelled s \<Longrightarrow> sn_cancels env \<Longrightarrow> run_step env cfg s (s\<lparr>rn_cancelled := True\<rparr>)"
| select_error: "rn_main s = Selecting \<Longrightarrow> rn_serve s = Sending err \<Longrightarrow>
    run_step env cfg s (s\<lparr>rn_main := Returned (Some err), rn_serve := Ended\<rparr>)"
| select_context: "rn_main s = Selecting \<Longrightarrow> rn_cancelled s \<Longrightarrow>
    run_step env cfg s (s\<lparr>rn_main := ShuttingDown (shutdown_timeout cfg)\<rparr>)"
| shutdown_drained: "rn_main s = ShuttingDown t \<Longrightarrow> sn_drained env = Some r \<Longrightarrow>
    run_step env cfg s (s\<lparr>rn_main := Returned r\<rparr>)"
| shutdown_expires: "rn_main s = ShuttingDown (Some d) \<Longrightarrow>
    run_step env cfg s (s\<lparr>rn_main := Returned (Some DeadlineExceeded)\<rparr>)"

inductive_cases run_stepE [elim]: "run_step env cfg s t"

section \<open>Lemmas\<close>

lemma append_files_eq:
  "append_files lib True msg paths certPool =
     Some (fold (\<lambda>path pool. case tl_ReadFile lib path of Inl _ \<Rightarrow> pool | Inr ca \<Rightarrow> tl_AppendCertsFromPEM lib pool ca) paths certPool,
       concat (map (\<lambda>path. case tl_ReadFile lib path of Inl err \<Rightarrow> [msg path err] | Inr _ \<Rightarrow> []) paths))"
  by (induction paths arbitrary: certPool) (auto simp: log_server_def split: sum.splits)

lemma loadCertPool_logs: "loadCertPool lib d cas True \<noteq> None"
  by (simp add: loadCertPool_def Let_def append_files_eq log_server_def split: sum.splits)

lemma loadClientCerts_logs: "loadClientCerts lib cs True \<noteq> None"
  by (induction cs) (auto simp: log_server_def split: sum.splits)

lemma ParseTLSConfig_logs: "ParseTLSConfigWithLogger lib cfg \<noteq> None"
  by (auto simp: ParseTLSConfigWithLogger_def Let_def append_files_eq loadCertPool_logs split: option.splits)

lemma NewTransport_logs: "NewTransport lib cfg True \<noteq> None"
  by (auto simp: NewTransport_def ParseClientTLSConfigWithLogger_def loadCertPool_logs loadClientCerts_logs
      split: option.splits)

text \<open>The states of a running server.\<close>

definition run_ok :: "serve_env \<Rightarrow> ServiceConfig \<Rightarrow> run_state \<Rightarrow> bool" where
  "run_ok env cfg s \<longleftrightarrow>
     (rn_cancelled s \<longrightarrow> sn_cancels env) \<and>
     (case rn_main s of
        Selecting \<Rightarrow> rn_serve s \<noteq> Ended \<and> (\<forall>err. rn_serve s = Sending err \<longrightarrow> sn_ends env = Some err)
      | ShuttingDown t \<Rightarrow> rn_cancelled s \<and> t = shutdown_timeout cfg \<and> rn_serve s \<noteq> Ended
      | Returned r \<Rightarrow>
          if rn_serve s = Ended then r \<noteq> None \<and> r = sn_ends env
          else rn_cancelled s \<and> (sn_drained env = Some r \<or> r = Some DeadlineExceeded \<and> shutdown_timeout cfg \<noteq> None))"

lemma run_ok_init: "run_ok env cfg run_init"
  by (simp add: run_ok_def run_init_def)

lemma run_ok_step: "run_step env cfg s t \<Longrightarrow> run_ok env cfg s \<Longrightarrow> run_ok env cfg t"
  by (erule run_stepE) (auto simp: run_ok_def split: main_state.splits if_splits)

lemma run_ok_reachable: "(run_step env cfg)\<^sup>*\<^sup>* run_init s \<Longrightarrow> run_ok env cfg s"
  by (induction rule: rtranclp_induct) (auto intro: run_ok_init run_ok_step)

definition run_measure :: "run_state \<Rightarrow> nat" where
  "run_measure s =
     (case rn_main s of Selecting \<Rightarrow> 2 | ShuttingDown t \<Rightarrow> 1 | Returned r \<Rightarrow> 0) +
     (if rn_serve s = Serving then 1 else 0) + (if rn_cancelled s then 0 else 1)"

lemma run_step_measure: "run_step env cfg s t \<Longrightarrow> run_measure t < run_measure s"
  by (erule run_stepE) (auto simp: run_measure_def split: main_state.splits)

lemma run_steps_measure: "(run_step env cfg ^^ n) s t \<Longrightarrow> n + run_measure t \<le> run_measure s"
proof (induction n arbitrary: t)
  case (Suc n)
  then obtain u where "(run_step env cfg ^^ n) s u" "run_step env cfg u t" by auto
  with Suc.IH [of u] run_step_measure [of env cfg u t] show ?case by linarith
qed simp

text \<open>A run that can go no further has returned, or waits for what the environment never does.\<close>

lemma run_stuck:
  assumes "run_ok env cfg s" "\<forall>t. \<not> run_step env cfg s t"
  shows "(\<exists>r. rn_main s = Returned r) \<or>
    (rn_main s = Selecting \<and> sn_ends env = None \<and> \<not> sn_cancels env) \<or>
    (rn_main s = ShuttingDown None \<and> shutdown_timeout cfg = None \<and> sn_drained env = None)"
proof (cases "rn_main s")
  case Selecting
  with assms(1) have "rn_serve s \<noteq> Ended" by (simp add: run_ok_def)
  moreover have "rn_serve s \<noteq> Sending err" for err using assms(2) Selecting select_error by blast
  ultimately have "rn_serve s = Serving" by (cases "rn_serve s") auto
  with assms(2) Selecting have "sn_ends env = None" using serve_ends by (cases "sn_ends env") blast+
  moreover have "\<not> sn_cancels env" using assms(2) Selecting context_done select_context by blast
  ultimately show ?thesis using Selecting by blast
next
  case (ShuttingDown t)
  with assms(1) have "t = shutdown_timeout cfg" by (simp add: run_ok_def)
  moreover have "t = None" using assms(2) ShuttingDown shutdown_expires by (cases t) blast+
  moreover have "sn_drained env = None" using assms(2) ShuttingDown shutdown_drained by (cases "sn_drained env") blast+
  ultimately show ?thesis using ShuttingDown by simp
qed blast

text \<open>
  A server that is shut down leaves its goroutine behind: whatever happens later, nobody receives
  the error it sends, and it never ends.
\<close>

lemma serving_goroutine_leaks_step:
  "run_step env cfg s t \<Longrightarrow> rn_main s \<noteq> Selecting \<Longrightarrow> rn_serve s \<noteq> Ended \<Longrightarrow> rn_main t \<noteq> Selecting \<and> rn_serve t \<noteq> Ended"
  by (erule run_stepE) auto

theorem serving_goroutine_leaks:
  assumes "(run_step env cfg)\<^sup>*\<^sup>* run_init s" "rn_main s = ShuttingDown d" "(run_step env cfg)\<^sup>*\<^sup>* s t"
  shows "rn_serve t \<noteq> Ended"
proof -
  have "rn_main t \<noteq> Selecting \<and> rn_serve t \<noteq> Ended"
    using assms(3)
  proof (induction rule: rtranclp_induct)
    case base
    then show ?case using run_ok_reachable [OF assms(1)] assms(2) by (simp add: run_ok_def)
  next
    case (step u v)
    then show ?case using serving_goroutine_leaks_step by blast
  qed
  then show ?thesis by blast
qed

text \<open>
  The pool of client certificates does not depend on the key pair of the section itself, which
  only joins the listed pairs when the server runs.
\<close>

theorem client_pool_lacks_own_pair:
  "ParseTLSConfigWithLogger lib (Some (t\<lparr>tls_PublicKey := pub, tls_PrivateKey := priv\<rparr>)) =
   ParseTLSConfigWithLogger lib (Some t)"
  unfolding ParseTLSConfigWithLogger_def by (simp cong: if_cong option.case_cong)

section \<open>Properties\<close>

text \<open>
  C19: A run of a server stops after at most four steps, and when it stops the call has
  returned, but for two cases: the server never ends on its own and the context is never done,
  or the shutdown has no limit and a connection never gets idle. So the call reacts to each of
  the two events, and a positive limit bounds the shutdown. What it returns is the error of the
  server, or, after the context was done, what the shutdown returned, which is the exceeded
  deadline only when a positive limit is set.
\<close>

theorem run_server_returns:
  assumes "(run_step env cfg ^^ n) run_init s"
  shows "n \<le> 4 \<and>
    ((\<forall>t. \<not> run_step env cfg s t) \<longrightarrow> (\<exists>r. rn_main s = Returned r) \<or>
       sn_ends env = None \<and> \<not> sn_cancels env \<or> sc_MaxShutdownDuration cfg \<le> 0 \<and> sn_drained env = None) \<and>
    (\<forall>r. rn_main s = Returned r \<longrightarrow> r \<noteq> None \<and> r = sn_ends env \<or>
       sn_cancels env \<and> (sn_drained env = Some r \<or> r = Some DeadlineExceeded \<and> sc_MaxShutdownDuration cfg > 0))"
proof -
  have ok: "run_ok env cfg s" using assms by (meson relpowp_imp_rtranclp run_ok_reachable)
  have lim: "shutdown_timeout cfg = None \<longleftrightarrow> sc_MaxShutdownDuration cfg \<le> 0" by (simp add: shutdown_timeout_def)
  have "n \<le> 4" using run_steps_measure [OF assms] by (simp add: run_measure_def run_init_def)
  moreover have "(\<forall>t. \<not> run_step env cfg s t) \<longrightarrow> (\<exists>r. rn_main s = Returned r) \<or>
       sn_ends env = None \<and> \<not> sn_cancels env \<or> sc_MaxShutdownDuration cfg \<le> 0 \<and> sn_drained env = None"
    using run_stuck [OF ok] lim by blast
  moreover have "r \<noteq> None \<and> r = sn_ends env \<or>
       sn_cancels env \<and> (sn_drained env = Some r \<or> r = Some DeadlineExceeded \<and> sc_MaxShutdownDuration cfg > 0)"
    if "rn_main s = Returned r" for r
    using ok that lim by (auto simp: run_ok_def not_le split: if_splits)
  ultimately show ?thesis by blast
qed

definition demo_tls :: TLS where
  "demo_tls = \<lparr>tls_IsDisabled = False, tls_PublicKey = ''pub'', tls_PrivateKey = ''key'', tls_CaCerts = [],
     tls_MinVersion = ''TLS12'', tls_MaxVersion = [], tls_CurvePreferences = [],
     tls_PreferServerCipherSuites = False, tls_CipherSuites = [], tls_EnableMTLS = False,
     tls_DisableSystemCaPool = False, tls_Keys = []\<rparr>"

definition demo_service :: ServiceConfig where
  "demo_service = \<lparr>sc_Name = [], sc_Endpoints = [], sc_AsyncAgents = [], sc_Timeout = 0, sc_CacheTTL = 0, sc_Host = [],
     sc_Port = 8080, sc_Address = ''::1'', sc_Version = 3, sc_OutputEncoding = [], sc_ExtraConfig = [],
     sc_ReadTimeout = 0, sc_WriteTimeout = 0, sc_IdleTimeout = 0, sc_ReadHeaderTimeout = 0, sc_MaxHeaderBytes = 0,
     sc_DisableKeepAlives = False, sc_DisableCompression = False, sc_MaxIdleConns = 0, sc_MaxIdleConnsPerHost = 0,
     sc_IdleConnTimeout = 0, sc_ResponseHeaderTimeout = 0, sc_ExpectContinueTimeout = 0, sc_DialerTimeout = 0,
     sc_DialerFallbackDelay = 0, sc_DialerKeepAlive = 0, sc_DisableStrictREST = False, sc_Plugin = None,
     sc_TLS = Some demo_tls, sc_UseH2C = False, sc_Debug = False, sc_Echo = False, sc_uriParser = None,
     sc_SequentialStart = False, sc_AllowInsecureConnections = False, sc_ClientTLS = None, sc_DNSCacheTTL = 0,
     sc_MaxShutdownDuration = 5\<rparr>"

definition demo_tls_lib :: "(string list, string) tls_lib" where
  "demo_tls_lib = \<lparr>tl_NewCertPool = [], tl_SystemCertPool = Inr [''system''],
     tl_AppendCertsFromPEM = (\<lambda>pool pem. pool @ [pem]), tl_ReadFile = (\<lambda>path. Inr path),
     tl_LoadX509KeyPair = (\<lambda>pub priv. Inr pub)\<rparr>"

theorem run_server_returns_witness:
  "\<exists>s. (run_step \<lparr>sn_ends = None, sn_cancels = True, sn_drained = None\<rparr> demo_service)\<^sup>*\<^sup>* run_init s \<and>
     rn_main s = Selecting \<and> rn_cancelled s \<and>
     (\<exists>t. run_step \<lparr>sn_ends = None, sn_cancels = True, sn_drained = None\<rparr> demo_service s t)"
proof -
  let ?env = "\<lparr>sn_ends = None, sn_cancels = True, sn_drained = None\<rparr>"
  let ?s = "run_init\<lparr>rn_cancelled := True\<rparr>"
  have st: "run_step ?env demo_service run_init ?s" by (rule context_done) (simp_all add: run_init_def)
  then have one: "(run_step ?env demo_service ^^ 1) run_init ?s" by auto
  have "\<exists>t. run_step ?env demo_service ?s t"
    using run_server_returns [OF one] by (auto simp: run_init_def demo_service_def)
  with st show ?thesis by (intro exI [of _ ?s]) (auto simp: run_init_def)
qed

text \<open>The key pairs of a TLS section: the listed ones and the one of the section itself.\<close>

definition all_pairs :: "TLS \<Rightarrow> TLSKeyPair list" where
  "all_pairs t = tls_Keys t @ (if tls_PublicKey t = [] \<and> tls_PrivateKey t = [] then []
     else [\<lparr>kp_PublicKey = tls_PublicKey t, kp_PrivateKey = tls_PrivateKey t\<rparr>])"

definition pair_loads :: "('p, 'c) tls_lib \<Rightarrow> TLSKeyPair \<Rightarrow> bool" where
  "pair_loads lib k \<longleftrightarrow> kp_PublicKey k \<noteq> [] \<and> kp_PrivateKey k \<noteq> [] \<and>
     (case tl_LoadX509KeyPair lib (kp_PublicKey k) (kp_PrivateKey k) of Inl _ \<Rightarrow> False | Inr _ \<Rightarrow> True)"

lemma tls_with_own_pair_Keys [simp]: "tls_Keys (tls_with_own_pair t) = all_pairs t"
  by (simp add: tls_with_own_pair_def all_pairs_def)

lemma load_key_pairs_cases:
  "if list_all (pair_loads lib) ks
   then \<exists>certs. load_key_pairs lib ks = Inr certs \<and>
     map Inr certs = map (\<lambda>k. tl_LoadX509KeyPair lib (kp_PublicKey k) (kp_PrivateKey k)) ks
   else \<exists>err. load_key_pairs lib ks = Inl err"
proof (induction ks)
  case (Cons k ks)
  then show ?case
    by (cases "tl_LoadX509KeyPair lib (kp_PublicKey k) (kp_PrivateKey k)"; cases "load_key_pairs lib ks")
      (auto simp: pair_loads_def split: if_splits)
qed simp

lemma ParseTLSConfig_cases:
  "\<exists>c ls. ParseTLSConfigWithLogger lib t = Some (c, ls) \<and>
     (case t of None \<Rightarrow> c = None
      | Some t \<Rightarrow> if tls_IsDisabled t then c = None else \<exists>c'. c = Some c' \<and> tc_Certificates c' = [])"
proof -
  obtain c ls where p: "ParseTLSConfigWithLogger lib t = Some (c, ls)"
    using ParseTLSConfig_logs [of lib t] by auto
  moreover have "case t of None \<Rightarrow> c = None
      | Some t \<Rightarrow> if tls_IsDisabled t then c = None else \<exists>c'. c = Some c' \<and> tc_Certificates c' = []"
  proof (cases t)
    case (Some t')
    obtain pool ls1 where pool: "loadCertPool lib (tls_DisableSystemCaPool t') (tls_CaCerts t') True = Some (pool, ls1)"
      using loadCertPool_logs by fastforce
    obtain pool' ls2 where files: "append_files lib True NoPublicKey (map kp_PublicKey (tls_Keys t')) pool = Some (pool', ls2)"
      by (simp add: append_files_eq)
    note p' = p [unfolded ParseTLSConfigWithLogger_def Some option.case pool files prod.case Let_def]
    show ?thesis
    proof (cases "tls_IsDisabled t'")
      case True
      with p' show ?thesis by (simp add: Some)
    next
      case False
      have "c \<noteq> None \<and> tc_Certificates (the c) = []"
        using p' False by (cases "tls_EnableMTLS t'") auto
      then obtain c' where "c = Some c'" "tc_Certificates c' = []" by (metis option.collapse)
      with False show ?thesis unfolding Some by simp
    qed
  qed (use p in \<open>simp add: ParseTLSConfigWithLogger_def\<close>)
  ultimately show ?thesis by blast
qed

text \<open>
  C31: A server with a TLS section that is not disabled serves, with the certificates of all its
  key pairs, exactly when there is a pair, listed or of the section itself, and all of them
  are complete and can be loaded; otherwise the run ends with an error before it listens. Without
  the section it serves without TLS.
\<close>

theorem tls_server_keys:
  "case sc_TLS cfg of
     None \<Rightarrow> \<exists>s. prepare_server lib h2c cfg handler = Some (Inr (s, False), None)
   | Some t \<Rightarrow>
       if tls_IsDisabled t then \<exists>s. prepare_server lib h2c cfg handler = Some (Inr (s, False), Some t)
       else if all_pairs t \<noteq> [] \<and> list_all (pair_loads lib) (all_pairs t)
       then \<exists>s c t'. prepare_server lib h2c cfg handler = Some (Inr (s, True), Some t') \<and> sv_TLSConfig s = Some c \<and>
         map Inr (tc_Certificates c) =
           map (\<lambda>k. tl_LoadX509KeyPair lib (kp_PublicKey k) (kp_PrivateKey k)) (all_pairs t)
       else \<exists>err t'. prepare_server lib h2c cfg handler = Some (Inl err, t')"
proof -
  obtain c ls where p: "ParseTLSConfigWithLogger lib (sc_TLS cfg) = Some (c, ls)"
    "case sc_TLS cfg of None \<Rightarrow> c = None
      | Some t \<Rightarrow> if tls_IsDisabled t then c = None else \<exists>c'. c = Some c' \<and> tc_Certificates c' = []"
    using ParseTLSConfig_cases [of lib "sc_TLS cfg"] by auto
  show ?thesis
  proof (cases "sc_TLS cfg")
    case None
    with p show ?thesis by (auto simp: prepare_server_def NewServerWithLogger_def Let_def)
  next
    case (Some t)
    with p load_key_pairs_cases [of lib "all_pairs t"] show ?thesis
      by (auto simp: prepare_server_def NewServerWithLogger_def Let_def split: if_splits)
  qed
qed

end
