(* ===== verification/Http.thy ===== *)
theory Http
  imports ConfigSpec Transport Server
begin

text \<open>
  What the routers use of net/http: the header map, the incoming request, and the response
  writer with the state that matters to a handler: the headers set so far, the status with the
  headers that were sent with it, the bytes written. A handler is a function on the writer that
  may panic (\<open>None\<close>). Beside it the build information of core/version.go and the interceptor of
  router/mux/engine.go, which is a layer of the writer.
\<close>

type_synonym header = "(string \<times> string list) list"

definition header_Set :: "string \<Rightarrow> string \<Rightarrow> header \<Rightarrow> header" where
  "header_Set k v h = mput (CanonicalMIMEHeaderKey k) [v] h"

definition header_values :: "header \<Rightarrow> string \<Rightarrow> string list" where
  "header_values h k = (case map_of h k of None \<Rightarrow> [] | Some vs \<Rightarrow> vs)"

definition header_Add :: "string \<Rightarrow> string \<Rightarrow> header \<Rightarrow> header" where
  "header_Add k v h =
     (let k = CanonicalMIMEHeaderKey k in mput k (header_values h k @ [v]) h)"

definition header_Del :: "string \<Rightarrow> header \<Rightarrow> header" where
  "header_Del k h = mdel (CanonicalMIMEHeaderKey k) h"

text \<open>\<open>for k, vs := range hs { for _, v := range vs { h.Add(k, v) } }\<close>\<close>

fun header_Add_all :: "header \<Rightarrow> header \<Rightarrow> header" where
  "header_Add_all [] h = h"
| "header_Add_all ((k, vs) # hs) h = header_Add_all hs (fold (header_Add k) vs h)"

section \<open>Build information (core/version.go)\<close>

definition KrakendHeaderName :: string where
  "KrakendHeaderName = ''X-KRAKEND''"

text \<open>The version is set when the program is linked.\<close>

definition KrakendHeaderValue :: "string \<Rightarrow> string" where
  "KrakendHeaderValue KrakendVersion = ''Version '' @ KrakendVersion"

definition KrakendUserAgent :: "string \<Rightarrow> string" where
  "KrakendUserAgent KrakendVersion = ''KrakenD Version '' @ KrakendVersion"

definition UserAgentHeaderValue :: "string \<Rightarrow> string list" where
  "UserAgentHeaderValue KrakendVersion = [KrakendUserAgent KrakendVersion]"

section \<open>Requests and responses\<close>

text \<open>\<open>hr_Query\<close> is what \<open>r.URL.Query()\<close> parses, \<open>hr_URL_User\<close> the text of the user part.\<close>

record in_request =
  hr_Method :: string
  hr_Header :: header
  hr_Host :: string
  hr_URL_Path :: string
  hr_Query :: "(string \<times> string list) list"
  hr_URL_User :: string
  hr_URL_Fragment :: string
  hr_RequestURI :: string
  hr_Body :: "io_reader option"
  hr_RemoteAddr :: string

text \<open>
  \<open>rw_once\<close>: none for a plain writer; for one behind the interceptor, whether its
  \<open>sync.Once\<close> has run.
\<close>

record response_writer =
  rw_Header :: header
  rw_sent :: "(int \<times> header) option"
  rw_body :: string
  rw_once :: "bool option"

definition new_writer :: response_writer where
  "new_writer = \<lparr>rw_Header = [], rw_sent = None, rw_body = [], rw_once = None\<rparr>"

definition set_header :: "string \<Rightarrow> string \<Rightarrow> response_writer \<Rightarrow> response_writer" where
  "set_header k v w = w\<lparr>rw_Header := header_Set k v (rw_Header w)\<rparr>"

text \<open>
  \<open>WriteHeader\<close> of the server's writer: a status is sent once; a code of less or more than three
  digits panics; a code below 200 but 101 is only an announcement.
\<close>

definition server_WriteHeader :: "int \<Rightarrow> response_writer \<Rightarrow> response_writer option" where
  "server_WriteHeader code w =
     (if rw_sent w \<noteq> None then Some w
      else if code < 100 \<or> code > 999 then None
      else if code \<le> 199 \<and> code \<noteq> 101 then Some w
      else Some (w\<lparr>rw_sent := Some (code, rw_Header w)\<rparr>))"

definition HTTPErrorInterceptor_WriteHeader :: "int \<Rightarrow> response_writer \<Rightarrow> response_writer option" where
  "HTTPErrorInterceptor_WriteHeader code w =
     (let w = (if rw_once w = Some False
               then (if code \<noteq> 200 then set_header CompleteResponseHeaderName HeaderIncompleteResponseValue w else w)
                      \<lparr>rw_once := Some True\<rparr>
               else w)
      in server_WriteHeader code w)"

definition WriteHeader :: "int \<Rightarrow> response_writer \<Rightarrow> response_writer option" where
  "WriteHeader code w =
     (case rw_once w of
        None \<Rightarrow> server_WriteHeader code w
      | Some _ \<Rightarrow> HTTPErrorInterceptor_WriteHeader code w)"

definition NewHTTPErrorInterceptor :: "response_writer \<Rightarrow> response_writer" where
  "NewHTTPErrorInterceptor w = w\<lparr>rw_once := Some False\<rparr>"

text \<open>
  The headers are sent with status 200 when nothing was sent before the first byte, or at the
  end; the interceptor does not see either. A status without a body takes no bytes.
\<close>

definition send_headers :: "response_writer \<Rightarrow> response_writer" where
  "send_headers w = (if rw_sent w = None then w\<lparr>rw_sent := Some (200, rw_Header w)\<rparr> else w)"

definition body_allowed :: "int \<Rightarrow> bool" where
  "body_allowed status \<longleftrightarrow> \<not> (100 \<le> status \<and> status \<le> 199) \<and> status \<noteq> 204 \<and> status \<noteq> 304"

definition rw_Write :: "string \<Rightarrow> response_writer \<Rightarrow> response_writer" where
  "rw_Write b w =
     (let w = send_headers w
      in case rw_sent w of
           None \<Rightarrow> w
         | Some (status, _) \<Rightarrow> if body_allowed status then w\<lparr>rw_body := rw_body w @ b\<rparr> else w)"

text \<open>\<open>http.Error\<close>\<close>

definition http_Error :: "string \<Rightarrow> int \<Rightarrow> response_writer \<Rightarrow> response_writer option" where
  "http_Error msg code w =
     (let w = w\<lparr>rw_Header := header_Del ''Content-Length'' (rw_Header w)\<rparr>;
          w = set_header ''Content-Type'' ''text/plain; charset=utf-8'' w;
          w = set_header ''X-Content-Type-Options'' ''nosniff'' w
      in map_option (rw_Write (msg @ [CHR 0x0A])) (WriteHeader code w))"

type_synonym http_handler = "in_request \<Rightarrow> response_writer \<Rightarrow> response_writer option"

text \<open>What the client gets: the server sends the headers when the handler has not.\<close>

definition client_status :: "response_writer \<Rightarrow> int" where
  "client_status w = fst (the (rw_sent (send_headers w)))"

definition client_header :: "response_writer \<Rightarrow> header" where
  "client_header w = snd (the (rw_sent (send_headers w)))"

section \<open>Lemmas\<close>

named_theorems http_simps \<open>the effect of the writer's operations\<close>

lemma canonical_names [http_simps, simp]:
  "CanonicalMIMEHeaderKey ''X-KRAKEND'' = ''X-Krakend''"
  "CanonicalMIMEHeaderKey ''X-Krakend-Completed'' = ''X-Krakend-Completed''"
  "CanonicalMIMEHeaderKey ''Content-Type'' = ''Content-Type''"
  "CanonicalMIMEHeaderKey ''Content-Length'' = ''Content-Length''"
  "CanonicalMIMEHeaderKey ''Cache-Control'' = ''Cache-Control''"
  "CanonicalMIMEHeaderKey ''X-Content-Type-Options'' = ''X-Content-Type-Options''"
  "CanonicalMIMEHeaderKey ''X-Forwarded-For'' = ''X-Forwarded-For''"
  "CanonicalMIMEHeaderKey ''User-Agent'' = ''User-Agent''"
  by code_simp+

lemma map_of_header_Set [http_simps, simp]:
  "map_of (header_Set k v h) = (map_of h)(CanonicalMIMEHeaderKey k \<mapsto> [v])"
  by (simp add: header_Set_def)

lemma map_of_header_Add [http_simps, simp]:
  "map_of (header_Add k v h) =
     (map_of h)(CanonicalMIMEHeaderKey k \<mapsto> header_values h (CanonicalMIMEHeaderKey k) @ [v])"
  by (simp add: header_Add_def Let_def)

lemma map_of_header_Del [http_simps, simp]:
  "map_of (header_Del k h) = (map_of h)(CanonicalMIMEHeaderKey k := None)"
  by (simp add: header_Del_def)

lemma header_Get_eq: "header_Get h k = (case header_values h k of [] \<Rightarrow> [] | v # _ \<Rightarrow> v)"
  by (simp add: header_Get_def header_values_def split: option.splits)

lemma header_values_Set [simp]:
  "header_values (header_Set k v h) k' = (if k' = CanonicalMIMEHeaderKey k then [v] else header_values h k')"
  by (simp add: header_values_def)

lemma header_values_Add [simp]:
  "header_values (header_Add k v h) k' =
     (if k' = CanonicalMIMEHeaderKey k then header_values h k' @ [v] else header_values h k')"
  by (simp add: header_values_def)

lemma header_values_Add_many:
  "header_values (fold (header_Add k) vs h) k' =
     (if k' = CanonicalMIMEHeaderKey k then header_values h k' @ vs else header_values h k')"
  by (induction vs arbitrary: h) auto

text \<open>Adding headers keeps the first value of each that was there.\<close>

lemma header_values_Add_all:
  "\<exists>vs. header_values (header_Add_all hs h) k = header_values h k @ vs"
proof (induction hs h rule: header_Add_all.induct)
  case (2 k' vs hs h)
  then show ?case by (auto simp: header_values_Add_many split: if_splits)
qed simp

lemma header_Get_Add_all: "header_values h k \<noteq> [] \<Longrightarrow> header_Get (header_Add_all hs h) k = header_Get h k"
  using header_values_Add_all [of hs h k] by (auto simp: header_Get_eq split: list.splits)

lemma header_Get_Set [simp]:
  "header_Get (header_Set k v h) k' = (if k' = CanonicalMIMEHeaderKey k then v else header_Get h k')"
  by (simp add: header_Get_eq)

end
