(* ===== verification/MuxEndpoint.thy ===== *)
theory MuxEndpoint
  imports Http
begin

text \<open>
  router/mux/endpoint.go and render.go: the request that a proxy gets, the renders, and the
  handler of an endpoint. JSON encoding is a parameter. The handler's context (the one of the
  request with the timeout of the endpoint) is known by whether it is done when the proxy has
  returned.
\<close>

section \<open>The request builder\<close>

abbreviation requestParamsAsterisk :: string where
  "requestParamsAsterisk \<equiv> ''*''"

text \<open>\<open>strings.TrimSpace\<close>, of the ASCII spaces.\<close>

definition is_space :: "char \<Rightarrow> bool" where
  "is_space c \<longleftrightarrow> c \<in> {CHR '' '', CHR 0x09, CHR 0x0A, CHR 0x0B, CHR 0x0C, CHR 0x0D}"

definition TrimSpace :: "string \<Rightarrow> string" where
  "TrimSpace s = rev (dropWhile is_space (rev (dropWhile is_space s)))"

text \<open>
  \<open>net.SplitHostPort\<close>: \<open>host_before\<close> is what stands before the last colon, if there is one.
\<close>

definition host_before :: "string \<Rightarrow> string option" where
  "host_before s = (if CHR '':'' \<in> set s then Some (join_with '':'' (butlast (split_on CHR '':'' s))) else None)"

definition port_after :: "string \<Rightarrow> string" where
  "port_after s = last (split_on CHR '':'' s)"

definition SplitHostPort :: "string \<Rightarrow> (string \<times> string) option" where
  "SplitHostPort hostport =
     (case host_before hostport of
        None \<Rightarrow> None
      | Some host \<Rightarrow>
          if hostport \<noteq> [] \<and> hd hostport = CHR ''[''
          then (let inner = takeWhile (\<lambda>c. c \<noteq> CHR '']'') (tl hostport)
                in if host = ''['' @ inner @ '']'' \<and> CHR ''['' \<notin> set (tl hostport) \<and> CHR '']'' \<notin> set (port_after hostport)
                   then Some (inner, port_after hostport) else None)
          else if CHR '':'' \<in> set host \<or> CHR ''['' \<in> set hostport \<or> CHR '']'' \<in> set hostport then None
          else Some (host, port_after hostport))"

definition clientIP :: "in_request \<Rightarrow> string" where
  "clientIP r =
     (let ip = TrimSpace (hd (split_on CHR '','' (header_Get (hr_Header r) ''X-Forwarded-For'')));
          ip = (if ip = [] then TrimSpace (header_Get (hr_Header r) ''X-Real-Ip'') else ip)
      in if ip \<noteq> [] then ip
         else let addr = header_Get (hr_Header r) ''X-Appengine-Remote-Addr''
              in if addr \<noteq> [] then addr
                 else case SplitHostPort (TrimSpace (hr_RemoteAddr r)) of
                   Some (ip, _) \<Rightarrow> ip
                 | None \<Rightarrow> [])"

text \<open>
  The loop over the headers to send. At the asterisk the map of the request itself takes the
  place of the copy: what is set in it later is set in the request (the flag).
\<close>

fun headers_to_send :: "header \<Rightarrow> string list \<Rightarrow> header \<Rightarrow> header \<times> bool" where
  "headers_to_send rh [] headers = (headers, False)"
| "headers_to_send rh (k # ks) headers =
     (if k = requestParamsAsterisk then (rh, True)
      else case map_of rh (CanonicalMIMEHeaderKey k) of
        Some h \<Rightarrow> headers_to_send rh ks (mput k h headers)
      | None \<Rightarrow> headers_to_send rh ks headers)"

fun query_to_send :: "header \<Rightarrow> string list \<Rightarrow> header \<Rightarrow> header" where
  "query_to_send queryValues [] query = query"
| "query_to_send queryValues (q # qs) query =
     (if q = requestParamsAsterisk then queryValues
      else case map_of queryValues q of
        Some v \<Rightarrow> query_to_send queryValues qs (if length v > 0 then mput q v query else query)
      | None \<Rightarrow> query_to_send queryValues qs query)"

text \<open>The headers the router adds to those of the client.\<close>

definition forwarding_headers :: "string \<Rightarrow> string \<Rightarrow> string \<Rightarrow> header \<Rightarrow> header" where
  "forwarding_headers version ip host headers =
     (let headers = mput ''X-Forwarded-For'' [ip] headers;
          headers = mput ''X-Forwarded-Host'' [host] headers
      in if map_of headers ''User-Agent'' = None
         then mput ''User-Agent'' (UserAgentHeaderValue version) headers
         else mput ''X-Forwarded-Via'' (UserAgentHeaderValue version) headers)"

type_synonym ParamExtractor = "in_request \<Rightarrow> (string \<times> string) list"

definition NoopParamExtractor :: ParamExtractor where
  "NoopParamExtractor r = []"

text \<open>A builder returns the request for the proxy and the incoming one as it leaves it.\<close>

type_synonym RequestBuilder = "in_request \<Rightarrow> string list \<Rightarrow> string list \<Rightarrow> Request \<times> in_request"

definition NewRequestBuilder :: "string \<Rightarrow> ParamExtractor \<Rightarrow> RequestBuilder" where
  "NewRequestBuilder version paramExtractor r queryString headersToSend =
     (let params = paramExtractor r;
          (headers, shared) = headers_to_send (hr_Header r) headersToSend [];
          headers = forwarding_headers version (clientIP r) (hr_Host r) headers;
          query = query_to_send (hr_Query r) queryString []
      in (\<lparr>rq_Method = hr_Method r, rq_URL = None, rq_Query = Some query, rq_Path = hr_URL_Path r,
           rq_Body = hr_Body r, rq_Params = Some params, rq_Headers = Some headers\<rparr>,
          if shared then r\<lparr>hr_Header := headers\<rparr> else r))"

definition NewRequest :: "string \<Rightarrow> RequestBuilder" where
  "NewRequest version = NewRequestBuilder version NoopParamExtractor"

section \<open>The renders (render.go)\<close>

type_synonym Render = "Response option \<Rightarrow> response_writer \<Rightarrow> response_writer option"

type_synonym json_Marshal = "gval \<Rightarrow> goerror + string"

definition write_json :: "json_Marshal \<Rightarrow> gval \<Rightarrow> response_writer \<Rightarrow> response_writer option" where
  "write_json Marshal v w =
     (case Marshal v of
        Inl err \<Rightarrow> http_Error (error_text err) 500 w
      | Inr js \<Rightarrow> Some (rw_Write js w))"

definition jsonRender :: "json_Marshal \<Rightarrow> Render" where
  "jsonRender Marshal response w =
     (let w = set_header ''Content-Type'' ''application/json'' w
      in case response of
           None \<Rightarrow> Some (rw_Write ''{}'' w)
         | Some response \<Rightarrow> write_json Marshal (of_map (rs_Data response)) w)"

definition jsonCollectionRender :: "json_Marshal \<Rightarrow> Render" where
  "jsonCollectionRender Marshal response w =
     (let w = set_header ''Content-Type'' ''application/json'' w
      in case response of
           None \<Rightarrow> Some (rw_Write ''[]'' w)
         | Some response \<Rightarrow>
             (case nmap_get (rs_Data response) ''collection'' of
                None \<Rightarrow> Some (rw_Write ''[]'' w)
              | Some col \<Rightarrow> write_json Marshal col w))"

definition stringRender :: Render where
  "stringRender response w =
     (let w = set_header ''Content-Type'' ''text/plain'' w
      in case response of
           None \<Rightarrow> Some (rw_Write [] w)
         | Some response \<Rightarrow>
             (case nmap_get (rs_Data response) ''content'' of
                None \<Rightarrow> Some (rw_Write [] w)
              | Some d \<Rightarrow>
                  (case as_str d of None \<Rightarrow> Some (rw_Write [] w) | Some msg \<Rightarrow> Some (rw_Write msg w))))"

text \<open>\<open>io.Copy\<close> writes nothing of a reader without bytes.\<close>

definition io_Copy :: "io_reader \<Rightarrow> response_writer \<Rightarrow> response_writer" where
  "io_Copy r w = (if fst r = [] then w else rw_Write (fst r) w)"

definition noopRender :: Render where
  "noopRender response w =
     (case response of
        None \<Rightarrow> http_Error [] 500 w
      | Some response \<Rightarrow>
          (let w = w\<lparr>rw_Header := header_Add_all (case md_Headers (rs_Metadata response) of None \<Rightarrow> [] | Some h \<Rightarrow> h)
                       (rw_Header w)\<rparr>;
               w = (if md_StatusCode (rs_Metadata response) \<noteq> 0
                    then WriteHeader (md_StatusCode (rs_Metadata response)) w else Some w)
           in case rs_Io response of
                None \<Rightarrow> w
              | Some r \<Rightarrow> map_option (io_Copy r) w))"

definition renderRegister :: "json_Marshal \<Rightarrow> (string \<times> Render) list" where
  "renderRegister Marshal =
     [(enc_STRING, stringRender), (enc_JSON, jsonRender Marshal), (enc_NOOP, noopRender),
      (''json-collection'', jsonCollectionRender Marshal)]"

definition RegisterRender :: "string \<Rightarrow> Render \<Rightarrow> (string \<times> Render) list \<Rightarrow> (string \<times> Render) list" where
  "RegisterRender name r reg = mput name r reg"

definition getWithFallback :: "(string \<times> Render) list \<Rightarrow> string \<Rightarrow> Render \<Rightarrow> Render" where
  "getWithFallback reg key fallback = (case map_of reg key of None \<Rightarrow> fallback | Some r \<Rightarrow> r)"

definition getRender :: "json_Marshal \<Rightarrow> (string \<times> Render) list \<Rightarrow> EndpointConfig \<Rightarrow> Render" where
  "getRender Marshal reg cfg =
     (let fallback = jsonRender Marshal;
          fallback = (case ep_Backend cfg of [b] \<Rightarrow> getWithFallback reg (be_Encoding b) fallback | _ \<Rightarrow> fallback)
      in if ep_OutputEncoding cfg = [] then fallback
         else getWithFallback reg (ep_OutputEncoding cfg) fallback)"

section \<open>The handler of an endpoint\<close>

text \<open>The status of an error that implements \<open>StatusCode() int\<close>.\<close>

fun responseError_StatusCode :: "goerror \<Rightarrow> int option" where
  "responseError_StatusCode (ErrHTTPResponse code msg enc) = Some (HTTPResponseError_StatusCode code msg enc)"
| "responseError_StatusCode (ErrNamedHTTPResponse code msg enc name) =
     Some (HTTPResponseError_StatusCode code msg enc)"
| "responseError_StatusCode _ = None"

text \<open>
  \<open>int(d.Seconds())\<close>. The conversion goes through a float, which is exact enough for every
  duration below 48 days, and for every longer one that is a number of milliseconds.
\<close>

definition whole_seconds :: "int \<Rightarrow> int" where
  "whole_seconds d = d sdiv time_Second"

record mux_env =
  mx_version :: string
  mx_Marshal :: json_Marshal
  mx_renders :: "(string \<times> Render) list"
  mx_ctx_done :: "EndpointConfig \<Rightarrow> in_request \<Rightarrow> bool"

text \<open>What the handler does with the answer of the proxy, the error being the one after the context check.\<close>

definition answer_headers :: "EndpointConfig \<Rightarrow> Response \<Rightarrow> response_writer \<Rightarrow> response_writer" where
  "answer_headers configuration response w =
     (let w = (if rs_IsComplete response
               then let w = set_header CompleteResponseHeaderName HeaderCompleteResponseValue w
                    in if ep_CacheTTL configuration \<noteq> 0
                       then set_header ''Cache-Control'' (''public, max-age='' @ itoa (whole_seconds (ep_CacheTTL configuration))) w
                       else w
               else set_header CompleteResponseHeaderName HeaderIncompleteResponseValue w)
      in w\<lparr>rw_Header := header_Add_all (case md_Headers (rs_Metadata response) of None \<Rightarrow> [] | Some h \<Rightarrow> h) (rw_Header w)\<rparr>)"

definition has_data :: "Response option \<Rightarrow> bool" where
  "has_data response \<longleftrightarrow> (case response of None \<Rightarrow> False | Some resp \<Rightarrow> nmap_len (rs_Data resp) > 0)"

definition CustomEndpointHandlerWithHTTPError ::
  "mux_env \<Rightarrow> RequestBuilder \<Rightarrow> (goerror \<Rightarrow> int) \<Rightarrow> EndpointConfig \<Rightarrow> Proxy \<Rightarrow> http_handler" where
  "CustomEndpointHandlerWithHTTPError env rb errF configuration prxy r w =
     (let render = getRender (mx_Marshal env) (mx_renders env) configuration;
          headersToSend = (if length (ep_HeadersToPass configuration) = 0 then HeadersToSend else ep_HeadersToPass configuration);
          method = to_upper (ep_Method configuration);
          w = set_header KrakendHeaderName (KrakendHeaderValue (mx_version env)) w
      in if hr_Method r \<noteq> method
         then http_Error [] 405 (set_header CompleteResponseHeaderName HeaderIncompleteResponseValue w)
         else
           (case prxy (fst (rb r (ep_QueryString configuration) headersToSend)) of
              GoPanic \<Rightarrow> None
            | Ret response err \<Rightarrow>
                (let err = (if mx_ctx_done env configuration r \<and> err = None then Some ErrInternalError else err)
                 in if has_data response then render response (answer_headers configuration (the response) w)
                    else (let w = set_header CompleteResponseHeaderName HeaderIncompleteResponseValue w
                          in case err of
                               None \<Rightarrow> render response w
                             | Some e \<Rightarrow>
                                 (case responseError_StatusCode e of
                                    Some code \<Rightarrow> http_Error (error_text e) code w
                                  | None \<Rightarrow> http_Error (error_text e) (errF e) w)))))"

definition CustomEndpointHandler :: "mux_env \<Rightarrow> RequestBuilder \<Rightarrow> EndpointConfig \<Rightarrow> Proxy \<Rightarrow> http_handler" where
  "CustomEndpointHandler env rb = CustomEndpointHandlerWithHTTPError env rb DefaultToHTTPError"

definition EndpointHandler :: "mux_env \<Rightarrow> EndpointConfig \<Rightarrow> Proxy \<Rightarrow> http_handler" where
  "EndpointHandler env = CustomEndpointHandler env (NewRequest (mx_version env))"

section \<open>Lemmas\<close>

lemma headers_to_send_star: "requestParamsAsterisk \<in> set ks \<Longrightarrow> headers_to_send rh ks h = (rh, True)"
  by (induction ks arbitrary: h) (auto split: option.splits)

lemma headers_to_send_listed:
  "requestParamsAsterisk \<notin> set ks \<Longrightarrow>
     snd (headers_to_send rh ks h) = False \<and>
     map_of (fst (headers_to_send rh ks h)) k =
       (if k \<in> set ks \<and> map_of rh (CanonicalMIMEHeaderKey k) \<noteq> None then map_of rh (CanonicalMIMEHeaderKey k)
        else map_of h k)"
  by (induction ks arbitrary: h) (auto split: option.splits)

lemma query_to_send_star: "requestParamsAsterisk \<in> set qs \<Longrightarrow> query_to_send qv qs q = qv"
  by (induction qs arbitrary: q) (auto split: option.splits)

lemma query_to_send_listed:
  "requestParamsAsterisk \<notin> set qs \<Longrightarrow>
     map_of (query_to_send qv qs q) k =
       (if k \<in> set qs \<and> map_of qv k \<noteq> None \<and> map_of qv k \<noteq> Some [] then map_of qv k else map_of q k)"
  by (induction qs arbitrary: q) (auto split: option.splits)

text \<open>The values of the client that go to the proxy under a name.\<close>

definition passed_header :: "in_request \<Rightarrow> string list \<Rightarrow> string \<Rightarrow> string list option" where
  "passed_header r hs k =
     (if requestParamsAsterisk \<in> set hs then map_of (hr_Header r) k
      else if k \<in> set hs then map_of (hr_Header r) (CanonicalMIMEHeaderKey k) else None)"

definition passed_query :: "in_request \<Rightarrow> string list \<Rightarrow> string \<Rightarrow> string list option" where
  "passed_query r qs k =
     (if requestParamsAsterisk \<in> set qs then map_of (hr_Query r) k
      else if k \<in> set qs \<and> map_of (hr_Query r) k \<noteq> Some [] then map_of (hr_Query r) k else None)"

lemma headers_to_send_passed: "map_of (fst (headers_to_send (hr_Header r) hs [])) k = passed_header r hs k"
  by (cases "requestParamsAsterisk \<in> set hs")
    (auto simp: headers_to_send_star headers_to_send_listed passed_header_def)

lemma query_to_send_passed: "map_of (query_to_send (hr_Query r) qs []) k = passed_query r qs k"
  by (cases "requestParamsAsterisk \<in> set qs")
    (auto simp: query_to_send_star query_to_send_listed passed_query_def)

text \<open>The request that the builder makes is well formed when the client's is.\<close>

lemma headers_to_send_ok: "gmap_ok rh \<Longrightarrow> gmap_ok h \<Longrightarrow> gmap_ok (fst (headers_to_send rh ks h))"
  by (induction ks arbitrary: h) (auto split: option.splits)

lemma query_to_send_ok: "gmap_ok qv \<Longrightarrow> gmap_ok q \<Longrightarrow> gmap_ok (query_to_send qv qs q)"
  by (induction qs arbitrary: q) (auto split: option.splits)

lemma NewRequest_ok:
  assumes "gmap_ok (hr_Header r)" "gmap_ok (hr_Query r)"
  shows "(\<forall>m. rq_Headers (fst (NewRequest v r qs hs)) = Some m \<longrightarrow> gmap_ok m) \<and>
    (\<forall>m. rq_Query (fst (NewRequest v r qs hs)) = Some m \<longrightarrow> gmap_ok m)"
  using headers_to_send_ok [OF assms(1), of "[]" hs] query_to_send_ok [OF assms(2), of "[]" qs]
  by (auto simp: NewRequest_def NewRequestBuilder_def forwarding_headers_def Let_def split_beta)

lemma shared_iff: "snd (headers_to_send rh hs []) \<longleftrightarrow> requestParamsAsterisk \<in> set hs"
  by (cases "requestParamsAsterisk \<in> set hs") (auto simp: headers_to_send_star headers_to_send_listed)

section \<open>Properties of the request\<close>

text \<open>
  C32: The request for the proxy has the method, path and body of the client's and the extracted
  parameters; of its query exactly the listed strings with a value, or all for the asterisk; of
  its headers exactly the listed ones, or all, and the address and host of the client and the
  name of the router, as User-Agent unless the client's is passed, else as X-Forwarded-Via.
\<close>

theorem request_for_proxy:
  "\<exists>h q. fst (NewRequestBuilder version pe r qs hs) =
      \<lparr>rq_Method = hr_Method r, rq_URL = None, rq_Query = Some q, rq_Path = hr_URL_Path r, rq_Body = hr_Body r,
       rq_Params = Some (pe r), rq_Headers = Some h\<rparr> \<and>
    map_of q = passed_query r qs \<and>
    map_of h = (let ua = UserAgentHeaderValue version;
        h0 = (passed_header r hs)(''X-Forwarded-For'' \<mapsto> [clientIP r], ''X-Forwarded-Host'' \<mapsto> [hr_Host r])
      in if passed_header r hs ''User-Agent'' = None then h0(''User-Agent'' \<mapsto> ua)
         else h0(''X-Forwarded-Via'' \<mapsto> ua))"
proof -
  obtain h sh where h: "headers_to_send (hr_Header r) hs [] = (h, sh)" by fastforce
  have p: "map_of h = passed_header r hs" using headers_to_send_passed [of r hs] h by (auto simp: fun_eq_iff)
  show ?thesis
    by (auto simp: NewRequestBuilder_def h Let_def forwarding_headers_def p query_to_send_passed fun_eq_iff)
qed

section \<open>Completeness\<close>

abbreviation completed :: "header \<Rightarrow> string" where
  "completed h \<equiv> header_Get h ''X-Krakend-Completed''"

lemmas header_names = KrakendHeaderName_def CompleteResponseHeaderName_def HeaderCompleteResponseValue_def
  HeaderIncompleteResponseValue_def

lemmas writer_defs = set_header_def WriteHeader_def HTTPErrorInterceptor_WriteHeader_def server_WriteHeader_def
  rw_Write_def send_headers_def http_Error_def client_header_def client_status_def

text \<open>
  What a render keeps: a writer behind the interceptor that is marked ends with its mark and
  status 200, or with the mark of an incomplete response.
\<close>

definition keeps_mark :: "response_writer \<Rightarrow> response_writer \<Rightarrow> bool" where
  "keeps_mark w w' \<longleftrightarrow>
     client_status w' = 200 \<and> completed (client_header w') = completed (rw_Header w) \<or>
     completed (client_header w') = ''false''"

definition marked :: "response_writer \<Rightarrow> bool" where
  "marked w \<longleftrightarrow> rw_sent w = None \<and> rw_once w = Some False \<and> header_values (rw_Header w) ''X-Krakend-Completed'' \<noteq> []"

lemma marked_set [simp]:
  "marked w \<Longrightarrow> CanonicalMIMEHeaderKey k \<noteq> ''X-Krakend-Completed'' \<Longrightarrow>
     marked (set_header k v w) \<and> completed (rw_Header (set_header k v w)) = completed (rw_Header w)"
  by (auto simp: marked_def set_header_def)

lemma client_header_Write: "rw_sent w = None \<Longrightarrow>
    client_header (rw_Write b w) = rw_Header w \<and> client_status (rw_Write b w) = 200"
  by (simp add: writer_defs Let_def)

lemma client_Write [simp]:
  "client_header (rw_Write b w) = client_header w" "client_status (rw_Write b w) = client_status w"
  by (auto simp: rw_Write_def send_headers_def client_header_def client_status_def Let_def
      split: prod.splits option.splits if_splits)

text \<open>The mark of what the client gets, once a marked writer has got a status.\<close>

lemma WriteHeader_mark:
  assumes "marked w" "WriteHeader code w = Some w'"
  shows "completed (client_header w') = (if code = 200 then completed (rw_Header w) else ''false'')"
  using assms by (cases "code = 200") (auto simp: marked_def writer_defs Let_def header_names split: if_splits)

lemma marked_Del:
  "marked w \<Longrightarrow> marked (w\<lparr>rw_Header := header_Del ''Content-Length'' (rw_Header w)\<rparr>) \<and>
     completed (header_Del ''Content-Length'' (rw_Header w)) = completed (rw_Header w)"
  by (auto simp: marked_def header_values_def header_Get_def)

lemma Error_mark:
  assumes "marked w" "http_Error msg code w = Some w'"
  shows "completed (client_header w') = (if code = 200 then completed (rw_Header w) else ''false'')"
proof -
  define w1 where "w1 = w\<lparr>rw_Header := header_Del ''Content-Length'' (rw_Header w)\<rparr>"
  define w2 where "w2 = set_header ''X-Content-Type-Options'' ''nosniff''
    (set_header ''Content-Type'' ''text/plain; charset=utf-8'' w1)"
  have "marked w1" "completed (rw_Header w1) = completed (rw_Header w)"
    using marked_Del [OF assms(1)] by (simp_all add: w1_def)
  then have m: "marked w2" "completed (rw_Header w2) = completed (rw_Header w)" by (simp_all add: w2_def)
  obtain v where v: "WriteHeader code w2 = Some v" "w' = rw_Write (msg @ [CHR 0x0A]) v"
    using assms(2) by (auto simp: http_Error_def Let_def w2_def w1_def)
  from WriteHeader_mark [OF m(1) v(1)] show ?thesis by (simp add: m(2) v(2))
qed

lemma Error_not_complete:
  "marked w \<Longrightarrow> http_Error msg code w = Some w' \<Longrightarrow> code \<noteq> 200 \<Longrightarrow> completed (client_header w') = ''false''"
  by (simp add: Error_mark)

lemma Error_keeps:
  "marked w \<Longrightarrow> http_Error msg code w = Some w' \<Longrightarrow>
     completed (client_header w') \<in> {completed (rw_Header w), ''false''}"
  by (simp add: Error_mark)

lemma keeps_mark_Write: "marked w \<Longrightarrow> keeps_mark w (rw_Write b w)"
  using client_header_Write [of w b] by (auto simp: keeps_mark_def marked_def)

lemma write_json_keeps: "marked w \<Longrightarrow> write_json M v w = Some w' \<Longrightarrow> keeps_mark w w'"
  using Error_not_complete [of w _ 500 w'] keeps_mark_Write [of w]
  by (auto simp: write_json_def keeps_mark_def split: sum.splits)

lemma content_type_marked:
  assumes "marked w"
  shows "marked (set_header ''Content-Type'' t w)"
    "keeps_mark (set_header ''Content-Type'' t w) w' = keeps_mark w w'"
  using marked_set [OF assms, of "''Content-Type''" t] by (auto simp: keeps_mark_def)

lemma jsonRender_keeps:
  assumes "marked w" "jsonRender M response w = Some w'"
  shows "keeps_mark w w'"
proof -
  define v where "v = set_header ''Content-Type'' ''application/json'' w"
  have m: "marked v" "keeps_mark w w' = keeps_mark v w'"
    using content_type_marked [OF assms(1)] by (simp_all add: v_def)
  show ?thesis
    using assms(2) keeps_mark_Write [OF m(1)] write_json_keeps [OF m(1)] unfolding m(2)
    by (auto simp: jsonRender_def Let_def v_def [symmetric] split: option.splits)
qed

lemma jsonCollectionRender_keeps:
  assumes "marked w" "jsonCollectionRender M response w = Some w'"
  shows "keeps_mark w w'"
proof -
  define v where "v = set_header ''Content-Type'' ''application/json'' w"
  have m: "marked v" "keeps_mark w w' = keeps_mark v w'"
    using content_type_marked [OF assms(1)] by (simp_all add: v_def)
  show ?thesis
    using assms(2) keeps_mark_Write [OF m(1)] write_json_keeps [OF m(1)] unfolding m(2)
    by (auto simp: jsonCollectionRender_def Let_def v_def [symmetric] split: option.splits)
qed

lemma stringRender_keeps:
  assumes "marked w" "stringRender response w = Some w'"
  shows "keeps_mark w w'"
proof -
  define v where "v = set_header ''Content-Type'' ''text/plain'' w"
  have m: "marked v" "keeps_mark w w' = keeps_mark v w'"
    using content_type_marked [OF assms(1)] by (simp_all add: v_def)
  show ?thesis
    using assms(2) keeps_mark_Write [OF m(1)] write_json_keeps [OF m(1)] unfolding m(2)
    by (auto simp: stringRender_def Let_def v_def [symmetric] split: option.splits)
qed

lemma WriteHeader_keeps:
  assumes "marked w" "WriteHeader code w = Some w'"
  shows "rw_sent w' \<noteq> None \<and> keeps_mark w w' \<or>
    rw_sent w' = None \<and> completed (rw_Header w') = ''false''"
  using assms
  by (auto simp: marked_def keeps_mark_def writer_defs Let_def header_names split: if_splits)

lemma io_Copy_keeps: "rw_sent w \<noteq> None \<Longrightarrow> client_status (io_Copy r w) = client_status w \<and> client_header (io_Copy r w) = client_header w"
  by (auto simp: io_Copy_def writer_defs Let_def split: prod.splits if_splits)

lemma io_Copy_unsent: "rw_sent w = None \<Longrightarrow> client_status (io_Copy r w) = 200 \<and> client_header (io_Copy r w) = rw_Header w"
  by (auto simp: io_Copy_def client_header_Write) (auto simp: writer_defs)

lemma unsent_client: "rw_sent w = None \<Longrightarrow> client_status w = 200 \<and> client_header w = rw_Header w"
  by (simp add: writer_defs)

lemma noopRender_keeps:
  assumes "marked w" "noopRender response w = Some w'"
  shows "keeps_mark w w'"
proof (cases response)
  case None
  with assms Error_not_complete [OF assms(1), of "[]" 500 w'] show ?thesis
    by (auto simp: noopRender_def keeps_mark_def)
next
  case (Some resp)
  define hs where "hs = (case md_Headers (rs_Metadata resp) of None \<Rightarrow> [] | Some h \<Rightarrow> h)"
  define w1 where "w1 = w\<lparr>rw_Header := header_Add_all hs (rw_Header w)\<rparr>"
  have m: "marked w1" "completed (rw_Header w1) = completed (rw_Header w)"
    using assms(1) header_Get_Add_all [of "rw_Header w" "''X-Krakend-Completed''" hs]
      header_values_Add_all [of hs "rw_Header w" "''X-Krakend-Completed''"]
    by (auto simp: marked_def w1_def)
  have copy: "keeps_mark w (io_Copy r v)" "keeps_mark w v"
    if "rw_sent v \<noteq> None \<and> keeps_mark w1 v \<or> rw_sent v = None \<and> completed (rw_Header v) = ''false'' \<or> v = w1" for r v
    using that m io_Copy_keeps [of v r] io_Copy_unsent [of v r] unsent_client [of v]
    by (auto simp: keeps_mark_def marked_def)
  have e: "(if md_StatusCode (rs_Metadata resp) \<noteq> 0 then WriteHeader (md_StatusCode (rs_Metadata resp)) w1 else Some w1) = Some v \<Longrightarrow>
      rw_sent v \<noteq> None \<and> keeps_mark w1 v \<or> rw_sent v = None \<and> completed (rw_Header v) = ''false'' \<or> v = w1" for v
    using WriteHeader_keeps [OF m(1)] by (auto split: if_splits)
  from assms(2) Some show ?thesis
    using copy e by (auto simp: noopRender_def Let_def hs_def [symmetric] w1_def [symmetric] split: option.splits)
qed

lemma getRender_keeps:
  assumes "marked w" "getRender M (renderRegister M) cfg response w = Some w'"
  shows "keeps_mark w w'"
proof -
  have f: "getWithFallback (renderRegister M) k d \<in> {stringRender, jsonRender M, noopRender, jsonCollectionRender M, d}" for k d
    by (auto simp: getWithFallback_def renderRegister_def)
  have "getRender M (renderRegister M) cfg \<in> {stringRender, jsonRender M, noopRender, jsonCollectionRender M}"
    using f by (auto simp: getRender_def Let_def split: list.splits) (metis f insertE insertI1 insertI2)+
  with assms stringRender_keeps jsonRender_keeps noopRender_keeps jsonCollectionRender_keeps show ?thesis by auto
qed

lemma answer_headers_marked:
  assumes "rw_sent w = None" "rw_once w = Some False"
  shows "marked (answer_headers cfg resp w) \<and>
    completed (rw_Header (answer_headers cfg resp w)) = (if rs_IsComplete resp then ''true'' else ''false'')"
proof -
  let ?h = "(if rs_IsComplete resp
      then let h = header_Set ''X-Krakend-Completed'' ''true'' (rw_Header w)
        in if ep_CacheTTL cfg \<noteq> 0
          then header_Set ''Cache-Control'' (''public, max-age='' @ itoa (whole_seconds (ep_CacheTTL cfg))) h else h
      else header_Set ''X-Krakend-Completed'' ''false'' (rw_Header w))"
  have h: "header_values ?h ''X-Krakend-Completed'' = [if rs_IsComplete resp then ''true'' else ''false'']"
    by (auto simp: Let_def)
  define hs where "hs = (case md_Headers (rs_Metadata resp) of None \<Rightarrow> [] | Some h \<Rightarrow> h)"
  have a: "rw_Header (answer_headers cfg resp w) = header_Add_all hs ?h"
    by (cases "rs_IsComplete resp"; cases "ep_CacheTTL cfg = 0")
      (simp_all add: answer_headers_def Let_def set_header_def header_names hs_def)
  have "rw_sent (answer_headers cfg resp w) = None \<and> rw_once (answer_headers cfg resp w) = Some False"
    using assms by (simp add: answer_headers_def Let_def set_header_def)
  then show ?thesis
    using h header_values_Add_all [of hs ?h "''X-Krakend-Completed''"]
    unfolding marked_def header_Get_eq a by auto
qed

lemma incomplete_marked:
  assumes "rw_sent w = None" "rw_once w = Some False"
  shows "marked (set_header CompleteResponseHeaderName HeaderIncompleteResponseValue w) \<and>
    completed (rw_Header (set_header CompleteResponseHeaderName HeaderIncompleteResponseValue w)) = ''false''"
  using assms by (simp add: marked_def set_header_def header_names)

lemma WriteHeader_server:
  "\<exists>v. WriteHeader code w = server_WriteHeader code v \<and> rw_sent v = rw_sent w \<and> rw_body v = rw_body w"
proof (cases "rw_once w")
  case None
  then show ?thesis by (intro exI [of _ w]) (simp add: WriteHeader_def)
next
  case (Some a)
  define v where "v = (if rw_once w = Some False
    then (if code \<noteq> 200 then set_header CompleteResponseHeaderName HeaderIncompleteResponseValue w else w)\<lparr>rw_once := Some True\<rparr>
    else w)"
  have "WriteHeader code w = server_WriteHeader code v"
    using Some by (simp add: WriteHeader_def HTTPErrorInterceptor_WriteHeader_def v_def Let_def)
  moreover have "rw_sent v = rw_sent w" "rw_body v = rw_body w" by (simp_all add: v_def set_header_def)
  ultimately show ?thesis by blast
qed

lemma WriteHeader_sends:
  assumes "rw_sent w = None" "200 \<le> code" "code \<le> 999"
  obtains v h where "WriteHeader code w = Some v" "rw_sent v = Some (code, h)" "rw_body v = rw_body w"
proof -
  obtain u where "WriteHeader code w = server_WriteHeader code u" "rw_sent u = None" "rw_body u = rw_body w"
    using WriteHeader_server [of code w] assms(1) by auto
  with assms(2,3) that show ?thesis by (auto simp: server_WriteHeader_def)
qed

lemma Write_sent:
  "rw_sent v = Some (code, h) \<Longrightarrow> client_status (rw_Write b v) = code \<and> client_header (rw_Write b v) = h \<and>
     rw_body (rw_Write b v) = rw_body v @ (if body_allowed code then b else [])"
  by (simp add: rw_Write_def send_headers_def Let_def client_status_def client_header_def)

text \<open>An error whose status is sent as one.\<close>

lemma Error_sends:
  assumes "rw_sent w = None" "200 \<le> code" "code \<le> 999"
  shows "\<exists>w'. http_Error msg code w = Some w' \<and> client_status w' = code \<and>
    (body_allowed code \<longrightarrow> rw_body w' = rw_body w @ msg @ [CHR 0x0A])"
proof -
  define w1 where "w1 = set_header ''X-Content-Type-Options'' ''nosniff''
    (set_header ''Content-Type'' ''text/plain; charset=utf-8'' (w\<lparr>rw_Header := header_Del ''Content-Length'' (rw_Header w)\<rparr>))"
  have w1: "rw_sent w1 = None" "rw_body w1 = rw_body w" using assms(1) by (simp_all add: w1_def set_header_def)
  from WriteHeader_sends [OF w1(1) assms(2,3)] obtain v h where v: "WriteHeader code w1 = Some v" "rw_sent v = Some (code, h)" "rw_body v = rw_body w1"
    by blast
  have "http_Error msg code w = Some (rw_Write (msg @ [CHR 0x0A]) v)"
    by (simp add: http_Error_def Let_def w1_def [symmetric] v(1))
  with Write_sent [OF v(2)] v(3) w1(2) show ?thesis by simp
qed

text \<open>The error of \<open>http.Error\<close> leaves the header of caches alone.\<close>

lemma canonical_cache: "CanonicalMIMEHeaderKey ''Content-Length'' \<noteq> ''Cache-Control''"
  "CanonicalMIMEHeaderKey ''Content-Type'' \<noteq> ''Cache-Control''"
  "CanonicalMIMEHeaderKey ''X-Content-Type-Options'' \<noteq> ''Cache-Control''"
  "CanonicalMIMEHeaderKey CompleteResponseHeaderName \<noteq> ''Cache-Control''"
  "CanonicalMIMEHeaderKey KrakendHeaderName \<noteq> ''Cache-Control''"
  by code_simp+

lemma header_Set_other: "CanonicalMIMEHeaderKey k \<noteq> x \<Longrightarrow> map_of (header_Set k v h) x = map_of h x"
  by (simp add: header_Set_def)

lemma header_Del_other: "CanonicalMIMEHeaderKey k \<noteq> x \<Longrightarrow> map_of (header_Del k h) x = map_of h x"
  by (simp add: header_Del_def)

lemma set_header_cache [simp]:
  "CanonicalMIMEHeaderKey k \<noteq> ''Cache-Control'' \<Longrightarrow>
   map_of (rw_Header (set_header k v w)) ''Cache-Control'' = map_of (rw_Header w) ''Cache-Control''"
  by (simp add: set_header_def header_Set_other)

lemma WriteHeader_cache:
  assumes "rw_sent w = None" "200 \<le> code" "WriteHeader code w = Some w'"
  shows "map_of (client_header w') ''Cache-Control'' = map_of (rw_Header w) ''Cache-Control''"
proof -
  have "map_of (client_header v) ''Cache-Control'' = map_of (rw_Header u) ''Cache-Control''"
    if "server_WriteHeader code u = Some v" "rw_sent u = None" for u v
    using that assms(2) by (auto simp: server_WriteHeader_def client_header_def send_headers_def split: if_splits)
  moreover have "rw_sent (set_header k x w) = rw_sent w" for k x by (simp add: set_header_def)
  ultimately show ?thesis
    using assms(1,3) canonical_cache(4)
    by (auto simp: WriteHeader_def HTTPErrorInterceptor_WriteHeader_def Let_def split: option.splits if_splits)
qed

lemma Error_cache:
  assumes "rw_sent w = None" "200 \<le> code" "http_Error msg code w = Some w'"
  shows "map_of (client_header w') ''Cache-Control'' = map_of (rw_Header w) ''Cache-Control''"
proof -
  define w1 where "w1 = set_header ''X-Content-Type-Options'' ''nosniff''
    (set_header ''Content-Type'' ''text/plain; charset=utf-8'' (w\<lparr>rw_Header := header_Del ''Content-Length'' (rw_Header w)\<rparr>))"
  have w1: "rw_sent w1 = None" "map_of (rw_Header w1) ''Cache-Control'' = map_of (rw_Header w) ''Cache-Control''"
    unfolding w1_def using assms(1) canonical_cache(1,2,3)
    by (simp add: set_header_def, simp add: header_Del_other)
  obtain v where "WriteHeader code w1 = Some v" "w' = rw_Write (msg @ [CHR 0x0A]) v"
    using assms(3) by (auto simp: http_Error_def Let_def w1_def)
  with WriteHeader_cache [OF w1(1) assms(2)] w1(2) show ?thesis by simp
qed

text \<open>The status of the answer to an error.\<close>

definition error_status :: "(goerror \<Rightarrow> int) \<Rightarrow> goerror \<Rightarrow> int" where
  "error_status errF e = (case responseError_StatusCode e of Some code \<Rightarrow> code | None \<Rightarrow> errF e)"

lemma handler_answer:
  fixes env :: mux_env and w :: response_writer
  assumes "hr_Method r = to_upper (ep_Method cfg)"
    "prxy (fst (rb r (ep_QueryString cfg) (if ep_HeadersToPass cfg = [] then HeadersToSend else ep_HeadersToPass cfg))) = Ret response err"
  defines "w1 \<equiv> set_header KrakendHeaderName (KrakendHeaderValue (mx_version env)) w"
  defines "w2 \<equiv> set_header CompleteResponseHeaderName HeaderIncompleteResponseValue w1"
  defines "err' \<equiv> if mx_ctx_done env cfg r \<and> err = None then Some ErrInternalError else err"
  shows "CustomEndpointHandlerWithHTTPError env rb errF cfg prxy r w =
    (if has_data response then getRender (mx_Marshal env) (mx_renders env) cfg response (answer_headers cfg (the response) w1)
     else case err' of
       None \<Rightarrow> getRender (mx_Marshal env) (mx_renders env) cfg response w2
     | Some e \<Rightarrow> http_Error (error_text e) (error_status errF e) w2)"
  using assms by (auto simp: CustomEndpointHandlerWithHTTPError_def Let_def error_status_def split: option.splits)

lemma handler_without_data:
  assumes "marked w2" "completed (rw_Header w2) = ''false''" "mx_renders env = renderRegister (mx_Marshal env)"
    "(case e of None \<Rightarrow> getRender (mx_Marshal env) (mx_renders env) cfg response w2
      | Some x \<Rightarrow> http_Error (error_text x) (error_status errF x) w2) = Some w'"
  shows "completed (client_header w') = ''false''"
proof (cases e)
  case None
  then have "keeps_mark w2 w'" using getRender_keeps [OF assms(1)] assms(3,4) by simp
  with assms(1,2) show ?thesis by (auto simp: keeps_mark_def)
next
  case (Some x)
  with assms(4) have "http_Error (error_text x) (error_status errF x) w2 = Some w'" by simp
  from Error_keeps [OF assms(1) this] assms(2) show ?thesis by auto
qed

lemma handler_completed:
  assumes "rw_sent w = None" "rw_once w = Some False" "mx_renders env = renderRegister (mx_Marshal env)"
    "CustomEndpointHandlerWithHTTPError env rb errF cfg prxy r w = Some w'"
  shows "completed (client_header w') \<in> {''true'', ''false''} \<and>
    (completed (client_header w') = ''true'' \<longrightarrow> client_status w' = 200 \<and>
       (\<exists>q resp err. prxy q = Ret (Some resp) err \<and> has_data (Some resp) \<and> rs_IsComplete resp))"
proof -
  define w1 where "w1 = set_header KrakendHeaderName (KrakendHeaderValue (mx_version env)) w"
  define w2 where "w2 = set_header CompleteResponseHeaderName HeaderIncompleteResponseValue w1"
  have w1: "rw_sent w1 = None" "rw_once w1 = Some False"
    using assms(1,2) by (simp_all add: w1_def set_header_def)
  have w2: "marked w2" "completed (rw_Header w2) = ''false''"
    unfolding w2_def using incomplete_marked [OF w1] by auto
  show ?thesis
  proof (cases "hr_Method r = to_upper (ep_Method cfg)")
    case False
    with assms(4) have "http_Error [] 405 w2 = Some w'"
      by (simp add: CustomEndpointHandlerWithHTTPError_def Let_def w1_def w2_def)
    with Error_keeps [OF w2(1)] w2(2) show ?thesis by auto
  next
    case True
    obtain q response err where q: "q = fst (rb r (ep_QueryString cfg)
        (if ep_HeadersToPass cfg = [] then HeadersToSend else ep_HeadersToPass cfg))" "prxy q = Ret response err"
      using assms(4) True
      by (auto simp: CustomEndpointHandlerWithHTTPError_def Let_def split: presult.splits)
    note a = handler_answer [where env = env and errF = errF and w = w and prxy = prxy and rb = rb and cfg = cfg and r = r,
      OF True q(2) [unfolded q(1)], folded w1_def, folded w2_def]
    show ?thesis
    proof (cases "has_data response")
      case data: True
      then obtain resp where resp: "response = Some resp" by (auto simp: has_data_def split: option.splits)
      have "keeps_mark (answer_headers cfg resp w1) w'"
        using getRender_keeps answer_headers_marked [OF w1] a assms(3,4) data resp by fastforce
      with answer_headers_marked [OF w1, of cfg resp] data resp q(2) show ?thesis
        by (auto simp: keeps_mark_def split: if_splits)
    next
      case False
      with handler_without_data [OF w2 assms(3)] a assms(4) show ?thesis by simp
    qed
  qed
qed

section \<open>Properties of the answer\<close>

text \<open>
  C24: When the proxy fails without data, the client gets the status of the error when it carries
  one, else the one the translation of errors gives, the text of the error as the body, and the
  mark of an incomplete response, and no \<open>Cache-Control\<close> header, whatever the endpoint's time to
  cache. The same holds for the error of a context that is done. The status that the error gets is
  one above 200 with three digits; net/http panics or sends no final status with other numbers.
\<close>

theorem handler_error:
  assumes "hr_Method r = to_upper (ep_Method cfg)"
    "prxy (fst (rb r (ep_QueryString cfg) (if ep_HeadersToPass cfg = [] then HeadersToSend else ep_HeadersToPass cfg))) = Ret response err"
    "\<not> has_data response" "err = Some e \<or> err = None \<and> mx_ctx_done env cfg r \<and> e = ErrInternalError"
    "200 < error_status errF e" "error_status errF e \<le> 999"
  shows "\<exists>w'. CustomEndpointHandlerWithHTTPError env rb errF cfg prxy r (NewHTTPErrorInterceptor new_writer) = Some w' \<and>
    client_status w' = error_status errF e \<and> completed (client_header w') = ''false'' \<and>
    map_of (client_header w') ''Cache-Control'' = None \<and>
    (body_allowed (error_status errF e) \<longrightarrow> rw_body w' = error_text e @ [CHR 0x0A])"
proof -
  define w2 where "w2 = set_header CompleteResponseHeaderName HeaderIncompleteResponseValue
    (set_header KrakendHeaderName (KrakendHeaderValue (mx_version env)) (NewHTTPErrorInterceptor new_writer))"
  have m: "marked w2" unfolding w2_def
    by (rule conjunct1 [OF incomplete_marked]) (simp_all add: set_header_def NewHTTPErrorInterceptor_def new_writer_def)
  then have s: "rw_sent w2 = None" by (simp add: marked_def)
  have b: "rw_body w2 = []" by (simp add: w2_def set_header_def NewHTTPErrorInterceptor_def new_writer_def)
  have n: "map_of (rw_Header w2) ''Cache-Control'' = None"
    using canonical_cache(4,5) by (simp add: w2_def) (simp add: NewHTTPErrorInterceptor_def new_writer_def)
  have "CustomEndpointHandlerWithHTTPError env rb errF cfg prxy r (NewHTTPErrorInterceptor new_writer) =
      http_Error (error_text e) (error_status errF e) w2"
    using handler_answer [where env = env and errF = errF and w = "NewHTTPErrorInterceptor new_writer" and
        prxy = prxy and rb = rb and cfg = cfg and r = r, OF assms(1,2)] assms(3,4)
    by (auto simp: w2_def)
  with Error_sends [OF s, of "error_status errF e" "error_text e"] Error_not_complete [OF m, of "error_text e" "error_status errF e"]
    Error_cache [OF s, of "error_status errF e" "error_text e"] assms(5,6) b n show ?thesis by auto
qed

definition demo_mux :: mux_env where
  "demo_mux = \<lparr>mx_version = ''2'', mx_Marshal = (\<lambda>v. Inr ''{}''), mx_renders = renderRegister (\<lambda>v. Inr ''{}''),
     mx_ctx_done = (\<lambda>cfg r. False)\<rparr>"

definition demo_in :: in_request where
  "demo_in = \<lparr>hr_Method = ''GET'', hr_Header = [], hr_Host = ''h'', hr_URL_Path = ''/u'', hr_Query = [], hr_URL_User = [],
     hr_URL_Fragment = [], hr_RequestURI = ''/u'', hr_Body = Some ([], None), hr_RemoteAddr = ''1.2.3.4:5''\<rparr>"

theorem handler_error_witness:
  "\<exists>w'. CustomEndpointHandlerWithHTTPError demo_mux (NewRequest ''2'') DefaultToHTTPError
      (empty_EndpointConfig\<lparr>ep_Method := ''GET'', ep_CacheTTL := time_Second\<rparr>) (\<lambda>q. Ret None (Some (ErrHTTPResponse 418 ''tea'' [])))
      demo_in (NewHTTPErrorInterceptor new_writer) = Some w' \<and> client_status w' = 418 \<and> rw_body w' = ''tea'' @ [CHR 0x0A] \<and>
     map_of (client_header w') ''Cache-Control'' = None"
proof -
  let ?cfg = "empty_EndpointConfig\<lparr>ep_Method := ''GET'', ep_CacheTTL := time_Second\<rparr>" and ?e = "ErrHTTPResponse 418 ''tea'' []"
  have m: "hr_Method demo_in = to_upper (ep_Method ?cfg)" by code_simp
  from handler_error [OF m, of "\<lambda>q. Ret None (Some ?e)" "NewRequest ''2''" None "Some ?e" ?e demo_mux DefaultToHTTPError]
  show ?thesis by (auto simp: has_data_def error_status_def body_allowed_def)
qed

end
