(* ===== verification/MuxRouter.thy ===== *)
theory MuxRouter
  imports MuxEndpoint Middlewares
begin

text \<open>
  router/mux/engine.go, debug.go, echo.go and router.go: the basic engine over
  \<open>http.ServeMux\<close>, the service endpoints, and the router that registers the endpoints of a
  configuration in an engine and runs the server with it. \<open>http.ServeMux\<close> is a parameter: which
  patterns it accepts beside those it has (it panics on others), and where it sends a request.
  What the debug endpoint logs is left out.
\<close>

section \<open>The basic engine (engine.go)\<close>

text \<open>A request goes to a pattern, or the library answers itself: not found, or a redirection.\<close>

datatype mux_route = ToPattern string | OwnAnswer int header string

record serve_mux =
  sm_accepts :: "string list \<Rightarrow> string \<Rightarrow> bool"
  sm_route :: "string list \<Rightarrow> in_request \<Rightarrow> mux_route"

definition serve_mux_ok :: "serve_mux \<Rightarrow> bool" where
  "serve_mux_ok mux \<longleftrightarrow>
     (\<forall>ps. \<not> sm_accepts mux ps []) \<and>
     (\<forall>ps r. case sm_route mux ps r of ToPattern p \<Rightarrow> p \<in> set ps | OwnAnswer code h b \<Rightarrow> code \<noteq> 200)"

record BasicEngine =
  en_patterns :: "string list"
  en_dict :: "(string \<times> (string \<times> http_handler) list) list"

definition DefaultEngine :: BasicEngine where
  "DefaultEngine = \<lparr>en_patterns = [], en_dict = []\<rparr>"

definition BasicEngine_Handle :: "serve_mux \<Rightarrow> string \<Rightarrow> string \<Rightarrow> http_handler \<Rightarrow> BasicEngine \<Rightarrow> BasicEngine option" where
  "BasicEngine_Handle mux pattern method_name handler e =
     (case map_of (en_dict e) pattern of
        None \<Rightarrow>
          if sm_accepts mux (en_patterns e) pattern
          then Some \<lparr>en_patterns = en_patterns e @ [pattern], en_dict = mput pattern [(method_name, handler)] (en_dict e)\<rparr>
          else None
      | Some methods \<Rightarrow> Some (e\<lparr>en_dict := mput pattern (mput method_name handler methods) (en_dict e)\<rparr>))"

definition engine_lookup :: "BasicEngine \<Rightarrow> string \<Rightarrow> string \<Rightarrow> http_handler option" where
  "engine_lookup e pattern method_name =
     (case map_of (en_dict e) pattern of None \<Rightarrow> None | Some methods \<Rightarrow> map_of methods method_name)"

definition registrableHandler :: "BasicEngine \<Rightarrow> string \<Rightarrow> http_handler" where
  "registrableHandler e pattern r w =
     (case engine_lookup e pattern (hr_Method r) of
        Some handler \<Rightarrow> handler r w
      | None \<Rightarrow> http_Error [] 405 (set_header CompleteResponseHeaderName HeaderIncompleteResponseValue w))"

definition own_answer :: "int \<Rightarrow> header \<Rightarrow> string \<Rightarrow> response_writer \<Rightarrow> response_writer option" where
  "own_answer code h b w =
     map_option (rw_Write b) (WriteHeader code (w\<lparr>rw_Header := header_Add_all h (rw_Header w)\<rparr>))"

definition BasicEngine_ServeHTTP :: "serve_mux \<Rightarrow> BasicEngine \<Rightarrow> http_handler" where
  "BasicEngine_ServeHTTP mux e r w =
     (let w = NewHTTPErrorInterceptor w
      in case sm_route mux (en_patterns e) r of
           ToPattern p \<Rightarrow> registrableHandler e p r w
         | OwnAnswer code h b \<Rightarrow> own_answer code h b w)"

section \<open>The service endpoints (debug.go, echo.go, router.go)\<close>

definition DebugHandler :: http_handler where
  "DebugHandler r w =
     (case hr_Body r of
        None \<Rightarrow> None
      | Some _ \<Rightarrow> Some (rw_Write ''{\"message\":\"pong\"}'' (set_header ''Content-Type'' ''application/json'' w)))"

record echoResponse =
  ec_Uri :: string
  ec_UriDetails :: "string gmap"
  ec_Method :: string
  ec_Querystring :: "(string \<times> string list) list"
  ec_Body :: string
  ec_Headers :: header

definition EchoHandler :: "(echoResponse \<Rightarrow> goerror + string) \<Rightarrow> ((string \<times> string list) list \<Rightarrow> string) \<Rightarrow> http_handler" where
  "EchoHandler Marshal query_Encode r w =
     (let body = (case hr_Body r of None \<Rightarrow> [] | Some b \<Rightarrow> fst b)
      in case Marshal \<lparr>ec_Uri = hr_RequestURI r,
            ec_UriDetails = [(''user'', hr_URL_User r), (''host'', hr_Host r), (''path'', hr_URL_Path r),
              (''query'', query_Encode (hr_Query r)), (''fragment'', hr_URL_Fragment r)],
            ec_Method = hr_Method r, ec_Querystring = hr_Query r, ec_Body = body, ec_Headers = hr_Header r\<rparr> of
           Inl err \<Rightarrow> WriteHeader 500 w
         | Inr resp \<Rightarrow> Some (rw_Write resp (set_header ''Content-Type'' ''application/json'' w)))"

definition HealthHandler :: http_handler where
  "HealthHandler r w = Some (rw_Write ''{\"status\":\"ok\"}'' (set_header ''Content-Type'' ''application/json'' w))"

section \<open>The router (router.go, router/helper.go)\<close>

definition IsValidSequentialEndpoint :: "EndpointConfig \<Rightarrow> bool" where
  "IsValidSequentialEndpoint e = True"

definition DefaultDebugPattern :: string where
  "DefaultDebugPattern = ''/__debug/''"

definition DefaultEchoPattern :: string where
  "DefaultEchoPattern = ''/__echo/''"

text \<open>
  The parts a router is built from, over any engine \<open>'e\<close>: \<open>rc_Handle\<close> panics as \<open>None\<close>.
  \<open>rc_RunServer\<close> is what running the server with the handler returns.
\<close>

record 'e router_config =
  rc_Handle :: "string \<Rightarrow> string \<Rightarrow> http_handler \<Rightarrow> 'e \<Rightarrow> 'e option"
  rc_ServeHTTP :: "'e \<Rightarrow> http_handler"
  rc_Engine :: 'e
  rc_Middlewares :: "(http_handler \<Rightarrow> http_handler) list"
  rc_HandlerFactory :: "EndpointConfig \<Rightarrow> Proxy \<Rightarrow> http_handler"
  rc_ProxyFactory :: Factory
  rc_DebugPattern :: string
  rc_EchoPattern :: string
  rc_DebugHandler :: http_handler
  rc_EchoHandler :: http_handler
  rc_RunServer :: "ServiceConfig \<Rightarrow> http_handler \<Rightarrow> goerror option"

definition NewFactory :: "'e router_config \<Rightarrow> 'e router_config" where
  "NewFactory cfg = (if rc_DebugPattern cfg = [] then cfg\<lparr>rc_DebugPattern := DefaultDebugPattern\<rparr> else cfg)"

definition DefaultFactory ::
  "serve_mux \<Rightarrow> mux_env \<Rightarrow> Factory \<Rightarrow> http_handler \<Rightarrow> (ServiceConfig \<Rightarrow> http_handler \<Rightarrow> goerror option) \<Rightarrow>
     BasicEngine router_config" where
  "DefaultFactory mux env pf echo RunServer =
     \<lparr>rc_Handle = BasicEngine_Handle mux, rc_ServeHTTP = BasicEngine_ServeHTTP mux, rc_Engine = DefaultEngine,
      rc_Middlewares = [], rc_HandlerFactory = EndpointHandler env, rc_ProxyFactory = pf,
      rc_DebugPattern = DefaultDebugPattern, rc_EchoPattern = DefaultEchoPattern, rc_DebugHandler = DebugHandler,
      rc_EchoHandler = echo, rc_RunServer = RunServer\<rparr>"

datatype router_log =
    ProxyFactoryError goerror
  | InvalidSequential string string
  | UnsupportedMethod string
  | Registering string string
  | RunServerError goerror
  | RouterEnded

text \<open>\<open>for _, method := range methods { engine.Handle(pattern, method, h) }\<close>\<close>

fun handle_all :: "'e router_config \<Rightarrow> string \<Rightarrow> string list \<Rightarrow> http_handler \<Rightarrow> 'e \<Rightarrow> 'e option" where
  "handle_all rc pattern [] h e = Some e"
| "handle_all rc pattern (m # ms) h e =
     (case rc_Handle rc pattern m h e of None \<Rightarrow> None | Some e \<Rightarrow> handle_all rc pattern ms h e)"

definition service_methods :: "string list" where
  "service_methods = [''GET'', ''POST'', ''PUT'', ''PATCH'', ''DELETE'', ''HEAD'', ''OPTIONS'', ''CONNECT'', ''TRACE'']"

definition registerKrakendEndpoint ::
  "'e router_config \<Rightarrow> string \<Rightarrow> EndpointConfig \<Rightarrow> http_handler \<Rightarrow> nat \<Rightarrow> 'e \<Rightarrow> ('e \<times> router_log list) option" where
  "registerKrakendEndpoint rc method_name endpoint handler totBackends e =
     (let method_name = to_upper method_name;
          path = ep_Endpoint endpoint
      in if method_name \<noteq> ''GET'' \<and> totBackends > 1 \<and> \<not> IsValidSequentialEndpoint endpoint
         then Some (e, [InvalidSequential method_name path])
         else if method_name \<notin> {''GET'', ''POST'', ''PUT'', ''PATCH'', ''DELETE''}
         then Some (e, [UnsupportedMethod method_name])
         else map_option (\<lambda>e. (e, [Registering method_name path])) (rc_Handle rc path method_name handler e))"

fun registerKrakendEndpoints ::
  "'e router_config \<Rightarrow> EndpointConfig list \<Rightarrow> 'e \<Rightarrow> ('e \<times> router_log list) option" where
  "registerKrakendEndpoints rc [] e = Some (e, [])"
| "registerKrakendEndpoints rc (c # cs) e =
     (case rc_ProxyFactory rc c of
        Inl _ \<Rightarrow> None
      | Inr (_, Some err) \<Rightarrow>
          map_option (\<lambda>(e, ls). (e, ProxyFactoryError err # ls)) (registerKrakendEndpoints rc cs e)
      | Inr (proxyStack, None) \<Rightarrow>
          (case registerKrakendEndpoint rc (ep_Method c) c (rc_HandlerFactory rc c (call_proxy proxyStack))
                  (length (ep_Backend c)) e of
             None \<Rightarrow> None
           | Some (e, ls) \<Rightarrow> map_option (\<lambda>(e, ls'). (e, ls @ ls')) (registerKrakendEndpoints rc cs e)))"

definition router_handler :: "'e router_config \<Rightarrow> 'e \<Rightarrow> http_handler" where
  "router_handler rc e = fold (\<lambda>middleware handler. middleware handler) (rc_Middlewares rc) (rc_ServeHTTP rc e)"

text \<open>
  \<open>Run\<close>: the engine with all that was registered and the default transport, and the log. \<open>None\<close> is
  a panic, or the end of the process in the proxy factory.
\<close>

definition Run ::
  "'e router_config \<Rightarrow> ('p, 'c) tls_lib \<Rightarrow> ('p, 'c) transport_state \<Rightarrow> ServiceConfig \<Rightarrow>
     ('e \<times> ('p, 'c) transport_state \<times> router_log list) option" where
  "Run rc lib ts cfg =
     (case (if sc_Debug cfg then handle_all rc (rc_DebugPattern rc) service_methods (rc_DebugHandler rc) (rc_Engine rc)
            else Some (rc_Engine rc)) of
        None \<Rightarrow> None
      | Some e \<Rightarrow>
        (case (if sc_Echo cfg then handle_all rc (rc_EchoPattern rc) service_methods (rc_EchoHandler rc) e else Some e) of
           None \<Rightarrow> None
         | Some e \<Rightarrow>
           (case rc_Handle rc ''/__health'' ''GET'' HealthHandler e of
              None \<Rightarrow> None
            | Some e \<Rightarrow>
              (let (tls, ts) = InitHTTPDefaultTransportWithLogger lib cfg ts
               in case registerKrakendEndpoints rc (sc_Endpoints cfg) e of
                    None \<Rightarrow> None
                  | Some (e, ls) \<Rightarrow>
                      Some (e, ts, ls @
                        (case rc_RunServer rc (cfg\<lparr>sc_ClientTLS := tls\<rparr>) (router_handler rc e) of
                           None \<Rightarrow> [] | Some err \<Rightarrow> [RunServerError err]) @ [RouterEnded])))))"

section \<open>What an engine promises a router\<close>

text \<open>A sequence of registrations, and the handler that the last one for a pattern and a method gives.\<close>

type_synonym 'h route = "(string \<times> string) \<times> 'h"

fun handle_list :: "(string \<Rightarrow> string \<Rightarrow> 'h \<Rightarrow> 'e \<Rightarrow> 'e option) \<Rightarrow> 'h route list \<Rightarrow> 'e \<Rightarrow> 'e option" where
  "handle_list f [] e = Some e"
| "handle_list f (((p, m), h) # rs) e = (case f p m h e of None \<Rightarrow> None | Some e \<Rightarrow> handle_list f rs e)"

lemma handle_list_append:
  "handle_list f (rs @ rs') e = (case handle_list f rs e of None \<Rightarrow> None | Some e \<Rightarrow> handle_list f rs' e)"
  by (induction f rs e rule: handle_list.induct) (auto split: option.splits)

locale routing_engine =
  fixes handle :: "string \<Rightarrow> string \<Rightarrow> 'h \<Rightarrow> 'e \<Rightarrow> 'e option"
    and lookup :: "'e \<Rightarrow> string \<Rightarrow> string \<Rightarrow> 'h option"
    and wf :: "'e \<Rightarrow> bool"
  assumes lookup_handle: "handle p m h e = Some e' \<Longrightarrow>
      lookup e' p' m' = (if p' = p \<and> m' = m then Some h else lookup e p' m')"
    and wf_handle: "wf e \<Longrightarrow> handle p m h e = Some e' \<Longrightarrow> wf e'"
begin

lemma wf_handle_list: "wf e \<Longrightarrow> handle_list handle rs e = Some e' \<Longrightarrow> wf e'"
proof (induction rs arbitrary: e)
  case (Cons r rs)
  obtain p m h where r: "r = ((p, m), h)" by (metis prod.collapse)
  then obtain e1 where e1: "handle p m h e = Some e1" "handle_list handle rs e1 = Some e'"
    using Cons.prems by (auto split: option.splits)
  show ?case using Cons.IH [OF wf_handle [OF Cons.prems(1) e1(1)] e1(2)] .
qed simp

lemma lookup_handle_list:
  "handle_list handle rs e = Some e' \<Longrightarrow>
     lookup e' p m = (case map_of (rev rs) (p, m) of None \<Rightarrow> lookup e p m | Some h \<Rightarrow> Some h)"
proof (induction rs arbitrary: e)
  case (Cons r rs)
  obtain p1 m1 h where r: "r = ((p1, m1), h)" by (metis prod.collapse)
  then obtain e1 where e1: "handle p1 m1 h e = Some e1" "handle_list handle rs e1 = Some e'"
    using Cons.prems by (auto split: option.splits)
  show ?case using Cons.IH [OF e1(2)] lookup_handle [OF e1(1)] r by (auto simp: map_add_def split: option.splits)
qed simp

text \<open>A later route with another pattern or method does not change what is looked up.\<close>

lemma lookup_last_route:
  assumes "handle_list handle (rs1 @ ((p, m), h) # rs2) e = Some e'" "(p, m) \<notin> fst ` set rs2"
  shows "lookup e' p m = Some h"
proof -
  have "map_of (rev rs2) (p, m) = None" using assms(2) by (auto simp: map_of_eq_None_iff)
  then show ?thesis using lookup_handle_list [OF assms(1), of p m] by (simp add: map_add_def)
qed

end

text \<open>The dictionary has exactly the patterns that were registered, each of them once.\<close>

definition engine_ok :: "BasicEngine \<Rightarrow> bool" where
  "engine_ok e \<longleftrightarrow> distinct (en_patterns e) \<and> set (en_patterns e) = dom (map_of (en_dict e)) \<and> [] \<notin> set (en_patterns e)"

lemma engine_lookup_Handle:
  "BasicEngine_Handle mux p m h e = Some e' \<Longrightarrow>
     engine_lookup e' p' m' = (if p' = p \<and> m' = m then Some h else engine_lookup e p' m')"
  by (auto simp: BasicEngine_Handle_def engine_lookup_def split: option.splits if_splits)

lemma engine_ok_Handle:
  "serve_mux_ok mux \<Longrightarrow> engine_ok e \<Longrightarrow> BasicEngine_Handle mux p m h e = Some e' \<Longrightarrow> engine_ok e'"
  by (auto simp: BasicEngine_Handle_def engine_ok_def serve_mux_ok_def domIff split: option.splits if_splits)

interpretation basic: routing_engine "BasicEngine_Handle mux" engine_lookup "\<lambda>e. serve_mux_ok mux \<longrightarrow> engine_ok e" for mux
  by unfold_locales (blast intro: engine_lookup_Handle engine_ok_Handle)+

section \<open>The routes of a configuration\<close>

definition endpoint_route :: "'e router_config \<Rightarrow> EndpointConfig \<Rightarrow> http_handler route list" where
  "endpoint_route rc c =
     (case rc_ProxyFactory rc c of
        Inr (p, None) \<Rightarrow>
          if to_upper (ep_Method c) \<in> {''GET'', ''POST'', ''PUT'', ''PATCH'', ''DELETE''}
          then [((ep_Endpoint c, to_upper (ep_Method c)), rc_HandlerFactory rc c (call_proxy p))] else []
      | _ \<Rightarrow> [])"

definition service_routes :: "'e router_config \<Rightarrow> ServiceConfig \<Rightarrow> http_handler route list" where
  "service_routes rc cfg =
     (if sc_Debug cfg then map (\<lambda>m. ((rc_DebugPattern rc, m), rc_DebugHandler rc)) service_methods else []) @
     (if sc_Echo cfg then map (\<lambda>m. ((rc_EchoPattern rc, m), rc_EchoHandler rc)) service_methods else []) @
     [((''/__health'', ''GET''), HealthHandler)]"

lemma endpoint_route_handler:
  "(k, h) \<in> set (endpoint_route rc c) \<Longrightarrow>
     \<exists>prxy. rc_ProxyFactory rc c = Inr (prxy, None) \<and> h = rc_HandlerFactory rc c (call_proxy prxy)"
  by (cases "rc_ProxyFactory rc c") (auto simp: endpoint_route_def split: prod.splits option.splits if_splits)

lemma service_routes_handler:
  "(k, h) \<in> set (service_routes rc cfg) \<Longrightarrow> h \<in> {rc_DebugHandler rc, rc_EchoHandler rc, HealthHandler}"
  by (auto simp: service_routes_def split: if_splits)

lemma handle_all_list: "handle_all rc p ms h e = handle_list (rc_Handle rc) (map (\<lambda>m. ((p, m), h)) ms) e"
  by (induction ms arbitrary: e) (auto split: option.splits)

lemma registerKrakendEndpoint_list:
  assumes "rc_ProxyFactory rc c = Inr (p, None)"
    "registerKrakendEndpoint rc (ep_Method c) c (rc_HandlerFactory rc c (call_proxy p)) n e = Some (e', ls)"
  shows "handle_list (rc_Handle rc) (endpoint_route rc c) e = Some e'"
  using assms
  by (auto simp: endpoint_route_def registerKrakendEndpoint_def IsValidSequentialEndpoint_def Let_def split: if_splits)

lemma registerKrakendEndpoints_list:
  "registerKrakendEndpoints rc cs e = Some (e', ls) \<Longrightarrow>
     handle_list (rc_Handle rc) (concat (map (endpoint_route rc) cs)) e = Some e'"
proof (induction cs arbitrary: e ls)
  case (Cons c cs)
  show ?case
  proof (cases "rc_ProxyFactory rc c")
    case (Inl x)
    with Cons.prems show ?thesis by simp
  next
    case (Inr pe)
    obtain p err where pe: "pe = (p, err)" by fastforce
    show ?thesis
    proof (cases err)
      case (Some x)
      with Cons Inr pe show ?thesis by (auto simp: endpoint_route_def)
    next
      case None
      with Cons.prems Inr pe obtain e1 ls1 ls2 where
        e1: "registerKrakendEndpoint rc (ep_Method c) c (rc_HandlerFactory rc c (call_proxy p)) (length (ep_Backend c)) e = Some (e1, ls1)"
        "registerKrakendEndpoints rc cs e1 = Some (e', ls2)" by (auto split: option.splits)
      have "rc_ProxyFactory rc c = Inr (p, None)" using Inr pe None by simp
      from registerKrakendEndpoint_list [OF this e1(1)] Cons.IH [OF e1(2)] show ?thesis by (simp add: handle_list_append)
    qed
  qed
qed simp

lemma Run_routes:
  assumes "Run rc lib ts cfg = Some (e, ts', ls)"
  shows "handle_list (rc_Handle rc) (service_routes rc cfg @ concat (map (endpoint_route rc) (sc_Endpoints cfg)))
    (rc_Engine rc) = Some e"
proof -
  obtain e1 e2 e3 ls' where e: "(if sc_Debug cfg then handle_all rc (rc_DebugPattern rc) service_methods (rc_DebugHandler rc) (rc_Engine rc)
      else Some (rc_Engine rc)) = Some e1"
    "(if sc_Echo cfg then handle_all rc (rc_EchoPattern rc) service_methods (rc_EchoHandler rc) e1 else Some e1) = Some e2"
    "rc_Handle rc ''/__health'' ''GET'' HealthHandler e2 = Some e3" "registerKrakendEndpoints rc (sc_Endpoints cfg) e3 = Some (e, ls')"
    using assms unfolding Run_def Let_def by (auto split: option.splits prod.splits)
  from e(1,2) show ?thesis
    using e(3) registerKrakendEndpoints_list [OF e(4)]
    by (simp add: service_routes_def handle_list_append handle_all_list split: if_splits)
qed

lemma engine_ok_Default: "engine_ok DefaultEngine" "engine_lookup DefaultEngine p m = None"
  by (simp_all add: engine_ok_def DefaultEngine_def engine_lookup_def)

definition basic_router :: "serve_mux \<Rightarrow> BasicEngine router_config \<Rightarrow> bool" where
  "basic_router mux rc \<longleftrightarrow> rc_Handle rc = BasicEngine_Handle mux \<and> rc_ServeHTTP rc = BasicEngine_ServeHTTP mux \<and>
     rc_Engine rc = DefaultEngine"

lemma Run_lookup:
  assumes "basic_router mux rc" "Run rc lib ts cfg = Some (e, ts', ls)"
  shows "engine_lookup e p m =
    map_of (rev (service_routes rc cfg @ concat (map (endpoint_route rc) (sc_Endpoints cfg)))) (p, m)"
  using basic.lookup_handle_list [OF Run_routes [OF assms(2), unfolded
      conjunct1 [OF assms(1) [unfolded basic_router_def]]], of p m] assms(1)
  by (auto simp: basic_router_def engine_ok_Default map_add_def split: option.splits)

lemma Run_engine_ok:
  assumes "basic_router mux rc" "serve_mux_ok mux" "Run rc lib ts cfg = Some (e, ts', ls)"
  shows "engine_ok e"
  using basic.wf_handle_list [OF _ Run_routes [OF assms(3), unfolded
      conjunct1 [OF assms(1) [unfolded basic_router_def]]]] assms(1,2) engine_ok_Default(1)
  by (auto simp: basic_router_def)

lemma router_serves_endpoint:
  assumes "basic_router mux rc" "Run rc lib ts cfg = Some (e, ts', ls)" "sm_route mux (en_patterns e) r = ToPattern p"
    "sc_Endpoints cfg = es1 @ c # es2" "ep_Endpoint c = p" "hr_Method r = to_upper (ep_Method c)"
    "to_upper (ep_Method c) \<in> {''GET'', ''POST'', ''PUT'', ''PATCH'', ''DELETE''}" "rc_ProxyFactory rc c = Inr (prxy, None)"
    "\<forall>c' \<in> set es2. ep_Endpoint c' = p \<longrightarrow> to_upper (ep_Method c') \<noteq> hr_Method r"
  shows "rc_ServeHTTP rc e r w = rc_HandlerFactory rc c (call_proxy prxy) r (NewHTTPErrorInterceptor w)"
proof -
  have serve: "rc_ServeHTTP rc e = BasicEngine_ServeHTTP mux e" using assms(1) by (simp add: basic_router_def)
  have hl: "handle_list (BasicEngine_Handle mux) (service_routes rc cfg @ concat (map (endpoint_route rc) (sc_Endpoints cfg)))
      (rc_Engine rc) = Some e"
    using Run_routes [OF assms(2)] assms(1) by (simp add: basic_router_def)
  have r: "endpoint_route rc c = [((p, hr_Method r), rc_HandlerFactory rc c (call_proxy prxy))]"
    using assms(5-8) by (auto simp: endpoint_route_def)
  have "(p, hr_Method r) \<notin> fst ` set (concat (map (endpoint_route rc) es2))"
    using assms(9) by (auto simp: endpoint_route_def split: sum.splits option.splits if_splits)
  then have "engine_lookup e p (hr_Method r) = Some (rc_HandlerFactory rc c (call_proxy prxy))"
    using basic.lookup_last_route [of mux "service_routes rc cfg @ concat (map (endpoint_route rc) es1)"
        p "hr_Method r" "rc_HandlerFactory rc c (call_proxy prxy)" "concat (map (endpoint_route rc) es2)"] hl assms(4) r
    by simp
  then show ?thesis
    by (simp add: serve BasicEngine_ServeHTTP_def Let_def assms(3) registrableHandler_def)
qed

section \<open>Properties\<close>

text \<open>
  C14: The router serves what the configuration says: a request that reaches the pattern of an
  endpoint with its method is answered by the handler of the endpoint, on the proxy built for
  it, when no later endpoint has the same pattern and method; a request that reaches a registered
  pattern with a method no route of it has is answered with status 405 and marked incomplete.
\<close>

theorem router_serves_endpoints:
  assumes "basic_router mux rc" "serve_mux_ok mux" "Run rc lib ts cfg = Some (e, ts', ls)"
    "sm_route mux (en_patterns e) r = ToPattern p"
  shows "(\<forall>c es1 es2 prxy. sc_Endpoints cfg = es1 @ c # es2 \<and> ep_Endpoint c = p \<and> hr_Method r = to_upper (ep_Method c) \<and>
      to_upper (ep_Method c) \<in> {''GET'', ''POST'', ''PUT'', ''PATCH'', ''DELETE''} \<and> rc_ProxyFactory rc c = Inr (prxy, None) \<and>
      (\<forall>c' \<in> set es2. ep_Endpoint c' = p \<longrightarrow> to_upper (ep_Method c') \<noteq> hr_Method r) \<longrightarrow>
      rc_ServeHTTP rc e r w = rc_HandlerFactory rc c (call_proxy prxy) r (NewHTTPErrorInterceptor w)) \<and>
    ((\<forall>h. ((p, hr_Method r), h) \<notin> set (service_routes rc cfg @ concat (map (endpoint_route rc) (sc_Endpoints cfg)))) \<longrightarrow>
      rc_ServeHTTP rc e r new_writer =
        http_Error [] 405 (set_header CompleteResponseHeaderName HeaderIncompleteResponseValue (NewHTTPErrorInterceptor new_writer)))"
proof (intro conjI allI impI)
  have serve: "rc_ServeHTTP rc e = BasicEngine_ServeHTTP mux e" using assms(1) by (simp add: basic_router_def)
  {
    fix c es1 es2 prxy
    assume c: "sc_Endpoints cfg = es1 @ c # es2 \<and> ep_Endpoint c = p \<and> hr_Method r = to_upper (ep_Method c) \<and>
      to_upper (ep_Method c) \<in> {''GET'', ''POST'', ''PUT'', ''PATCH'', ''DELETE''} \<and> rc_ProxyFactory rc c = Inr (prxy, None) \<and>
      (\<forall>c' \<in> set es2. ep_Endpoint c' = p \<longrightarrow> to_upper (ep_Method c') \<noteq> hr_Method r)"
    show "rc_ServeHTTP rc e r w = rc_HandlerFactory rc c (call_proxy prxy) r (NewHTTPErrorInterceptor w)"
      by (rule router_serves_endpoint [OF assms(1,3,4)]) (use c in blast)+
  }
  assume n: "\<forall>h. ((p, hr_Method r), h) \<notin> set (service_routes rc cfg @ concat (map (endpoint_route rc) (sc_Endpoints cfg)))"
  then have "engine_lookup e p (hr_Method r) = None"
    unfolding Run_lookup [OF assms(1,3)] map_of_eq_None_iff by force
  then show "rc_ServeHTTP rc e r new_writer =
      http_Error [] 405 (set_header CompleteResponseHeaderName HeaderIncompleteResponseValue (NewHTTPErrorInterceptor new_writer))"
    by (simp add: serve BasicEngine_ServeHTTP_def Let_def assms(4) registrableHandler_def)
qed

definition demo_serve_mux :: serve_mux where
  "demo_serve_mux = \<lparr>sm_accepts = (\<lambda>ps p. p \<noteq> []),
     sm_route = (\<lambda>ps r. if hr_URL_Path r \<in> set ps then ToPattern (hr_URL_Path r) else OwnAnswer 404 [] ''404 page not found'')\<rparr>"

lemma demo_serve_mux_ok: "serve_mux_ok demo_serve_mux"
  by (auto simp: serve_mux_ok_def demo_serve_mux_def split: mux_route.splits if_splits)

definition demo_router :: "BasicEngine router_config" where
  "demo_router = DefaultFactory demo_serve_mux demo_mux
     (\<lambda>c. Inr (Some (\<lambda>q. Ret (Some (mk_Response (Some [(''a'', VStr ''b'')]) True)) None), None)) HealthHandler (\<lambda>cfg h. None)"

definition demo_routes :: ServiceConfig where
  "demo_routes = demo_config\<lparr>sc_Endpoints := [empty_EndpointConfig\<lparr>ep_Endpoint := ''/u'', ep_Method := ''GET''\<rparr>]\<rparr>"

lemma demo_upper: "to_upper ''GET'' = ''GET''"
  by code_simp

lemma demo_Run:
  "\<exists>e ts' ls. Run demo_router demo_tls_lib \<lparr>ts_done = False, ts_DefaultTransport = None\<rparr> demo_routes = Some (e, ts', ls) \<and>
     en_patterns e = [''/__health'', ''/u'']"
  by (simp add: Run_def demo_router_def DefaultFactory_def demo_routes_def demo_config_def BasicEngine_Handle_def
      DefaultEngine_def demo_serve_mux_def registerKrakendEndpoint_def demo_upper Let_def split: prod.splits)

theorem router_serves_endpoints_witness:
  "\<exists>e ts' ls. Run demo_router demo_tls_lib \<lparr>ts_done = False, ts_DefaultTransport = None\<rparr> demo_routes = Some (e, ts', ls) \<and>
     rc_ServeHTTP demo_router e demo_in new_writer = rc_HandlerFactory demo_router (hd (sc_Endpoints demo_routes))
       (\<lambda>q. Ret (Some (mk_Response (Some [(''a'', VStr ''b'')]) True)) None) demo_in (NewHTTPErrorInterceptor new_writer)"
proof -
  obtain e ts' ls where run: "Run demo_router demo_tls_lib \<lparr>ts_done = False, ts_DefaultTransport = None\<rparr> demo_routes
      = Some (e, ts', ls)" "en_patterns e = [''/__health'', ''/u'']" using demo_Run by blast
  have b: "basic_router demo_serve_mux demo_router" by (simp add: basic_router_def demo_router_def DefaultFactory_def)
  have p: "sm_route demo_serve_mux (en_patterns e) demo_in = ToPattern ''/u''"
    by (simp add: run(2) demo_serve_mux_def demo_in_def)
  let ?c = "empty_EndpointConfig\<lparr>ep_Endpoint := ''/u'', ep_Method := ''GET''\<rparr>"
  have e: "sc_Endpoints demo_routes = [] @ ?c # []" by (simp add: demo_routes_def)
  have f: "rc_ProxyFactory demo_router ?c = Inr (Some (\<lambda>q. Ret (Some (mk_Response (Some [(''a'', VStr ''b'')]) True)) None), None)"
    by (simp add: demo_router_def DefaultFactory_def)
  have m: "hr_Method demo_in = to_upper (ep_Method ?c)" by (simp add: demo_upper demo_in_def)
  have "rc_ServeHTTP demo_router e demo_in new_writer = rc_HandlerFactory demo_router ?c
      (call_proxy (Some (\<lambda>q. Ret (Some (mk_Response (Some [(''a'', VStr ''b'')]) True)) None))) demo_in (NewHTTPErrorInterceptor new_writer)"
    by (rule conjunct1 [OF router_serves_endpoints [OF b demo_serve_mux_ok run(1) p], rule_format, of "[]" ?c "[]"])
      (use e f m in \<open>simp add: demo_upper\<close>)
  then show ?thesis using run(1) by (simp add: demo_routes_def call_proxy_def)
qed

text \<open>What holds of every answer of the router's own handlers.\<close>

definition sound_answer :: "bool \<Rightarrow> response_writer \<Rightarrow> bool" where
  "sound_answer P w \<longleftrightarrow>
     (completed (client_header w) = ''true'' \<longrightarrow> client_status w = 200 \<and> P) \<and>
     (client_status w \<noteq> 200 \<longrightarrow> completed (client_header w) = ''false'')"

lemma sound_Write: "sound_answer P (rw_Write b (set_header ''Content-Type'' t (NewHTTPErrorInterceptor new_writer)))"
proof -
  let ?w = "set_header ''Content-Type'' t (NewHTTPErrorInterceptor new_writer)"
  have "rw_sent ?w = None" "completed (rw_Header ?w) = []"
    by (simp_all add: set_header_def NewHTTPErrorInterceptor_def new_writer_def header_Get_def)
  with client_header_Write [of ?w b] show ?thesis by (simp add: sound_answer_def)
qed

lemma sound_incomplete: "completed (client_header w) = ''false'' \<Longrightarrow> sound_answer P w"
  by (simp add: sound_answer_def)

lemma unmarked_WriteHeader:
  assumes "rw_sent w = None" "rw_once w = Some False" "WriteHeader code w = Some v" "code \<noteq> 200"
  shows "completed (client_header v) = ''false'' \<and> completed (client_header (rw_Write b v)) = ''false''"
  using assms by (auto simp: writer_defs Let_def header_names split: if_splits)

lemma sound_405:
  "http_Error [] 405 (set_header CompleteResponseHeaderName HeaderIncompleteResponseValue (NewHTTPErrorInterceptor new_writer)) = Some w \<Longrightarrow>
     sound_answer P w"
  using Error_keeps [OF conjunct1 [OF incomplete_marked [of "NewHTTPErrorInterceptor new_writer"]], of "[]" 405 w]
    incomplete_marked [of "NewHTTPErrorInterceptor new_writer"]
  by (auto simp: NewHTTPErrorInterceptor_def new_writer_def intro: sound_incomplete)

text \<open>The handlers that the default router registers.\<close>

lemma default_handlers:
  assumes "rc = DefaultFactory mux env pf (EchoHandler M qe) rs" "Run rc lib ts cfg = Some (e, ts', ls)"
    "engine_lookup e p m = Some h"
  shows "h = DebugHandler \<or> h = EchoHandler M qe \<or> h = HealthHandler \<or>
    (\<exists>c prxy. c \<in> set (sc_Endpoints cfg) \<and> pf c = Inr (prxy, None) \<and> h = EndpointHandler env c (call_proxy prxy))"
proof -
  have b: "basic_router mux rc" by (simp add: assms(1) basic_router_def DefaultFactory_def)
  have rc: "rc_DebugHandler rc = DebugHandler" "rc_EchoHandler rc = EchoHandler M qe"
    "rc_HandlerFactory rc = EndpointHandler env" "rc_ProxyFactory rc = pf"
    by (simp_all add: assms(1) DefaultFactory_def)
  from assms(3) have "((p, m), h) \<in> set (service_routes rc cfg @ concat (map (endpoint_route rc) (sc_Endpoints cfg)))"
    unfolding Run_lookup [OF b assms(2)] by (metis map_of_SomeD set_rev)
  then have "((p, m), h) \<in> set (service_routes rc cfg) \<or>
      (\<exists>c \<in> set (sc_Endpoints cfg). ((p, m), h) \<in> set (endpoint_route rc c))" by auto
  then show ?thesis
    using service_routes_handler [of _ h rc cfg] endpoint_route_handler [of _ h rc] unfolding rc by blast
qed

lemma interceptor_unsent:
  "rw_sent (NewHTTPErrorInterceptor new_writer) = None" "rw_once (NewHTTPErrorInterceptor new_writer) = Some False"
  by (simp_all add: NewHTTPErrorInterceptor_def new_writer_def)

lemma service_handlers_sound:
  assumes "h = DebugHandler \<or> h = EchoHandler M qe \<or> h = HealthHandler"
    "h r (NewHTTPErrorInterceptor new_writer) = Some w"
  shows "sound_answer P w"
  using assms sound_Write unmarked_WriteHeader [of "NewHTTPErrorInterceptor new_writer" 500 w]
    interceptor_unsent
  by (auto simp: DebugHandler_def EchoHandler_def HealthHandler_def Let_def
      split: sum.splits option.splits intro: sound_incomplete)

lemma router_sound_answer:
  assumes "serve_mux_ok mux" "mx_renders env = renderRegister (mx_Marshal env)"
    "rc = DefaultFactory mux env pf (EchoHandler M qe) rs" "Run rc lib ts cfg = Some (e, ts', ls)"
    "router_handler rc e r new_writer = Some w"
  shows "sound_answer (\<exists>c \<in> set (sc_Endpoints cfg). \<exists>prxy q resp err. pf c = Inr (prxy, None) \<and>
      call_proxy prxy q = Ret (Some resp) err \<and> has_data (Some resp) \<and> rs_IsComplete resp) w"
proof -
  let ?w = "NewHTTPErrorInterceptor new_writer"
  note w0 = interceptor_unsent
  have serve: "BasicEngine_ServeHTTP mux e r new_writer = Some w"
    using assms(5) by (simp add: assms(3) router_handler_def DefaultFactory_def)
  show ?thesis
  proof (cases "sm_route mux (en_patterns e) r")
    case (OwnAnswer code h body)
    then have "code \<noteq> 200" using assms(1) by (auto simp: serve_mux_ok_def split: mux_route.splits)
    with serve OwnAnswer show ?thesis
      using unmarked_WriteHeader [of "?w\<lparr>rw_Header := header_Add_all h (rw_Header ?w)\<rparr>" code _ body] w0
      by (auto simp: BasicEngine_ServeHTTP_def Let_def own_answer_def intro: sound_incomplete)
  next
    case (ToPattern p)
    then have s: "registrableHandler e p r ?w = Some w" using serve by (simp add: BasicEngine_ServeHTTP_def Let_def)
    show ?thesis
    proof (cases "engine_lookup e p (hr_Method r)")
      case None
      with s sound_405 show ?thesis by (simp add: registrableHandler_def)
    next
      case (Some h)
      then have hw: "h r ?w = Some w" using s by (simp add: registrableHandler_def)
      consider "h = DebugHandler \<or> h = EchoHandler M qe \<or> h = HealthHandler"
        | c prxy where "c \<in> set (sc_Endpoints cfg)" "pf c = Inr (prxy, None)" "h = EndpointHandler env c (call_proxy prxy)"
        using default_handlers [OF assms(3,4) Some] by blast
      then show ?thesis
      proof cases
        case 1
        from service_handlers_sound [OF this hw] show ?thesis .
      next
        case 2
        from hw 2(3) have "CustomEndpointHandlerWithHTTPError env (NewRequest (mx_version env)) DefaultToHTTPError c
            (call_proxy prxy) r ?w = Some w"
          by (simp add: EndpointHandler_def CustomEndpointHandler_def)
        from handler_completed [OF w0 assms(2) this] 2(1,2) show ?thesis
          unfolding sound_answer_def by fastforce
      qed
    qed
  qed
qed

text \<open>
  C5: Through the default router, an answer is marked as complete only with status 200 and when
  the proxy of one of the endpoints gave complete data that is not empty; every answer with
  another status is marked as incomplete.
\<close>

theorem complete_answers_are_complete:
  assumes "serve_mux_ok mux" "mx_renders env = renderRegister (mx_Marshal env)"
    "rc = DefaultFactory mux env pf (EchoHandler M qe) rs" "Run rc lib ts cfg = Some (e, ts', ls)"
    "router_handler rc e r new_writer = Some w"
  shows "sound_answer (\<exists>c \<in> set (sc_Endpoints cfg). \<exists>prxy q resp err. pf c = Inr (prxy, None) \<and>
      call_proxy prxy q = Ret (Some resp) err \<and> has_data (Some resp) \<and> rs_IsComplete resp) w"
  using assms by (rule router_sound_answer)

definition plain_router :: "BasicEngine router_config" where
  "plain_router = DefaultFactory demo_serve_mux demo_mux (\<lambda>c. Inr (Some NoopProxy, None))
     (EchoHandler (\<lambda>x. Inr []) (\<lambda>q. [])) (\<lambda>cfg h. None)"

theorem complete_answers_are_complete_witness:
  "\<exists>e ts' ls w. Run plain_router demo_tls_lib \<lparr>ts_done = False, ts_DefaultTransport = None\<rparr>
      (demo_routes\<lparr>sc_Endpoints := []\<rparr>) = Some (e, ts', ls) \<and>
     router_handler plain_router e demo_in new_writer = Some w \<and> client_status w = 404 \<and> completed (client_header w) = ''false''"
proof -
  have "\<exists>e ts' ls. Run plain_router demo_tls_lib \<lparr>ts_done = False, ts_DefaultTransport = None\<rparr>
      (demo_routes\<lparr>sc_Endpoints := []\<rparr>) = Some (e, ts', ls) \<and> en_patterns e = [''/__health'']"
    by (simp add: Run_def plain_router_def DefaultFactory_def demo_routes_def demo_config_def BasicEngine_Handle_def
      DefaultEngine_def demo_serve_mux_def Let_def split: prod.splits)
  then obtain e ts' ls where run: "Run plain_router demo_tls_lib \<lparr>ts_done = False, ts_DefaultTransport = None\<rparr>
      (demo_routes\<lparr>sc_Endpoints := []\<rparr>) = Some (e, ts', ls)" and p: "en_patterns e = [''/__health'']" by blast
  have h: "\<exists>w. router_handler plain_router e demo_in new_writer = Some w \<and> client_status w = 404"
    by (simp add: plain_router_def router_handler_def DefaultFactory_def BasicEngine_ServeHTTP_def demo_serve_mux_def p
        demo_in_def own_answer_def writer_defs NewHTTPErrorInterceptor_def new_writer_def Let_def body_allowed_def)
  then obtain w where w: "router_handler plain_router e demo_in new_writer = Some w" "client_status w = 404" by blast
  have r: "mx_renders demo_mux = renderRegister (mx_Marshal demo_mux)" by (simp add: demo_mux_def)
  from complete_answers_are_complete [OF demo_serve_mux_ok r plain_router_def run w(1)] w run show ?thesis
    by (auto simp: sound_answer_def)
qed

text \<open>
  With a router from \<open>NewFactory\<close> that was given no echo pattern, which it does not fill in as it
  does the debug pattern, a configuration that switches the echo endpoint on panics the start.
\<close>

theorem echo_without_pattern_panics:
  assumes "serve_mux_ok mux" "basic_router mux rc" "rc_EchoPattern rc = []" "sc_Echo cfg"
  shows "Run (NewFactory rc) lib ts cfg = None"
proof (rule ccontr)
  assume "Run (NewFactory rc) lib ts cfg \<noteq> None"
  then obtain e ts' ls where r: "Run (NewFactory rc) lib ts cfg = Some (e, ts', ls)" by auto
  have b: "basic_router mux (NewFactory rc)" using assms(2) by (simp add: basic_router_def NewFactory_def)
  have "rc_EchoPattern (NewFactory rc) = []" using assms(3) by (simp add: NewFactory_def)
  then have "(([], ''GET''), rc_EchoHandler (NewFactory rc)) \<in> set (service_routes (NewFactory rc) cfg)"
    using assms(4) by (simp add: service_routes_def service_methods_def)
  then have "engine_lookup e [] ''GET'' \<noteq> None"
    unfolding Run_lookup [OF b r] map_of_eq_None_iff by force
  then have "[] \<in> dom (map_of (en_dict e))" by (auto simp: engine_lookup_def split: option.splits)
  moreover have "engine_ok e" by (rule Run_engine_ok [OF b assms(1) r])
  ultimately show False unfolding engine_ok_def by blast
qed

end
