(* ===== verification/GinEndpoint.thy ===== *)
theory GinEndpoint
  imports MuxEndpoint
begin

text \<open>
  router/gin/endpoint.go, render.go, debug.go, echo.go and the handlers of engine.go. The library
  gin is a parameter: a handler is modelled by what it asks of its context, in order
  (\<open>gin_call\<close>), from what it reads there: the request, the parameters of the route, the client's
  address, the format negotiated with the client and the status that the calls so far have set.
  \<open>None\<close> is a panic. What is logged is left out.
\<close>

datatype gin_call =
    GinHeader string string
  | GinHeaderAdd string string
  | GinStatus int
  | GinString int string
  | GinJSON int gval
  | GinXML int "gval option"
  | GinYAML int gval
  | GinEcho int echo_source
  | GinError goerror
  | GinWriteString string
  | GinCopy io_reader
  | GinAbort
  | GinAbortWithStatus int
and echo_source = EchoOf in_request string

record gin_lib =
  gn_version :: string
  gn_ClientIP :: "in_request \<Rightarrow> string"
  gn_Status :: "gin_call list \<Rightarrow> int"
  gn_NegotiateFormat :: "in_request \<Rightarrow> string"
  gn_Quote :: "string \<Rightarrow> string"
  gn_error_headers :: "goerror \<Rightarrow> header option"
  gn_ctx_done :: "EndpointConfig \<Rightarrow> in_request \<Rightarrow> bool"

text \<open>\<open>gc_calls\<close>: what the middlewares before the handler have asked for.\<close>

record gin_context =
  gc_Request :: in_request
  gc_Params :: "(string \<times> string) list"
  gc_calls :: "gin_call list"

type_synonym gin_handler = "gin_context \<Rightarrow> gin_call list option"

section \<open>The request (endpoint.go)\<close>

text \<open>
  A parameter goes under its name with the first letter in upper case; the slice of an empty name
  panics.
\<close>

fun gin_params :: "(string \<times> string) list \<Rightarrow> (string \<times> string) list \<Rightarrow> (string \<times> string) list option" where
  "gin_params [] params = Some params"
| "gin_params ((key, v) # ps) params =
     (case key of
        [] \<Rightarrow> None
      | c # cs \<Rightarrow> gin_params ps (mput (CanonicalMIMEHeaderKey [c] @ cs) v params))"

definition gin_NewRequest :: "gin_lib \<Rightarrow> string list \<Rightarrow> gin_context \<Rightarrow> string list \<Rightarrow> Request option" where
  "gin_NewRequest lib headersToSend c queryString =
     (let headersToSend = (if length headersToSend = 0 then HeadersToSend else headersToSend);
          r = gc_Request c
      in case gin_params (gc_Params c) [] of
           None \<Rightarrow> None
         | Some params \<Rightarrow>
             (let (headers, shared) = headers_to_send (hr_Header r) headersToSend [];
                  headers = forwarding_headers (gn_version lib) (gn_ClientIP lib r) (hr_Host r) headers;
                  query = query_to_send (hr_Query r) queryString []
              in Some \<lparr>rq_Method = hr_Method r, rq_URL = None, rq_Query = Some query, rq_Path = hr_URL_Path r,
                   rq_Body = hr_Body r, rq_Params = Some params, rq_Headers = Some headers\<rparr>))"

section \<open>The renders (render.go)\<close>

text \<open>A render gets the calls made so far, on which the status depends.\<close>

type_synonym gin_Render = "in_request \<Rightarrow> gin_call list \<Rightarrow> Response option \<Rightarrow> gin_call list"

definition gin_stringRender :: "gin_lib \<Rightarrow> gin_Render" where
  "gin_stringRender lib r calls response =
     (let status = gn_Status lib calls
      in case response of
           None \<Rightarrow> [GinString status []]
         | Some resp \<Rightarrow>
             (case nmap_get (rs_Data resp) ''content'' of
                None \<Rightarrow> [GinString status []]
              | Some d \<Rightarrow> (case as_str d of None \<Rightarrow> [GinString status []] | Some msg \<Rightarrow> [GinString status msg])))"

definition gin_jsonRender :: "gin_lib \<Rightarrow> gin_Render" where
  "gin_jsonRender lib r calls response =
     (let status = gn_Status lib calls
      in case response of
           None \<Rightarrow> [GinJSON status (VObj [])]
         | Some resp \<Rightarrow> [GinJSON status (of_map (rs_Data resp))])"

definition gin_jsonCollectionRender :: "gin_lib \<Rightarrow> gin_Render" where
  "gin_jsonCollectionRender lib r calls response =
     (let status = gn_Status lib calls
      in case response of
           None \<Rightarrow> [GinJSON status (VArr [])]
         | Some resp \<Rightarrow>
             (case nmap_get (rs_Data resp) ''collection'' of
                None \<Rightarrow> [GinJSON status (VArr [])]
              | Some col \<Rightarrow> [GinJSON status col]))"

definition gin_xmlRender :: "gin_lib \<Rightarrow> gin_Render" where
  "gin_xmlRender lib r calls response =
     (let status = gn_Status lib calls
      in case response of
           None \<Rightarrow> [GinXML status None]
         | Some resp \<Rightarrow>
             (case nmap_get (rs_Data resp) ''content'' of
                None \<Rightarrow> [GinXML status None]
              | Some d \<Rightarrow> [GinXML status (Some d)]))"

definition gin_yamlRender :: "gin_lib \<Rightarrow> gin_Render" where
  "gin_yamlRender lib r calls response =
     (let status = gn_Status lib calls
      in case response of
           None \<Rightarrow> [GinYAML status (VObj [])]
         | Some resp \<Rightarrow> [GinYAML status (of_map (rs_Data resp))])"

text \<open>\<open>for k, vs := range hs { for _, v := range vs { c.Writer.Header().Add(k, v) } }\<close>\<close>

definition gin_add_headers :: "header option \<Rightarrow> gin_call list" where
  "gin_add_headers hs =
     concat (map (\<lambda>(k, vs). map (GinHeaderAdd k) vs) (case hs of None \<Rightarrow> [] | Some h \<Rightarrow> h))"

definition gin_noopRender :: gin_Render where
  "gin_noopRender r calls response =
     (case response of
        None \<Rightarrow> [GinStatus 500]
      | Some resp \<Rightarrow>
          gin_add_headers (md_Headers (rs_Metadata resp)) @ [GinStatus (md_StatusCode (rs_Metadata resp))] @
          (case rs_Io resp of None \<Rightarrow> [] | Some b \<Rightarrow> [GinCopy b]))"

abbreviation gin_NEGOTIATE :: string where "gin_NEGOTIATE \<equiv> ''negotiate''"
abbreviation gin_XML :: string where "gin_XML \<equiv> ''xml''"
abbreviation gin_YAML :: string where "gin_YAML \<equiv> ''yaml''"

definition gin_getWithFallback :: "(string \<times> gin_Render) list \<Rightarrow> string \<Rightarrow> gin_Render \<Rightarrow> gin_Render" where
  "gin_getWithFallback reg key fallback = (case map_of reg key of None \<Rightarrow> fallback | Some r \<Rightarrow> r)"

text \<open>
  The register without the negotiated render, which \<open>init\<close> adds, and which looks the others up
  when it runs: in the register as it is then (\<open>reg\<close>).
\<close>

definition gin_renders :: "gin_lib \<Rightarrow> (string \<times> gin_Render) list" where
  "gin_renders lib =
     [(enc_STRING, gin_stringRender lib), (enc_JSON, gin_jsonRender lib), (enc_NOOP, gin_noopRender),
      (''json-collection'', gin_jsonCollectionRender lib), (gin_XML, gin_xmlRender lib), (gin_YAML, gin_yamlRender lib)]"

definition negotiatedRender :: "gin_lib \<Rightarrow> (string \<times> gin_Render) list \<Rightarrow> gin_Render" where
  "negotiatedRender lib reg r calls response =
     (let format = gn_NegotiateFormat lib r
      in if format = ''application/xml'' then gin_getWithFallback reg gin_XML (gin_jsonRender lib) r calls response
         else if format = ''text/plain'' \<or> format = ''application/x-yaml''
         then gin_getWithFallback reg gin_YAML (gin_jsonRender lib) r calls response
         else gin_getWithFallback reg enc_JSON (gin_jsonRender lib) r calls response)"

definition gin_init :: "gin_lib \<Rightarrow> (string \<times> gin_Render) list" where
  "gin_init lib = mput gin_NEGOTIATE (negotiatedRender lib (gin_renders lib)) (gin_renders lib)"

definition gin_RegisterRender :: "string \<Rightarrow> gin_Render \<Rightarrow> (string \<times> gin_Render) list \<Rightarrow> (string \<times> gin_Render) list" where
  "gin_RegisterRender name r reg = mput name r reg"

definition gin_getRender :: "gin_lib \<Rightarrow> (string \<times> gin_Render) list \<Rightarrow> EndpointConfig \<Rightarrow> gin_Render" where
  "gin_getRender lib reg cfg =
     (let fallback = gin_jsonRender lib;
          fallback = (case ep_Backend cfg of [b] \<Rightarrow> gin_getWithFallback reg (be_Encoding b) fallback | _ \<Rightarrow> fallback)
      in if ep_OutputEncoding cfg = [] then fallback
         else gin_getWithFallback reg (ep_OutputEncoding cfg) fallback)"

section \<open>The handler of an endpoint (endpoint.go)\<close>

fun encoded_error :: "goerror \<Rightarrow> string" where
  "encoded_error (ErrHTTPResponse code msg enc) = HTTPResponseError_Encoding code msg enc"
| "encoded_error (ErrNamedHTTPResponse code msg enc name) = HTTPResponseError_Encoding code msg enc"
| "encoded_error _ = []"

definition ErrorResponseWriter :: "goerror \<Rightarrow> gin_call list" where
  "ErrorResponseWriter err =
     (if encoded_error err \<noteq> [] then [GinHeader ''Content-Type'' (encoded_error err)] else []) @
     [GinWriteString (error_text err)]"

text \<open>A merge of errors is a \<open>multiError\<close>: each of its errors is added to the context.\<close>

definition context_errors :: "goerror \<Rightarrow> gin_call list" where
  "context_errors e =
     (case mergeError_Errors e of
        Some es \<Rightarrow> map GinError es
      | None \<Rightarrow> [GinError e])"

lemma context_errors_simps [simp]:
  "context_errors (ErrMerge es) = map GinError es"
  "context_errors (ErrText s) = [GinError (ErrText s)]"
  "context_errors (ErrInvalidStatus i s t) = [GinError (ErrInvalidStatus i s t)]"
  "context_errors (ErrHTTPResponse i s t) = [GinError (ErrHTTPResponse i s t)]"
  "context_errors (ErrNamedHTTPResponse i s t u) = [GinError (ErrNamedHTTPResponse i s t u)]"
  by (simp_all add: context_errors_def)

text \<open>What the handler asks for before it answers: \<open>err\<close> is the error after the context check.\<close>

definition answer_calls :: "gin_lib \<Rightarrow> EndpointConfig \<Rightarrow> Response option \<Rightarrow> goerror option \<Rightarrow> gin_call list" where
  "answer_calls lib configuration response err =
     (let complete = (if has_data response \<and> rs_IsComplete (the response)
                      then HeaderCompleteResponseValue else HeaderIncompleteResponseValue)
      in [GinHeader KrakendHeaderName (KrakendHeaderValue (gn_version lib))] @
         (if has_data response then
            (if rs_IsComplete (the response) \<and> ep_CacheTTL configuration \<noteq> 0
             then [GinHeader ''Cache-Control'' (''public, max-age='' @ itoa (whole_seconds (ep_CacheTTL configuration)))]
             else []) @ gin_add_headers (md_Headers (rs_Metadata (the response)))
          else []) @
         [GinHeader CompleteResponseHeaderName complete] @
         (case err of None \<Rightarrow> [] | Some e \<Rightarrow> context_errors e))"

definition CustomErrorEndpointHandler ::
  "gin_lib \<Rightarrow> (string \<times> gin_Render) list \<Rightarrow> bool \<Rightarrow> (goerror \<Rightarrow> int) \<Rightarrow> EndpointConfig \<Rightarrow> Proxy \<Rightarrow> gin_handler" where
  "CustomErrorEndpointHandler lib reg returnErrorMsg errF configuration prxy c =
     (let render = gin_getRender lib reg configuration;
          r = gc_Request c
      in case gin_NewRequest lib (ep_HeadersToPass configuration) c (ep_QueryString configuration) of
           None \<Rightarrow> None
         | Some request \<Rightarrow>
             (case prxy request of
                GoPanic \<Rightarrow> None
              | Ret response err \<Rightarrow>
                  (let err = (if gn_ctx_done lib configuration r \<and> err = None then Some ErrInternalError else err);
                       calls = answer_calls lib configuration response err
                   in case (err, response) of
                        (Some e, None) \<Rightarrow>
                          Some (calls @ gin_add_headers (gn_error_headers lib e) @
                            [GinStatus (case responseError_StatusCode e of Some code \<Rightarrow> code | None \<Rightarrow> errF e)] @
                            (if returnErrorMsg then ErrorResponseWriter e else []))
                      | _ \<Rightarrow> Some (calls @ render r (gc_calls c @ calls) response))))"

definition gin_EndpointHandler :: "gin_lib \<Rightarrow> (string \<times> gin_Render) list \<Rightarrow> bool \<Rightarrow> EndpointConfig \<Rightarrow> Proxy \<Rightarrow> gin_handler" where
  "gin_EndpointHandler lib reg returnErrorMsg = CustomErrorEndpointHandler lib reg returnErrorMsg DefaultToHTTPError"

section \<open>Service handlers (debug.go, echo.go, engine.go)\<close>

definition gin_DebugHandler :: gin_handler where
  "gin_DebugHandler c =
     (case hr_Body (gc_Request c) of None \<Rightarrow> None | Some _ \<Rightarrow> Some [GinJSON 200 (VObj [(''message'', VStr ''pong'')])])"

text \<open>The echo is a struct with fields of the request and the text of its body.\<close>

definition gin_EchoHandler :: gin_handler where
  "gin_EchoHandler c =
     (let body = (case hr_Body (gc_Request c) of None \<Rightarrow> [] | Some b \<Rightarrow> fst b)
      in Some [GinEcho 200 (EchoOf (gc_Request c) body)])"

text \<open>The health endpoint: the reports of the agents, and the time.\<close>

definition health_report :: "string \<Rightarrow> string \<Rightarrow> (string \<times> string) list \<Rightarrow> (string \<times> string) list" where
  "health_report now name reports = mput name now reports"

definition healthEndpoint :: "(string \<times> string) list \<Rightarrow> string \<Rightarrow> gin_handler" where
  "healthEndpoint reports now c =
     Some [GinJSON 200 (VObj [(''status'', VStr ''ok''), (''agents'', VObj (map (\<lambda>(k, v). (k, VStr v)) reports)),
       (''now'', VStr now)])]"

text \<open>\<open>url.PathUnescape\<close>: the decoded text, or the malformed escape (at most three bytes).\<close>

definition is_hex :: "char \<Rightarrow> bool" where
  "is_hex c \<longleftrightarrow> is_digit c \<or> c \<in> set ''abcdefABCDEF''"

definition unhex :: "char \<Rightarrow> nat" where
  "unhex c = (let n = of_char c in if is_digit c then n - 48 else if n \<ge> 97 then n - 87 else n - 55)"

fun PathUnescape :: "string \<Rightarrow> string + string" where
  "PathUnescape [] = Inr []"
| "PathUnescape (c # cs) =
     (if c = CHR ''%'' then
        (case cs of
           a # b # rest \<Rightarrow>
             if is_hex a \<and> is_hex b then map_sum id ((#) (char_of (unhex a * 16 + unhex b))) (PathUnescape rest)
             else Inl [c, a, b]
         | _ \<Rightarrow> Inl (c # cs))
      else map_sum id ((#) c) (PathUnescape cs))"

fun check_params :: "gin_lib \<Rightarrow> (string \<times> string) list \<Rightarrow> gin_call list" where
  "check_params lib [] = []"
| "check_params lib ((key, v) # ps) =
     (case PathUnescape v of
        Inl bad \<Rightarrow>
          GinStatus 400 # ErrorResponseWriter (ErrText (''error: invalid URL escape '' @ gn_Quote lib bad)) @ [GinAbort]
      | Inr s \<Rightarrow>
          if s \<noteq> v \<or> CHR ''?'' \<in> set s \<or> CHR ''#'' \<in> set s
          then GinStatus 400 # ErrorResponseWriter (ErrText ''error: encoded url params'') @ [GinAbort]
          else check_params lib ps)"

definition paramChecker :: "gin_lib \<Rightarrow> gin_handler" where
  "paramChecker lib c = Some (check_params lib (gc_Params c))"

section \<open>Lemmas\<close>

lemma PathUnescape_plain: "CHR ''%'' \<notin> set v \<Longrightarrow> PathUnescape v = Inr v"
  by (induction v rule: PathUnescape.induct) auto

lemma PathUnescape_length: "PathUnescape v = Inr s \<Longrightarrow> length s \<le> length v \<and> (CHR ''%'' \<in> set v \<longrightarrow> length s < length v)"
proof (induction v arbitrary: s rule: PathUnescape.induct)
  case (2 c cs)
  show ?case
  proof (cases "c = CHR ''%''")
    case True
    with 2(3) obtain a b rest where cs: "cs = a # b # rest" "is_hex a \<and> is_hex b"
      by (auto split: list.splits if_splits)
    with 2(3) True obtain t where t: "PathUnescape rest = Inr t" "length s = Suc (length t)"
      by (cases "PathUnescape rest") auto
    from 2(1) [OF True cs(1) refl cs(2) t(1)] cs(1) t(2) show ?thesis by simp
  next
    case False
    with 2(3) obtain t where t: "PathUnescape cs = Inr t" "s = c # t" by (cases "PathUnescape cs") auto
    from 2(2) [OF False t(1)] t(2) False show ?thesis by auto
  qed
qed simp

lemma PathUnescape_same_iff: "PathUnescape v = Inr v \<longleftrightarrow> CHR ''%'' \<notin> set v"
  using PathUnescape_plain PathUnescape_length [of v v] by blast

text \<open>The headers that a list of calls sets, and the statuses.\<close>

fun headers_set :: "gin_call list \<Rightarrow> (string \<times> string) list" where
  "headers_set [] = []"
| "headers_set (GinHeader k v # cs) = (k, v) # headers_set cs"
| "headers_set (_ # cs) = headers_set cs"

fun statuses_set :: "gin_call list \<Rightarrow> int list" where
  "statuses_set [] = []"
| "statuses_set (GinStatus code # cs) = code # statuses_set cs"
| "statuses_set (_ # cs) = statuses_set cs"

lemma calls_append [simp]:
  "headers_set (xs @ ys) = headers_set xs @ headers_set ys"
  "statuses_set (xs @ ys) = statuses_set xs @ statuses_set ys"
  by (induction xs rule: headers_set.induct) simp_all

lemma calls_add [simp]: "headers_set (map (GinHeaderAdd k) vs) = []" "statuses_set (map (GinHeaderAdd k) vs) = []"
  by (induction vs) simp_all

lemma calls_add_headers [simp]:
  "headers_set (gin_add_headers hs) = []" "statuses_set (gin_add_headers hs) = []"
proof -
  have "headers_set (concat (map (\<lambda>(k, vs). map (GinHeaderAdd k) vs) h)) = [] \<and>
      statuses_set (concat (map (\<lambda>(k, vs). map (GinHeaderAdd k) vs) h)) = []" for h
    by (induction h) auto
  then show "headers_set (gin_add_headers hs) = []" "statuses_set (gin_add_headers hs) = []"
    by (simp_all add: gin_add_headers_def)
qed

lemma calls_context_errors [simp]:
  "headers_set (context_errors e) = []" "statuses_set (context_errors e) = []"
proof -
  have "headers_set (map GinError es) = [] \<and> statuses_set (map GinError es) = []" for es
    by (induction es) auto
  then show "headers_set (context_errors e) = []" "statuses_set (context_errors e) = []"
    by (cases e; simp)+
qed

lemma gin_render_sets_no_header:
  "headers_set (gin_getRender lib (gin_init lib) cfg r calls response) = []"
proof -
  let ?R = "{gin_stringRender lib, gin_jsonRender lib, gin_noopRender, gin_jsonCollectionRender lib, gin_xmlRender lib,
    gin_yamlRender lib}"
  have base: "headers_set (f r calls response) = []" if "f \<in> ?R" for f
    using that
    by (auto simp: gin_stringRender_def gin_jsonRender_def gin_noopRender_def gin_jsonCollectionRender_def
        gin_xmlRender_def gin_yamlRender_def Let_def split: option.splits)
  have f: "gin_getWithFallback (gin_renders lib) k (gin_jsonRender lib) \<in> ?R" for k
    by (simp add: gin_getWithFallback_def gin_renders_def)
  have n: "headers_set (negotiatedRender lib (gin_renders lib) r calls response) = []"
    using f base by (auto simp: negotiatedRender_def Let_def)
  have g: "gin_getWithFallback (gin_init lib) k d \<in> insert d (insert (negotiatedRender lib (gin_renders lib)) ?R)" for k d
    by (simp add: gin_getWithFallback_def gin_init_def gin_renders_def split: option.splits)
  have all: "\<forall>f \<in> insert (negotiatedRender lib (gin_renders lib)) ?R. headers_set (f r calls response) = []"
    using base n by blast
  have "gin_getRender lib (gin_init lib) cfg \<in> insert (negotiatedRender lib (gin_renders lib)) ?R"
  proof -
    define fb where "fb = (case ep_Backend cfg of [b] \<Rightarrow> gin_getWithFallback (gin_init lib) (be_Encoding b) (gin_jsonRender lib)
      | _ \<Rightarrow> gin_jsonRender lib)"
    have "fb \<in> insert (negotiatedRender lib (gin_renders lib)) ?R"
      using g [of _ "gin_jsonRender lib"] by (auto simp: fb_def split: list.splits)
    with g [of "ep_OutputEncoding cfg" fb] show ?thesis
      by (simp add: gin_getRender_def Let_def fb_def [symmetric]) blast
  qed
  with all show ?thesis by (rule bspec)
qed

section \<open>Properties\<close>

text \<open>
  C28: The checker of the parameters lets a request pass exactly when no parameter has a percent
  sign, a question mark or a hash in it; otherwise the request is aborted with status 400.
\<close>

theorem param_checker_exact:
  "\<exists>calls. paramChecker lib c = Some calls \<and>
     (if \<forall>(k, v) \<in> set (gc_Params c). set v \<inter> {CHR ''%'', CHR ''?'', CHR ''#''} = {} then calls = []
      else \<exists>err. calls = GinStatus 400 # ErrorResponseWriter err @ [GinAbort])"
proof -
  have "if \<forall>(k, v) \<in> set ps. set v \<inter> {CHR ''%'', CHR ''?'', CHR ''#''} = {} then check_params lib ps = []
      else \<exists>err. check_params lib ps = GinStatus 400 # ErrorResponseWriter err @ [GinAbort]" for ps
  proof (induction lib ps rule: check_params.induct)
    case (2 lib key v ps)
    show ?case
    proof (cases "PathUnescape v = Inr v \<and> CHR ''?'' \<notin> set v \<and> CHR ''#'' \<notin> set v")
      case True
      then have "set v \<inter> {CHR ''%'', CHR ''?'', CHR ''#''} = {}" by (simp add: PathUnescape_same_iff)
      with True 2 show ?thesis by (auto split: if_splits)
    next
      case False
      then have "set v \<inter> {CHR ''%'', CHR ''?'', CHR ''#''} \<noteq> {}" by (auto simp: PathUnescape_same_iff)
      with False show ?thesis by (auto split: sum.splits)
    qed
  qed simp
  then show ?thesis by (auto simp: paramChecker_def)
qed

text \<open>
  C23: The gin handler marks every answer once, as complete exactly when the proxy gave complete
  data that is not empty, and makes only such an answer cacheable. The error is the one of the
  proxy, or the internal error when the proxy gave none and the context of the request is done; the
  status of an error is set exactly when there is an error and the proxy gave no response at all.
  A parameter of the route has a name, or the request is not built (the code panics there).
\<close>

theorem gin_answer:
  assumes "gin_NewRequest lib (ep_HeadersToPass cfg) c (ep_QueryString cfg) = Some q" "prxy q = Ret response err"
  shows "\<exists>calls body. CustomErrorEndpointHandler lib (gin_init lib) ret errF cfg prxy c = Some (calls @ body) \<and>
    headers_set calls = [(KrakendHeaderName, KrakendHeaderValue (gn_version lib))] @
      (if has_data response \<and> rs_IsComplete (the response) \<and> ep_CacheTTL cfg \<noteq> 0
       then [(''Cache-Control'', ''public, max-age='' @ itoa (whole_seconds (ep_CacheTTL cfg)))] else []) @
      [(CompleteResponseHeaderName, if has_data response \<and> rs_IsComplete (the response) then ''true'' else ''false'')] \<and>
    (case ((if gn_ctx_done lib cfg (gc_Request c) \<and> err = None then Some (ErrText ''internal server error'') else err), response) of
       (Some e, None) \<Rightarrow> statuses_set calls = [error_status errF e] \<and> body = (if ret then ErrorResponseWriter e else [])
     | _ \<Rightarrow> statuses_set calls = [] \<and> headers_set body = [] \<and>
         body = gin_getRender lib (gin_init lib) cfg (gc_Request c) (gc_calls c @ calls) response)"
proof -
  define err' where "err' = (if gn_ctx_done lib cfg (gc_Request c) \<and> err = None then Some ErrInternalError else err)"
  define pre where "pre = answer_calls lib cfg response err'"
  have pre: "headers_set pre = [(KrakendHeaderName, KrakendHeaderValue (gn_version lib))] @
      (if has_data response \<and> rs_IsComplete (the response) \<and> ep_CacheTTL cfg \<noteq> 0
       then [(''Cache-Control'', ''public, max-age='' @ itoa (whole_seconds (ep_CacheTTL cfg)))] else []) @
      [(CompleteResponseHeaderName, if has_data response \<and> rs_IsComplete (the response) then ''true'' else ''false'')]"
    "statuses_set pre = []"
    by (auto simp: pre_def answer_calls_def Let_def header_names split: option.splits)
  have h: "CustomErrorEndpointHandler lib (gin_init lib) ret errF cfg prxy c =
    (case (err', response) of
       (Some e, None) \<Rightarrow> Some (pre @ gin_add_headers (gn_error_headers lib e) @ [GinStatus (error_status errF e)] @
          (if ret then ErrorResponseWriter e else []))
     | _ \<Rightarrow> Some (pre @ gin_getRender lib (gin_init lib) cfg (gc_Request c) (gc_calls c @ pre) response))"
    using assms unfolding pre_def
    by (cases err'; cases response)
      (simp_all add: CustomErrorEndpointHandler_def err'_def [symmetric] Let_def error_status_def)
  have eff: "(if gn_ctx_done lib cfg (gc_Request c) \<and> err = None then Some (ErrText ''internal server error'') else err) = err'"
    by (simp add: err'_def ErrInternalError_def)
  show ?thesis
  proof (cases "err' \<noteq> None \<and> response = None")
    case True
    then obtain e where e: "err' = Some e" "response = None" by auto
    let ?calls = "pre @ gin_add_headers (gn_error_headers lib e) @ [GinStatus (error_status errF e)]"
    have "headers_set ?calls = headers_set pre" "statuses_set ?calls = [error_status errF e]" using pre(2) by simp_all
    with h e pre(1) show ?thesis by (intro exI [of _ ?calls] exI [of _ "if ret then ErrorResponseWriter e else []"], unfold eff) simp
  next
    case False
    let ?body = "gin_getRender lib (gin_init lib) cfg (gc_Request c) (gc_calls c @ pre) response"
    have "CustomErrorEndpointHandler lib (gin_init lib) ret errF cfg prxy c = Some (pre @ ?body)"
      using h False by (cases err'; cases response) simp_all
    moreover have "headers_set ?body = []" by (rule gin_render_sets_no_header)
    ultimately show ?thesis using pre False
      by (intro exI [of _ pre] exI [of _ ?body], unfold eff) (cases err'; cases response; simp)
  qed
qed

definition demo_gin :: gin_lib where
  "demo_gin = \<lparr>gn_version = ''2'', gn_ClientIP = (\<lambda>r. ''1.2.3.4''), gn_Status = (\<lambda>calls. last (200 # statuses_set calls)),
     gn_NegotiateFormat = (\<lambda>r. []), gn_Quote = (\<lambda>s. s), gn_error_headers = (\<lambda>e. None), gn_ctx_done = (\<lambda>cfg r. False)\<rparr>"

definition demo_gin_context :: gin_context where
  "demo_gin_context = \<lparr>gc_Request = demo_in, gc_Params = [(''id'', ''7'')], gc_calls = []\<rparr>"

text \<open>
  A failure with a response that has no data: the mux router answers with the status of the
  error, the gin router sets no status, so that the render keeps the one of success.
\<close>

theorem routers_differ_on_empty_response:
  assumes "gin_NewRequest lib (ep_HeadersToPass cfg) c (ep_QueryString cfg) = Some q"
    "prxy q = Ret (Some resp) (Some e)" "\<not> has_data (Some resp)" "\<not> gn_ctx_done lib cfg (gc_Request c)"
  shows "CustomErrorEndpointHandler lib reg ret errF cfg prxy c =
    Some (answer_calls lib cfg (Some resp) (Some e) @
      gin_getRender lib reg cfg (gc_Request c) (gc_calls c @ answer_calls lib cfg (Some resp) (Some e)) (Some resp)) \<and>
    statuses_set (answer_calls lib cfg (Some resp) (Some e)) = []"
  using assms by (simp add: CustomErrorEndpointHandler_def answer_calls_def Let_def)

theorem gin_answer_witness:
  "\<exists>calls body. CustomErrorEndpointHandler (demo_gin\<lparr>gn_ctx_done := \<lambda>cfg r. True\<rparr>) (gin_init (demo_gin\<lparr>gn_ctx_done := \<lambda>cfg r. True\<rparr>))
      True DefaultToHTTPError empty_EndpointConfig (\<lambda>q. Ret None None) demo_gin_context = Some (calls @ body) \<and>
     statuses_set calls = [500] \<and> body = [GinWriteString ''internal server error'']"
proof -
  let ?gin = "demo_gin\<lparr>gn_ctx_done := \<lambda>cfg r. True\<rparr>"
  obtain q where q: "gin_NewRequest ?gin (ep_HeadersToPass empty_EndpointConfig) demo_gin_context
      (ep_QueryString empty_EndpointConfig) = Some q"
    by (cases "headers_to_send (hr_Header demo_in) HeadersToSend []")
      (simp add: gin_NewRequest_def demo_gin_context_def Let_def empty_EndpointConfig_def)
  from gin_answer [OF q, of "\<lambda>q. Ret None None" None None True DefaultToHTTPError]
  show ?thesis by (fastforce simp: error_status_def ErrorResponseWriter_def DefaultToHTTPError_def)
qed

theorem param_checker_exact_witness:
  "paramChecker demo_gin demo_gin_context = Some [] \<and>
   (\<exists>err. paramChecker demo_gin (demo_gin_context\<lparr>gc_Params := [(''id'', ''a%2fb'')]\<rparr>) =
      Some (GinStatus 400 # ErrorResponseWriter err @ [GinAbort]))"
  using param_checker_exact [of demo_gin demo_gin_context]
    param_checker_exact [of demo_gin "demo_gin_context\<lparr>gc_Params := [(''id'', ''a%2fb'')]\<rparr>"]
  by (auto simp: demo_gin_context_def)

end
