(* ===== verification/Safecast.thy ===== *)
theory Safecast
  imports Http
begin

text \<open>
  router/gin/safecast.go: the wrapper that gives a response writer the optional interfaces that
  gin asserts without a check. A writer is the functions it implements, on its state \<open>'w\<close>; the
  optional ones are there or not. \<open>'c\<close> is what a hijack returns, \<open>'n\<close> a channel.
\<close>

record ('w, 'c, 'n) ResponseWriter =
  wi_Header :: "'w \<Rightarrow> header"
  wi_Write :: "string \<Rightarrow> 'w \<Rightarrow> (goerror + nat) \<times> 'w"
  wi_WriteHeader :: "int \<Rightarrow> 'w \<Rightarrow> 'w"
  wi_Flusher :: "('w \<Rightarrow> 'w) option"
  wi_Hijacker :: "('w \<Rightarrow> (goerror + 'c) \<times> 'w) option"
  wi_CloseNotifier :: "('w \<Rightarrow> 'n) option"

definition safeCast_Header :: "('w, 'c, 'n) ResponseWriter \<Rightarrow> 'w \<Rightarrow> header" where
  "safeCast_Header s = wi_Header s"

definition safeCast_Write :: "('w, 'c, 'n) ResponseWriter \<Rightarrow> string \<Rightarrow> 'w \<Rightarrow> (goerror + nat) \<times> 'w" where
  "safeCast_Write s b = wi_Write s b"

definition safeCast_WriteHeader :: "('w, 'c, 'n) ResponseWriter \<Rightarrow> int \<Rightarrow> 'w \<Rightarrow> 'w" where
  "safeCast_WriteHeader s statusCode = wi_WriteHeader s statusCode"

definition safeCast_Flush :: "('w, 'c, 'n) ResponseWriter \<Rightarrow> 'w \<Rightarrow> 'w" where
  "safeCast_Flush s w = (case wi_Flusher s of Some f \<Rightarrow> f w | None \<Rightarrow> w)"

definition safeCast_Hijack :: "('w, 'c, 'n) ResponseWriter \<Rightarrow> 'w \<Rightarrow> (goerror + 'c) \<times> 'w" where
  "safeCast_Hijack s w =
     (case wi_Hijacker s of Some h \<Rightarrow> h w | None \<Rightarrow> (Inl (ErrText ''not supported''), w))"

text \<open>\<open>new_chan\<close> is a new channel, on which nothing is ever sent.\<close>

definition safeCast_CloseNotify :: "'n \<Rightarrow> ('w, 'c, 'n) ResponseWriter \<Rightarrow> 'w \<Rightarrow> 'n" where
  "safeCast_CloseNotify new_chan s w = (case wi_CloseNotifier s of Some h \<Rightarrow> h w | None \<Rightarrow> new_chan)"

definition safeCast :: "'n \<Rightarrow> ('w, 'c, 'n) ResponseWriter \<Rightarrow> ('w, 'c, 'n) ResponseWriter" where
  "safeCast new_chan s =
     \<lparr>wi_Header = safeCast_Header s, wi_Write = safeCast_Write s, wi_WriteHeader = safeCast_WriteHeader s,
      wi_Flusher = Some (safeCast_Flush s), wi_Hijacker = Some (safeCast_Hijack s),
      wi_CloseNotifier = Some (safeCast_CloseNotify new_chan s)\<rparr>"

text \<open>The handler around an engine: it serves with the wrapped writer.\<close>

datatype 'h safeCaster = SafeCaster 'h

fun safeCaster_ServeHTTP ::
  "('h \<Rightarrow> ('w, 'c, 'n) ResponseWriter \<Rightarrow> 'r \<Rightarrow> 'a) \<Rightarrow> 'n \<Rightarrow> 'h safeCaster \<Rightarrow> ('w, 'c, 'n) ResponseWriter \<Rightarrow> 'r \<Rightarrow> 'a" where
  "safeCaster_ServeHTTP ServeHTTP new_chan (SafeCaster h) w r = ServeHTTP h (safeCast new_chan w) r"

section \<open>Properties\<close>

lemmas safeCast_defs = safeCast_def safeCast_Header_def safeCast_Write_def safeCast_WriteHeader_def
  safeCast_Flush_def safeCast_Hijack_def safeCast_CloseNotify_def

text \<open>
  A wrapped writer has all the interfaces, so no assertion of gin fails; it does what the writer
  does wherever the writer can; and a second wrapper changes nothing.
\<close>

theorem safeCast_complete:
  "wi_Flusher (safeCast c s) \<noteq> None \<and> wi_Hijacker (safeCast c s) \<noteq> None \<and> wi_CloseNotifier (safeCast c s) \<noteq> None"
  "wi_Header (safeCast c s) = wi_Header s" "wi_Write (safeCast c s) = wi_Write s"
  "wi_WriteHeader (safeCast c s) = wi_WriteHeader s"
  "wi_Flusher s = Some f \<Longrightarrow> wi_Flusher (safeCast c s) = Some f"
  "wi_Hijacker s = Some h \<Longrightarrow> wi_Hijacker (safeCast c s) = Some h"
  "wi_CloseNotifier s = Some n \<Longrightarrow> wi_CloseNotifier (safeCast c s) = Some n"
  by (simp_all add: safeCast_defs fun_eq_iff)

theorem safeCast_idempotent: "safeCast c (safeCast c s) = safeCast c s"
  by (simp add: safeCast_defs fun_eq_iff)

end
