(* ===== verification/GinRouter.thy ===== *)
theory GinRouter
  imports GinEndpoint MuxRouter Safecast
begin

text \<open>
  router/gin/engine.go and router.go: the configuration of an engine, and the router with its
  catalogue of paths. An engine is what the code sets in it: its switches, its middlewares and
  the routes in the order of their registration, which gin may refuse with a panic (the
  parameter \<open>gr_accepts\<close>); how gin serves them is not modelled.
\<close>

section \<open>The engine (engine.go)\<close>

datatype gin_verb = Verb string | AnyVerb

text \<open>
  A route: the middlewares of the group of the endpoints when it is in that group, its verb, its
  path, its handler.
\<close>

record gin_route =
  gr_group :: "gin_handler list option"
  gr_verb :: gin_verb
  gr_path :: string
  gr_handler :: gin_handler

datatype gin_middleware = AccessLog "string list" | Recovery | ParamChecker

record gin_engine =
  ge_RedirectTrailingSlash :: bool
  ge_RedirectFixedPath :: bool
  ge_HandleMethodNotAllowed :: bool
  ge_ContextWithFallback :: bool
  ge_ForwardedByClientIP :: bool
  ge_RemoteIPHeaders :: "string list"
  ge_TrustedProxies :: "string list option"
  ge_AppEngine :: bool
  ge_MaxMultipartMemory :: int
  ge_RemoveExtraSlash :: bool
  ge_UseH2C :: bool
  ge_NoRoute :: "gin_handler option"
  ge_Use :: "gin_middleware list"
  ge_routes :: "gin_route list"

text \<open>\<open>DisableRedirectTrailingSlash\<close> and the others behind a pointer are options.\<close>

record engineConfiguration =
  gc_DisableRedirectTrailingSlash :: "bool option"
  gc_DisableRedirectFixedPath :: "bool option"
  gc_DisableHandleMethodNotAllowed :: "bool option"
  gc_ForwardedByClientIP :: "bool option"
  gc_RemoteIPHeaders :: "string list"
  gc_TrustedProxies :: "string list"
  gc_AppEngine :: bool
  gc_MaxMultipartMemory :: int
  gc_RemoveExtraSlash :: bool
  gc_LoggerSkipPaths :: "string list"
  gc_AutoOptions :: bool
  gc_ReturnErrorMsg :: bool
  gc_DisableHealthEndpoint :: bool
  gc_HealthPath :: string
  gc_DisableAccessLog :: bool
  gc_DisablePathDecoding :: bool
  gc_ObfuscateVersionHeader :: bool
  gc_UseH2C :: bool

definition empty_engineConfiguration :: engineConfiguration where
  "empty_engineConfiguration =
     \<lparr>gc_DisableRedirectTrailingSlash = None, gc_DisableRedirectFixedPath = None,
      gc_DisableHandleMethodNotAllowed = None, gc_ForwardedByClientIP = None, gc_RemoteIPHeaders = [],
      gc_TrustedProxies = [], gc_AppEngine = False, gc_MaxMultipartMemory = 0, gc_RemoveExtraSlash = False,
      gc_LoggerSkipPaths = [], gc_AutoOptions = False, gc_ReturnErrorMsg = False, gc_DisableHealthEndpoint = False,
      gc_HealthPath = [], gc_DisableAccessLog = False, gc_DisablePathDecoding = False,
      gc_ObfuscateVersionHeader = False, gc_UseH2C = False\<rparr>"

text \<open>The package variables an engine's configuration sets.\<close>

record gin_globals =
  gg_returnErrorMsg :: bool
  gg_KrakendHeaderValue :: string

text \<open>
  \<open>ge_decode\<close> writes a section as JSON and reads it into the struct: the struct as far as it got,
  and whether both steps went without an error. \<open>ge_New\<close> is \<open>gin.New()\<close>.
\<close>

record gin_env =
  ge_New :: gin_engine
  ge_decode :: "gval \<Rightarrow> engineConfiguration \<times> bool"
  gr_accepts :: "gin_route list \<Rightarrow> gin_route \<Rightarrow> bool"

definition gin_Namespace :: string where
  "gin_Namespace = ''github_com/luraproject/lura/router/gin''"

definition gin_Handle :: "gin_env \<Rightarrow> gin_route \<Rightarrow> gin_engine \<Rightarrow> gin_engine option" where
  "gin_Handle env route e =
     (if gr_accepts env (ge_routes e) route then Some (e\<lparr>ge_routes := ge_routes e @ [route]\<rparr>) else None)"

text \<open>What a decoded section sets in the engine.\<close>

definition configure_engine :: "engineConfiguration \<Rightarrow> gin_engine \<Rightarrow> gin_engine" where
  "configure_engine o1 e =
     (let e = (case gc_DisableRedirectTrailingSlash o1 of None \<Rightarrow> e | Some b \<Rightarrow> e\<lparr>ge_RedirectTrailingSlash := \<not> b\<rparr>);
          e = (case gc_DisableRedirectFixedPath o1 of None \<Rightarrow> e | Some b \<Rightarrow> e\<lparr>ge_RedirectFixedPath := \<not> b\<rparr>);
          e = (case gc_DisableHandleMethodNotAllowed o1 of None \<Rightarrow> e | Some b \<Rightarrow> e\<lparr>ge_HandleMethodNotAllowed := \<not> b\<rparr>);
          e = (case gc_ForwardedByClientIP o1 of None \<Rightarrow> e | Some b \<Rightarrow> e\<lparr>ge_ForwardedByClientIP := b\<rparr>);
          e = (if length (gc_RemoteIPHeaders o1) > 0
               then e\<lparr>ge_RemoteIPHeaders := map CanonicalMIMEHeaderKey (gc_RemoteIPHeaders o1)\<rparr> else e);
          e = (if length (gc_TrustedProxies o1) > 0 then e\<lparr>ge_TrustedProxies := Some (gc_TrustedProxies o1)\<rparr> else e)
      in e\<lparr>ge_AppEngine := gc_AppEngine o1, ge_MaxMultipartMemory := gc_MaxMultipartMemory o1,
           ge_RemoveExtraSlash := gc_RemoveExtraSlash o1, ge_UseH2C := gc_UseH2C o1\<rparr>)"

definition NewEngine ::
  "gin_env \<Rightarrow> ServiceConfig \<Rightarrow> gin_handler \<Rightarrow> gin_globals \<Rightarrow> (gin_engine \<times> gin_globals) option" where
  "NewEngine env cfg health g =
     (let engine = (ge_New env)\<lparr>ge_RedirectTrailingSlash := True, ge_RedirectFixedPath := True,
            ge_HandleMethodNotAllowed := True, ge_ContextWithFallback := True\<rparr>;
          (ginOptions, ok) = (case map_of (sc_ExtraConfig cfg) gin_Namespace of
            None \<Rightarrow> (empty_engineConfiguration, False)
          | Some v \<Rightarrow> ge_decode env v);
          engine = (if ok then configure_engine ginOptions engine else engine);
          paths = (if ok then gc_LoggerSkipPaths ginOptions else []);
          g = (if ok then g\<lparr>gg_returnErrorMsg := gc_ReturnErrorMsg ginOptions\<rparr> else g);
          g = (if ok \<and> gc_ObfuscateVersionHeader ginOptions then g\<lparr>gg_KrakendHeaderValue := ''Version undefined''\<rparr> else g);
          engine = engine\<lparr>ge_NoRoute :=
            Some (\<lambda>c. Some [GinHeader CompleteResponseHeaderName HeaderIncompleteResponseValue])\<rparr>;
          engine = engine\<lparr>ge_Use := ge_Use engine @
            (if gc_DisableAccessLog ginOptions then [] else [AccessLog paths]) @ [Recovery] @
            (if gc_DisablePathDecoding ginOptions then [] else [ParamChecker])\<rparr>
      in if gc_DisableHealthEndpoint ginOptions then Some (engine, g)
         else map_option (\<lambda>e. (e, g))
           (gin_Handle env
              \<lparr>gr_group = None, gr_verb = Verb ''GET'',
               gr_path = (if gc_HealthPath ginOptions \<noteq> [] then gc_HealthPath ginOptions else ''/__health''),
               gr_handler = health\<rparr> engine))"

section \<open>The router (router.go)\<close>

record gin_router =
  gt_env :: gin_env
  gt_Middlewares :: "gin_handler list"
  gt_HandlerFactory :: "EndpointConfig \<Rightarrow> Proxy \<Rightarrow> gin_handler"
  gt_ProxyFactory :: Factory
  gt_RunServer :: "ServiceConfig \<Rightarrow> gin_engine safeCaster \<Rightarrow> goerror option"
  gt_header :: string

text \<open>
  The default configuration has the engine of \<open>gin.Default()\<close>, a parameter, no middlewares and
  the handlers of endpoint.go. The engine is the argument \<open>e\<close> of the run; a factory makes a
  router with an empty catalogue.
\<close>

definition gin_DefaultFactory ::
  "gin_env \<Rightarrow> gin_lib \<Rightarrow> (string \<times> gin_Render) list \<Rightarrow> bool \<Rightarrow> gin_engine \<Rightarrow> Factory
   \<Rightarrow> (ServiceConfig \<Rightarrow> gin_engine safeCaster \<Rightarrow> goerror option) \<Rightarrow> string \<Rightarrow> gin_router \<times> gin_engine" where
  "gin_DefaultFactory env lib renders returnErrorMsg gin_Default proxyFactory RunServer header_value =
     (\<lparr>gt_env = env, gt_Middlewares = [], gt_HandlerFactory = gin_EndpointHandler lib renders returnErrorMsg,
       gt_ProxyFactory = proxyFactory, gt_RunServer = RunServer, gt_header = header_value\<rparr>, gin_Default)"

text \<open>The engine and the catalogue: the methods of each path, in the order of registration.\<close>

record gin_state =
  gs_engine :: gin_engine
  gs_catalog :: "(string \<times> string list) list"

text \<open>\<open>NewWithContext\<close>: the state a router starts with.\<close>

definition gin_NewWithContext :: "gin_engine \<Rightarrow> gin_state" where
  "gin_NewWithContext e = \<lparr>gs_engine = e, gs_catalog = []\<rparr>"

lemma gin_NewWithContext_simps [simp]:
  "gs_engine (gin_NewWithContext e) = e" "gs_catalog (gin_NewWithContext e) = []"
  by (simp_all add: gin_NewWithContext_def)

definition catalog_add :: "string \<Rightarrow> string \<Rightarrow> (string \<times> string list) list \<Rightarrow> (string \<times> string list) list" where
  "catalog_add path method_name catalog =
     (case map_of catalog path of
        None \<Rightarrow> mput path [method_name] catalog
      | Some methods \<Rightarrow> mput path (methods @ [method_name]) catalog)"

definition gin_registerKrakendEndpoint ::
  "gin_router \<Rightarrow> string \<Rightarrow> EndpointConfig \<Rightarrow> gin_handler \<Rightarrow> nat \<Rightarrow> gin_state \<Rightarrow> gin_state option" where
  "gin_registerKrakendEndpoint rt method_name e h totBackends s =
     (let method_name = to_upper method_name;
          path = ep_Endpoint e
      in if method_name \<noteq> ''GET'' \<and> totBackends > 1 \<and> \<not> IsValidSequentialEndpoint e then Some s
         else if method_name \<notin> {''GET'', ''POST'', ''PUT'', ''PATCH'', ''DELETE''} then Some s
         else map_option (\<lambda>engine. \<lparr>gs_engine = engine, gs_catalog = catalog_add path method_name (gs_catalog s)\<rparr>)
           (gin_Handle (gt_env rt) \<lparr>gr_group = Some (gt_Middlewares rt), gr_verb = Verb method_name, gr_path = path, gr_handler = h\<rparr>
              (gs_engine s)))"

definition proxyBuildFailedHandler :: gin_handler where
  "proxyBuildFailedHandler c = Some [GinAbortWithStatus 500]"

fun gin_registerKrakendEndpoints :: "gin_router \<Rightarrow> EndpointConfig list \<Rightarrow> gin_state \<Rightarrow> gin_state option" where
  "gin_registerKrakendEndpoints rt [] s = Some s"
| "gin_registerKrakendEndpoints rt (c # cs) s =
     (case gt_ProxyFactory rt c of
        Inl _ \<Rightarrow> None
      | Inr (_, Some err) \<Rightarrow>
          (case gin_registerKrakendEndpoint rt (ep_Method c) c proxyBuildFailedHandler 1 s of
             None \<Rightarrow> None
           | Some s \<Rightarrow> gin_registerKrakendEndpoints rt cs s)
      | Inr (proxyStack, None) \<Rightarrow>
          (case gin_registerKrakendEndpoint rt (ep_Method c) c (gt_HandlerFactory rt c (call_proxy proxyStack))
                  (length (ep_Backend c)) s of
             None \<Rightarrow> None
           | Some s \<Rightarrow> gin_registerKrakendEndpoints rt cs s))"

definition options_handler :: "gin_router \<Rightarrow> string list \<Rightarrow> gin_handler" where
  "options_handler rt methods c =
     Some [GinHeader ''Allow'' (join_with '', '' (sort methods)), GinHeader KrakendHeaderName (gt_header rt)]"

text \<open>The loop over the catalogue, in the order in which the map is traversed.\<close>

fun registerOptionEndpoints :: "gin_router \<Rightarrow> (string \<times> string list) list \<Rightarrow> gin_engine \<Rightarrow> gin_engine option" where
  "registerOptionEndpoints rt [] e = Some e"
| "registerOptionEndpoints rt ((path, methods) # catalog) e =
     (case gin_Handle (gt_env rt)
        \<lparr>gr_group = Some (gt_Middlewares rt), gr_verb = Verb ''OPTIONS'', gr_path = path, gr_handler = options_handler rt methods\<rparr> e of
        None \<Rightarrow> None
      | Some e \<Rightarrow> registerOptionEndpoints rt catalog e)"

definition auto_options :: "ServiceConfig \<Rightarrow> bool" where
  "auto_options cfg =
     (case ec_get (sc_ExtraConfig cfg) gin_Namespace ''auto_options'' of None \<Rightarrow> False | Some v \<Rightarrow> as_bool v = Some True)"

definition registerEndpointsAndMiddlewares :: "gin_router \<Rightarrow> ServiceConfig \<Rightarrow> gin_engine \<Rightarrow> gin_engine option" where
  "registerEndpointsAndMiddlewares rt cfg e =
     (let any = (\<lambda>path h. gin_Handle (gt_env rt) \<lparr>gr_group = None, gr_verb = AnyVerb, gr_path = path, gr_handler = h\<rparr>)
      in case (if sc_Debug cfg then any ''/__debug/*param'' gin_DebugHandler e else Some e) of
           None \<Rightarrow> None
         | Some e \<Rightarrow>
             (case (if sc_Echo cfg then any ''/__echo/*param'' gin_EchoHandler e else Some e) of
                None \<Rightarrow> None
              | Some e \<Rightarrow>
                  (case gin_registerKrakendEndpoints rt (sc_Endpoints cfg) (gin_NewWithContext e) of
                     None \<Rightarrow> None
                   | Some s \<Rightarrow>
                       (if auto_options cfg then registerOptionEndpoints rt (gs_catalog s) (gs_engine s)
                        else Some (gs_engine s)))))"

datatype gin_log = GinRunServerError goerror | GinRouterEnded

definition gin_Run ::
  "gin_router \<Rightarrow> ('p, 'c) tls_lib \<Rightarrow> ('p, 'c) transport_state \<Rightarrow> ServiceConfig \<Rightarrow> gin_engine \<Rightarrow>
     (gin_engine \<times> ('p, 'c) transport_state \<times> gin_log list) option" where
  "gin_Run rt lib ts cfg e =
     (let (tls, ts) = InitHTTPDefaultTransportWithLogger lib cfg ts
      in map_option (\<lambda>e.
           (e, ts,
            (case gt_RunServer rt (cfg\<lparr>sc_ClientTLS := tls\<rparr>) (SafeCaster e) of
               None \<Rightarrow> []
             | Some err \<Rightarrow> if err = ErrServerClosed then [] else [GinRunServerError err]) @ [GinRouterEnded]))
         (registerEndpointsAndMiddlewares rt cfg e))"

section \<open>Lemmas\<close>

definition supported :: "EndpointConfig \<Rightarrow> bool" where
  "supported c \<longleftrightarrow> to_upper (ep_Method c) \<in> {''GET'', ''POST'', ''PUT'', ''PATCH'', ''DELETE''}"

text \<open>The routes of an endpoint, and the methods that the endpoints of a path have.\<close>

definition gin_endpoint_route :: "gin_router \<Rightarrow> EndpointConfig \<Rightarrow> gin_route list" where
  "gin_endpoint_route rt c =
     (if supported c then
        [\<lparr>gr_group = Some (gt_Middlewares rt), gr_verb = Verb (to_upper (ep_Method c)), gr_path = ep_Endpoint c,
          gr_handler = (case gt_ProxyFactory rt c of
            Inr (p, None) \<Rightarrow> gt_HandlerFactory rt c (call_proxy p) | _ \<Rightarrow> proxyBuildFailedHandler)\<rparr>]
      else [])"

definition methods_of :: "EndpointConfig list \<Rightarrow> string \<Rightarrow> string list" where
  "methods_of cs p = map (\<lambda>c. to_upper (ep_Method c)) (filter (\<lambda>c. supported c \<and> ep_Endpoint c = p) cs)"

definition gin_options_route :: "gin_router \<Rightarrow> string \<times> string list \<Rightarrow> gin_route" where
  "gin_options_route rt pm =
     \<lparr>gr_group = Some (gt_Middlewares rt), gr_verb = Verb ''OPTIONS'', gr_path = fst pm, gr_handler = options_handler rt (snd pm)\<rparr>"

text \<open>The catalogue after some endpoints: \<open>catalog_holds\<close> is its invariant.\<close>

definition catalog_holds :: "EndpointConfig list \<Rightarrow> (string \<times> string list) list \<Rightarrow> bool" where
  "catalog_holds cs catalog \<longleftrightarrow> gmap_ok catalog \<and>
     (\<forall>p. map_of catalog p = (if methods_of cs p = [] then None else Some (methods_of cs p)))"

lemma methods_of_snoc:
  "methods_of (cs @ [c]) p = methods_of cs p @ (if supported c \<and> ep_Endpoint c = p then [to_upper (ep_Method c)] else [])"
  by (simp add: methods_of_def)

lemma catalog_add_holds:
  assumes "catalog_holds cs catalog" "supported c"
  shows "catalog_holds (cs @ [c]) (catalog_add (ep_Endpoint c) (to_upper (ep_Method c)) catalog)"
  using assms by (auto simp: catalog_holds_def methods_of_snoc catalog_add_def split: option.splits if_splits)

lemma catalog_unsupported: "catalog_holds cs catalog \<Longrightarrow> \<not> supported c \<Longrightarrow> catalog_holds (cs @ [c]) catalog"
  by (simp add: catalog_holds_def methods_of_snoc)

lemma register_endpoint_cases:
  assumes "gin_registerKrakendEndpoint rt (ep_Method c) c h n s = Some s'"
  shows "(if supported c then
      ge_routes (gs_engine s') = ge_routes (gs_engine s) @
        [\<lparr>gr_group = Some (gt_Middlewares rt), gr_verb = Verb (to_upper (ep_Method c)), gr_path = ep_Endpoint c, gr_handler = h\<rparr>] \<and>
      gs_catalog s' = catalog_add (ep_Endpoint c) (to_upper (ep_Method c)) (gs_catalog s)
    else s' = s)"
  using assms
  by (auto simp: gin_registerKrakendEndpoint_def Let_def IsValidSequentialEndpoint_def supported_def gin_Handle_def
      split: if_splits)

lemma register_endpoints_cases:
  "gin_registerKrakendEndpoints rt cs s = Some s' \<Longrightarrow> catalog_holds before (gs_catalog s) \<Longrightarrow>
     ge_routes (gs_engine s') = ge_routes (gs_engine s) @ concat (map (gin_endpoint_route rt) cs) \<and>
     catalog_holds (before @ cs) (gs_catalog s')"
proof (induction cs arbitrary: s before)
  case (Cons c cs)
  obtain h n s1 where s1: "gin_registerKrakendEndpoint rt (ep_Method c) c h n s = Some s1"
    "gin_registerKrakendEndpoints rt cs s1 = Some s'"
    "h = (case gt_ProxyFactory rt c of
            Inr (p, None) \<Rightarrow> gt_HandlerFactory rt c (call_proxy p) | _ \<Rightarrow> proxyBuildFailedHandler)"
    using Cons.prems(1) by (auto split: sum.splits prod.splits option.splits)
  have c1: "ge_routes (gs_engine s1) = ge_routes (gs_engine s) @ gin_endpoint_route rt c \<and>
      catalog_holds (before @ [c]) (gs_catalog s1)"
    using register_endpoint_cases [OF s1(1)] Cons.prems(2) catalog_add_holds catalog_unsupported
    by (auto simp: gin_endpoint_route_def s1(3) split: if_splits)
  from Cons.IH [OF s1(2) conjunct2 [OF c1]] c1 show ?case by simp
qed simp

lemma registerOptionEndpoints_routes:
  "registerOptionEndpoints rt catalog e = Some e' \<Longrightarrow>
     ge_routes e' = ge_routes e @ map (gin_options_route rt) catalog"
  by (induction rt catalog e rule: registerOptionEndpoints.induct)
    (auto simp: gin_Handle_def gin_options_route_def split: option.splits if_splits)

definition gin_service_routes :: "ServiceConfig \<Rightarrow> gin_route list" where
  "gin_service_routes cfg =
     (if sc_Debug cfg then [\<lparr>gr_group = None, gr_verb = AnyVerb, gr_path = ''/__debug/*param'', gr_handler = gin_DebugHandler\<rparr>] else []) @
     (if sc_Echo cfg then [\<lparr>gr_group = None, gr_verb = AnyVerb, gr_path = ''/__echo/*param'', gr_handler = gin_EchoHandler\<rparr>] else [])"

lemma register_all_routes:
  assumes "registerEndpointsAndMiddlewares rt cfg e = Some e'"
  obtains catalog where "catalog_holds (sc_Endpoints cfg) catalog"
    "ge_routes e' = ge_routes e @ gin_service_routes cfg @ concat (map (gin_endpoint_route rt) (sc_Endpoints cfg)) @
       (if auto_options cfg then map (gin_options_route rt) catalog else [])"
proof -
  define any where "any = (\<lambda>path h. gin_Handle (gt_env rt) \<lparr>gr_group = None, gr_verb = AnyVerb, gr_path = path, gr_handler = h\<rparr>)"
  have any: "ge_routes y = ge_routes x @ [\<lparr>gr_group = None, gr_verb = AnyVerb, gr_path = path, gr_handler = h\<rparr>]"
    if "any path h x = Some y" for path h x y
    using that by (auto simp: any_def gin_Handle_def split: if_splits)
  obtain e0 e1 s where e0: "(if sc_Debug cfg then any ''/__debug/*param'' gin_DebugHandler e else Some e) = Some e0"
    and e1: "(if sc_Echo cfg then any ''/__echo/*param'' gin_EchoHandler e0 else Some e0) = Some e1"
    and s: "gin_registerKrakendEndpoints rt (sc_Endpoints cfg) (gin_NewWithContext e1) = Some s"
    and e': "(if auto_options cfg then registerOptionEndpoints rt (gs_catalog s) (gs_engine s) else Some (gs_engine s)) = Some e'"
    using assms unfolding registerEndpointsAndMiddlewares_def Let_def any_def [symmetric]
    by (auto split: option.splits)
  have r1: "ge_routes e1 = ge_routes e @ gin_service_routes cfg"
    using e0 e1 any by (auto simp: gin_service_routes_def split: if_splits)
  have "catalog_holds [] (gs_catalog (gin_NewWithContext e1))"
    by (simp add: catalog_holds_def methods_of_def)
  from register_endpoints_cases [OF s this] have "catalog_holds (sc_Endpoints cfg) (gs_catalog s)"
    "ge_routes (gs_engine s) = ge_routes e1 @ concat (map (gin_endpoint_route rt) (sc_Endpoints cfg))" by simp_all
  with that r1 e' registerOptionEndpoints_routes show ?thesis by (fastforce split: if_splits)
qed

lemma options_routes_of_path:
  "gmap_ok catalog \<Longrightarrow>
     filter (\<lambda>r. gr_verb r = Verb ''OPTIONS'' \<and> gr_path r = p) (map (gin_options_route rt) catalog) =
       (case map_of catalog p of None \<Rightarrow> [] | Some ms \<Rightarrow> [gin_options_route rt (p, ms)])"
proof (induction catalog)
  case (Cons x catalog)
  obtain q ms where x: "x = (q, ms)" by fastforce
  with Cons.prems have "map_of catalog q = None" "gmap_ok catalog" by (simp_all add: gmap_ok_Cons)
  with Cons.IH x show ?case by (auto simp: gin_options_route_def)
qed simp

lemma endpoint_routes_verbs:
  "r \<in> set (concat (map (gin_endpoint_route rt) cs)) \<Longrightarrow> gr_group r \<noteq> None \<and> gr_verb r \<noteq> Verb ''OPTIONS''"
  by (auto simp: gin_endpoint_route_def supported_def split: if_splits)

lemma service_routes_verbs: "r \<in> set (gin_service_routes cfg) \<Longrightarrow> gr_group r = None \<and> gr_verb r = AnyVerb"
  by (auto simp: gin_service_routes_def split: if_splits)

lemma options_routes_verbs: "r \<in> set (map (gin_options_route rt) catalog) \<Longrightarrow> gr_verb r = Verb ''OPTIONS''"
  by (auto simp: gin_options_route_def)

section \<open>Properties\<close>

text \<open>
  C22: The gin router registers exactly one route per endpoint with a supported method, in
  their order, also for those whose proxy cannot be built; and with automatic options, for each
  path one OPTIONS route, which lists the methods of all the endpoints of the path and nothing
  else.
\<close>

theorem gin_routes:
  assumes "registerEndpointsAndMiddlewares rt cfg e = Some e'"
  shows "\<exists>routes. ge_routes e' = ge_routes e @ routes \<and>
    filter (\<lambda>r. gr_group r \<noteq> None \<and> gr_verb r \<noteq> Verb ''OPTIONS'') routes = concat (map (gin_endpoint_route rt) (sc_Endpoints cfg)) \<and>
    (\<forall>p. filter (\<lambda>r. gr_verb r = Verb ''OPTIONS'' \<and> gr_path r = p) routes =
       (if auto_options cfg \<and> methods_of (sc_Endpoints cfg) p \<noteq> []
        then [\<lparr>gr_group = Some (gt_Middlewares rt), gr_verb = Verb ''OPTIONS'', gr_path = p,
          gr_handler = (\<lambda>c. Some [GinHeader ''Allow'' (join_with '', '' (sort (methods_of (sc_Endpoints cfg) p))),
            GinHeader KrakendHeaderName (gt_header rt)])\<rparr>]
        else []))"
proof -
  obtain catalog where cat: "catalog_holds (sc_Endpoints cfg) catalog"
    and r: "ge_routes e' = ge_routes e @ gin_service_routes cfg @ concat (map (gin_endpoint_route rt) (sc_Endpoints cfg)) @
       (if auto_options cfg then map (gin_options_route rt) catalog else [])"
    using register_all_routes [OF assms] by blast
  let ?es = "concat (map (gin_endpoint_route rt) (sc_Endpoints cfg))"
  let ?os = "if auto_options cfg then map (gin_options_route rt) catalog else []"
  have f1: "filter (\<lambda>r. gr_group r \<noteq> None \<and> gr_verb r \<noteq> Verb ''OPTIONS'') (gin_service_routes cfg) = []"
    using service_routes_verbs by (auto simp: filter_empty_conv)
  have f2: "filter (\<lambda>r. gr_group r \<noteq> None \<and> gr_verb r \<noteq> Verb ''OPTIONS'') ?es = ?es"
    using endpoint_routes_verbs by (simp add: filter_id_conv)
  have f3: "filter (\<lambda>r. gr_group r \<noteq> None \<and> gr_verb r \<noteq> Verb ''OPTIONS'') ?os = []"
    using options_routes_verbs by (auto simp: filter_empty_conv)
  have g1: "filter (\<lambda>r. gr_verb r = Verb ''OPTIONS'' \<and> gr_path r = p) (gin_service_routes cfg) = []" for p
    using service_routes_verbs by (fastforce simp: filter_empty_conv)
  have g2: "filter (\<lambda>r. gr_verb r = Verb ''OPTIONS'' \<and> gr_path r = p) ?es = []" for p
    using endpoint_routes_verbs by (fastforce simp: filter_empty_conv)
  have h: "options_handler rt ms = (\<lambda>c. Some [GinHeader ''Allow'' (join_with '', '' (sort ms)),
      GinHeader KrakendHeaderName (gt_header rt)])" for ms
    by (simp add: options_handler_def fun_eq_iff)
  have g3: "filter (\<lambda>r. gr_verb r = Verb ''OPTIONS'' \<and> gr_path r = p) ?os =
      (if auto_options cfg \<and> methods_of (sc_Endpoints cfg) p \<noteq> []
        then [gin_options_route rt (p, methods_of (sc_Endpoints cfg) p)] else [])" for p
    using cat options_routes_of_path [of catalog p rt] by (simp add: catalog_holds_def)
  show ?thesis
    by (rule exI [of _ "gin_service_routes cfg @ ?es @ ?os"])
      (simp only: r filter_append f1 f2 f3 g1 g2 g3 append_Nil append_Nil2 gin_options_route_def fst_conv snd_conv h simp_thms)
qed

definition demo_gin_engine :: gin_engine where
  "demo_gin_engine = \<lparr>ge_RedirectTrailingSlash = True, ge_RedirectFixedPath = False, ge_HandleMethodNotAllowed = False,
     ge_ContextWithFallback = False, ge_ForwardedByClientIP = True, ge_RemoteIPHeaders = [''X-Forwarded-For''],
     ge_TrustedProxies = None, ge_AppEngine = False, ge_MaxMultipartMemory = 33554432, ge_RemoveExtraSlash = False,
     ge_UseH2C = False, ge_NoRoute = None, ge_Use = [], ge_routes = []\<rparr>"

definition demo_gin_env :: gin_env where
  "demo_gin_env = \<lparr>ge_New = demo_gin_engine, ge_decode = (\<lambda>v. (empty_engineConfiguration, True)), gr_accepts = (\<lambda>rs r. True)\<rparr>"

definition demo_gin_router :: gin_router where
  "demo_gin_router = \<lparr>gt_env = demo_gin_env, gt_Middlewares = [], gt_HandlerFactory = (\<lambda>c p x. Some []),
     gt_ProxyFactory = (\<lambda>c. Inr (Some NoopProxy, None)), gt_RunServer = (\<lambda>cfg e. None), gt_header = ''Version 2''\<rparr>"

theorem gin_routes_witness:
  "\<exists>e'. registerEndpointsAndMiddlewares demo_gin_router demo_routes demo_gin_engine = Some e' \<and>
     map gr_path (filter (\<lambda>r. gr_group r \<noteq> None \<and> gr_verb r \<noteq> Verb ''OPTIONS'') (ge_routes e')) = [''/u'']"
proof -
  obtain e' where e': "registerEndpointsAndMiddlewares demo_gin_router demo_routes demo_gin_engine = Some e'"
    by (simp add: registerEndpointsAndMiddlewares_def demo_gin_router_def demo_routes_def demo_config_def
        gin_registerKrakendEndpoint_def demo_upper gin_Handle_def demo_gin_env_def auto_options_def ec_get_def
        ec_section_def Let_def)
  from gin_routes [OF e'] obtain routes where r: "ge_routes e' = routes"
    "filter (\<lambda>r. gr_group r \<noteq> None \<and> gr_verb r \<noteq> Verb ''OPTIONS'') routes = concat (map (gin_endpoint_route demo_gin_router) (sc_Endpoints demo_routes))"
    by (auto simp: demo_gin_engine_def)
  have "map gr_path (concat (map (gin_endpoint_route demo_gin_router) (sc_Endpoints demo_routes))) = [''/u'']"
    by (simp add: demo_routes_def gin_endpoint_route_def supported_def demo_upper)
  with r e' show ?thesis by auto
qed

text \<open>
  A section that cannot be read as a whole is ignored for the switches of the engine, but what was
  read of it before the error still switches off the check of the parameters, the access log and
  the health endpoint.
\<close>

theorem bad_section_disables_checks:
  assumes "map_of (sc_ExtraConfig cfg) gin_Namespace = Some v" "ge_decode env v = (opts, False)"
    "gc_DisablePathDecoding opts" "gc_DisableHealthEndpoint opts" "gc_DisableAccessLog opts"
  shows "\<exists>e. NewEngine env cfg health g = Some (e, g) \<and> ge_Use e = ge_Use (ge_New env) @ [Recovery] \<and>
    ge_routes e = ge_routes (ge_New env) \<and> ge_RedirectTrailingSlash e"
  using assms by (simp add: NewEngine_def Let_def)

lemma configure_engine_multipart [simp]:
  "ge_MaxMultipartMemory (configure_engine opts e) = gc_MaxMultipartMemory opts"
  by (simp add: configure_engine_def Let_def)

lemma NewEngine_multipart:
  assumes "map_of (sc_ExtraConfig cfg) gin_Namespace = Some v" "ge_decode env v = (opts, True)"
    "NewEngine env cfg health g = Some (e, g')"
  shows "ge_MaxMultipartMemory e = gc_MaxMultipartMemory opts"
  using assms by (auto simp: NewEngine_def Let_def gin_Handle_def split: if_splits)

text \<open>
  A section without a limit for the memory of multipart forms sets the limit to zero, whatever
  the default of the engine.
\<close>

theorem section_resets_multipart_memory:
  assumes "map_of (sc_ExtraConfig cfg) gin_Namespace = Some v" "ge_decode env v = (opts, True)"
    "gc_MaxMultipartMemory opts = 0" "NewEngine env cfg health g = Some (e, g')"
  shows "ge_MaxMultipartMemory e = 0"
  using NewEngine_multipart [OF assms(1,2,4)] assms(3) by simp

end
