(* ===== verification/PluginLoader.thy ===== *)
theory PluginLoader
  imports Plugins Transport
begin

text \<open>
  The loading of plugin files: the scanner (plugin/plugin.go), the three loaders
  (proxy/plugin/modifier.go, transport/http/client/plugin/plugin.go and
  transport/http/server/plugin/plugin.go), and what the loaded client and server plugins are used
  for (executor.go and server.go beside them). A plugin file is a parameter: opening it fails,
  panics, or gives a symbol, of which the model has the methods the loaders look for, with the
  registrations they make and the panics they may end in.
\<close>

section \<open>Scanning a folder (plugin/plugin.go)\<close>

text \<open>\<open>path.Clean\<close> and \<open>path.Join\<close> of two elements, on paths with slashes.\<close>

fun clean_segments :: "bool \<Rightarrow> string list \<Rightarrow> string list \<Rightarrow> string list" where
  "clean_segments rooted [] out = rev out"
| "clean_segments rooted (s # ss) out =
     (if s = [] \<or> s = ''.'' then clean_segments rooted ss out
      else if s = ''..'' then
        (case out of
           [] \<Rightarrow> clean_segments rooted ss (if rooted then [] else [''..''])
         | t # ts \<Rightarrow> clean_segments rooted ss (if t = ''..'' then ''..'' # out else ts))
      else clean_segments rooted ss (s # out))"

definition path_Clean :: "string \<Rightarrow> string" where
  "path_Clean p =
     (let rooted = (p \<noteq> [] \<and> hd p = CHR ''/'');
          q = (if rooted then ''/'' else []) @ join_with ''/'' (clean_segments rooted (split_on CHR ''/'' p) [])
      in if q = [] then ''.'' else q)"

definition path_Join :: "string \<Rightarrow> string \<Rightarrow> string" where
  "path_Join a b =
     (if a = [] \<and> b = [] then [] else if a = [] then path_Clean b else path_Clean (a @ ''/'' @ b))"

record dir_entry =
  de_Name :: string
  de_IsDir :: bool

definition Scan :: "(string \<Rightarrow> goerror + dir_entry list) \<Rightarrow> string \<Rightarrow> string \<Rightarrow> goerror + string list" where
  "Scan ReadDir folder pattern =
     (case ReadDir folder of
        Inl err \<Rightarrow> Inl err
      | Inr files \<Rightarrow>
          Inr (map (\<lambda>f. path_Join folder (de_Name f))
            (filter (\<lambda>f. \<not> de_IsDir f \<and> str_contains (de_Name f) pattern) files)))"

section \<open>Opening a plugin\<close>

datatype panic_value = PanicError goerror | PanicOther string

text \<open>
  A symbol: whether it has the method that registers, the panics of its other methods (the outer
  option: whether it has them) and of \<open>RegisterExtraComponents\<close>, and the registrations that the
  method makes before it returns or panics.
\<close>

record 'v plugin_symbol =
  sy_Registerer :: bool
  sy_RegisterLogger :: "panic_value option option"
  sy_RegisterContext :: "panic_value option option"
  sy_ExtraComponents :: "panic_value option"
  sy_registrations :: "'v list"
  sy_panic :: "panic_value option"

datatype 'v opened = OpenError goerror | OpenPanic panic_value | Opened "'v plugin_symbol"

text \<open>The deferred function: a panic with an error is that error, another is its text.\<close>

fun recovered :: "panic_value \<Rightarrow> goerror" where
  "recovered (PanicError e) = e"
| "recovered (PanicOther s) = ErrText s"

fun first_panic :: "panic_value option option list \<Rightarrow> panic_value option" where
  "first_panic [] = None"
| "first_panic (Some (Some p) # ps) = Some p"
| "first_panic (_ # ps) = first_panic ps"

text \<open>
  The steps after the lookup: those before the registration, and the registration. The result is
  the error and the registrations that were made.
\<close>

definition register_symbol ::
  "string \<Rightarrow> ('v plugin_symbol \<Rightarrow> panic_value option option list) \<Rightarrow> 'v plugin_symbol \<Rightarrow> goerror option \<times> 'v list" where
  "register_symbol unknown before r =
     (if \<not> sy_Registerer r then (Some (ErrText unknown), [])
      else case first_panic (before r) of
        Some p \<Rightarrow> (Some (recovered p), [])
      | None \<Rightarrow> (map_option recovered (sy_panic r), sy_registrations r))"

definition open_with ::
  "string \<Rightarrow> ('v plugin_symbol \<Rightarrow> panic_value option option list) \<Rightarrow> 'v opened \<Rightarrow> goerror option \<times> 'v list" where
  "open_with unknown before x =
     (case x of
        OpenError err \<Rightarrow> (Some err, [])
      | OpenPanic p \<Rightarrow> (Some (recovered p), [])
      | Opened r \<Rightarrow> register_symbol unknown before r)"

definition client_open :: "(string \<Rightarrow> 'v opened) \<Rightarrow> bool \<Rightarrow> string \<Rightarrow> goerror option \<times> 'v list" where
  "client_open opener logger pluginName =
     open_with ''http-request-executor plugin loader: unknown type''
       (\<lambda>r. [if logger then sy_RegisterLogger r else None, Some (sy_ExtraComponents r)]) (opener pluginName)"

definition server_open :: "(string \<Rightarrow> 'v opened) \<Rightarrow> bool \<Rightarrow> string \<Rightarrow> goerror option \<times> 'v list" where
  "server_open opener logger pluginName =
     open_with ''http-server-handler plugin loader: unknown type''
       (\<lambda>r. [if logger then sy_RegisterLogger r else None, Some (sy_ExtraComponents r)]) (opener pluginName)"

definition modifier_open :: "(string \<Rightarrow> 'v opened) \<Rightarrow> bool \<Rightarrow> string \<Rightarrow> goerror option \<times> 'v list" where
  "modifier_open opener logger pluginName =
     open_with ''modifier plugin loader: unknown type''
       (\<lambda>r. [if logger then sy_RegisterLogger r else None, sy_RegisterContext r, Some (sy_ExtraComponents r)])
       (opener pluginName)"

section \<open>Loading\<close>

definition plugin_error :: "nat \<Rightarrow> string \<Rightarrow> goerror \<Rightarrow> string" where
  "plugin_error k name err = ''plugin #'' @ itoa (int k) @ '' ('' @ name @ ''): '' @ error_text err"

text \<open>The loop of the loaders: plugins loaded, errors, registrations made.\<close>

fun load_loop :: "(string \<Rightarrow> goerror option \<times> 'v list) \<Rightarrow> nat \<Rightarrow> string list \<Rightarrow> nat \<times> string list \<times> 'v list" where
  "load_loop openf k [] = (0, [], [])"
| "load_loop openf k (pluginName # plugins) =
     (case (openf pluginName, load_loop openf (Suc k) plugins) of
        ((Some err, regs), (n, errs, more_regs)) \<Rightarrow> (n, plugin_error k pluginName err # errs, regs @ more_regs)
      | ((None, regs), (n, errs, more_regs)) \<Rightarrow> (Suc n, errs, regs @ more_regs))"

definition loaderError_Error :: "string list \<Rightarrow> string" where
  "loaderError_Error msgs =
     ''plugin loader found '' @ itoa (int (length msgs)) @ '' error(s): '' @ [CHR 0x0A] @ join_with [CHR 0x0A] msgs"

definition load_all ::
  "(string \<Rightarrow> goerror option \<times> 'v list) \<Rightarrow> string list \<Rightarrow> nat \<times> string list option \<times> 'v list" where
  "load_all openf plugins =
     (case load_loop openf 0 plugins of
        (n, errs, regs) \<Rightarrow> (n, if length errs > 0 then Some errs else None, regs))"

datatype load_error = ScanError goerror | LoaderError "string list"

text \<open>\<open>LoadWithLogger\<close> of the three packages: scan, then load.\<close>

definition load_folder ::
  "(string \<Rightarrow> goerror + dir_entry list) \<Rightarrow> (string \<Rightarrow> goerror option \<times> 'v list) \<Rightarrow> string \<Rightarrow> string \<Rightarrow>
     nat \<times> load_error option \<times> 'v list" where
  "load_folder ReadDir openf path pattern =
     (case Scan ReadDir path pattern of
        Inl err \<Rightarrow> (0, Some (ScanError err), [])
      | Inr plugins \<Rightarrow> (case load_all openf plugins of (n, errs, regs) \<Rightarrow> (n, map_option LoaderError errs, regs)))"

definition client_LoadWithLogger where
  "client_LoadWithLogger ReadDir opener path pattern logger = load_folder ReadDir (client_open opener logger) path pattern"

definition server_LoadWithLogger where
  "server_LoadWithLogger ReadDir opener path pattern logger = load_folder ReadDir (server_open opener logger) path pattern"

definition modifier_LoadWithLogger where
  "modifier_LoadWithLogger ReadDir opener path pattern logger = load_folder ReadDir (modifier_open opener logger) path pattern"

text \<open>\<open>Load\<close> of the three packages: without a logger, so no plugin gets one.\<close>

definition client_Load where
  "client_Load ReadDir opener path pattern = client_LoadWithLogger ReadDir opener path pattern False"

definition server_Load where
  "server_Load ReadDir opener path pattern = server_LoadWithLogger ReadDir opener path pattern False"

definition modifier_Load where
  "modifier_Load ReadDir opener path pattern = modifier_LoadWithLogger ReadDir opener path pattern False"

text \<open>The errors of a load: their number, the errors, and the text of the whole, in the three packages.\<close>

definition loaderError_Len :: "string list \<Rightarrow> nat" where
  "loaderError_Len errors = length errors"

definition loaderError_Errs :: "string list \<Rightarrow> goerror list" where
  "loaderError_Errs errors = map ErrText errors"

definition client_loaderError_Error :: "string list \<Rightarrow> string" where
  "client_loaderError_Error errors =
     (let msgs = map error_text (loaderError_Errs errors)
      in ''plugin loader found '' @ itoa (int (length msgs)) @ '' error(s): '' @ [CHR 0x0A] @ join_with [CHR 0x0A] msgs)"

definition server_loaderError_Error :: "string list \<Rightarrow> string" where
  "server_loaderError_Error errors =
     (let msgs = map error_text (loaderError_Errs errors)
      in ''plugin loader found '' @ itoa (int (length msgs)) @ '' error(s): '' @ [CHR 0x0A] @ join_with [CHR 0x0A] msgs)"

lemma loaders_same_text:
  "client_loaderError_Error errors = loaderError_Error errors" "server_loaderError_Error errors = loaderError_Error errors"
  by (simp_all add: client_loaderError_Error_def server_loaderError_Error_def loaderError_Error_def loaderError_Errs_def
      o_def)

section \<open>Client plugins (client/plugin/plugin.go, executor.go)\<close>

abbreviation client_plugin_Namespace :: string where
  "client_plugin_Namespace \<equiv> ''github.com/devopsfaith/krakend/transport/http/client/executor''"

text \<open>
  What a plugin registers builds an http handler from its configuration; the recorder turns what
  the handler writes for a request into a response.
\<close>

type_synonym client_factory = "jmap option \<Rightarrow> goerror + (http_request \<Rightarrow> http_response)"

definition RegisterClient :: "string \<times> client_factory \<Rightarrow> client_factory namespaced \<Rightarrow> client_factory namespaced" where
  "RegisterClient = (\<lambda>(name, handler) reg. Namespaced_Register client_plugin_Namespace name handler reg)"

type_synonym http_executor = "http_request \<Rightarrow> goerror + http_response"

definition DefaultHTTPRequestExecutor :: "http_client \<Rightarrow> http_executor" where
  "DefaultHTTPRequestExecutor client req = hc_Do client req"

definition HTTPRequestExecutor ::
  "client_factory namespaced \<Rightarrow> (Backend \<Rightarrow> http_executor) \<Rightarrow> Backend \<Rightarrow> http_executor" where
  "HTTPRequestExecutor reg nxt cfg =
     (case ec_section (be_ExtraConfig cfg) client_plugin_Namespace of
        None \<Rightarrow> nxt cfg
      | Some extra \<Rightarrow>
          (case Namespaced_Get client_plugin_Namespace reg of
             None \<Rightarrow> nxt cfg
           | Some r \<Rightarrow>
               (case map_option as_str (nmap_get extra ''name'') of
                  Some (Some name) \<Rightarrow>
                    (case Untyped_Get name r of
                       None \<Rightarrow> nxt cfg
                     | Some hf \<Rightarrow> (case hf extra of Inl err \<Rightarrow> nxt cfg | Inr handler \<Rightarrow> (\<lambda>req. Inr (handler req))))
                | _ \<Rightarrow> nxt cfg)))"

section \<open>Server plugins (server/plugin/plugin.go, server.go)\<close>

abbreviation server_plugin_Namespace :: string where
  "server_plugin_Namespace \<equiv> ''github_com/devopsfaith/krakend/transport/http/server/handler''"

type_synonym 'h server_factory = "jmap option \<Rightarrow> 'h \<Rightarrow> goerror + 'h"

definition RegisterHandler :: "string \<times> 'h server_factory \<Rightarrow> 'h server_factory namespaced \<Rightarrow> 'h server_factory namespaced" where
  "RegisterHandler = (\<lambda>(name, handler) reg. Namespaced_Register server_plugin_Namespace name handler reg)"

text \<open>The names of the plugins to inject: a text, or a list, of which other values are skipped.\<close>

definition plugin_names :: "jmap option \<Rightarrow> string list option" where
  "plugin_names extra =
     (case nmap_get extra ''name'' of
        None \<Rightarrow> None
      | Some v \<Rightarrow>
          (case as_list v of
             Some fifoRaw \<Rightarrow> Some (List.map_filter as_str fifoRaw)
           | None \<Rightarrow> map_option (\<lambda>n. [n]) (as_str v)))"

fun inject_plugins :: "'h server_factory untyped \<Rightarrow> jmap option \<Rightarrow> string list \<Rightarrow> 'h \<Rightarrow> 'h" where
  "inject_plugins r extra [] handler = handler"
| "inject_plugins r extra (name # names) handler =
     (case Untyped_Get name r of
        None \<Rightarrow> inject_plugins r extra names handler
      | Some hf \<Rightarrow>
          (case hf extra handler of
             Inl err \<Rightarrow> inject_plugins r extra names handler
           | Inr handlerWrapper \<Rightarrow> inject_plugins r extra names handlerWrapper))"

definition server_plugin_New ::
  "'h server_factory namespaced \<Rightarrow> (ServiceConfig \<Rightarrow> 'h \<Rightarrow> goerror option) \<Rightarrow> ServiceConfig \<Rightarrow> 'h \<Rightarrow> goerror option" where
  "server_plugin_New reg nxt cfg handler =
     (case ec_section (sc_ExtraConfig cfg) server_plugin_Namespace of
        None \<Rightarrow> nxt cfg handler
      | Some extra \<Rightarrow>
          (case Namespaced_Get server_plugin_Namespace reg of
             None \<Rightarrow> nxt cfg handler
           | Some r \<Rightarrow>
               (case plugin_names extra of
                  None \<Rightarrow> nxt cfg handler
                | Some fifo \<Rightarrow> nxt cfg (inject_plugins r extra fifo handler))))"

section \<open>Lemmas\<close>

lemma load_loop_eq:
  "load_loop openf k plugins =
     (length (filter (\<lambda>p. fst (openf p) = None) plugins),
      concat (map (\<lambda>(i, p). case fst (openf p) of None \<Rightarrow> [] | Some err \<Rightarrow> [plugin_error i p err]) (enumerate k plugins)),
      concat (map (\<lambda>p. snd (openf p)) plugins))"
  by (induction openf k plugins rule: load_loop.induct) (auto split: prod.splits option.splits)

text \<open>Registering a list of values in a register, whatever is in it: the last under a name wins.\<close>

lemma register_clients_find:
  "Namespaced_Find client_plugin_Namespace name (fold RegisterClient regs reg) =
     (case map_of (rev regs) name of None \<Rightarrow> Namespaced_Find client_plugin_Namespace name reg | Some v \<Rightarrow> Some v)"
  unfolding RegisterClient_def by (rule namespaced_reg.get_reg_list)

lemma executor_of_found:
  assumes "ec_section (be_ExtraConfig cfg) client_plugin_Namespace = Some extra"
    "nmap_get extra ''name'' = Some (VStr name)" "Namespaced_Find client_plugin_Namespace name reg = Some hf"
  shows "HTTPRequestExecutor reg nxt cfg =
    (case hf extra of Inl err \<Rightarrow> nxt cfg | Inr handler \<Rightarrow> (\<lambda>req. Inr (handler req)))"
  using assms by (auto simp: HTTPRequestExecutor_def Namespaced_Find_def split: option.splits)

section \<open>Properties\<close>

text \<open>
  What is expected of a plugin file: the panics that its symbol ends in before it registers (in the
  order of the calls: logger, context, extra components), how it fails, where a panic with an
  error is that error and another one its text, and the registrations it leaves.
\<close>

definition early_panics :: "bool \<Rightarrow> bool \<Rightarrow> 'v plugin_symbol \<Rightarrow> panic_value list" where
  "early_panics logger ctx r =
     List.map_filter id
       [if logger then Option.bind (sy_RegisterLogger r) id else None,
        if ctx then Option.bind (sy_RegisterContext r) id else None, sy_ExtraComponents r]"

definition plugin_failure :: "string \<Rightarrow> bool \<Rightarrow> bool \<Rightarrow> 'v opened \<Rightarrow> goerror option" where
  "plugin_failure unknown logger ctx x =
     (let as_error = (\<lambda>p. case p of PanicError e \<Rightarrow> e | PanicOther s \<Rightarrow> ErrText s)
      in case x of
           OpenError err \<Rightarrow> Some err
         | OpenPanic p \<Rightarrow> Some (as_error p)
         | Opened r \<Rightarrow>
             if \<not> sy_Registerer r then Some (ErrText unknown)
             else (case early_panics logger ctx r of
                     p # _ \<Rightarrow> Some (as_error p)
                   | [] \<Rightarrow> map_option as_error (sy_panic r)))"

definition plugin_registrations :: "bool \<Rightarrow> bool \<Rightarrow> 'v opened \<Rightarrow> 'v list" where
  "plugin_registrations logger ctx x =
     (case x of
        Opened r \<Rightarrow> if sy_Registerer r \<and> early_panics logger ctx r = [] then sy_registrations r else []
      | _ \<Rightarrow> [])"

lemma recovered_eq: "recovered = (\<lambda>p. case p of PanicError e \<Rightarrow> e | PanicOther s \<Rightarrow> ErrText s)"
  by (rule ext) (simp split: panic_value.splits)

lemma open_with_eq:
  assumes "\<And>r. first_panic (before r) = (case early_panics logger ctx r of [] \<Rightarrow> None | p # _ \<Rightarrow> Some p)"
  shows "open_with unknown before x = (plugin_failure unknown logger ctx x, plugin_registrations logger ctx x)"
  using assms
  by (auto simp: open_with_def register_symbol_def plugin_failure_def plugin_registrations_def recovered_eq Let_def
      split: opened.splits list.splits)

lemma first_panic_early:
  "first_panic [if logger then sy_RegisterLogger r else None, Some (sy_ExtraComponents r)] =
     (case early_panics logger False r of [] \<Rightarrow> None | p # _ \<Rightarrow> Some p)"
  "first_panic [if logger then sy_RegisterLogger r else None, sy_RegisterContext r, Some (sy_ExtraComponents r)] =
     (case early_panics logger True r of [] \<Rightarrow> None | p # _ \<Rightarrow> Some p)"
proof -
  have [simp]: "first_panic (Some None # ps) = first_panic ps" "first_panic (None # ps) = first_panic ps" for ps
    by simp_all
  show "first_panic [if logger then sy_RegisterLogger r else None, Some (sy_ExtraComponents r)] =
     (case early_panics logger False r of [] \<Rightarrow> None | p # _ \<Rightarrow> Some p)"
    "first_panic [if logger then sy_RegisterLogger r else None, sy_RegisterContext r, Some (sy_ExtraComponents r)] =
     (case early_panics logger True r of [] \<Rightarrow> None | p # _ \<Rightarrow> Some p)"
    by (cases "sy_RegisterLogger r"; cases "sy_RegisterContext r"; cases "sy_ExtraComponents r";
        cases "the (sy_RegisterLogger r)"; cases "the (sy_RegisterContext r)"; cases logger;
        simp add: early_panics_def List.map_filter_def)+
qed

lemma open_eqs:
  "client_open opener logger p =
     (plugin_failure ''http-request-executor plugin loader: unknown type'' logger False (opener p),
      plugin_registrations logger False (opener p))"
  "server_open opener logger p =
     (plugin_failure ''http-server-handler plugin loader: unknown type'' logger False (opener p),
      plugin_registrations logger False (opener p))"
  "modifier_open opener logger p =
     (plugin_failure ''modifier plugin loader: unknown type'' logger True (opener p),
      plugin_registrations logger True (opener p))"
  unfolding client_open_def server_open_def modifier_open_def
  by (rule open_with_eq; rule first_panic_early)+

lemma load_folder_eq:
  fixes pattern :: string
  assumes "ReadDir folder = Inr files"
  defines "plugins \<equiv> map (\<lambda>f. path_Join folder (de_Name f))
    (filter (\<lambda>f. \<not> de_IsDir f \<and> sublist pattern (de_Name f)) files)"
  shows "\<exists>n errs. load_folder ReadDir openf folder pattern =
      (n, if errs = [] then None else Some (LoaderError errs), concat (map (\<lambda>p. snd (openf p)) plugins)) \<and>
    n = length (filter (\<lambda>p. fst (openf p) = None) plugins) \<and> n + length errs = length plugins \<and>
    errs = concat (map (\<lambda>(i, p). case fst (openf p) of None \<Rightarrow> [] | Some err \<Rightarrow> [plugin_error i p err]) (enumerate 0 plugins))"
proof -
  have len: "length (filter (\<lambda>p. fst (openf p) = None) ps) +
      length (concat (map (\<lambda>(i, p). case fst (openf p) of None \<Rightarrow> [] | Some err \<Rightarrow> [plugin_error i p err]) (enumerate k ps))) = length ps" for k ps
    by (induction ps arbitrary: k) (auto split: option.splits)
  have "Scan ReadDir folder pattern = Inr plugins"
    by (simp add: Scan_def assms(1) plugins_def str_contains_def)
  then show ?thesis using len [of plugins 0] by (auto simp: load_folder_def load_all_def load_loop_eq)
qed

text \<open>
  C29: Each of the three loaders tries every plugin file of the folder whose name holds the
  pattern. It counts those that load; for each other one it gives an error with its number, its
  name and the reason: the error of opening it, the text of a missing method, or the panic of the
  plugin, which never reaches the caller, whether it happens when the file is opened, before the
  plugin registers or while it does. The registrations that were made are kept, in order, also
  those made before a panic.
\<close>

theorem loader_result:
  fixes pattern :: string and logger :: bool and opener :: "string \<Rightarrow> 'v opened"
  assumes "ReadDir folder = Inr files"
    and "(load, unknown, ctx) \<in>
      {(client_LoadWithLogger, ''http-request-executor plugin loader: unknown type'', False),
       (server_LoadWithLogger, ''http-server-handler plugin loader: unknown type'', False),
       (modifier_LoadWithLogger, ''modifier plugin loader: unknown type'', True)}"
  defines "plugins \<equiv> map (\<lambda>f. path_Join folder (de_Name f))
    (filter (\<lambda>f. \<not> de_IsDir f \<and> sublist pattern (de_Name f)) files)"
    and "fails \<equiv> \<lambda>p. plugin_failure unknown logger ctx (opener p)"
  shows "\<exists>n errs. load ReadDir opener folder pattern logger =
      (n, if errs = [] then None else Some (LoaderError errs),
       concat (map (\<lambda>p. plugin_registrations logger ctx (opener p)) plugins)) \<and>
    n = length (filter (\<lambda>p. fails p = None) plugins) \<and> n + length errs = length plugins \<and>
    errs = concat (map (\<lambda>(i, p). case fails p of None \<Rightarrow> []
      | Some err \<Rightarrow> [''plugin #'' @ itoa (int i) @ '' ('' @ p @ ''): '' @ error_text err]) (enumerate 0 plugins))"
proof -
  obtain openf where l: "load ReadDir opener folder pattern logger = load_folder ReadDir openf folder pattern"
    and o: "\<And>p. openf p = (fails p, plugin_registrations logger ctx (opener p))"
    using assms(2) open_eqs [of opener logger]
    by (auto simp: fails_def client_LoadWithLogger_def server_LoadWithLogger_def modifier_LoadWithLogger_def)
  show ?thesis
    using load_folder_eq [where openf = openf and pattern = pattern and ReadDir = ReadDir and folder = folder, OF assms(1), folded plugins_def]
    unfolding l o fst_conv snd_conv plugin_error_def .
qed

definition demo_symbol :: "(string \<times> client_factory) plugin_symbol" where
  "demo_symbol = \<lparr>sy_Registerer = True, sy_RegisterLogger = None, sy_RegisterContext = None, sy_ExtraComponents = None,
     sy_registrations = [(''x'', \<lambda>extra. Inr (\<lambda>req. \<lparr>hp_StatusCode = 200, hp_Header = [], hp_Body = ([], None), hp_URL = None\<rparr>))],
     sy_panic = Some (PanicOther ''late'')\<rparr>"

definition demo_dir :: "string \<Rightarrow> goerror + dir_entry list" where
  "demo_dir folder = Inr [\<lparr>de_Name = ''a.so'', de_IsDir = False\<rparr>, \<lparr>de_Name = ''b.txt'', de_IsDir = False\<rparr>]"

theorem loader_result_witness:
  "modifier_LoadWithLogger demo_dir (\<lambda>p. OpenPanic (PanicOther ''boom'')) ''/p'' ''.so'' False =
     (0, Some (LoaderError [''plugin #0 (/p/a.so): boom'']), [] :: (string \<times> client_factory) list)"
proof -
  have f: "map (\<lambda>f. path_Join ''/p'' (de_Name f)) (filter (\<lambda>f. \<not> de_IsDir f \<and> sublist ''.so'' (de_Name f))
      [\<lparr>de_Name = ''a.so'', de_IsDir = False\<rparr>, \<lparr>de_Name = ''b.txt'', de_IsDir = False\<rparr>]) = [''/p/a.so'']"
    by code_simp
  have "itoa 0 = ''0''" by code_simp
  with loader_result [where load = modifier_LoadWithLogger and pattern = "''.so''" and logger = False and
      opener = "\<lambda>p. OpenPanic (PanicOther ''boom'') :: (string \<times> client_factory) opened" and folder = "''/p''" and
      unknown = "''modifier plugin loader: unknown type''" and ctx = True, OF demo_dir_def] f
  show ?thesis by (simp add: plugin_failure_def plugin_registrations_def)
qed

text \<open>
  C30: After the client plugins of a folder have been loaded into a register, a backend that
  names one of them is served by the handler that the last registration under the name builds,
  even if a plugin panicked meanwhile; when the handler cannot be built it is served as before.
\<close>

theorem loaded_client_is_used:
  assumes "client_LoadWithLogger ReadDir opener folder pattern logger = (n, errs, regs1 @ (name, hf) # regs2)"
    "name \<notin> fst ` set regs2"
    "ec_section (be_ExtraConfig cfg) client_plugin_Namespace = Some extra" "nmap_get extra ''name'' = Some (VStr name)"
  shows "HTTPRequestExecutor (fold RegisterClient (snd (snd (client_LoadWithLogger ReadDir opener folder pattern logger))) reg) nxt cfg =
    (case hf extra of Inl err \<Rightarrow> nxt cfg | Inr handler \<Rightarrow> (\<lambda>req. Inr (handler req)))"
proof -
  have "map_of (rev regs2) name = None" using assms(2) by (auto simp: map_of_eq_None_iff)
  then have "Namespaced_Find client_plugin_Namespace name (fold RegisterClient (regs1 @ (name, hf) # regs2) reg) = Some hf"
    unfolding register_clients_find by (simp add: map_add_def)
  from executor_of_found [OF assms(3,4) this] show ?thesis by (simp add: assms(1))
qed

theorem loaded_client_is_used_witness:
  "\<exists>n errs. client_LoadWithLogger demo_dir (\<lambda>p. Opened demo_symbol) ''/p'' ''.so'' False = (n, errs, sy_registrations demo_symbol) \<and>
     HTTPRequestExecutor (fold RegisterClient (sy_registrations demo_symbol) Namespaced_New) (\<lambda>b req. Inl errNullResult)
       (empty_Backend\<lparr>be_ExtraConfig := [(client_plugin_Namespace, VObj [(''name'', VStr ''x'')])]\<rparr>) =
     (\<lambda>req. Inr \<lparr>hp_StatusCode = 200, hp_Header = [], hp_Body = ([], None), hp_URL = None\<rparr>)"
proof -
  have f: "str_contains ''a.so'' ''.so''" "\<not> str_contains ''b.txt'' ''.so''"
    unfolding str_contains_def by code_simp+
  have o: "client_open (\<lambda>p. Opened demo_symbol) False q = (Some (ErrText ''late''), sy_registrations demo_symbol)" for q
    by (simp add: client_open_def open_with_def register_symbol_def demo_symbol_def)
  obtain n errs where l: "client_LoadWithLogger demo_dir (\<lambda>p. Opened demo_symbol) ''/p'' ''.so'' False =
      (n, errs, sy_registrations demo_symbol)"
    by (simp add: client_LoadWithLogger_def load_folder_def load_all_def Scan_def demo_dir_def f o)
  obtain hf where hf: "sy_registrations demo_symbol = [] @ (''x'', hf) # []" and
    h: "hf (Some [(''name'', VStr ''x'')]) = Inr (\<lambda>req. \<lparr>hp_StatusCode = 200, hp_Header = [], hp_Body = ([], None), hp_URL = None\<rparr>)"
    by (simp add: demo_symbol_def)
  let ?cfg = "empty_Backend\<lparr>be_ExtraConfig := [(client_plugin_Namespace, VObj [(''name'', VStr ''x'')])]\<rparr>"
  have "ec_section (be_ExtraConfig ?cfg) client_plugin_Namespace = Some (Some [(''name'', VStr ''x'')])"
    by (simp add: ec_section_def)
  from loaded_client_is_used [OF l [unfolded hf] _ this] h l hf show ?thesis by simp
qed

end
