(* ===== verification/Adapters.thy ===== *)
theory Adapters
  imports MuxRouter
begin

text \<open>
  The adapters to other routing libraries: router/chi (endpoint.go, router.go), router/gorilla,
  router/httptreemux and router/negroni. The libraries are parameters: the parameters of the
  matched route (names and values), and the engines. The title caser of golang.org/x/text is one
  too: the same \<open>Title\<close> that the configuration uses for the names of the backend's parameters.
\<close>

section \<open>Parameter extractors\<close>

text \<open>chi: the name with its first letter in title case; an empty name panics.\<close>

fun chi_params :: "(string \<Rightarrow> string) \<Rightarrow> string list \<Rightarrow> (string \<Rightarrow> string) \<Rightarrow> (string \<times> string) list \<Rightarrow> (string \<times> string) list option" where
  "chi_params Title [] URLParam params = Some params"
| "chi_params Title (param # keys) URLParam params =
     (if param = [] then None
      else chi_params Title keys URLParam (mput (Title (take 1 param) @ drop 1 param) (URLParam param) params))"

definition extractParamsFromEndpoint ::
  "(string \<Rightarrow> string) \<Rightarrow> string list \<Rightarrow> (string \<Rightarrow> string) \<Rightarrow> (string \<times> string) list option" where
  "extractParamsFromEndpoint Title keys URLParam =
     (if length keys > 0 then chi_params Title keys URLParam [] else Some [])"

text \<open>gorilla and httptreemux: the whole name in title case.\<close>

fun title_params :: "(string \<Rightarrow> string) \<Rightarrow> (string \<times> string) list \<Rightarrow> (string \<times> string) list \<Rightarrow> (string \<times> string) list" where
  "title_params Title [] params = params"
| "title_params Title ((key, v) # vars) params = title_params Title vars (mput (Title key) v params)"

definition gorillaParamsExtractor :: "(string \<Rightarrow> string) \<Rightarrow> (in_request \<Rightarrow> (string \<times> string) list) \<Rightarrow> ParamExtractor" where
  "gorillaParamsExtractor Title Vars r = title_params Title (Vars r) []"

definition httptreemux_ParamsExtractor :: "(string \<Rightarrow> string) \<Rightarrow> (in_request \<Rightarrow> (string \<times> string) list) \<Rightarrow> ParamExtractor" where
  "httptreemux_ParamsExtractor Title ContextParams r = title_params Title (ContextParams r) []"

section \<open>Routers over the mux router\<close>

text \<open>
  The engines: \<open>handle\<close> and \<open>serve\<close> are those of the library's router \<open>'e\<close>, which takes the
  pattern before or after the method. All of them serve behind the interceptor.
\<close>

definition intercepted :: "('e \<Rightarrow> http_handler) \<Rightarrow> 'e \<Rightarrow> http_handler" where
  "intercepted serve e r w = serve e r (NewHTTPErrorInterceptor w)"

definition gorillaEngine_Handle ::
  "(string \<Rightarrow> http_handler \<Rightarrow> string \<Rightarrow> 'e \<Rightarrow> 'e option) \<Rightarrow> string \<Rightarrow> string \<Rightarrow> http_handler \<Rightarrow> 'e \<Rightarrow> 'e option" where
  "gorillaEngine_Handle handle pattern method_name handler e = handle pattern handler method_name e"

definition httptreemux_Handle ::
  "(string \<Rightarrow> string \<Rightarrow> http_handler \<Rightarrow> 'e \<Rightarrow> 'e option) \<Rightarrow> string \<Rightarrow> string \<Rightarrow> http_handler \<Rightarrow> 'e \<Rightarrow> 'e option" where
  "httptreemux_Handle handle pattern method_name handler e = handle method_name pattern handler e"

definition httptreemux_ServeHTTP :: "('e \<Rightarrow> http_handler) \<Rightarrow> 'e \<Rightarrow> http_handler" where
  "httptreemux_ServeHTTP serve e = intercepted serve e"

text \<open>The default configurations, and the factories that make a router of the package mux of them.\<close>

definition gorilla_DefaultConfig ::
  "(string \<Rightarrow> http_handler \<Rightarrow> string \<Rightarrow> 'e \<Rightarrow> 'e option) \<Rightarrow> ('e \<Rightarrow> http_handler) \<Rightarrow> 'e \<Rightarrow> mux_env \<Rightarrow> (string \<Rightarrow> string) \<Rightarrow>
     (in_request \<Rightarrow> (string \<times> string) list) \<Rightarrow> Factory \<Rightarrow> http_handler \<Rightarrow>
     (ServiceConfig \<Rightarrow> http_handler \<Rightarrow> goerror option) \<Rightarrow> 'e router_config" where
  "gorilla_DefaultConfig handle serve engine env Title Vars pf echo RunServer =
     \<lparr>rc_Handle = gorillaEngine_Handle handle, rc_ServeHTTP = intercepted serve, rc_Engine = engine, rc_Middlewares = [],
      rc_HandlerFactory = CustomEndpointHandler env (NewRequestBuilder (mx_version env) (gorillaParamsExtractor Title Vars)),
      rc_ProxyFactory = pf, rc_DebugPattern = ''/__debug/{params}'', rc_EchoPattern = ''/__echo/{params}'',
      rc_DebugHandler = DebugHandler, rc_EchoHandler = echo, rc_RunServer = RunServer\<rparr>"

definition gorilla_DefaultFactory ::
  "(string \<Rightarrow> http_handler \<Rightarrow> string \<Rightarrow> 'e \<Rightarrow> 'e option) \<Rightarrow> ('e \<Rightarrow> http_handler) \<Rightarrow> 'e \<Rightarrow> mux_env \<Rightarrow> (string \<Rightarrow> string) \<Rightarrow>
     (in_request \<Rightarrow> (string \<times> string) list) \<Rightarrow> Factory \<Rightarrow> http_handler \<Rightarrow>
     (ServiceConfig \<Rightarrow> http_handler \<Rightarrow> goerror option) \<Rightarrow> 'e router_config" where
  "gorilla_DefaultFactory handle serve engine env Title Vars pf echo RunServer =
     NewFactory (gorilla_DefaultConfig handle serve engine env Title Vars pf echo RunServer)"

definition httptreemux_DefaultConfig ::
  "(string \<Rightarrow> string \<Rightarrow> http_handler \<Rightarrow> 'e \<Rightarrow> 'e option) \<Rightarrow> ('e \<Rightarrow> http_handler) \<Rightarrow> 'e \<Rightarrow> mux_env \<Rightarrow> (string \<Rightarrow> string) \<Rightarrow>
     (in_request \<Rightarrow> (string \<times> string) list) \<Rightarrow> Factory \<Rightarrow> http_handler \<Rightarrow>
     (ServiceConfig \<Rightarrow> http_handler \<Rightarrow> goerror option) \<Rightarrow> 'e router_config" where
  "httptreemux_DefaultConfig handle serve engine env Title ContextParams pf echo RunServer =
     \<lparr>rc_Handle = httptreemux_Handle handle, rc_ServeHTTP = httptreemux_ServeHTTP serve, rc_Engine = engine,
      rc_Middlewares = [],
      rc_HandlerFactory = CustomEndpointHandler env
        (NewRequestBuilder (mx_version env) (httptreemux_ParamsExtractor Title ContextParams)),
      rc_ProxyFactory = pf, rc_DebugPattern = ''/__debug/{params}'', rc_EchoPattern = [],
      rc_DebugHandler = DebugHandler, rc_EchoHandler = echo, rc_RunServer = RunServer\<rparr>"

definition httptreemux_DefaultFactory ::
  "(string \<Rightarrow> string \<Rightarrow> http_handler \<Rightarrow> 'e \<Rightarrow> 'e option) \<Rightarrow> ('e \<Rightarrow> http_handler) \<Rightarrow> 'e \<Rightarrow> mux_env \<Rightarrow> (string \<Rightarrow> string) \<Rightarrow>
     (in_request \<Rightarrow> (string \<times> string) list) \<Rightarrow> Factory \<Rightarrow> http_handler \<Rightarrow>
     (ServiceConfig \<Rightarrow> http_handler \<Rightarrow> goerror option) \<Rightarrow> 'e router_config" where
  "httptreemux_DefaultFactory handle serve engine env Title ContextParams pf echo RunServer =
     NewFactory (httptreemux_DefaultConfig handle serve engine env Title ContextParams pf echo RunServer)"

text \<open>
  negroni: the configuration of gorilla with another engine, a gorilla router at the end of a
  chain of handlers: those of \<open>negroni.Classic()\<close>, then the given ones. A handler of the chain
  gets the rest of the chain. Routes go to the gorilla router, which the chain shares.
\<close>

type_synonym negroni_Handler = "http_handler \<Rightarrow> http_handler"

definition newNegroniEngine :: "negroni_Handler list \<Rightarrow> negroni_Handler list \<Rightarrow> ('e \<Rightarrow> http_handler) \<Rightarrow> 'e \<Rightarrow> http_handler" where
  "newNegroniEngine Classic middlewares serve muxEngine =
     foldr (\<lambda>m rest. m rest) (Classic @ middlewares) (serve muxEngine)"

definition negroniEngine_ServeHTTP :: "('e \<Rightarrow> http_handler) \<Rightarrow> 'e \<Rightarrow> http_handler" where
  "negroniEngine_ServeHTTP negroni e = intercepted negroni e"

definition negroniEngine_Handle ::
  "(string \<Rightarrow> http_handler \<Rightarrow> string \<Rightarrow> 'e \<Rightarrow> 'e option) \<Rightarrow> string \<Rightarrow> string \<Rightarrow> http_handler \<Rightarrow> 'e \<Rightarrow> 'e option" where
  "negroniEngine_Handle handle pattern method_name handler e = handle pattern handler method_name e"

definition negroni_DefaultConfigWithRouter ::
  "(string \<Rightarrow> http_handler \<Rightarrow> string \<Rightarrow> 'e \<Rightarrow> 'e option) \<Rightarrow> ('e \<Rightarrow> http_handler) \<Rightarrow> negroni_Handler list \<Rightarrow> 'e \<Rightarrow> 'e \<Rightarrow>
     mux_env \<Rightarrow> (string \<Rightarrow> string) \<Rightarrow> (in_request \<Rightarrow> (string \<times> string) list) \<Rightarrow> Factory \<Rightarrow> http_handler \<Rightarrow>
     (ServiceConfig \<Rightarrow> http_handler \<Rightarrow> goerror option) \<Rightarrow> negroni_Handler list \<Rightarrow> 'e router_config" where
  "negroni_DefaultConfigWithRouter handle serve Classic new_router muxEngine env Title Vars pf echo RunServer middlewares =
     (gorilla_DefaultConfig handle serve new_router env Title Vars pf echo RunServer)
       \<lparr>rc_Engine := muxEngine, rc_Handle := negroniEngine_Handle handle,
        rc_ServeHTTP := negroniEngine_ServeHTTP (newNegroniEngine Classic middlewares serve)\<rparr>"

definition negroni_DefaultConfig ::
  "(string \<Rightarrow> http_handler \<Rightarrow> string \<Rightarrow> 'e \<Rightarrow> 'e option) \<Rightarrow> ('e \<Rightarrow> http_handler) \<Rightarrow> negroni_Handler list \<Rightarrow> 'e \<Rightarrow>
     mux_env \<Rightarrow> (string \<Rightarrow> string) \<Rightarrow> (in_request \<Rightarrow> (string \<times> string) list) \<Rightarrow> Factory \<Rightarrow> http_handler \<Rightarrow>
     (ServiceConfig \<Rightarrow> http_handler \<Rightarrow> goerror option) \<Rightarrow> negroni_Handler list \<Rightarrow> 'e router_config" where
  "negroni_DefaultConfig handle serve Classic new_router env Title Vars pf echo RunServer middlewares =
     negroni_DefaultConfigWithRouter handle serve Classic new_router new_router env Title Vars pf echo RunServer middlewares"

definition negroni_DefaultFactory ::
  "(string \<Rightarrow> http_handler \<Rightarrow> string \<Rightarrow> 'e \<Rightarrow> 'e option) \<Rightarrow> ('e \<Rightarrow> http_handler) \<Rightarrow> negroni_Handler list \<Rightarrow> 'e \<Rightarrow>
     mux_env \<Rightarrow> (string \<Rightarrow> string) \<Rightarrow> (in_request \<Rightarrow> (string \<times> string) list) \<Rightarrow> Factory \<Rightarrow> http_handler \<Rightarrow>
     (ServiceConfig \<Rightarrow> http_handler \<Rightarrow> goerror option) \<Rightarrow> negroni_Handler list \<Rightarrow> 'e router_config" where
  "negroni_DefaultFactory handle serve Classic new_router env Title Vars pf echo RunServer middlewares =
     NewFactory (negroni_DefaultConfig handle serve Classic new_router env Title Vars pf echo RunServer middlewares)"

section \<open>The chi router (router.go)\<close>

text \<open>
  chi's router has the methods \<open>Get\<close>, \<open>Post\<close> and so on: \<open>rc_Handle\<close> with the method. The router
  serves the engine itself, without the interceptor; the parameter \<open>NotFound\<close> sets its handler for other
  requests and \<open>Use\<close> adds the middlewares, which chi refuses with a panic (\<open>None\<close>) after the first
  route. It has no echo endpoint: the fields for the echo are not used.
\<close>

definition ChiDefaultDebugPattern :: string where
  "ChiDefaultDebugPattern = ''/__debug/''"

definition NewEndpointHandler ::
  "mux_env \<Rightarrow> (string \<Rightarrow> string) \<Rightarrow> (in_request \<Rightarrow> string list \<times> (string \<Rightarrow> string)) \<Rightarrow> EndpointConfig \<Rightarrow> Proxy \<Rightarrow> http_handler" where
  "NewEndpointHandler env Title RouteContext cfg prxy r w =
     (case RouteContext r of
        (keys, URLParam) \<Rightarrow>
          if hr_Method r \<noteq> to_upper (ep_Method cfg)
          then CustomEndpointHandler env (NewRequest (mx_version env)) cfg prxy r w
          else case extractParamsFromEndpoint Title keys URLParam of
            None \<Rightarrow> None
          | Some params \<Rightarrow> CustomEndpointHandler env (NewRequestBuilder (mx_version env) (\<lambda>r. params)) cfg prxy r w)"

definition chi_NewFactory :: "'e router_config \<Rightarrow> 'e router_config" where
  "chi_NewFactory cfg = (if rc_DebugPattern cfg = [] then cfg\<lparr>rc_DebugPattern := ChiDefaultDebugPattern\<rparr> else cfg)"

definition chi_DefaultFactory ::
  "(string \<Rightarrow> string \<Rightarrow> http_handler \<Rightarrow> 'e \<Rightarrow> 'e option) \<Rightarrow> ('e \<Rightarrow> http_handler) \<Rightarrow> 'e \<Rightarrow> (http_handler \<Rightarrow> http_handler) \<Rightarrow>
     mux_env \<Rightarrow> (string \<Rightarrow> string) \<Rightarrow> (in_request \<Rightarrow> string list \<times> (string \<Rightarrow> string)) \<Rightarrow> Factory \<Rightarrow>
     (ServiceConfig \<Rightarrow> http_handler \<Rightarrow> goerror option) \<Rightarrow> 'e router_config" where
  "chi_DefaultFactory handle serve new_router middleware_Logger env Title RouteContext pf RunServer =
     chi_NewFactory
       \<lparr>rc_Handle = handle, rc_ServeHTTP = serve, rc_Engine = new_router, rc_Middlewares = [middleware_Logger],
        rc_HandlerFactory = NewEndpointHandler env Title RouteContext, rc_ProxyFactory = pf,
        rc_DebugPattern = ChiDefaultDebugPattern, rc_EchoPattern = [], rc_DebugHandler = DebugHandler,
        rc_EchoHandler = DebugHandler, rc_RunServer = RunServer\<rparr>"

definition registerDebugEndpoints :: "'e router_config \<Rightarrow> 'e \<Rightarrow> 'e option" where
  "registerDebugEndpoints rc e =
     handle_all rc (rc_DebugPattern rc) [''GET'', ''POST'', ''PUT'', ''PATCH'', ''DELETE''] (rc_DebugHandler rc) e"

definition chi_registerKrakendEndpoint ::
  "'e router_config \<Rightarrow> string \<Rightarrow> EndpointConfig \<Rightarrow> http_handler \<Rightarrow> nat \<Rightarrow> 'e \<Rightarrow> ('e \<times> router_log list) option" where
  "chi_registerKrakendEndpoint rc method_name endpoint handler totBackends e =
     (let method_name = to_upper method_name;
          path = ep_Endpoint endpoint
      in if method_name \<noteq> ''GET'' \<and> totBackends > 1 \<and> \<not> IsValidSequentialEndpoint endpoint
         then Some (e, [InvalidSequential method_name path])
         else if method_name \<in> {''GET'', ''POST'', ''PUT'', ''PATCH'', ''DELETE''}
         then map_option (\<lambda>e. (e, [Registering method_name path])) (rc_Handle rc path method_name handler e)
         else Some (e, [UnsupportedMethod method_name]))"

fun chi_registerKrakendEndpoints ::
  "'e router_config \<Rightarrow> EndpointConfig list \<Rightarrow> 'e \<Rightarrow> ('e \<times> router_log list) option" where
  "chi_registerKrakendEndpoints rc [] e = Some (e, [])"
| "chi_registerKrakendEndpoints rc (c # cs) e =
     (case rc_ProxyFactory rc c of
        Inl _ \<Rightarrow> None
      | Inr (_, Some err) \<Rightarrow>
          map_option (\<lambda>(e, ls). (e, ProxyFactoryError err # ls)) (chi_registerKrakendEndpoints rc cs e)
      | Inr (proxyStack, None) \<Rightarrow>
          (case chi_registerKrakendEndpoint rc (ep_Method c) c (rc_HandlerFactory rc c (call_proxy proxyStack))
                  (length (ep_Backend c)) e of
             None \<Rightarrow> None
           | Some (e, ls) \<Rightarrow> map_option (\<lambda>(e, ls'). (e, ls @ ls')) (chi_registerKrakendEndpoints rc cs e)))"

definition chi_not_found :: http_handler where
  "chi_not_found r w =
     http_Error ''404 page not found'' 404 (set_header CompleteResponseHeaderName HeaderIncompleteResponseValue w)"

definition chi_Run ::
  "'e router_config \<Rightarrow> ((http_handler \<Rightarrow> http_handler) list \<Rightarrow> 'e \<Rightarrow> 'e option) \<Rightarrow> (http_handler \<Rightarrow> 'e \<Rightarrow> 'e) \<Rightarrow> ('p, 'c) tls_lib \<Rightarrow> ('p, 'c) transport_state \<Rightarrow> ServiceConfig \<Rightarrow>
     ('e \<times> ('p, 'c) transport_state \<times> router_log list) option" where
  "chi_Run rc Use NotFound lib ts cfg =
     (case Use (rc_Middlewares rc) (rc_Engine rc) of
        None \<Rightarrow> None
      | Some e \<Rightarrow>
     (case (if sc_Debug cfg then registerDebugEndpoints rc e else Some e) of
        None \<Rightarrow> None
      | Some e \<Rightarrow>
          (case rc_Handle rc ''/__health'' ''GET'' HealthHandler e of
             None \<Rightarrow> None
           | Some e \<Rightarrow>
               (let (tls, ts) = InitHTTPDefaultTransportWithLogger lib cfg ts
                in case chi_registerKrakendEndpoints rc (sc_Endpoints cfg) e of
                     None \<Rightarrow> None
                   | Some (e, ls) \<Rightarrow>
                       (let e = NotFound chi_not_found e
                        in Some (e, ts, ls @
                          (case rc_RunServer rc (cfg\<lparr>sc_ClientTLS := tls\<rparr>) (rc_ServeHTTP rc e) of
                             None \<Rightarrow> [] | Some err \<Rightarrow> [RunServerError err]) @ [RouterEnded]))))))"

section \<open>Lemmas\<close>

lemma chi_params_keys:
  "chi_params Title keys URLParam params = Some ps \<Longrightarrow>
     fst ` set ps = fst ` set params \<union> (\<lambda>k. Title (take 1 k) @ drop 1 k) ` set keys"
proof (induction Title keys URLParam params rule: chi_params.induct)
  case (2 Title param keys URLParam params)
  have u: "fst ` set (mput k v m) = insert k (fst ` set m)" for k :: string and v :: string and m
    using dom_map_of_conv_image_fst [of "mput k v m"] dom_map_of_conv_image_fst [of m] by simp
  from 2 show ?case by (auto simp: u split: if_splits)
qed simp

lemma chi_registers_one_as_mux: "chi_registerKrakendEndpoint = registerKrakendEndpoint"
  by (intro ext) (auto simp: chi_registerKrakendEndpoint_def registerKrakendEndpoint_def Let_def
    IsValidSequentialEndpoint_def)

lemma chi_registers_as_mux: "chi_registerKrakendEndpoints rc cs e = registerKrakendEndpoints rc cs e"
proof (induction cs arbitrary: e)
  case (Cons c cs)
  then show ?case by (simp add: chi_registers_one_as_mux split: sum.splits prod.splits option.splits)
qed simp

section \<open>Properties\<close>

text \<open>
  The parameters that the chi adapter extracts have exactly the names that the configuration
  gives to the parameters of the backends' URLs.
\<close>

theorem chi_params_match_backend:
  assumes "extractParamsFromEndpoint (ie_Title env) keys URLParam = Some ps"
  shows "fst ` set ps = output_key env ` set keys"
  using assms chi_params_keys [of "ie_Title env" keys URLParam "[]" ps]
  by (auto simp: extractParamsFromEndpoint_def output_key_def split: if_splits)

theorem chi_params_match_backend_witness:
  "\<exists>ps. extractParamsFromEndpoint (ie_Title demo_env) [''userId''] (\<lambda>k. ''7'') = Some ps \<and>
     fst ` set ps = {output_key demo_env ''userId''}"
proof -
  obtain ps where ps: "extractParamsFromEndpoint (ie_Title demo_env) [''userId''] (\<lambda>k. ''7'') = Some ps"
    by (simp add: extractParamsFromEndpoint_def)
  from chi_params_match_backend [OF ps] ps show ?thesis by simp
qed

text \<open>
  The gorilla and httptreemux adapters put the whole name in title case, which lowers the other
  letters: a parameter of the URL whose name has another capital is not replaced.
\<close>

theorem gorilla_mixed_case_not_replaced:
  assumes "Title ''userId'' = ''Userid''" "ie_Title env ''u'' = ''U''" "Vars r = [(''userId'', v)]"
  shows "rq_Path (GeneratePath (''/b/{{.'' @ output_key env ''userId'' @ ''}}'')
    (empty_Request\<lparr>rq_Params := Some (gorillaParamsExtractor Title Vars r)\<rparr>)) = ''/b/{{.UserId}}''"
proof -
  have k: "output_key env ''userId'' = ''UserId''" using assms(2) by (simp add: output_key_def)
  have p: "gorillaParamsExtractor Title Vars r = [(''Userid'', v)]" by (simp add: gorillaParamsExtractor_def assms)
  have "replace_all ''/b/{{.UserId}}'' ''{{.Userid}}'' v = ''/b/{{.UserId}}''"
    by (simp add: replace_all.simps)
  then show ?thesis by (simp add: GeneratePath_def k p param_key_def)
qed

text \<open>The default configuration of httptreemux has no echo pattern.\<close>

theorem httptreemux_echo_pattern_empty:
  "rc_EchoPattern (NewFactory (httptreemux_DefaultConfig handle serve engine env Title ContextParams pf echo RunServer)) = []"
  by (simp add: NewFactory_def httptreemux_DefaultConfig_def)

text \<open>
  The chi router registers the endpoints that the mux router registers, under the same
  patterns and methods, after its own debug and health routes.
\<close>

theorem chi_routes_as_mux:
  assumes "chi_Run rc Use NotFound lib ts cfg = Some (e, ts', ls)"
  shows "\<exists>u e0. Use (rc_Middlewares rc) (rc_Engine rc) = Some u \<and> e = NotFound chi_not_found e0 \<and> handle_list (rc_Handle rc)
    ((if sc_Debug cfg then map (\<lambda>m. ((rc_DebugPattern rc, m), rc_DebugHandler rc)) [''GET'', ''POST'', ''PUT'', ''PATCH'', ''DELETE''] else []) @
     [((''/__health'', ''GET''), HealthHandler)] @ concat (map (endpoint_route rc) (sc_Endpoints cfg))) u = Some e0"
proof -
  define d where "d = (if sc_Debug cfg then map (\<lambda>m. ((rc_DebugPattern rc, m), rc_DebugHandler rc)) [''GET'', ''POST'', ''PUT'', ''PATCH'', ''DELETE''] else [])"
  have d: "(if sc_Debug cfg then registerDebugEndpoints rc u else Some u) = handle_list (rc_Handle rc) d u" for u
    by (simp add: d_def registerDebugEndpoints_def handle_all_list)
  obtain u e1 e2 e3 ls' where "Use (rc_Middlewares rc) (rc_Engine rc) = Some u"
    "handle_list (rc_Handle rc) d u = Some e1"
    "rc_Handle rc ''/__health'' ''GET'' HealthHandler e1 = Some e2"
    "registerKrakendEndpoints rc (sc_Endpoints cfg) e2 = Some (e3, ls')" "e = NotFound chi_not_found e3"
    using assms unfolding chi_Run_def d by (auto simp: Let_def chi_registers_as_mux split: option.splits prod.splits)
  then show ?thesis
    unfolding d_def [symmetric] by (auto simp: handle_list_append dest: registerKrakendEndpoints_list)
qed

end
