(* ===== verification/Body.thy ===== *)
theory Body
  imports ProxyTypes
begin

text \<open>
  The body of a backend's response that is passed on unread (\<open>readCloserWrapper\<close> in
  proxy/proxy.go): the reader of the response, which a goroutine closes when the context of the
  call is done. The reader, the context and the goroutine are one state here; a run is a list
  of events, and its output the bytes that the reads delivered.
\<close>

text \<open>
  \<open>wr_ctx_done\<close> is the state of the context. The reader still has the bytes \<open>wr_rest\<close>, then it
  ends as \<open>wr_end\<close> says. \<open>wr_waiting\<close>: the goroutine has not closed the reader yet.
\<close>

record readCloserWrapper =
  wr_ctx_done :: bool
  wr_rest :: string
  wr_end :: "goerror option"
  wr_closed :: bool
  wr_waiting :: bool

definition NewReadCloserWrapper :: "bool \<Rightarrow> io_reader \<Rightarrow> readCloserWrapper" where
  "NewReadCloserWrapper ctx_done body =
     \<lparr>wr_ctx_done = ctx_done, wr_rest = fst body, wr_end = snd body, wr_closed = False, wr_waiting = True\<rparr>"

datatype read_error = ReadEOF | ReadClosed | ReadFailed goerror

text \<open>
  \<open>Read\<close> forwards to the reader. As \<open>io.Reader\<close> documents, it delivers at most the \<open>n\<close> bytes
  asked for, here \<open>k\<close> of them when there are as many; a closed body of net/http delivers none.
\<close>

definition body_Read :: "nat \<Rightarrow> nat \<Rightarrow> readCloserWrapper \<Rightarrow> string \<times> read_error option \<times> readCloserWrapper" where
  "body_Read n k w =
     (if wr_closed w then ([], Some ReadClosed, w)
      else if wr_rest w = [] then
        ([], Some (case wr_end w of None \<Rightarrow> ReadEOF | Some e \<Rightarrow> ReadFailed e), w)
      else (take (min n k) (wr_rest w), None, w\<lparr>wr_rest := drop (min n k) (wr_rest w)\<rparr>))"

text \<open>The goroutine: \<open>None\<close> while it waits for the context.\<close>

definition closeOnCancel :: "readCloserWrapper \<Rightarrow> readCloserWrapper option" where
  "closeOnCancel w =
     (if wr_waiting w \<and> wr_ctx_done w then Some (w\<lparr>wr_closed := True, wr_waiting := False\<rparr>) else None)"

datatype body_event = ReadCall nat nat | ContextDone | CloseOnCancel

fun body_step :: "body_event \<Rightarrow> readCloserWrapper \<Rightarrow> (string \<times> readCloserWrapper) option" where
  "body_step (ReadCall n k) w = (case body_Read n k w of (bs, e, w) \<Rightarrow> Some (bs, w))"
| "body_step ContextDone w = Some ([], w\<lparr>wr_ctx_done := True\<rparr>)"
| "body_step CloseOnCancel w = map_option (\<lambda>w. ([], w)) (closeOnCancel w)"

fun body_run :: "body_event list \<Rightarrow> readCloserWrapper \<Rightarrow> (string \<times> readCloserWrapper) option" where
  "body_run [] w = Some ([], w)"
| "body_run (ev # evs) w =
     (case body_step ev w of
        None \<Rightarrow> None
      | Some (bs, w) \<Rightarrow> map_option (\<lambda>(cs, w). (bs @ cs, w)) (body_run evs w))"

section \<open>Properties\<close>

definition body_inv :: "readCloserWrapper \<Rightarrow> bool" where
  "body_inv w \<longleftrightarrow> (wr_closed w \<longrightarrow> wr_ctx_done w) \<and> (wr_waiting w \<longleftrightarrow> \<not> wr_closed w)"

lemma body_step_inv:
  "body_step ev w = Some (bs, w') \<Longrightarrow> body_inv w \<Longrightarrow> bs @ wr_rest w' = wr_rest w \<and> body_inv w'"
  by (cases ev) (auto simp: body_inv_def body_Read_def closeOnCancel_def split: if_splits)

lemma body_run_inv:
  "body_run evs w = Some (bs, w') \<Longrightarrow> body_inv w \<Longrightarrow> bs @ wr_rest w' = wr_rest w \<and> body_inv w'"
proof (induction evs arbitrary: w bs)
  case (Cons ev evs)
  then obtain b w1 cs where s: "body_step ev w = Some (b, w1)" "body_run evs w1 = Some (cs, w')" "bs = b @ cs"
    by (auto split: option.splits)
  from body_step_inv [OF s(1) Cons.prems(2)] Cons.IH [OF s(2)] s(3) show ?case by auto
qed simp

lemma body_step_closed:
  "body_step ev w = Some (bs, w') \<Longrightarrow> wr_closed w \<Longrightarrow> bs = [] \<and> wr_closed w'"
  by (cases ev) (auto simp: body_Read_def closeOnCancel_def split: if_splits)

lemma body_run_closed:
  "body_run evs w = Some (bs, w') \<Longrightarrow> wr_closed w \<Longrightarrow> bs = []"
proof (induction evs arbitrary: w bs)
  case (Cons ev evs)
  then obtain b w1 cs where s: "body_step ev w = Some (b, w1)" "body_run evs w1 = Some (cs, w')" "bs = b @ cs"
    by (auto split: option.splits)
  from body_step_closed [OF s(1) Cons.prems(2)] Cons.IH [OF s(2)] s(3) show ?case by simp
qed simp

lemma body_inv_New: "body_inv (NewReadCloserWrapper d body)"
  by (simp add: body_inv_def NewReadCloserWrapper_def)

text \<open>
  C35: What the reads of a passed body have delivered is always a prefix of it, and the reader has
  the rest; it is closed only after the context was done; once the context is done, the
  goroutine can close it, and after that no read delivers anything.
\<close>

theorem body_delivered_until_closed:
  assumes "body_run evs (NewReadCloserWrapper d body) = Some (bs, w)"
  shows "bs @ wr_rest w = fst body \<and>
    (wr_closed w \<longrightarrow> wr_ctx_done w) \<and>
    (wr_ctx_done w \<longrightarrow> wr_closed w \<or> (\<exists>w'. closeOnCancel w = Some w' \<and> wr_closed w')) \<and>
    (wr_closed w \<longrightarrow> (\<forall>evs' cs w'. body_run evs' w = Some (cs, w') \<longrightarrow> cs = []))"
proof -
  have i: "bs @ wr_rest w = fst body" "body_inv w"
    using body_run_inv [OF assms body_inv_New] by (simp_all add: NewReadCloserWrapper_def)
  then have "wr_ctx_done w \<Longrightarrow> wr_closed w \<or> (\<exists>w'. closeOnCancel w = Some w' \<and> wr_closed w')"
    by (auto simp: body_inv_def closeOnCancel_def)
  with i body_run_closed show ?thesis by (auto simp: body_inv_def)
qed

theorem body_delivered_until_closed_witness:
  "\<exists>w. body_run [ReadCall 8 2, ContextDone, CloseOnCancel, ReadCall 8 8] (NewReadCloserWrapper False (''body'', None))
     = Some (''bo'', w) \<and> ''bo'' @ wr_rest w = ''body''"
proof -
  let ?evs = "[ReadCall 8 2, ContextDone, CloseOnCancel, ReadCall 8 8]" and ?w = "NewReadCloserWrapper False (''body'', None)"
  obtain w where w: "body_run ?evs ?w = Some (''bo'', w)"
    by (simp add: NewReadCloserWrapper_def body_Read_def closeOnCancel_def)
  with body_delivered_until_closed [OF w] show ?thesis by auto
qed

text \<open>
  A call whose context is done before the body is read may lose all of it. The concurrent calls
  cancel their contexts before the response is written.
\<close>

theorem cancelled_body_is_lost:
  "\<exists>w. body_run [ContextDone, CloseOnCancel, ReadCall n k] (NewReadCloserWrapper False body) = Some ([], w) \<and> wr_closed w"
  by (simp add: NewReadCloserWrapper_def body_Read_def closeOnCancel_def)

end
