(* ===== verification/Gateway.thy ===== *)
theory Gateway
  imports MuxRouter Factory ParserSpec Dnssrv
begin

text \<open>
  The program as a whole: a configuration that the parser accepts, the mux router that serves it
  and the proxies that the default factory builds for its endpoints. The definitions are those of
  the components; here they are composed the way a main program composes them (parser, proxy
  factory, router factory, run), and what the parts guarantee together is derived.
\<close>

section \<open>The parts that are composed\<close>

text \<open>
  The registers of the package proxy as they are at the start: the default combiner, the two
  mergers and no filters. \<open>sched\<close> is the order in which messages arrive at a parallel merger.
\<close>

definition default_registers ::
  "(64 word \<Rightarrow> string) \<Rightarrow> (64 word \<Rightarrow> string) \<Rightarrow> (msg list \<Rightarrow> msg list) \<Rightarrow> (nat \<Rightarrow> goerror option)
   \<Rightarrow> 's factory_env \<Rightarrow> bool" where
  "default_registers ff fx sched ctx_err fe \<longleftrightarrow>
     fe_combiners fe = initResponseCombiners \<and> fe_mergers fe = mergers ff fx sched ctx_err \<and>
     fe_filterers fe = br_filtererFactory backendFiltererFactory \<and> (\<forall>ms. mset (sched ms) = mset ms)"

text \<open>
  An endpoint that configures no plugin, static data, flatmap, combiner or strategy; it may be
  sequential.
\<close>

definition plain_endpoint :: "EndpointConfig \<Rightarrow> bool" where
  "plain_endpoint c \<longleftrightarrow> ec_section (ep_ExtraConfig c) plugin_Namespace = None \<and>
     list_all (\<lambda>k. ec_get (ep_ExtraConfig c) proxy_Namespace k = None)
       [''static'', ''flatmap_filter'', ''combiner'', ''strategy'']"

lemma plain_endpoint_middlewares:
  assumes "plain_endpoint c"
  shows "NewPluginMiddleware m c [p] = Inr p" "NewStaticMiddleware c [p] = Inr p" "NewFlatmapMiddleware fl c [p] = Inr p"
proof -
  have k: "ec_section (ep_ExtraConfig c) plugin_Namespace = None"
    "ec_get (ep_ExtraConfig c) proxy_Namespace ''static'' = None"
    "ec_get (ep_ExtraConfig c) proxy_Namespace ''flatmap_filter'' = None"
    using assms by (simp_all add: plain_endpoint_def)
  show "NewPluginMiddleware m c [p] = Inr p" by (simp add: NewPluginMiddleware_def k)
  show "NewStaticMiddleware c [p] = Inr p" by (simp add: NewStaticMiddleware_def getStaticMiddlewareCfg_def k)
  have "newFlatmapFormatter (ep_ExtraConfig c) [] [] = None"
    using k(3) by (auto simp: newFlatmapFormatter_def ec_get_def ec_section_def split: option.splits)
  then show "NewFlatmapMiddleware fl c [p] = Inr p" by (simp add: NewFlatmapMiddleware_def)
qed

lemma initResponseCombiners_default: "fst (GetResponseCombiner name initResponseCombiners) = combineData"
  by (simp add: initResponseCombiners_def newCombinerRegister_def GetResponseCombiner_def untyped_reg.get_reg
      untyped_reg.get_new)

lemma plain_endpoint_combiner:
  "plain_endpoint c \<Longrightarrow> getResponseCombiner initResponseCombiners (ep_ExtraConfig c) = Some combineData"
  by (simp add: plain_endpoint_def getResponseCombiner_def getResponseCombinerName_def initResponseCombiners_default)

lemma plain_endpoint_merger:
  assumes "plain_endpoint c"
  shows "fst (getMergerFactory (mergers ff fx sched ctx_err) (ep_ExtraConfig c)) =
      Some (\<lambda>ec. map_option (\<lambda>reps reqClone timeout rc filters nxt. sequentialMerge ff fx reqClone rc reps filters ctx_err nxt)
        (sequentialMergerConfig ec)) \<or>
    fst (getMergerFactory (mergers ff fx sched ctx_err) (ep_ExtraConfig c)) =
      Some (\<lambda>ec. Some (\<lambda>reqClone timeout rc filters nxt. parallelMerge sched ctx_err reqClone rc filters nxt))"
  using assms
  by (auto simp: plain_endpoint_def getMergerFactory_def mergers_def ec_get_def Let_def split: option.splits)

lemma newStacks_Inr:
  "newStacks env bs = Inr ps \<Longrightarrow> length ps = length bs \<and> list_all2 (\<lambda>b p. newStack env b = Inr p) bs ps"
  by (induction bs arbitrary: ps) (auto split: sum.splits)

section \<open>What the proxy of an endpoint answers\<close>

text \<open>Of a plain endpoint with several backends, the default mergers make a parallel or a sequential merge.\<close>

lemma NewMergeDataMiddleware_default:
  assumes "NewMergeDataMiddleware up us (fe_combiners fe) (fe_mergers fe) (fe_filterers fe) c ps = Inr q"
    and "default_registers ff fx sched ctx_err fe" "plain_endpoint c" "length (ep_Backend c) > 1"
  shows "(\<exists>cl reps. q = sequentialMerge ff fx cl combineData reps [] ctx_err ps) \<or>
    (\<exists>cl. q = parallelMerge sched ctx_err cl combineData [] ps)"
proof -
  have f: "fe_filterers fe c = Inr []" "fe_mergers fe = mergers ff fx sched ctx_err"
    "fe_combiners fe = initResponseCombiners"
    using assms(2) by (simp_all add: default_registers_def backendFiltererFactory_def defaultBackendFiltererFactory_def)
  have n: "\<not> length (ep_Backend c) = 0" "\<not> length (ep_Backend c) = 1" using assms(4) by linarith+
  note build = assms(1) [unfolded NewMergeDataMiddleware_def Let_def f if_not_P [OF n(1)] if_not_P [OF n(2)]
      plain_endpoint_combiner [OF assms(3)] option.case]
  show ?thesis
    using plain_endpoint_merger [OF assms(3), of ff fx sched ctx_err]
  proof
    assume m: "fst (getMergerFactory (mergers ff fx sched ctx_err) (ep_ExtraConfig c)) =
      Some (\<lambda>ec. map_option (\<lambda>reps reqClone timeout rc filters nxt. sequentialMerge ff fx reqClone rc reps filters ctx_err nxt)
        (sequentialMergerConfig ec))"
    from build [unfolded m option.case] show ?thesis by (auto split: option.splits if_splits)
  next
    assume m: "fst (getMergerFactory (mergers ff fx sched ctx_err) (ep_ExtraConfig c)) =
      Some (\<lambda>ec. Some (\<lambda>reqClone timeout rc filters nxt. parallelMerge sched ctx_err reqClone rc filters nxt))"
    from build [unfolded m option.case] show ?thesis by (auto split: if_splits)
  qed
qed

lemma NewMergeDataMiddleware_complete:
  assumes "NewMergeDataMiddleware up us (fe_combiners fe) (fe_mergers fe) (fe_filterers fe) c ps = Inr q"
    and "default_registers ff fx sched ctx_err fe" "plain_endpoint c" "length (ep_Backend c) > 1"
    and "q r = Ret (Some resp) err" "rs_IsComplete resp"
  shows "\<forall>p \<in> set ps. gave_complete p"
proof -
  have "\<And>ms. mset (sched ms) = mset ms" using assms(2) by (simp add: default_registers_def)
  then show ?thesis
    using NewMergeDataMiddleware_default [OF assms(1-4)] assms(5,6) parallelMerge_complete sequentialMerge_complete
    by blast
qed

text \<open>
  The default factory gives a plain endpoint the stack of its only backend, or the merge of the
  stacks of its backends.
\<close>

lemma factory_default:
  assumes "defaultFactory_New fl fe c = Inr (Some q, None)" "plain_endpoint c"
  shows "(\<exists>b. ep_Backend c = [b] \<and> newStack fe b = Inr q) \<or>
    (length (ep_Backend c) > 1 \<and> (\<exists>ps. list_all2 (\<lambda>b p. newStack fe b = Inr p) (ep_Backend c) ps \<and>
      NewMergeDataMiddleware (fe_url_Parse fe) (fe_url_String fe) (fe_combiners fe) (fe_mergers fe) (fe_filterers fe) c ps
        = Inr q))"
proof -
  have ne: "ep_Backend c \<noteq> []" using assms(1) by (auto simp: defaultFactory_New_def)
  define p0 where "p0 = (if length (ep_Backend c) = 1 then newSingle fe c else newMulti fl fe c)"
  have "defaultFactory_New fl fe c =
      (case stack (NewStaticMiddleware c) (stack (NewPluginMiddleware (fe_modifiers fe) c) p0) of
         Inl e \<Rightarrow> Inl e | Inr q \<Rightarrow> Inr (Some q, None))"
    using ne by (simp add: defaultFactory_New_def p0_def)
  with assms(1) have q: "p0 = Inr q"
    by (cases p0) (simp_all add: plain_endpoint_middlewares [OF assms(2)])
  show ?thesis
  proof (cases "length (ep_Backend c) = 1")
    case True
    then obtain b where "ep_Backend c = [b]" by (auto simp: length_Suc_conv)
    with q show ?thesis by (simp add: p0_def newSingle_def)
  next
    case False
    with ne have l: "length (ep_Backend c) > 1" by (cases "ep_Backend c") (auto simp: Suc_lessI)
    obtain ps where ps: "newStacks fe (ep_Backend c) = Inr ps"
      using q False by (auto simp: p0_def newMulti_def split: sum.splits)
    define m where "m = NewMergeDataMiddleware (fe_url_Parse fe) (fe_url_String fe) (fe_combiners fe) (fe_mergers fe)
        (fe_filterers fe) c ps"
    have "stack (NewFlatmapMiddleware fl c) m = Inr q"
      using q False ps by (simp add: p0_def newMulti_def m_def)
    then have "m = Inr q"
      by (cases m) (simp_all add: plain_endpoint_middlewares [OF assms(2)])
    with l newStacks_Inr [OF ps] show ?thesis by (auto simp: m_def)
  qed
qed

lemma factory_complete:
  assumes "defaultFactory_New fl fe c = Inr (Some q, None)" "default_registers ff fx sched ctx_err fe" "plain_endpoint c"
    and "q r = Ret (Some resp) err" "rs_IsComplete resp"
  shows "ep_Backend c \<noteq> [] \<and> (\<exists>ps. list_all2 (\<lambda>b p. newStack fe b = Inr p \<and> gave_complete p) (ep_Backend c) ps)"
  using factory_default [OF assms(1,3)]
proof (elim disjE exE conjE)
  fix b assume b: "ep_Backend c = [b]" "newStack fe b = Inr q"
  with assms(4,5) show ?thesis by (intro conjI exI [of _ "[q]"]) (auto simp: gave_complete_def)
next
  fix ps assume l: "1 < length (ep_Backend c)" and ps: "list_all2 (\<lambda>b p. newStack fe b = Inr p) (ep_Backend c) ps"
    and m: "NewMergeDataMiddleware (fe_url_Parse fe) (fe_url_String fe) (fe_combiners fe) (fe_mergers fe) (fe_filterers fe) c ps = Inr q"
  from NewMergeDataMiddleware_complete [OF m assms(2,3) l assms(4,5)]
  have g: "gave_complete p" if "p \<in> set ps" for p using that by blast
  have "list_all2 (\<lambda>b p. newStack fe b = Inr p \<and> gave_complete p) (ep_Backend c) ps"
    using ps by (auto elim!: list.rel_mono_strong intro: g)
  with l show ?thesis by (intro conjI exI [of _ ps]) auto
qed

section \<open>What an accepted configuration gets\<close>

lemma registered_factories:
  "registerKrakendEndpoints rc cs e = Some (e', ls) \<Longrightarrow>
    (\<forall>c \<in> set cs. \<exists>x. rc_ProxyFactory rc c = Inr x) \<and>
    (\<forall>err. ProxyFactoryError err \<in> set ls \<longrightarrow> (\<exists>c \<in> set cs. \<exists>p. rc_ProxyFactory rc c = Inr (p, Some err)))"
proof (induction cs arbitrary: e ls)
  case (Cons c cs)
  show ?case
  proof (cases "rc_ProxyFactory rc c")
    case (Inr pe)
    obtain p err where pe: "pe = (p, err)" by fastforce
    have one: "ProxyFactoryError x \<notin> set ls1"
      if "registerKrakendEndpoint rc m d h n e0 = Some (e1, ls1)" for m d h n e0 e1 ls1 x
      using that by (auto simp: registerKrakendEndpoint_def Let_def split: if_splits)
    show ?thesis
    proof (cases err)
      case (Some x)
      with Cons.prems Inr pe obtain ls' where "registerKrakendEndpoints rc cs e = Some (e', ls')" "ls = ProxyFactoryError x # ls'"
        by auto
      with Cons.IH Inr pe Some show ?thesis by auto
    next
      case None
      with Cons.prems Inr pe obtain e1 ls1 ls2 where
        r: "registerKrakendEndpoint rc (ep_Method c) c (rc_HandlerFactory rc c (call_proxy p)) (length (ep_Backend c)) e = Some (e1, ls1)"
        "registerKrakendEndpoints rc cs e1 = Some (e', ls2)" "ls = ls1 @ ls2" by (auto split: option.splits)
      from one [OF r(1)] Cons.IH [OF r(2)] r(3) Inr show ?thesis by auto
    qed
  qed (use Cons.prems in simp)
qed simp

lemma defaultFactory_result:
  "ep_Backend c \<noteq> [] \<Longrightarrow> defaultFactory_New fl fe c = Inr (p, err) \<Longrightarrow> \<exists>q. p = Some q \<and> err = None"
  by (auto simp: defaultFactory_New_def Let_def split: sum.splits)

lemma accepted_has_backends:
  assumes "Parse env file = Some (Inr cfg)" "c \<in> set (sc_Endpoints cfg)"
  shows "ep_Backend c \<noteq> []"
proof -
  obtain s where "Init (pv_init env) s = Inr cfg"
    using assms(1) by (auto simp: Parse_def split: sum.splits option.splits)
  from Init_ready [OF this] assms(2) show ?thesis
    by (auto simp: config_ready_def list_all_iff endpoint_ready_def)
qed

lemma newStack_builds:
  assumes "be_ExtraConfig b = []" "fe_subscriberFactory env b = Some s"
  shows "\<exists>q. newStack env b = Inr q"
  using assms
  by (simp add: newStack_def NewBackendPluginMiddleware_def NewGraphQLMiddleware_def GetOptions_def ec_section_def
      NewLoadBalancedMiddlewareWithSubscriberAndLogger_def newLoadBalancedMiddleware_def wrap_one_def
      newRequestBuilderMiddleware_def NewConcurrentMiddlewareWithLogger_def Let_def)

text \<open>One fixed host is chosen always, whatever was called before.\<close>

lemma balancer_after_nop [simp]: "balancer_after calls (NopBalancer h) = NopBalancer h"
  by (induction calls) (auto simp: Host_def)

text \<open>The handler of an endpoint calls its proxy with one request only.\<close>

lemma EndpointHandler_call:
  "EndpointHandler env c prxy r w =
   EndpointHandler env c (\<lambda>_. prxy (fst (NewRequest (mx_version env) r (ep_QueryString c)
     (if ep_HeadersToPass c = [] then HeadersToSend else ep_HeadersToPass c)))) r w"
  by (simp add: EndpointHandler_def CustomEndpointHandler_def CustomEndpointHandlerWithHTTPError_def Let_def)

section \<open>Properties\<close>

text \<open>
  C9: A router that starts on a configuration that the parser accepted, with the proxies of the
  default factory, has a proxy for every endpoint: no endpoint is dropped because its proxy could
  not be built.
\<close>

theorem accepted_endpoints_have_proxies:
  assumes "Parse penv file = Some (Inr cfg)" "rc_ProxyFactory rc = defaultFactory_New fl fe"
    and "Run rc lib ts cfg = Some (e, ts', ls)"
  shows "(\<forall>c \<in> set (sc_Endpoints cfg). \<exists>q. rc_ProxyFactory rc c = Inr (Some q, None)) \<and>
    (\<forall>err. ProxyFactoryError err \<notin> set ls)"
proof -
  obtain e0 ls0 ls1 where r: "registerKrakendEndpoints rc (sc_Endpoints cfg) e0 = Some (e, ls0)"
    and ls: "ls = ls0 @ ls1" "set ls1 \<subseteq> range RunServerError \<union> {RouterEnded}"
    using assms(3) unfolding Run_def Let_def by (auto split: option.splits prod.splits)
  note f = registered_factories [OF r]
  have ok: "\<exists>q. p = Some q \<and> err = None"
    if "c \<in> set (sc_Endpoints cfg)" "rc_ProxyFactory rc c = Inr (p, err)" for c p err
    using defaultFactory_result [OF accepted_has_backends [OF assms(1) that(1)]] that(2) assms(2) by simp
  have "ProxyFactoryError err \<notin> set ls0" for err using f ok by blast
  then have "ProxyFactoryError err \<notin> set ls" for err using ls by auto
  moreover have "\<exists>q. rc_ProxyFactory rc c = Inr (Some q, None)" if c: "c \<in> set (sc_Endpoints cfg)" for c
  proof -
    obtain p err where "rc_ProxyFactory rc c = Inr (p, err)" using f c by (metis surj_pair)
    with ok [OF c this] show ?thesis by simp
  qed
  ultimately show ?thesis by blast
qed

definition accepted_config :: ServiceConfig where
  "accepted_config = demo_config\<lparr>sc_Endpoints := [empty_EndpointConfig\<lparr>ep_Endpoint := ''/u'',
     ep_Backend := [empty_Backend\<lparr>be_URLPattern := ''/b'', be_SDScheme := ''http''\<rparr>]\<rparr>]\<rparr>"

definition accepted_file :: parse_env where
  "accepted_file = demo_parse_env\<lparr>pv_Unmarshal := \<lambda>_. Inr (parseable_of accepted_config)\<rparr>"

lemma accepted_config_init:
  "case Init demo_env accepted_config of
     Inl _ \<Rightarrow> False
   | Inr s \<Rightarrow> map (\<lambda>e. (ep_ExtraConfig e, map be_ExtraConfig (ep_Backend e))) (sc_Endpoints s) = [([], [[]])]"
  by code_simp

lemma accepted_file_parsed:
  "\<exists>cfg c b. Parse accepted_file ''k.json'' = Some (Inr cfg) \<and> sc_Endpoints cfg = [c] \<and> ep_ExtraConfig c = [] \<and>
     ep_Backend c = [b] \<and> be_ExtraConfig b = []"
proof -
  have w: "writable accepted_config"
    by (simp add: writable_def accepted_config_def demo_config_def in64_def writable_endpoint_def
        writable_backend_def empty_EndpointConfig_def empty_Backend_def)
  obtain cfg where cfg: "Init demo_env accepted_config = Inr cfg"
    "map (\<lambda>e. (ep_ExtraConfig e, map be_ExtraConfig (ep_Backend e))) (sc_Endpoints cfg) = [([], [[]])]"
    using accepted_config_init by (auto split: sum.splits)
  have "Parse accepted_file ''k.json'' = Some (Inr cfg)"
    using service_normalize_parseable [OF w, of "pv_frac demo_parse_env"] cfg(1)
    by (simp add: Parse_def accepted_file_def demo_parse_env_def)
  with cfg(2) show ?thesis by auto
qed

theorem accepted_endpoints_have_proxies_witness:
  "\<exists>cfg c q. Parse accepted_file ''k.json'' = Some (Inr cfg) \<and> c \<in> set (sc_Endpoints cfg) \<and>
     defaultFactory_New (undefined :: unit tree_lib) demo_factory c = Inr (Some q, None)"
proof -
  obtain cfg c b where cfg: "Parse accepted_file ''k.json'' = Some (Inr cfg)" "sc_Endpoints cfg = [c]"
    "ep_ExtraConfig c = []" "ep_Backend c = [b]" "be_ExtraConfig b = []"
    using accepted_file_parsed by blast
  let ?fl = "undefined :: unit tree_lib"
  define rc where "rc = \<lparr>rc_Handle = (\<lambda>p m h e. Some e), rc_ServeHTTP = (\<lambda>e r w. Some w), rc_Engine = (), rc_Middlewares = [],
    rc_HandlerFactory = (\<lambda>c p r w. Some w), rc_ProxyFactory = defaultFactory_New ?fl demo_factory, rc_DebugPattern = ''/d'',
    rc_EchoPattern = ''/e'', rc_DebugHandler = (\<lambda>r w. Some w), rc_EchoHandler = (\<lambda>r w. Some w), rc_RunServer = (\<lambda>cfg h. None)\<rparr>"
  have pl: "plain_endpoint c" by (simp add: plain_endpoint_def cfg(3) ec_section_def ec_get_def)
  obtain p where p: "newStack demo_factory b = Inr p"
    using newStack_builds [OF cfg(5), of demo_factory "FixedSubscriber (be_Host b)"] by (auto simp: demo_factory_def)
  have f: "defaultFactory_New ?fl demo_factory c = Inr (Some p, None)"
    by (simp add: defaultFactory_New_def cfg(4) newSingle_def p plain_endpoint_middlewares [OF pl])
  have all: "handle_all rc pattern ms h e = Some e" for pattern ms h e
    by (induction ms) (simp_all add: rc_def)
  have reg: "\<exists>ls. registerKrakendEndpoints rc (sc_Endpoints cfg) () = Some ((), ls)"
    by (simp add: cfg(2) rc_def f registerKrakendEndpoint_def IsValidSequentialEndpoint_def Let_def)
  have "rc_Engine rc = ()" "rc_Handle rc p m h e = Some e" for p m h e by (simp_all add: rc_def)
  with reg have "\<exists>e ts' ls. Run rc demo_tls_lib \<lparr>ts_done = False, ts_DefaultTransport = None\<rparr> cfg = Some (e, ts', ls)"
    by (auto simp: Run_def all split: prod.splits)
  then obtain e ts' ls where run: "Run rc demo_tls_lib \<lparr>ts_done = False, ts_DefaultTransport = None\<rparr> cfg = Some (e, ts', ls)"
    by blast
  have "rc_ProxyFactory rc = defaultFactory_New ?fl demo_factory" by (simp add: rc_def)
  from accepted_endpoints_have_proxies [OF cfg(1) this run] cfg(1,2) show ?thesis by (auto simp: rc_def)
qed

text \<open>
  C6: The router with the proxies of the default factory and the default registers, where every
  endpoint is plain: at the level of the endpoint it configures no plugin, static data, flatmap,
  combiner or strategy, each of which may set or replace the mark (the backends are arbitrary, and
  the merge may be sequential). An answer that is marked as complete has status 200, and there is
  an endpoint all of whose backends gave a complete response.
\<close>

theorem gateway_complete_needs_all_backends:
  assumes "serve_mux_ok mux" "mx_renders env = renderRegister (mx_Marshal env)"
    and "rc = DefaultFactory mux env (defaultFactory_New fl fe) (EchoHandler M qe) rs"
    and "default_registers ff fx sched ctx_err fe" "list_all plain_endpoint (sc_Endpoints cfg)"
    and "Run rc lib ts cfg = Some (e, ts', ls)" "router_handler rc e r new_writer = Some w"
    and "completed (client_header w) = ''true''"
  shows "client_status w = 200 \<and> (\<exists>c \<in> set (sc_Endpoints cfg). ep_Backend c \<noteq> [] \<and>
    (\<exists>ps. list_all2 (\<lambda>b p. newStack fe b = Inr p \<and> gave_complete p) (ep_Backend c) ps))"
proof -
  note sound = router_sound_answer [OF assms(1,2,3,6,7)]
  with assms(8) obtain c prxy q resp err where c: "c \<in> set (sc_Endpoints cfg)"
    and f: "defaultFactory_New fl fe c = Inr (prxy, None)"
    and a: "call_proxy prxy q = Ret (Some resp) err" "rs_IsComplete resp"
    unfolding sound_answer_def by blast
  have "ep_Backend c \<noteq> []" using f by (auto simp: defaultFactory_New_def)
  from defaultFactory_result [OF this f] obtain p where p: "prxy = Some p" by blast
  have "plain_endpoint c" using assms(5) c by (simp add: list_all_iff)
  from factory_complete [OF f [unfolded p] assms(4) this _ a(2)] a(1)
  have "ep_Backend c \<noteq> [] \<and> (\<exists>ps. list_all2 (\<lambda>b p. newStack fe b = Inr p \<and> gave_complete p) (ep_Backend c) ps)"
    by (simp add: p call_proxy_def)
  moreover have "client_status w = 200" using sound assms(8) by (simp add: sound_answer_def)
  ultimately show ?thesis using c by blast
qed

definition gateway_endpoint :: EndpointConfig where
  "gateway_endpoint = empty_EndpointConfig\<lparr>ep_Endpoint := ''/u'', ep_Method := ''GET'',
     ep_Backend := [empty_Backend\<lparr>be_URLPattern := ''/b'', be_Host := [''http://h'']\<rparr>]\<rparr>"

definition gateway_config :: ServiceConfig where
  "gateway_config = demo_config\<lparr>sc_Endpoints := [gateway_endpoint]\<rparr>"

definition gateway_factory :: "unit factory_env" where
  "gateway_factory = demo_factory\<lparr>fe_mergers := mergers (\<lambda>_. []) (\<lambda>_. []) (\<lambda>ms. ms) (\<lambda>_. None)\<rparr>"

definition gateway_tree :: "unit tree_lib" where
  "gateway_tree = \<lparr>tree_New = \<lambda>d. Inr (), tree_Move = \<lambda>a b t. t, tree_Append = \<lambda>a b t. t, tree_Del = \<lambda>a t. t,
     tree_Get = \<lambda>a t. VNull\<rparr>"

definition gateway_router :: "BasicEngine router_config" where
  "gateway_router = DefaultFactory demo_serve_mux demo_mux (defaultFactory_New gateway_tree gateway_factory)
     (EchoHandler (\<lambda>x. Inr []) (\<lambda>q. [])) (\<lambda>cfg h. None)"

lemma gateway_runs:
  "case Run gateway_router demo_tls_lib \<lparr>ts_done = False, ts_DefaultTransport = None\<rparr> gateway_config of
     None \<Rightarrow> False
   | Some (e, ts', ls) \<Rightarrow> en_patterns e = [''/__health'', ''/u''] \<and>
       (case router_handler gateway_router e demo_in new_writer of
          None \<Rightarrow> False
        | Some w \<Rightarrow> completed (client_header w) = ''true'')"
  by code_simp

lemma gateway_plain: "plain_endpoint gateway_endpoint"
  by (simp add: plain_endpoint_def gateway_endpoint_def empty_EndpointConfig_def ec_section_def ec_get_def)

lemma gateway_registers: "default_registers (\<lambda>_. []) (\<lambda>_. []) (\<lambda>ms. ms) (\<lambda>_. None) gateway_factory"
  by (simp add: default_registers_def gateway_factory_def demo_factory_def backendFiltererFactory_def)

theorem gateway_complete_needs_all_backends_witness:
  "\<exists>e ts' ls w p. Run gateway_router demo_tls_lib \<lparr>ts_done = False, ts_DefaultTransport = None\<rparr> gateway_config = Some (e, ts', ls) \<and>
     router_handler gateway_router e demo_in new_writer = Some w \<and> completed (client_header w) = ''true'' \<and>
     client_status w = 200 \<and> newStack gateway_factory (hd (ep_Backend gateway_endpoint)) = Inr p \<and> gave_complete p"
proof -
  obtain e ts' ls w where run: "Run gateway_router demo_tls_lib \<lparr>ts_done = False, ts_DefaultTransport = None\<rparr> gateway_config
      = Some (e, ts', ls)"
    and w: "router_handler gateway_router e demo_in new_writer = Some w" "completed (client_header w) = ''true''"
    using gateway_runs by (auto split: option.splits)
  have es: "sc_Endpoints gateway_config = [gateway_endpoint]" by (simp add: gateway_config_def)
  have pl: "list_all plain_endpoint (sc_Endpoints gateway_config)" by (simp add: es gateway_plain)
  have r: "mx_renders demo_mux = renderRegister (mx_Marshal demo_mux)" by (simp add: demo_mux_def)
  from gateway_complete_needs_all_backends [OF demo_serve_mux_ok r gateway_router_def gateway_registers pl run w] es
  have "client_status w = 200" "\<exists>ps. list_all2 (\<lambda>b p. newStack gateway_factory b = Inr p \<and> gave_complete p)
      (ep_Backend gateway_endpoint) ps" by simp_all
  moreover have "ep_Backend gateway_endpoint = [hd (ep_Backend gateway_endpoint)]" by (simp add: gateway_endpoint_def)
  ultimately obtain p where "newStack gateway_factory (hd (ep_Backend gateway_endpoint)) = Inr p" "gave_complete p"
    "client_status w = 200" unfolding gateway_endpoint_def by (auto simp: list_all2_Cons1)
  with run w show ?thesis by blast
qed

text \<open>
  C10: The way of a request to the only backend of an endpoint with one fixed host: the handler of
  the endpoint answers with what the backend proxy returns for a request with the method of the
  backend, the path of its pattern with the parameters put in, the body of the client's request,
  the URL of the host and the path with the encoded query strings added, and of the headers and
  query strings those that the backend lists, or all when it lists none (\<open>backend_gets\<close>); or with
  the error of the URL, when the text of the host and the path is none. The endpoint configures no
  plugin, static data, flatmap, combiner or strategy and the backend no extra configuration, its
  calls are not concurrent, and no name is listed twice (\<open>header_filter_duplicate_leaks\<close> shows what
  happens otherwise).
\<close>

theorem gateway_single_backend:
  assumes "rc = DefaultFactory mux env (defaultFactory_New fl fe) echo rs" "Run rc lib ts cfg = Some (e, ts', ls)"
    and "sm_route mux (en_patterns e) r = ToPattern p"
    and "sc_Endpoints cfg = es1 @ c # es2" "ep_Endpoint c = p" "hr_Method r = to_upper (ep_Method c)"
    and "to_upper (ep_Method c) \<in> {''GET'', ''POST'', ''PUT'', ''PATCH'', ''DELETE''}"
    and "\<forall>c' \<in> set es2. ep_Endpoint c' = p \<longrightarrow> to_upper (ep_Method c') \<noteq> hr_Method r"
    and "plain_endpoint c" "ep_Backend c = [b]" "be_ExtraConfig b = []" "be_ConcurrentCalls b \<le> 1"
    and "fe_subscriberFactory fe b = Some (FixedSubscriber [h])"
    and "distinct (be_HeadersToPass b)" "distinct (be_QueryStringsToPass b)" "gmap_ok (hr_Header r)" "gmap_ok (hr_Query r)"
    and "q = fst (NewRequest (mx_version env) r (ep_QueryString c)
      (if ep_HeadersToPass c = [] then HeadersToSend else ep_HeadersToPass c))"
  shows "\<exists>answer. rc_ServeHTTP rc e r w = EndpointHandler env c (\<lambda>_. answer) r (NewHTTPErrorInterceptor w) \<and>
    (case fe_url_Parse fe (h @ backend_path b q) of
       Inl err \<Rightarrow> answer = Ret None (Some err)
     | Inr u \<Rightarrow> \<exists>q'. backend_gets (fe_query_Encode fe) b q u q' \<and> answer = fe_backendFactory fe b q')"
proof -
  obtain s where s: "newStack fe b = Inr s"
    "\<And>r. s r = (case Host (fe_impl fe) (fe_rnd fe) (backend_balancer fe b (FixedSubscriber [h])) of
        None \<Rightarrow> GoPanic
      | Some (Inl err, _) \<Rightarrow> Ret None (Some err)
      | Some (Inr host, _) \<Rightarrow>
          (case balanced_request (fe_url_Parse fe) (fe_query_Encode fe) host (path_request b r) of
             Inl err \<Rightarrow> Ret None (Some err)
           | Inr r' \<Rightarrow> fe_backendFactory fe b (final_request b r')))"
    using newStack_order [OF assms(11,12,13)] by blast
  have nop: "NewBalancer g rnd (FixedSubscriber [h]) = NopBalancer h" for g rnd
    by (simp add: NewBalancer_def NewRoundRobinLB_def NewRandomLB_def)
  have "Host (fe_impl fe) (fe_rnd fe) (backend_balancer fe b (FixedSubscriber [h])) = Some (Inr h, NopBalancer h)"
    by (simp add: backend_balancer_def nop Host_def)
  with s(2) have sq: "s q = (case balanced_request (fe_url_Parse fe) (fe_query_Encode fe) h (path_request b q) of
        Inl err \<Rightarrow> Ret None (Some err)
      | Inr q' \<Rightarrow> fe_backendFactory fe b (final_request b q'))" by simp
  have f: "defaultFactory_New fl fe c = Inr (Some s, None)"
    by (simp add: defaultFactory_New_def assms(10) newSingle_def s(1) plain_endpoint_middlewares [OF assms(9)])
  have rc: "basic_router mux rc" "rc_ProxyFactory rc c = Inr (Some s, None)" "rc_HandlerFactory rc = EndpointHandler env"
    by (simp_all add: assms(1) basic_router_def DefaultFactory_def f)
  have "rc_ServeHTTP rc e r w = EndpointHandler env c (\<lambda>_. s q) r (NewHTTPErrorInterceptor w)"
    using router_serves_endpoint [OF rc(1) assms(2,3,4,5,6,7) rc(2) assms(8)] EndpointHandler_call [of env c s r]
    by (simp add: rc(3) call_proxy_def assms(18))
  moreover have "case fe_url_Parse fe (h @ backend_path b q) of
       Inl err \<Rightarrow> s q = Ret None (Some err)
     | Inr u \<Rightarrow> \<exists>q'. backend_gets (fe_query_Encode fe) b q u q' \<and> s q = fe_backendFactory fe b q'"
  proof (cases "fe_url_Parse fe (h @ backend_path b q)")
    case (Inl err)
    then show ?thesis by (simp add: sq balanced_request_def path_request_parts)
  next
    case (Inr u)
    have ok: "\<And>m. rq_Headers q = Some m \<Longrightarrow> gmap_ok m" "\<And>m. rq_Query q = Some m \<Longrightarrow> gmap_ok m"
      using NewRequest_ok [OF assms(16,17)] by (simp_all add: assms(18))
    from final_request_gets [OF Inr assms(14,15) ok] show ?thesis by (auto simp: Inr sq)
  qed
  ultimately show ?thesis by blast
qed

theorem gateway_single_backend_witness:
  "\<exists>e ts' ls. Run gateway_router demo_tls_lib \<lparr>ts_done = False, ts_DefaultTransport = None\<rparr> gateway_config = Some (e, ts', ls) \<and>
     rc_ServeHTTP gateway_router e demo_in new_writer =
       EndpointHandler demo_mux gateway_endpoint
         (\<lambda>_. Ret (Some (mk_Response (Some [(''path'', VStr ''/b'')]) True)) None) demo_in (NewHTTPErrorInterceptor new_writer)"
proof -
  obtain e ts' ls where run: "Run gateway_router demo_tls_lib \<lparr>ts_done = False, ts_DefaultTransport = None\<rparr> gateway_config
      = Some (e, ts', ls)" and p: "en_patterns e = [''/__health'', ''/u'']"
    using gateway_runs by (auto split: option.splits)
  let ?b = "empty_Backend\<lparr>be_URLPattern := ''/b'', be_Host := [''http://h'']\<rparr>"
  define q where "q = fst (NewRequest (mx_version demo_mux) demo_in (ep_QueryString gateway_endpoint)
    (if ep_HeadersToPass gateway_endpoint = [] then HeadersToSend else ep_HeadersToPass gateway_endpoint))"
  have rt: "sm_route demo_serve_mux (en_patterns e) demo_in = ToPattern ''/u''"
    by (simp add: p demo_serve_mux_def demo_in_def)
  have es: "sc_Endpoints gateway_config = [] @ gateway_endpoint # []" by (simp add: gateway_config_def)
  have c: "ep_Endpoint gateway_endpoint = ''/u''" "hr_Method demo_in = to_upper (ep_Method gateway_endpoint)"
    "to_upper (ep_Method gateway_endpoint) \<in> {''GET'', ''POST'', ''PUT'', ''PATCH'', ''DELETE''}"
    "ep_Backend gateway_endpoint = [?b]"
    by (simp_all add: gateway_endpoint_def demo_in_def demo_upper)
  have b: "be_ExtraConfig ?b = []" "be_ConcurrentCalls ?b \<le> 1"
    "fe_subscriberFactory gateway_factory ?b = Some (FixedSubscriber [''http://h''])"
    "distinct (be_HeadersToPass ?b)" "distinct (be_QueryStringsToPass ?b)" "gmap_ok (hr_Header demo_in)" "gmap_ok (hr_Query demo_in)"
    by (simp_all add: empty_Backend_def gateway_factory_def demo_factory_def demo_in_def)
  have "rq_Params q = Some []"
    by (simp add: q_def NewRequest_def NewRequestBuilder_def NoopParamExtractor_def split_beta Let_def)
  then have path: "backend_path ?b q = ''/b''" by (simp add: backend_path_def)
  have parse: "fe_url_Parse gateway_factory s = Inr \<lparr>url_rest = s, url_RawQuery = []\<rparr>" for s
    by (simp add: gateway_factory_def demo_factory_def)
  obtain answer q' where serve: "rc_ServeHTTP gateway_router e demo_in new_writer =
      EndpointHandler demo_mux gateway_endpoint (\<lambda>_. answer) demo_in (NewHTTPErrorInterceptor new_writer)"
    and gets: "backend_gets (fe_query_Encode gateway_factory) ?b q \<lparr>url_rest = ''http://h/b'', url_RawQuery = []\<rparr> q'"
    and answer: "answer = fe_backendFactory gateway_factory ?b q'"
    using gateway_single_backend [OF gateway_router_def run rt es c(1,2,3) _ gateway_plain c(4) b q_def, of new_writer]
    by (auto simp: path parse)
  have "rq_Path q' = ''/b''" using gets by (simp add: backend_gets_def path)
  with answer have "answer = Ret (Some (mk_Response (Some [(''path'', VStr ''/b'')]) True)) None"
    by (simp add: gateway_factory_def demo_factory_def)
  with run serve show ?thesis by blast
qed

text \<open>
  A backend with the service discovery of DNS needs a host, which neither it nor the service has
  to name: such a configuration is accepted, and the construction of its stack panics.
\<close>

definition hostless_config :: ServiceConfig where
  "hostless_config = accepted_config\<lparr>sc_Host := [], sc_Endpoints := [empty_EndpointConfig\<lparr>ep_Endpoint := ''/u'',
     ep_Backend := [empty_Backend\<lparr>be_URLPattern := ''/b'', be_SD := ''dns''\<rparr>]\<rparr>]\<rparr>"

lemma hostless_config_init:
  "case Init demo_env hostless_config of
     Inl _ \<Rightarrow> False
   | Inr s \<Rightarrow> map (\<lambda>e. map (\<lambda>b. (be_SD b, be_Host b, be_ExtraConfig b)) (ep_Backend e)) (sc_Endpoints s) = [[(''dns'', [], [])]]"
  by code_simp

lemma dns_stack_panics:
  assumes "be_SD b = dns_Namespace" "be_Host b = []" "be_ExtraConfig b = []"
  shows "newStack (NewDefaultFactory (dns_Register perm lookup TTL reg) fe backendFactory) b = Inl IndexPanic"
proof -
  have "Sd_Get be_Host dns_Namespace (dns_Register perm lookup TTL reg) = dns_SubscriberFactory perm lookup TTL"
    unfolding dns_Register_def by (rule sd_reg.find_reg_same)
  then show ?thesis
    using assms
    by (auto simp: NewDefaultFactory_def NewDefaultFactoryWithSubscriber_def dns_SubscriberFactory_def newStack_def
        NewBackendPluginMiddleware_def NewGraphQLMiddleware_def GetOptions_def ec_section_def Let_def)
qed

theorem dns_without_host_panics:
  "\<exists>cfg c b. Init demo_env hostless_config = Inr cfg \<and> c \<in> set (sc_Endpoints cfg) \<and> ep_Backend c = [b] \<and>
     (\<forall>perm lookup TTL reg fe backendFactory.
        newStack (NewDefaultFactory (dns_Register perm lookup TTL reg) fe backendFactory) b = Inl IndexPanic)"
proof -
  obtain cfg where cfg: "Init demo_env hostless_config = Inr cfg"
    "map (\<lambda>e. map (\<lambda>b. (be_SD b, be_Host b, be_ExtraConfig b)) (ep_Backend e)) (sc_Endpoints cfg) = [[(''dns'', [], [])]]"
    using hostless_config_init by (auto split: sum.splits)
  then obtain c b where "sc_Endpoints cfg = [c]" "ep_Backend c = [b]" "be_SD b = dns_Namespace" "be_Host b = []"
    "be_ExtraConfig b = []" by auto
  with cfg(1) dns_stack_panics [of b] show ?thesis by (intro exI [of _ cfg] exI [of _ c] exI [of _ b]) simp
qed

end
