(* ===== verification/Exposure.thy ===== *)
theory Exposure
  imports Gateway
begin

text \<open>
  Where the data of an endpoint's response comes from: through the middlewares of a backend's
  stack, the merging of the backends and the middlewares of the endpoint, every value is one that
  the http proxy of a backend gave; and through the formatter of that proxy it is one that the
  backend sent, at a position that its allow list or deny list exposes.
\<close>

section \<open>Middlewares that pass responses\<close>

definition gives :: "Proxy \<Rightarrow> Response \<Rightarrow> bool" where
  "gives n x \<longleftrightarrow> (\<exists>q e. n q = Ret (Some x) e)"

lemma givesI: "n q = Ret (Some x) e \<Longrightarrow> gives n x"
  by (auto simp: gives_def)

text \<open>Every response of the proxy that the middleware builds is one of the proxy it wraps.\<close>

definition passes :: "Middleware \<Rightarrow> bool" where
  "passes m \<longleftrightarrow> (\<forall>p q x. m [p] = Inr q \<longrightarrow> gives q x \<longrightarrow> gives p x)"

lemma passesI: "(\<And>p q r x e. m [p] = Inr q \<Longrightarrow> q r = Ret (Some x) e \<Longrightarrow> gives p x) \<Longrightarrow> passes m"
  unfolding passes_def gives_def by blast

lemma stack_passes: "stack m r = Inr q \<Longrightarrow> passes m \<Longrightarrow> gives q x \<Longrightarrow> \<exists>p. r = Inr p \<and> gives p x"
  by (cases r) (auto simp: passes_def)

lemma passes_fallback: "passes emptyMiddlewareFallback"
  by (rule passesI) (auto intro: givesI)

lemma passes_wrap_one:
  "(\<And>n r x e. f n r = Ret (Some x) e \<Longrightarrow> gives n x) \<Longrightarrow> passes (wrap_one f)"
  by (rule passesI) (auto simp: wrap_one_def)

lemma passes_headers: "passes (NewFilterHeadersMiddleware b)"
  by (rule passesI) (auto intro: givesI split: if_splits)

lemma passes_query: "passes (NewFilterQueryStringsMiddleware b)"
  by (rule passesI) (auto intro: givesI split: if_splits)

lemma passes_builder: "passes (newRequestBuilderMiddleware b)"
  unfolding newRequestBuilderMiddleware_def by (rule passes_wrap_one) (rule givesI)

lemma passes_plugin: "ec_section (be_ExtraConfig b) plugin_Namespace = None \<Longrightarrow> passes (NewBackendPluginMiddleware reg b)"
  using passes_fallback by (simp add: passes_def NewBackendPluginMiddleware_def)

lemma passes_graphql: "passes (NewGraphQLMiddleware gl b)"
proof -
  have "passes (wrap_one (graphql_call gl ex))" for ex
    by (rule passes_wrap_one) (auto simp: graphql_call_def Let_def intro: givesI split: if_splits option.splits sum.splits)
  then show ?thesis
    using passes_fallback by (auto simp: passes_def NewGraphQLMiddleware_def split: sum.splits option.splits if_splits)
qed

lemma passes_balancer:
  "passes (with_subscriber (NewLoadBalancedMiddlewareWithSubscriberAndLogger calls g up qe impl rnd) s)"
proof -
  have "passes (newLoadBalancedMiddleware up qe impl rnd b)" for b
    unfolding newLoadBalancedMiddleware_def
    by (rule passes_wrap_one) (auto simp: balanced_call_def intro: givesI split: option.splits sum.splits prod.splits)
  then show ?thesis
    by (auto simp: passes_def with_subscriber_def NewLoadBalancedMiddlewareWithSubscriberAndLogger_def split: option.splits)
qed

text \<open>Of concurrent calls a response is returned that one of them sent.\<close>

lemma concurrent_collect_sent:
  "concurrent_collect es response err = Ret (Some x) e \<Longrightarrow> response = Some x \<or> EvMsg (MsgResp x) \<in> set es"
  by (induction es response err rule: concurrent_collect.induct) (auto split: cevent.splits msg.splits if_splits)

lemma all_messages_sent: "all_messages xs = Some ms \<Longrightarrow> m \<in> set ms \<Longrightarrow> Some m \<in> set xs"
  by (induction xs arbitrary: ms) (auto split: option.splits)

lemma sent_gives:
  assumes "all_messages (map (\<lambda>(i, r). requestPart (ctx_err i) (n r)) xs) = Some outs" "MsgResp x \<in> set outs"
  shows "gives n x"
proof -
  obtain i r where "requestPart (ctx_err i) (n r) = Some (MsgResp x)"
    using all_messages_sent [OF assms] by auto
  then show ?thesis by (rule givesI [OF requestPart_response])
qed

lemma passes_concurrent:
  assumes "\<And>ms m. EvMsg m \<in> set (sched ms) \<Longrightarrow> m \<in> set ms"
  shows "passes (NewConcurrentMiddlewareWithLogger up us sched ctx_err b)"
proof (rule passesI)
  fix p q r x e assume q: "NewConcurrentMiddlewareWithLogger up us sched ctx_err b [p] = Inr q" "q r = Ret (Some x) e"
  let ?rqs = "concurrent_requests up us (nat (be_ConcurrentCalls b)) r"
  obtain outs where o: "all_messages (map (\<lambda>(i, r). requestPart (ctx_err i) (p r)) (zip [0..<length ?rqs] ?rqs)) = Some outs"
    and c: "concurrent_collect (sched outs) None None = Ret (Some x) e"
    using q by (auto simp: NewConcurrentMiddlewareWithLogger_def wrap_one_def Let_def split: if_splits option.splits)
  from concurrent_collect_sent [OF c] assms have "MsgResp x \<in> set outs" by blast
  with sent_gives [OF o] show "gives p x" .
qed

section \<open>The stack of a backend\<close>

definition scheduled :: "'s factory_env \<Rightarrow> bool" where
  "scheduled fe \<longleftrightarrow> (\<forall>ms m. EvMsg m \<in> set (fe_sched fe ms) \<longrightarrow> m \<in> set ms)"

lemma newStack_passes:
  assumes "newStack fe b = Inr q" "scheduled fe" "ec_section (be_ExtraConfig b) plugin_Namespace = None" "gives q x"
  shows "gives (fe_backendFactory fe b) x"
proof -
  define p1 where "p1 = stack (NewBackendPluginMiddleware (fe_modifiers fe) b) (Inr (fe_backendFactory fe b))"
  define p2 where "p2 = stack (NewGraphQLMiddleware (fe_graphql fe) b) p1"
  define p3 where "p3 = stack (NewFilterHeadersMiddleware b) p2"
  define p4 where "p4 = stack (with_subscriber
      (NewLoadBalancedMiddlewareWithSubscriberAndLogger (fe_calls fe b) (fe_gomaxprocs fe)
        (fe_url_Parse fe) (fe_query_Encode fe) (fe_impl fe) (fe_rnd fe)) (fe_subscriberFactory fe b)) p3"
  define p5 where "p5 = (if be_ConcurrentCalls b > 1
      then stack (NewConcurrentMiddlewareWithLogger (fe_url_Parse fe) (fe_url_String fe) (fe_sched fe) (fe_ctx_err fe) b) p4
      else p4)"
  define p6 where "p6 = stack (newRequestBuilderMiddleware b) p5"
  have "stack (NewFilterQueryStringsMiddleware b) p6 = Inr q"
    using assms(1) unfolding newStack_def Let_def p1_def p2_def p3_def p4_def p5_def p6_def .
  from stack_passes [OF this passes_query assms(4)] obtain q6 where q6: "p6 = Inr q6" "gives q6 x" by blast
  from stack_passes [OF q6(1) [unfolded p6_def] passes_builder q6(2)]
  obtain q5 where q5: "p5 = Inr q5" "gives q5 x" by blast
  have cc: "passes (NewConcurrentMiddlewareWithLogger (fe_url_Parse fe) (fe_url_String fe) (fe_sched fe) (fe_ctx_err fe) b)"
    using assms(2) by (intro passes_concurrent) (simp add: scheduled_def)
  obtain q4 where q4: "p4 = Inr q4" "gives q4 x"
    using q5 stack_passes [OF _ cc, of p4 q5 x] unfolding p5_def by (auto split: if_splits)
  from stack_passes [OF q4(1) [unfolded p4_def] passes_balancer q4(2)]
  obtain q3 where q3: "p3 = Inr q3" "gives q3 x" by blast
  from stack_passes [OF q3(1) [unfolded p3_def] passes_headers q3(2)]
  obtain q2 where q2: "p2 = Inr q2" "gives q2 x" by blast
  from stack_passes [OF q2(1) [unfolded p2_def] passes_graphql q2(2)]
  obtain q1 where q1: "p1 = Inr q1" "gives q1 x" by blast
  from stack_passes [OF q1(1) [unfolded p1_def] passes_plugin [OF assms(3)] q1(2)] show ?thesis by auto
qed

section \<open>The merged response\<close>

lemma combine2_from:
  assumes "nmap_get (rs_Data (combine_values 2 [Some a, Some b])) k = Some v" "resp_ok b"
  shows "nmap_get (rs_Data a) k = Some v \<or> nmap_get (rs_Data b) k = Some v"
  using combine2_fields [OF assms(2), of a] assms(1) by (auto simp: map_add_def split: option.splits)

lemma fold_v_from:
  assumes "fold v_receive ms (d, errs) = (Some y, errs')" "nmap_get (rs_Data y) k = Some v"
    and "\<And>x. MsgResp x \<in> set ms \<Longrightarrow> resp_ok x"
  shows "(\<exists>a. d = Some a \<and> nmap_get (rs_Data a) k = Some v) \<or>
    (\<exists>x. MsgResp x \<in> set ms \<and> nmap_get (rs_Data x) k = Some v)"
  using assms
proof (induction ms arbitrary: d errs)
  case (Cons m ms)
  obtain d1 e1 where m: "v_receive m (d, errs) = (d1, e1)" by fastforce
  from Cons.IH [of d1 e1] Cons.prems m consider
    (start) a where "d1 = Some a" "nmap_get (rs_Data a) k = Some v"
    | (later) x where "MsgResp x \<in> set ms" "nmap_get (rs_Data x) k = Some v" by auto
  then show ?case
  proof cases
    case start
    show ?thesis
    proof (cases m)
      case (MsgErr e)
      with m start show ?thesis by (auto simp: v_receive_simps)
    next
      case (MsgResp r)
      with Cons.prems(3) have "resp_ok r" by simp
      with m start MsgResp show ?thesis
        by (cases d) (auto simp: v_receive_simps dest!: combine2_from)
    qed
  qed auto
qed simp

text \<open>A field that a merger returns is one that a backend gave.\<close>

lemma parallelMerge_from:
  assumes "parallelMerge sched ctx_err cl combineData [] nxt request = Ret (Some r) e"
    and "\<And>ms. mset (sched ms) = mset ms" "\<And>n x. n \<in> set nxt \<Longrightarrow> gives n x \<Longrightarrow> resp_ok x"
    and "nmap_get (rs_Data r) k = Some v"
  shows "\<exists>n \<in> set nxt. \<exists>x. gives n x \<and> nmap_get (rs_Data x) k = Some v"
proof -
  let ?calls = "parallel_calls cl [] 0 nxt request"
  let ?xs = "map (\<lambda>(i, n, r). requestPart (ctx_err i) (n r)) (zip [0..<length ?calls] ?calls)"
  obtain outs where o: "all_messages ?xs = Some outs" and m: "merge_log combineData (sched outs) = Ret (Some r) e"
    using assms(1) by (auto simp: parallelMerge_def Let_def split: option.splits)
  have sent: "\<exists>n \<in> set nxt. gives n x" if "MsgResp x \<in> set (sched outs)" for x
  proof -
    have "MsgResp x \<in> set outs" using that mset_eq_setD [OF assms(2) [of outs]] by simp
    from all_messages_sent [OF o this] obtain i n q where
      c: "(n, q) \<in> set ?calls" "requestPart (ctx_err i) (n q) = Some (MsgResp x)"
      by (auto dest: set_zip_rightD)
    have "n \<in> set (map fst ?calls)" using c(1) by force
    then have "n \<in> set nxt" by (simp only: parallel_calls_unfiltered)
    with c(2) show ?thesis using givesI [OF requestPart_response] by blast
  qed
  obtain d errs where f: "fold v_receive (sched outs) (None, []) = (d, errs)" by fastforce
  obtain z where z: "d = Some z" "rs_Data z = rs_Data r"
    using m by (auto simp: merge_log_values merge_values_def f split: if_splits)
  have ok: "resp_ok x" if "MsgResp x \<in> set (sched outs)" for x using sent [OF that] assms(3) by blast
  from fold_v_from [OF f [unfolded z(1)] assms(4) [folded z(2)] ok]
  obtain x where "MsgResp x \<in> set (sched outs)" "nmap_get (rs_Data x) k = Some v" by auto
  with sent show ?thesis by blast
qed

lemma sequentialMerge_from:
  assumes "sequentialMerge ff fe cl combineData reps [] ctx_err nxt request = Ret (Some r) e"
    and "\<And>n x. n \<in> set nxt \<Longrightarrow> gives n x \<Longrightarrow> resp_ok x" "nmap_get (rs_Data r) k = Some v"
  shows "\<exists>n \<in> set nxt. \<exists>x. gives n x \<and> nmap_get (rs_Data x) k = Some v"
proof -
  obtain ms y errs where tr: "seq_trace ctx_err 0 nxt ms" and v: "fold v_receive ms (None, []) = (Some y, errs)"
    and r: "rs_Data r = rs_Data y"
    using sequentialMerge_values [OF assms(1)] by blast
  have sent: "\<exists>n \<in> set nxt. gives n x" if "MsgResp x \<in> set ms" for x
    using seq_trace_response [OF tr that] by (auto intro: givesI)
  have ok: "resp_ok x" if "MsgResp x \<in> set ms" for x using sent [OF that] assms(2) by blast
  from fold_v_from [OF v assms(3) [unfolded r] ok]
  obtain x where "MsgResp x \<in> set ms" "nmap_get (rs_Data x) k = Some v" by auto
  with sent show ?thesis by blast
qed

section \<open>The response of an endpoint\<close>

lemma NewMergeDataMiddleware_from:
  assumes "NewMergeDataMiddleware up us (fe_combiners fe) (fe_mergers fe) (fe_filterers fe) c ps = Inr q"
    and "default_registers ff fx sched ctx_err fe" "plain_endpoint c" "length (ep_Backend c) > 1"
    and "\<And>n x. n \<in> set ps \<Longrightarrow> gives n x \<Longrightarrow> resp_ok x"
    and "q r = Ret (Some resp) err" "nmap_get (rs_Data resp) k = Some v"
  shows "\<exists>n \<in> set ps. \<exists>x. gives n x \<and> nmap_get (rs_Data x) k = Some v"
  using NewMergeDataMiddleware_default [OF assms(1-4)]
proof
  assume "\<exists>cl reps. q = sequentialMerge ff fx cl combineData reps [] ctx_err ps"
  then show ?thesis using sequentialMerge_from assms(5-7) by blast
next
  assume "\<exists>cl. q = parallelMerge sched ctx_err cl combineData [] ps"
  moreover have "\<And>ms. mset (sched ms) = mset ms" using assms(2) by (simp add: default_registers_def)
  ultimately show ?thesis using parallelMerge_from assms(5-7) by blast
qed

text \<open>
  Every field of the response of a plain endpoint was given by the proxy of one of its backends.
\<close>

lemma list_all2_right: "list_all2 P xs ys \<Longrightarrow> y \<in> set ys \<Longrightarrow> \<exists>x \<in> set xs. P x y"
  by (induction rule: list_all2_induct) auto

lemma factory_from:
  assumes "defaultFactory_New fl fe c = Inr (Some q, None)" "default_registers ff fx sched ctx_err fe" "plain_endpoint c"
    and "scheduled fe" "\<And>b. b \<in> set (ep_Backend c) \<Longrightarrow> ec_section (be_ExtraConfig b) plugin_Namespace = None"
    and "\<And>b x. b \<in> set (ep_Backend c) \<Longrightarrow> gives (fe_backendFactory fe b) x \<Longrightarrow> resp_ok x"
    and "q r = Ret (Some resp) err" "nmap_get (rs_Data resp) k = Some v"
  shows "\<exists>b \<in> set (ep_Backend c). \<exists>x. gives (fe_backendFactory fe b) x \<and> nmap_get (rs_Data x) k = Some v"
proof -
  have stk: "gives (fe_backendFactory fe b) x" if "b \<in> set (ep_Backend c)" "newStack fe b = Inr p" "gives p x" for b p x
    using newStack_passes [OF that(2) assms(4) assms(5) [OF that(1)] that(3)] .
  show ?thesis
    using factory_default [OF assms(1,3)]
  proof (elim disjE exE conjE)
    fix b assume b: "ep_Backend c = [b]" "newStack fe b = Inr q"
    have inb: "b \<in> set (ep_Backend c)" by (simp add: b(1))
    have "gives (fe_backendFactory fe b) resp" by (rule stk [OF inb b(2) givesI [of q r resp err, OF assms(7)]])
    then show ?thesis by (intro bexI [OF _ inb] exI [of _ resp] conjI assms(8))
  next
    fix ps assume l: "1 < length (ep_Backend c)" and ps: "list_all2 (\<lambda>b p. newStack fe b = Inr p) (ep_Backend c) ps"
      and m: "NewMergeDataMiddleware (fe_url_Parse fe) (fe_url_String fe) (fe_combiners fe) (fe_mergers fe) (fe_filterers fe) c ps = Inr q"
    have at: "\<exists>b \<in> set (ep_Backend c). newStack fe b = Inr p" if "p \<in> set ps" for p
      by (rule list_all2_right [OF ps that])
    have ok: "\<And>p x. p \<in> set ps \<Longrightarrow> gives p x \<Longrightarrow> resp_ok x" using at stk assms(6) by blast
    obtain p x where "p \<in> set ps" "gives p x" "nmap_get (rs_Data x) k = Some v"
      using NewMergeDataMiddleware_from [OF m assms(2,3) l _ assms(7,8)] ok by blast
    with at stk show ?thesis by blast
  qed
qed

section \<open>The http proxy of a backend\<close>

text \<open>What the decoder of a backend made of a body, below the target of the backend.\<close>

definition decoded :: "Backend \<Rightarrow> jmap option \<Rightarrow> bool" where
  "decoded b d \<longleftrightarrow> (\<exists>dec reader data. be_Decoder b = Some dec \<and> dec reader None = (None, data) \<and>
     d = (if be_Target b = [] then data else extract_parts (split_on CHR ''.'' (be_Target b)) data))"

text \<open>
  A backend whose responses only go through its formatter: no flatmap and no details of errors
  in the data, and no renaming.
\<close>

definition formatted_backend :: "Backend \<Rightarrow> bool" where
  "formatted_backend b \<longleftrightarrow> ec_section (be_ExtraConfig b) plugin_Namespace = None \<and>
     ec_section (be_ExtraConfig b) proxy_Namespace = None \<and> ec_section (be_ExtraConfig b) client_Namespace = None \<and>
     be_Mapping b = []"

text \<open>A decoder fills a map of Go, which has no repeated keys.\<close>

definition decoder_ok :: "Backend \<Rightarrow> bool" where
  "decoder_ok b \<longleftrightarrow> (\<forall>dec reader data. be_Decoder b = Some dec \<longrightarrow> dec reader None = (None, data) \<longrightarrow>
     data_ok (mk_Response data True))"

definition http_backends :: "'t tree_lib \<Rightarrow> (io_reader \<Rightarrow> goerror + io_reader) \<Rightarrow> 's factory_env \<Rightarrow> bool" where
  "http_backends fl gz fe \<longleftrightarrow>
     (\<forall>b q. \<exists>client ctx. fe_backendFactory fe b q = CustomHTTPProxyFactory fl gz client ctx b q)"

lemma formatted_backend_parts:
  assumes "formatted_backend b"
  shows "NewEntityFormatter fl b = (\<lambda>r. Some (entity_Format (new_entityFormatter b) r))"
    "GetHTTPStatusHandler b resp \<noteq> (y, Some (ErrNamedHTTPResponse code msg enc name))"
proof -
  have "newFlatmapFormatter (be_ExtraConfig b) (be_Target b) (be_Group b) = None"
    using assms by (auto simp: formatted_backend_def newFlatmapFormatter_def ec_section_def split: option.splits)
  then show "NewEntityFormatter fl b = (\<lambda>r. Some (entity_Format (new_entityFormatter b) r))"
    by (simp add: NewEntityFormatter_def)
  show "GetHTTPStatusHandler b resp \<noteq> (y, Some (ErrNamedHTTPResponse code msg enc name))"
    using assms by (simp add: formatted_backend_def GetHTTPStatusHandler_def DefaultHTTPStatusHandlerWithErrPrefix_def
        NewErrInvalidStatusCode_def Let_def)
qed

lemma parser_result:
  "DefaultHTTPResponseParserFactory gz dec ef resp = Ret (Some x) e \<Longrightarrow>
    \<exists>reader data. dec reader None = (None, data) \<and> ef (mk_Response data True) = Some x"
  unfolding DefaultHTTPResponseParserFactory_def
  by (auto split: sum.split_asm prod.split_asm option.split_asm)

lemma http_proxy_data:
  assumes "CustomHTTPProxyFactory fl gz client ctx b q = Ret (Some x) e" "formatted_backend b"
  shows "rs_Data x = Some [] \<or> (\<exists>dec reader data. be_Decoder b = Some dec \<and> dec reader None = (None, data) \<and>
    x = entity_Format (new_entityFormatter b) (mk_Response data True))"
proof -
  have noop: "rs_Data y = Some []"
    if "NewHTTPProxyDetailed client ctx b NoOpHTTPStatusHandler NoOpHTTPResponseParser q = Ret (Some y) e'" for y e'
    using that by (auto simp: NewHTTPProxyDetailed_def NoOpHTTPStatusHandler_def NoOpHTTPResponseParser_def Let_def
        split: option.splits sum.splits)
  have http: "\<exists>reader data. dec reader None = (None, data) \<and> x = entity_Format (new_entityFormatter b) (mk_Response data True)"
    if "NewHTTPProxyDetailed client ctx b (GetHTTPStatusHandler b)
        (DefaultHTTPResponseParserFactory gz dec (NewEntityFormatter fl b)) q = Ret (Some x) e" for dec
  proof -
    have "\<exists>resp. DefaultHTTPResponseParserFactory gz dec (NewEntityFormatter fl b) resp = Ret (Some x) e"
      using that formatted_backend_parts(2) [OF assms(2)]
      by (auto simp: NewHTTPProxyDetailed_def Let_def split: option.splits sum.splits prod.splits goerror.splits)
    then obtain resp where "DefaultHTTPResponseParserFactory gz dec (NewEntityFormatter fl b) resp = Ret (Some x) e" ..
    from parser_result [OF this] show ?thesis by (auto simp: formatted_backend_parts(1) [OF assms(2)])
  qed
  show ?thesis
    using assms(1) noop http
    by (auto simp: CustomHTTPProxyFactory_def NewHTTPProxyWithHTTPExecutor_def split: option.splits if_splits)
qed

text \<open>Where the formatter of a backend puts what is at a position of the data, and what its lists expose.\<close>

definition backend_position :: "Backend \<Rightarrow> string list \<Rightarrow> string list option" where
  "backend_position b p =
     (if be_Group b = [] then Some p
      else case p of [] \<Rightarrow> None | g # p' \<Rightarrow> if g = be_Group b then Some p' else None)"

definition exposes :: "Backend \<Rightarrow> string list \<Rightarrow> bool" where
  "exposes b p \<longleftrightarrow>
     (if be_AllowList b \<noteq> [] then \<exists>key \<in> set (be_AllowList b). prefix (split_on CHR ''.'' key) p
      else \<not> (\<exists>key \<in> set (be_DenyList b). prefix (split_on CHR ''.'' key) p))"

lemma filter_leaf:
  assumes "data_ok r" "\<nexists>m. v = VObj m" "p \<noteq> []"
    and "vget (of_map (rs_Data (if nmap_len (rs_Data r) > 0 then ef_PropertyFilter (new_entityFormatter b) r else r))) p = Some v"
  shows "exposes b p \<and> vget (of_map (rs_Data r)) p = Some v"
proof -
  obtain k ks where p: "p = k # ks" using assms(3) by (cases p) auto
  obtain d where d: "rs_Data r = Some d" "d \<noteq> []"
    using assms(4) by (cases "rs_Data r") (auto simp: p nmap_len_def split: if_splits)
  with assms(4) have v: "vget (of_map (rs_Data (ef_PropertyFilter (new_entityFormatter b) r))) p = Some v"
    by (simp add: nmap_len_def)
  have ok: "jmap_ok d" using assms(1) d(1) by (simp add: data_ok_def)
  show ?thesis
  proof (cases "be_AllowList b = []")
    case True
    with denylist_exactly [OF d(1), where v = v and ks = "be_DenyList b" and p = p] assms(2) v show ?thesis
      by (simp add: new_entityFormatter_def exposes_def d(1))
  next
    case False
    with allowlist_sound [OF d(1) ok assms(3,2), of "be_AllowList b"] v show ?thesis
      by (simp add: new_entityFormatter_def exposes_def d(1))
  qed
qed

lemma entity_Format_leaf:
  assumes "be_Mapping b = []" "data_ok (mk_Response data True)" "p \<noteq> []" "\<nexists>m. v = VObj m"
    and "vget (of_map (rs_Data (entity_Format (new_entityFormatter b) (mk_Response data True)))) p = Some v"
  shows "\<exists>p' d. backend_position b p = Some p' \<and> (exposes b p' \<or> p' = [] \<and> v = VNilObj) \<and>
    d = (if be_Target b = [] then data else extract_parts (split_on CHR ''.'' (be_Target b)) data) \<and>
    vget (of_map d) p' = Some v"
proof -
  let ?e = "new_entityFormatter b"
  define r where "r = (if be_Target b \<noteq> [] then extractTarget (be_Target b) (mk_Response data True) else mk_Response data True)"
  define f where "f = (if nmap_len (rs_Data r) > 0 then ef_PropertyFilter ?e r else r)"
  have r: "data_ok r" "rs_Data r = (if be_Target b = [] then data else extract_parts (split_on CHR ''.'' (be_Target b)) data)"
    by (simp_all add: r_def assms(2) extractTarget_ok) (simp add: extractTarget_def mk_Response_def)
  have nomap: "f\<lparr>rs_Data := map_option (apply_mapping []) (rs_Data f)\<rparr> = f"
    by (cases "rs_Data f") simp_all
  have e: "ef_Target ?e = be_Target b" "ef_Prefix ?e = be_Group b" "ef_Mapping ?e = []"
    by (simp_all add: new_entityFormatter_def assms(1) sanitizedMappings_def)
  have fmt: "entity_Format ?e (mk_Response data True) =
      (if be_Group b \<noteq> [] then f\<lparr>rs_Data := Some [(be_Group b, of_map (rs_Data f))]\<rparr> else f)"
    unfolding entity_Format_def Let_def e r_def [symmetric] f_def [symmetric] nomap by simp
  obtain p' where p': "backend_position b p = Some p'" "vget (of_map (rs_Data f)) p' = Some v"
    using assms(3,5) fmt by (cases p) (auto simp: backend_position_def split: if_splits)
  show ?thesis
  proof (cases "p' = []")
    case False
    from filter_leaf [OF r(1) assms(4) False] p' show ?thesis unfolding f_def r(2) by blast
  next
    case True
    with p'(2) assms(4) have "rs_Data f = None" "v = VNilObj" by (cases "rs_Data f"; auto)+
    then have "rs_Data r = None"
      by (cases "rs_Data r") (auto simp: f_def new_entityFormatter_def newAllowlistingFilter_def newDenylistingFilter_def
          Let_def split_beta split: if_splits gval.splits)
    with \<open>v = VNilObj\<close> True p'(1) r(2) show ?thesis by (intro exI [of _ "[]"] exI [of _ None]) simp
  qed
qed

lemma formatted_resp_ok:
  assumes "rs_Data x = Some [] \<or> (\<exists>dec reader data. be_Decoder b = Some dec \<and> dec reader None = (None, data) \<and>
      x = entity_Format (new_entityFormatter b) (mk_Response data True))" "decoder_ok b"
  shows "resp_ok x"
  using assms(1)
proof (elim disjE exE conjE)
  assume "rs_Data x = Some []"
  then show ?thesis by (simp add: resp_ok_def gmap_ok_def)
next
  fix dec reader data
  assume "be_Decoder b = Some dec" "dec reader None = (None, data)" "x = entity_Format (new_entityFormatter b) (mk_Response data True)"
  with assms(2) entity_Format_ok have "data_ok x" unfolding decoder_ok_def by blast
  then show ?thesis by (auto simp: data_ok_def resp_ok_def jmap_ok_def split: option.splits)
qed

section \<open>Property\<close>

text \<open>
  C7: What the client of a plain endpoint can see: every value that is not an object, at any
  position of the response, was sent by one of the backends of the endpoint, below its target
  and at the position that its group leaves, and the allow list or deny list of that backend
  exposes the position (only the empty data of a group, which stands for nothing sent, needs no
  exposure). So no merge, balancer, concurrent call or sequence shows what the lists hide.
\<close>

theorem endpoint_exposes_only_listed:
  assumes "defaultFactory_New fl fe c = Inr (Some q, None)" "default_registers ff fx sched ctx_err fe" "plain_endpoint c"
    and "scheduled fe" "http_backends fl' gz fe" "\<forall>b \<in> set (ep_Backend c). formatted_backend b \<and> decoder_ok b"
    and "q r = Ret (Some resp) err" "vget (of_map (rs_Data resp)) (k # p) = Some v" "\<nexists>m. v = VObj m"
  shows "\<exists>b \<in> set (ep_Backend c). \<exists>p' d. backend_position b (k # p) = Some p' \<and> (exposes b p' \<or> p' = [] \<and> v = VNilObj) \<and>
    decoded b d \<and> vget (of_map d) p' = Some v"
proof -
  have http: "rs_Data x = Some [] \<or> (\<exists>dec reader data. be_Decoder b = Some dec \<and> dec reader None = (None, data) \<and>
      x = entity_Format (new_entityFormatter b) (mk_Response data True))"
    if "b \<in> set (ep_Backend c)" "gives (fe_backendFactory fe b) x" for b x
    using that assms(5,6) http_proxy_data unfolding gives_def http_backends_def by metis
  have ok: "resp_ok x" if "b \<in> set (ep_Backend c)" "gives (fe_backendFactory fe b) x" for b x
    using formatted_resp_ok [OF http [OF that]] assms(6) that(1) by blast
  obtain u where u: "nmap_get (rs_Data resp) k = Some u" "vget u p = Some v"
    using assms(8) by (cases "rs_Data resp") (auto simp: nmap_get_def split: option.splits)
  obtain b x where b: "b \<in> set (ep_Backend c)" "gives (fe_backendFactory fe b) x" "nmap_get (rs_Data x) k = Some u"
    using factory_from [OF assms(1-4) _ _ assms(7) u(1)] ok assms(6) unfolding formatted_backend_def by blast
  have v: "vget (of_map (rs_Data x)) (k # p) = Some v"
    using b(3) u(2) by (cases "rs_Data x") (simp_all add: nmap_get_def)
  then have "rs_Data x \<noteq> Some []" by auto
  with http [OF b(1,2)] obtain dec reader data where d: "be_Decoder b = Some dec" "dec reader None = (None, data)"
    "x = entity_Format (new_entityFormatter b) (mk_Response data True)" by blast
  have m: "be_Mapping b = []" "data_ok (mk_Response data True)"
    using assms(6) b(1) d unfolding formatted_backend_def decoder_ok_def by blast+
  from entity_Format_leaf [OF m _ assms(9) v [unfolded d(3)]] d(1,2) b(1) show ?thesis
    unfolding decoded_def by blast
qed

definition exposure_backends :: "Backend list" where
  "exposure_backends =
     [empty_Backend\<lparr>be_URLPattern := ''/a'', be_Host := [''http://h''], be_AllowList := [''id''],
        be_Decoder := Some (\<lambda>_ _. (None, Some [(''id'', VInt 1), (''secret'', VInt 2)]))\<rparr>,
      empty_Backend\<lparr>be_URLPattern := ''/b'', be_Host := [''http://h''], be_DenyList := [''user.secret''],
        be_Decoder := Some (\<lambda>_ _. (None, Some [(''user'', VObj [(''name'', VInt 3), (''secret'', VInt 4)])]))\<rparr>]"

definition exposure_endpoint :: EndpointConfig where
  "exposure_endpoint = gateway_endpoint\<lparr>ep_Backend := exposure_backends\<rparr>"

definition exposure_client :: http_client where
  "exposure_client = \<lparr>hc_NewRequest = \<lambda>_ _. None, hc_URL_String = url_rest,
     hc_Do = \<lambda>_. Inr \<lparr>hp_StatusCode = 200, hp_Header = [], hp_Body = ([], None), hp_URL = None\<rparr>\<rparr>"

definition exposure_factory :: "unit factory_env" where
  "exposure_factory = gateway_factory\<lparr>fe_backendFactory := CustomHTTPProxyFactory gateway_tree Inr exposure_client None\<rparr>"

lemma exposure_runs:
  "case defaultFactory_New gateway_tree exposure_factory exposure_endpoint of
     Inr (Some q, None) \<Rightarrow>
       (case q (empty_Request\<lparr>rq_Params := Some []\<rparr>) of
          Ret (Some resp) None \<Rightarrow>
            rs_Data resp = Some [(''id'', VInt 1), (''user'', VObj [(''name'', VInt 3)])]
        | _ \<Rightarrow> False)
   | _ \<Rightarrow> False"
  by code_simp

theorem endpoint_exposes_only_listed_witness:
  "\<exists>q resp b p'. defaultFactory_New gateway_tree exposure_factory exposure_endpoint = Inr (Some q, None) \<and>
     q (empty_Request\<lparr>rq_Params := Some []\<rparr>) = Ret (Some resp) None \<and>
     b \<in> set exposure_backends \<and> backend_position b [''user'', ''name''] = Some p' \<and> exposes b p'"
proof -
  obtain q resp where q: "defaultFactory_New gateway_tree exposure_factory exposure_endpoint = Inr (Some q, None)"
    "q (empty_Request\<lparr>rq_Params := Some []\<rparr>) = Ret (Some resp) None"
    "rs_Data resp = Some [(''id'', VInt 1), (''user'', VObj [(''name'', VInt 3)])]"
    using exposure_runs by (auto split: sum.splits prod.splits option.splits presult.splits)
  have reg: "default_registers (\<lambda>_. []) (\<lambda>_. []) (\<lambda>ms. ms) (\<lambda>_. None) exposure_factory"
    using gateway_registers by (simp add: default_registers_def exposure_factory_def)
  have plain: "plain_endpoint exposure_endpoint"
    using gateway_plain by (simp add: plain_endpoint_def exposure_endpoint_def)
  have sch: "scheduled exposure_factory"
    by (auto simp: scheduled_def exposure_factory_def gateway_factory_def demo_factory_def)
  have http: "http_backends gateway_tree Inr exposure_factory"
    unfolding http_backends_def by (intro allI exI [of _ exposure_client] exI [of _ None]) (simp add: exposure_factory_def)
  have bs: "\<forall>b \<in> set (ep_Backend exposure_endpoint). formatted_backend b \<and> decoder_ok b"
    by (simp add: exposure_endpoint_def exposure_backends_def formatted_backend_def decoder_ok_def empty_Backend_def
        ec_section_def data_ok_def mk_Response_def jmap_ok_def gmap_ok_def)
  have "vget (of_map (rs_Data resp)) (''user'' # [''name'']) = Some (VInt 3)" "\<nexists>m. VInt 3 = VObj m"
    by (simp_all add: q(3))
  from endpoint_exposes_only_listed [OF q(1) reg plain sch http bs q(2) this] q(1,2) show ?thesis
    by (auto simp: exposure_endpoint_def)
qed

end
