(* ===== verification/GinGateway.thy ===== *)
theory GinGateway
  imports Gateway GinRouter
begin

text \<open>
  The gateway with the gin router: the routes that the router registers for an accepted
  configuration, the handlers of their endpoints, and the proxies that the default factory builds.
\<close>

section \<open>What the handlers mark\<close>

definition marks_complete :: "gin_call list \<Rightarrow> bool" where
  "marks_complete calls \<longleftrightarrow> (CompleteResponseHeaderName, HeaderCompleteResponseValue) \<in> set (headers_set calls)"

lemma marks_complete_append [simp]: "marks_complete (xs @ ys) \<longleftrightarrow> marks_complete xs \<or> marks_complete ys"
  by (simp add: marks_complete_def)

lemma answer_marks_complete:
  "marks_complete (answer_calls lib cfg response err) \<longleftrightarrow> has_data response \<and> rs_IsComplete (the response)"
  by (auto simp: marks_complete_def answer_calls_def Let_def header_names split: option.splits)

lemma unmarked_calls [simp]:
  "\<not> marks_complete []" "\<not> marks_complete (gin_add_headers hs)" "\<not> marks_complete (ErrorResponseWriter e)"
  "\<not> marks_complete (gin_getRender lib (gin_init lib) cfg r calls response)"
  "marks_complete (GinStatus i # calls) = marks_complete calls"
  by (simp_all add: marks_complete_def gin_render_sets_no_header ErrorResponseWriter_def header_names)

text \<open>The handler of an endpoint makes the calls of the answer, and then none that mark it.\<close>

lemma handler_calls:
  assumes "CustomErrorEndpointHandler lib (gin_init lib) ret errF cfg prxy c = Some calls"
  shows "\<exists>q response err err' rest. prxy q = Ret response err \<and> calls = answer_calls lib cfg response err' @ rest \<and>
    \<not> marks_complete rest"
proof -
  obtain q response err where q: "gin_NewRequest lib (ep_HeadersToPass cfg) c (ep_QueryString cfg) = Some q"
    "prxy q = Ret response err"
    using assms by (auto simp: CustomErrorEndpointHandler_def Let_def split: option.splits presult.splits)
  define err' where "err' = (if gn_ctx_done lib cfg (gc_Request c) \<and> err = None then Some ErrInternalError else err)"
  have "\<exists>rest. calls = answer_calls lib cfg response err' @ rest \<and> \<not> marks_complete rest"
    using assms q by (cases err'; cases response) (auto simp: CustomErrorEndpointHandler_def err'_def [symmetric] Let_def)
  with q(2) show ?thesis by blast
qed

lemma handler_marks_complete:
  assumes "CustomErrorEndpointHandler lib (gin_init lib) ret errF cfg prxy c = Some calls" "marks_complete calls"
  shows "\<exists>q resp err. prxy q = Ret (Some resp) err \<and> has_data (Some resp) \<and> rs_IsComplete resp"
proof -
  obtain q response err where "prxy q = Ret response err" "has_data response" "rs_IsComplete (the response)"
    using handler_calls [OF assms(1)] assms(2) by (auto simp: answer_marks_complete)
  then show ?thesis by (cases response) (auto simp: has_data_def)
qed

section \<open>Property\<close>

lemma service_handlers_unmarked:
  "route \<in> set (gin_service_routes cfg) \<Longrightarrow> gr_handler route c = Some calls \<Longrightarrow> \<not> marks_complete calls"
  by (auto simp: gin_service_routes_def gin_DebugHandler_def gin_EchoHandler_def marks_complete_def Let_def
      split: option.splits if_splits)

lemma options_handlers_unmarked:
  "gr_handler (gin_options_route rt pm) c = Some calls \<Longrightarrow> \<not> marks_complete calls"
  by (auto simp: gin_options_route_def options_handler_def marks_complete_def header_names)

text \<open>
  C8: The gin router with the proxies of the default factory and the default registers, where every
  endpoint is plain: at the level of the endpoint it configures no plugin, static data, flatmap,
  combiner or strategy (the backends are arbitrary, and the merge may be sequential). A handler
  that the router registers marks its answer as complete only if it is the handler of an endpoint,
  on the path and the method of that endpoint, and every backend of the endpoint gave a complete
  response.
\<close>

theorem gin_gateway_complete_needs_all_backends:
  assumes "rt = fst (gin_DefaultFactory env lib (gin_init lib) ret gd (defaultFactory_New fl fe) run version)"
    and "default_registers ff fx sched ctx_err fe" "list_all plain_endpoint (sc_Endpoints cfg)"
    and "registerEndpointsAndMiddlewares rt cfg e = Some e'" "ge_routes e' = ge_routes e @ routes" "route \<in> set routes"
    and "gr_handler route c = Some calls" "(CompleteResponseHeaderName, ''true'') \<in> set (headers_set calls)"
  shows "\<exists>ec \<in> set (sc_Endpoints cfg). gr_path route = ep_Endpoint ec \<and> gr_verb route = Verb (to_upper (ep_Method ec)) \<and>
    ep_Backend ec \<noteq> [] \<and>
    (\<exists>ps. list_all2 (\<lambda>b p. newStack fe b = Inr p \<and> gave_complete p) (ep_Backend ec) ps)"
proof -
  have mk: "marks_complete calls" using assms(8) by (simp add: marks_complete_def HeaderCompleteResponseValue_def)
  obtain catalog where "routes = gin_service_routes cfg @ concat (map (gin_endpoint_route rt) (sc_Endpoints cfg)) @
      (if auto_options cfg then map (gin_options_route rt) catalog else [])"
    using register_all_routes [OF assms(4)] assms(5) by auto
  with assms(6) service_handlers_unmarked [OF _ assms(7)] options_handlers_unmarked [of rt _ c calls] assms(7) mk
  obtain ec where ec: "ec \<in> set (sc_Endpoints cfg)" "route \<in> set (gin_endpoint_route rt ec)" by (auto split: if_splits)
  then have r: "gr_path route = ep_Endpoint ec" "gr_verb route = Verb (to_upper (ep_Method ec))"
    by (simp_all add: gin_endpoint_route_def split: if_splits)
  have pf: "gt_ProxyFactory rt = defaultFactory_New fl fe" "gt_HandlerFactory rt = gin_EndpointHandler lib (gin_init lib) ret"
    by (simp_all add: assms(1) gin_DefaultFactory_def)
  have "\<not> marks_complete [GinAbortWithStatus i]" for i by (simp add: marks_complete_def)
  with ec(2) assms(7) mk obtain p where p: "defaultFactory_New fl fe ec = Inr (p, None)"
    "gin_EndpointHandler lib (gin_init lib) ret ec (call_proxy p) c = Some calls"
    by (auto simp: gin_endpoint_route_def pf proxyBuildFailedHandler_def split: if_splits sum.splits prod.splits option.splits)
  from handler_marks_complete [OF p(2) [unfolded gin_EndpointHandler_def] mk]
  obtain q resp err where a: "call_proxy p q = Ret (Some resp) err" "rs_IsComplete resp" by blast
  have ne: "ep_Backend ec \<noteq> []" using p(1) by (auto simp: defaultFactory_New_def)
  from defaultFactory_result [OF ne p(1)] obtain p' where p': "p = Some p'" by blast
  have "plain_endpoint ec" using assms(3) ec(1) by (simp add: list_all_iff)
  from factory_complete [OF p(1) [unfolded p'] assms(2) this _ a(2)] a(1)
  have "\<exists>ps. list_all2 (\<lambda>b p. newStack fe b = Inr p \<and> gave_complete p) (ep_Backend ec) ps"
    by (simp add: p' call_proxy_def)
  with ec(1) r ne show ?thesis by blast
qed

definition gin_gateway :: gin_router where
  "gin_gateway = fst (gin_DefaultFactory demo_gin_env demo_gin (gin_init demo_gin) True demo_gin_engine
     (defaultFactory_New gateway_tree gateway_factory) (\<lambda>cfg e. None) ''Version 2'')"

lemma gin_gateway_runs:
  "case registerEndpointsAndMiddlewares gin_gateway gateway_config demo_gin_engine of
     None \<Rightarrow> False
   | Some e' \<Rightarrow>
       (case ge_routes e' of
          [route] \<Rightarrow>
            (case gr_handler route demo_gin_context of
               None \<Rightarrow> False
             | Some calls \<Rightarrow> list_ex (\<lambda>h. h = (CompleteResponseHeaderName, ''true'')) (headers_set calls))
        | _ \<Rightarrow> False)"
  by code_simp

theorem gin_gateway_complete_needs_all_backends_witness:
  "\<exists>e' route calls ps. registerEndpointsAndMiddlewares gin_gateway gateway_config demo_gin_engine = Some e' \<and>
     ge_routes e' = [route] \<and> gr_handler route demo_gin_context = Some calls \<and> gr_path route = ''/u'' \<and>
     list_all2 (\<lambda>b p. newStack gateway_factory b = Inr p \<and> gave_complete p) (ep_Backend gateway_endpoint) ps"
proof -
  obtain e' route calls where run: "registerEndpointsAndMiddlewares gin_gateway gateway_config demo_gin_engine = Some e'"
    "ge_routes e' = [route]" "gr_handler route demo_gin_context = Some calls"
    "(CompleteResponseHeaderName, ''true'') \<in> set (headers_set calls)"
    using gin_gateway_runs by (auto simp: list_ex_iff split: option.splits list.splits)
  have es: "sc_Endpoints gateway_config = [gateway_endpoint]" by (simp add: gateway_config_def)
  have pl: "list_all plain_endpoint (sc_Endpoints gateway_config)" by (simp add: es gateway_plain)
  have rs: "ge_routes e' = ge_routes demo_gin_engine @ [route]" by (simp add: run(2) demo_gin_engine_def)
  from gin_gateway_complete_needs_all_backends [OF gin_gateway_def gateway_registers pl run(1) rs _ run(3,4)] es
  show ?thesis using run(1-3) by (auto simp: gateway_endpoint_def)
qed

end
