(* ===== verification/Spec2Isabelle.thy ===== *)
theory Spec2Isabelle
  imports Prelude Values Register Backoff Encoding Sd Dnssrv ConfigTypes ProxyTypes Formatter Regexp
    Merging MergeSpec Middlewares Transport Uri ConfigInit ConfigSpec Plugins Graphql Factory
    Durations Parser ParserSpec Async Logging Server Http MuxEndpoint MuxRouter GinEndpoint GinRouter
    PluginLoader Adapters Body Safecast Gateway
    Exposure GinGateway
begin

text \<open>
  A verification development for lura, the API gateway framework in Go.

  \<^bold>\<open>The program.\<close> A gateway reads a configuration (package config), which lists endpoints and,
  for each endpoint, the backends to call. For every endpoint the package proxy builds a
  \<open>Proxy\<close>, a function from a request to a response and an error: a backend's proxy (an http
  client behind a decoder and a formatter) is wrapped in middlewares (plugins, GraphQL, header
  and query filters, load balancing over the subscribers of package sd, concurrent calls, path
  building), the proxies of the backends are merged (in parallel or in sequence) and the result
  is wrapped again (flatmap, plugins, static data). A router turns http requests into proxy
  requests. Components find each other through the registers of package register.

  \<^bold>\<open>Theories and code.\<close>
  \<^item> \<open>Prelude\<close>: association lists as Go maps (\<open>mput\<close>, \<open>mdel\<close>), the functions of package strings
    that the code uses, 64-bit signed arithmetic (\<open>wrap64\<close>), decimal numbers.
  \<^item> \<open>Values\<close>: \<open>gval\<close>, a value of type \<open>interface{}\<close> with its type switches, \<open>fmt\<close>'s \<open>%v\<close>,
    errors, readers. A map type is a list of pairs without repeated keys (\<open>gmap_ok\<close>); a nil map
    is \<open>None\<close> where nil and empty differ.
  \<^item> \<open>Register\<close>: register/register.go. \<open>Encoding\<close>: encoding/encoding.go and register.go.
    \<open>Backoff\<close>: backoff/backoff.go.
  \<^item> \<open>Sd\<close>: sd/subscriber.go, register.go, loadbalancing.go. \<open>Dnssrv\<close>: sd/dnssrv/subscriber.go.
  \<^item> \<open>Regexp\<close>: the semantics of the regular expressions that the code uses (leftmost match,
    greedy, \<open>FindAllStringSubmatch\<close>), proved against the meaning of patterns.
  \<^item> \<open>ConfigTypes\<close>, \<open>Uri\<close>, \<open>ConfigInit\<close>: the structs, the URI parser and \<open>ServiceConfig.Init\<close>
    of config/config.go and config/uri.go; \<open>ConfigSpec\<close>: what an accepted configuration is.
  \<^item> \<open>ProxyTypes\<close>: proxy/proxy.go and request.go. A \<open>Proxy\<close> is a function to \<open>presult\<close>: a response
    and an error as in Go, or \<open>GoPanic\<close>. A \<open>Middleware\<close> takes the list of proxies and may end the
    process while it is built (\<open>build_error\<close>). \<open>Body\<close>: the response body of proxy/proxy.go that is
    closed when its context is done.
  \<^item> \<open>Formatter\<close>: proxy/formatter.go. \<open>Merging\<close>: proxy/merging.go and register.go, with a heap of
    responses and data maps, since the default combiner writes into the map of the first
    response; \<open>MergeSpec\<close>: its specification over values.
  \<^item> \<open>Middlewares\<close>: headers_filter.go, query_strings_filter.go, static.go, shadow.go,
    concurrent.go, logging.go of package proxy. \<open>Transport\<close>: http.go, http_response.go, balancing.go
    and transport/http/client/status.go. \<open>Plugins\<close>: proxy/plugin.go, with the wrappers
    that modifiers get, and proxy/plugin/modifier.go.
    \<open>Graphql\<close>: proxy/graphql.go and transport/http/client/graphql/graphql.go.
  \<^item> \<open>Factory\<close>: proxy/factory.go, which composes all of them.

  \<^item> \<open>Durations\<close>: \<open>time.ParseDuration\<close>. \<open>Parser\<close>: config/parser.go, the structs of the file, their
    normalisation through pointers, the errors with their positions; \<open>ParserSpec\<close>: what the parser
    returns, and when it panics.
  \<^item> \<open>PluginLoader\<close>: plugin/plugin.go, the loaders of the three kinds of plugins, the executor and
    the injection of loaded client and server plugins.
  \<^item> \<open>Async\<close>: async/asyncagent.go. \<open>Logging\<close>: logging/log.go.
  \<^item> \<open>Server\<close>: transport/http/server/server.go: the TLS configuration, the transport that is set once
    and the run of a server. \<open>Http\<close>: requests and response writers as the handlers use them, the
    interceptor of router/mux/engine.go, core/version.go.
  \<^item> \<open>MuxEndpoint\<close>, \<open>MuxRouter\<close>: router/mux (endpoint.go and render.go, and engine.go, debug.go, echo.go,
    router.go) and router/helper.go. \<open>GinEndpoint\<close>, \<open>GinRouter\<close>, \<open>Safecast\<close>: router/gin. \<open>Adapters\<close>:
    router/chi, router/gorilla, router/httptreemux and router/negroni.
  \<^item> \<open>Gateway\<close>: no code of its own, but the composition that a main program makes: the parser, the
    default proxy factory and the default mux router, and what they guarantee together. \<open>GinGateway\<close>:
    the same with the gin router. \<open>Exposure\<close>: the way of the data from the body of a backend through
    the formatter, the stack and the mergers to the response of an endpoint.

  \<^bold>\<open>State, concurrency, effects.\<close> Stateful code returns its new state: registers, accumulators, the
  balancer with its counter (\<open>balancer_after\<close> is its state after earlier calls), the DNS cache,
  the configuration that \<open>Init\<close> fills in. The goroutines of the parallel merger are a step
  relation (\<open>pm_step\<close>: a goroutine sends its message, the loop receives one), and its results
  are proved for every run; as a proxy the merger takes the order of arrival as an argument, and
  \<open>parallelMerge_is_its_runs\<close> shows that this is the same. A body with the goroutine that closes it is
  a list of events (\<open>body_run\<close>). Where a middleware collects messages, their order is an argument; the
  goroutine of a shadow proxy is seen through how much of its writes to the shared query map the
  regular call finds, and whether it has ended before the answer (\<open>race\<close>, \<open>leaves\<close>). A
  context is seen through what it does: the error a call gets, or the deadline's message. The call
  that runs a server and the goroutine that serves are a step relation too (\<open>run_step\<close>), over an
  environment that says whether the server ends on its own, the context is done, and the
  connections get idle (\<open>serve_env\<close>). A response
  writer is a state with what was sent to the client apart from the headers set since; a mux
  engine is its dictionary of handlers and patterns; a handler of gin is the list of calls it makes on
  the context. A panic is \<open>None\<close>, an error \<open>Inl\<close>.
  Request fields that the code changes in place are changed in the request passed on.

  \<^bold>\<open>Parameters.\<close> Code outside the repository is an argument: encoding/json (\<open>json_lib\<close>, \<open>gql_lib\<close>),
  net/url, net/http and gzip (\<open>http_client\<close> and the functions of \<open>Transport\<close>), the flatmap tree
  (\<open>tree_lib\<close>), fastrand and math/rand, net.ParseIP, the title caser, crypto/tls and x509
  (\<open>tls_lib\<close>), regexp.Compile, the patterns of http.ServeMux (\<open>serve_mux\<close>), gin (\<open>gin_lib\<close>, \<open>gin_env\<close>), the opening of a
  plugin file, the reader of files and the decoder of the parser (\<open>parse_env\<close>). Hypotheses on them state what
  they document: a random draw is below its bound (\<open>rand_Uint32n_ok\<close>, \<open>rand_Intn_ok\<close>), a
  permutation is one (\<open>rand_Perm_ok\<close>), one body decodes alike in its three uses (\<open>json_lib_ok\<close>),
  a serve mux refuses an empty pattern and routes to registered ones only (\<open>serve_mux_ok\<close>).

  \<^bold>\<open>Lemma groups.\<close>
  \<^item> Configuration: an accepted configuration is ready to serve, with clean hosts (\<open>host_ready\<close>); the
    parameters of its backends are defined; cleaning is idempotent, the refused paths are
    characterised.
  \<^item> Formatter: deny and allow lists remove and keep exactly the listed positions (\<open>vget\<close> reads a
    position), the mapping moves fields.
  \<^item> Merging: the combiner on the heap refines the one on values (\<open>acc_rel\<close>); the parallel merger
    is safe in every interleaving and terminates (at most two steps per backend); the sequential
    one follows its trace of calls (\<open>seq_trace\<close>); a merge is complete only when every backend gave a
    complete response (\<open>merge_log_complete\<close>). Two runs over responses that agree differ in the order
    of the errors only.
  \<^item> Service discovery: balancers satisfy the locale \<open>host_balancer\<close>, round robin is fair, DNS
    weights keep their proportions. Registers satisfy \<open>name_register\<close> and \<open>fallback_register\<close>.
  \<^item> Parser: a configuration that is written in the file's form is read back (\<open>parseable_of\<close>); the
    position of an error; the panics on a null.
  \<^item> Routers: the engine satisfies the locale \<open>routing_engine\<close>; a request reaches the handler of its
    endpoint; an answer marked as complete is one; the same for the calls of the gin handlers. The
    catalogue of the gin router holds the methods of each path.
  \<^item> Server and agents: every run of a server stops, and then its call has returned unless the
    environment never does what it waits for; agents start independently of each other.
  \<^item> Plugins: what a loader counts, reports and keeps, panics of plugins included (\<open>plugin_failure\<close>,
    \<open>plugin_registrations\<close>).
  \<^item> Gateway: an answer that is marked as complete needs all backends of an endpoint; accepted
    endpoints have proxies; the way of a request from the router to its backend, with what the
    backend gets stated from its configuration (\<open>backend_gets\<close>); a DNS backend
    without hosts panics. Middlewares that give back responses of the proxy they wrap (\<open>passes\<close>)
    and mergers that keep fields give the provenance of all data of an endpoint.
  \<^item> Middlewares, transport, factory: what reaches the next proxy and what is returned, for each
    middleware and for the whole stack.

  \<^bold>\<open>Bounds.\<close> No definition uses fuel: every loop of the modelled code ends and its function is
  total. \<open>roundRobin_fair\<close> asks that the 64-bit counter does not wrap during the run,
  \<open>balancer_calls_sound\<close> that the list of hosts is shorter than \<open>2 ^ 32\<close>, which the code cuts
  lengths to, \<open>linear_jitter_bounds\<close> that the retry count is at most \<open>6 * 10 ^ 9\<close>, where the
  product of nanoseconds still fits. The seconds of a cached answer are those of the duration,
  rounded to zero (\<open>whole_seconds\<close>); the code goes through a float64, which is exact enough for every
  duration below 48 days and for every longer one that is a number of milliseconds.

  \<^bold>\<open>Not modelled.\<close> How net/http, gin and the other routing libraries serve, and the middlewares they
  bring; the closing of request bodies; the sniffing of a content type; the log lines of handlers; the
  Go interfaces that only name methods; the test programs. A body that is passed on is modelled apart
  from the proxies (\<open>Body\<close>): in a \<open>Response\<close> it is the reader as long as its context lives. The query map that the clones of
  concurrent calls share is not followed from one call to another. Strings are byte lists, and the case and space functions
  act on ASCII. A random source is a function of its bound.
\<close>

end
